(* ===== verification/Prelude.thy ===== *)
theory Prelude
  imports Main "HOL-Library.Char_ord" "HOL-Library.List_Lexorder" "HOL-Library.Multiset"
begin

text \<open>
  Shared vocabulary of the development: Go strings (byte strings, ordered bytewise) and the
  functions of packages \<open>strings\<close>, \<open>strconv\<close>, \<open>fmt\<close> and \<open>sort\<close> that the program calls,
  \<open>int64\<close> and \<open>int32\<close> wrap-around written out on \<open>int\<close>, maps with Go's zero-value lookup,
  and the lemmas on loops (\<open>fold\<close>) that every component uses.
\<close>

section \<open>Lemma collections\<close>

named_theorems go_simps \<open>unfolding of the models of Go library functions\<close>

section \<open>Machine integers\<close>

definition wrap64 :: "int \<Rightarrow> int" where
  "wrap64 n = (n + 2 ^ 63) mod 2 ^ 64 - 2 ^ 63"

definition wrap32 :: "int \<Rightarrow> int" where
  "wrap32 n = (n + 2 ^ 31) mod 2 ^ 32 - 2 ^ 31"

lemma wrap64_id: "- (2 ^ 63) \<le> n \<Longrightarrow> n < 2 ^ 63 \<Longrightarrow> wrap64 n = n"
  by (simp add: wrap64_def)

lemma wrap32_id: "- (2 ^ 31) \<le> n \<Longrightarrow> n < 2 ^ 31 \<Longrightarrow> wrap32 n = n"
  by (simp add: wrap32_def)

section \<open>Strings\<close>

definition has_prefix :: "string \<Rightarrow> string \<Rightarrow> bool" where
  "has_prefix s p = (take (length p) s = p)"

definition trim_prefix :: "string \<Rightarrow> string \<Rightarrow> string" where
  "trim_prefix s p = (if has_prefix s p then drop (length p) s else s)"

definition has_suffix :: "string \<Rightarrow> string \<Rightarrow> bool" where
  "has_suffix s p = has_prefix (rev s) (rev p)"

definition trim_suffix :: "string \<Rightarrow> string \<Rightarrow> string" where
  "trim_suffix s p = (if has_suffix s p then take (length s - length p) s else s)"

fun str_contains :: "string \<Rightarrow> string \<Rightarrow> bool" where
  "str_contains [] p = (p = [])"
| "str_contains (c # s) p = (has_prefix (c # s) p \<or> str_contains s p)"

text \<open>\<open>strings.Split(s, sep)\<close> for a one-byte separator: always at least one part.\<close>

fun split_byte :: "char \<Rightarrow> string \<Rightarrow> string list" where
  "split_byte c [] = [[]]"
| "split_byte c (x # s) =
     (if x = c then [] # split_byte c s
      else case split_byte c s of [] \<Rightarrow> [[x]] | p # ps \<Rightarrow> (x # p) # ps)"

fun join_str :: "string \<Rightarrow> string list \<Rightarrow> string" where
  "join_str sep [] = []"
| "join_str sep [s] = s"
| "join_str sep (s # t # ss) = s @ sep @ join_str sep (t # ss)"

text \<open>\<open>strings.SplitN(s, sep, n)\<close>: the last part keeps the separators that are left.\<close>

definition split_byte_n :: "char \<Rightarrow> nat \<Rightarrow> string \<Rightarrow> string list" where
  "split_byte_n c n s =
     (let ps = split_byte c s
      in if length ps \<le> n then ps else take (n - 1) ps @ [join_str [c] (drop (n - 1) ps)])"

text \<open>The text before the first occurrence of a byte, the whole text if there is none.\<close>

definition before_byte :: "char \<Rightarrow> string \<Rightarrow> string" where
  "before_byte c s = takeWhile (\<lambda>x. x \<noteq> c) s"

definition is_space :: "char \<Rightarrow> bool" where
  "is_space c = (c \<in> {CHR '' '', CHR 0x09, CHR 0x0A, CHR 0x0B, CHR 0x0C, CHR 0x0D})"

definition trim_space :: "string \<Rightarrow> string" where
  "trim_space s = rev (dropWhile is_space (rev (dropWhile is_space s)))"

text \<open>\<open>strings.ToLower\<close> for ASCII text.\<close>

definition lower_char :: "char \<Rightarrow> char" where
  "lower_char c = (let n = (of_char c :: nat) in if 65 \<le> n \<and> n \<le> 90 then char_of (n + 32) else c)"

definition to_lower :: "string \<Rightarrow> string" where
  "to_lower s = map lower_char s"

text \<open>The dash of the messages, in UTF-8.\<close>

definition em_dash :: string where "em_dash = [CHR 0xE2, CHR 0x80, CHR 0x94]"

lemmas [go_simps] = has_prefix_def trim_prefix_def has_suffix_def trim_suffix_def
  split_byte_n_def before_byte_def trim_space_def is_space_def

lemma split_byte_nonempty [simp]: "split_byte c s \<noteq> []"
  by (cases s) (auto split: list.splits)

lemma split_byte_no_sep: "c \<notin> set s \<Longrightarrow> split_byte c s = [s]"
  by (induction s) auto

lemma split_byte_append: "c \<notin> set s \<Longrightarrow> split_byte c (s @ c # t) = s # split_byte c t"
  by (induction s) auto

text \<open>\<open>strings.Join\<close> puts back together what \<open>strings.Split\<close> took apart.\<close>

lemma join_split: "join_str [c] (split_byte c s) = s"
proof (induction s)
  case (Cons x s)
  obtain p ps where "split_byte c s = p # ps" by (cases "split_byte c s") auto
  with Cons show ?case by (cases ps) auto
qed simp

subsection \<open>Decimal numbers\<close>

definition digit_char :: "nat \<Rightarrow> char" where
  "digit_char d = char_of (48 + d)"

fun dec_nat :: "nat \<Rightarrow> string" where
  "dec_nat n = (if n < 10 then [digit_char n] else dec_nat (n div 10) @ [digit_char (n mod 10)])"

declare dec_nat.simps [simp del]

text \<open>The \<open>%d\<close> verb.\<close>

definition dec_int :: "int \<Rightarrow> string" where
  "dec_int i = (if i < 0 then CHR ''-'' # dec_nat (nat (- i)) else dec_nat (nat i))"

definition is_digit :: "char \<Rightarrow> bool" where
  "is_digit c = (48 \<le> (of_char c :: nat) \<and> (of_char c :: nat) \<le> 57)"

definition digit_val :: "char \<Rightarrow> int" where
  "digit_val c = int (of_char c) - 48"

fun digits_val :: "int \<Rightarrow> string \<Rightarrow> int option" where
  "digits_val acc [] = Some acc"
| "digits_val acc (c # s) =
     (if is_digit c then digits_val (10 * acc + digit_val c) s else None)"

text \<open>
  \<open>strconv.Atoi\<close>: an optional sign and at least one digit, \<open>None\<close> for a syntax error. A value
  outside \<open>int64\<close> is clamped to the nearest bound and reported as an error; callers here drop the
  error, so the value is what remains: the clamped bound on overflow, 0 on a syntax error.
\<close>

definition atoi_digits :: "string \<Rightarrow> int option" where
  "atoi_digits s = (if s = [] then None else digits_val 0 s)"

definition atoi_signed :: "string \<Rightarrow> int option" where
  "atoi_signed s = (case s of
      [] \<Rightarrow> None
    | c # t \<Rightarrow> if c = CHR ''-'' then map_option uminus (atoi_digits t)
               else if c = CHR ''+'' then atoi_digits t else atoi_digits s)"

definition atoi_value :: "string \<Rightarrow> int" where
  "atoi_value s = (case atoi_signed s of
      None \<Rightarrow> 0 | Some n \<Rightarrow> max (- (2 ^ 63)) (min (2 ^ 63 - 1) n))"

section \<open>Maps\<close>

text \<open>A Go map lookup returns the zero value for a missing key.\<close>

type_synonym strmap = "(string \<times> string) list"

definition zget :: "(string \<rightharpoonup> string) \<Rightarrow> string \<Rightarrow> string" where
  "zget m k = (case m k of None \<Rightarrow> [] | Some v \<Rightarrow> v)"

definition lget :: "strmap \<Rightarrow> string \<Rightarrow> string" where
  "lget m k = zget (map_of m) k"

lemma zget_empty [simp]: "zget Map.empty k = []"
  by (simp add: zget_def)

section \<open>Loops\<close>

text \<open>What every iteration keeps, the loop keeps.\<close>

lemma fold_inv:
  assumes "P b" "\<And>x b. x \<in> set xs \<Longrightarrow> P b \<Longrightarrow> P (f x b)"
  shows "P (fold f xs b)"
  using assms by (induction xs arbitrary: b) auto

text \<open>A loop that appends at most one list per iteration.\<close>

lemma fold_append_concat: "fold (\<lambda>x acc. acc @ f x) xs acc = acc @ concat (map f xs)"
  by (induction xs arbitrary: acc) auto

lemma fold_append_if:
  "fold (\<lambda>x acc. if P x then acc @ [f x] else acc) xs acc = acc @ map f (filter P xs)"
  by (induction xs arbitrary: acc) auto

lemma fold_update_last:
  "fold (\<lambda>x m. m(k x := v x)) xs m y =
     (case filter (\<lambda>x. k x = y) (rev xs) of [] \<Rightarrow> m y | x # _ \<Rightarrow> v x)"
  by (induction xs arbitrary: m rule: rev_induct) (auto split: list.splits)

lemma sum_list_map_filter_if:
  "sum_list (map (\<lambda>x. if P x then f x else 0) xs) = sum_list (map f (filter P xs))"
  by (induction xs) auto

end
