(* ===== verification/Go_Float.thy ===== *)
theory Go_Float
  imports Complex_Main "HOL-Library.Log_Nat"
begin

text \<open>
  Go's \<open>float64\<close>: a finite IEEE binary64 number is a rational with a 53-bit significand, beside the infinities and
  NaN; an operation is the exact one on rationals rounded to nearest, ties to even.
\<close>

section \<open>Go's float64\<close>

subsection \<open>Powers of two and the binary exponent\<close>

definition pow2 :: "int \<Rightarrow> rat" where
  "pow2 k = (if 0 \<le> k then 2 ^ nat k else 1 / 2 ^ nat (- k))"

definition flog2 :: "rat \<Rightarrow> int" where
  "flog2 x = (let p = fst (quotient_of x); q = snd (quotient_of x);
                  k = bitlen p - bitlen q
              in if pow2 k \<le> x then k else k - 1)"

lemma pow2_powi: "pow2 k = 2 powi k"
  by (simp add: pow2_def power_int_def field_simps)

lemma pow2_pos [simp, intro]: "0 < pow2 k"
  by (simp add: pow2_def)

lemma pow2_nz [simp]: "pow2 k \<noteq> 0"
  using pow2_pos[of k] by linarith

lemma pow2_nonneg [simp]: "0 \<le> pow2 k"
  using pow2_pos[of k] by linarith

lemma pow2_abs [simp]: "\<bar>pow2 k\<bar> = pow2 k"
  by simp

lemma pow2_add: "pow2 (a + b) = pow2 a * pow2 b"
  by (simp add: pow2_powi power_int_add)

lemma pow2_diff: "pow2 (a - b) = pow2 a / pow2 b"
  by (simp add: pow2_powi power_int_diff)


lemma pow2_le_iff [simp]: "pow2 a \<le> pow2 b \<longleftrightarrow> a \<le> b"
  proof -
  have mono: "pow2 a \<le> pow2 b" if "a \<le> b" for a b :: int
    using that by (simp add: pow2_powi power_int_increasing)
  have "pow2 b < pow2 (b + 1)" for b :: int
    using pow2_add[of b 1] pow2_pos[of b] by (simp add: pow2_def[of 1])
  then have "a \<le> b" if "pow2 a \<le> pow2 b"
    using that mono[of "b + 1" a] by (metis add.commute leD order_trans zless_add1_eq not_le zle_add1_eq_le linorder_not_less)
  then show ?thesis using mono by blast
qed

lemma pow2_less_iff [simp]: "pow2 a < pow2 b \<longleftrightarrow> a < b"
  by (metis pow2_le_iff linorder_not_le)

lemma pow2_nonneg_int: "0 \<le> k \<Longrightarrow> pow2 k = of_int (2 ^ nat k)"
  by (simp add: pow2_def)

text \<open>\<open>flog2 x\<close> is the exponent of the leading binary digit of \<open>x\<close>.\<close>


lemma bitlen_quotient:
  assumes p: "0 < p" and q: "0 < q"
  shows "pow2 (bitlen p - bitlen q - 1) \<le> of_int p / of_int q \<and>
    of_int p / of_int q < pow2 (bitlen p - bitlen q + 1)"
proof -
  define a b where "a = bitlen p" and "b = bitlen q"
  have ab: "1 \<le> a" "1 \<le> b"
    using p q by (simp_all add: a_def b_def bitlen_ge_iff_power)
  have P: "pow2 (a - 1) \<le> of_int p" "of_int p < pow2 a"
    using bitlen_bounds[OF p] ab
    by (simp_all only: pow2_nonneg_int a_def of_int_le_iff of_int_less_iff)
  have Q: "pow2 (b - 1) \<le> of_int q" "of_int q < pow2 b"
    using bitlen_bounds[OF q] ab
    by (simp_all only: pow2_nonneg_int b_def of_int_le_iff of_int_less_iff)
  have "pow2 (a - b - 1) = pow2 (a - 1) / pow2 b"
    by (simp flip: pow2_diff add: algebra_simps)
  also have "\<dots> \<le> of_int p / of_int q"
    using P(1) Q(2) q p by (intro frac_le) auto
  finally have lo: "pow2 (a - b - 1) \<le> of_int p / of_int q" .
  have "of_int p / of_int q < pow2 a / pow2 (b - 1)"
    using P(2) Q(1) q p by (intro frac_less) auto
  also have "\<dots> = pow2 (a - b + 1)"
    by (simp flip: pow2_diff add: algebra_simps)
  finally show ?thesis using lo by (simp add: a_def b_def)
qed

lemma flog2_bounds:
  assumes "0 < x"
  shows "pow2 (flog2 x) \<le> x \<and> x < pow2 (flog2 x + 1)"
proof -
  obtain p q where pq: "quotient_of x = (p, q)" by fastforce
  then have q: "0 < q" and x: "x = of_int p / of_int q"
    by (auto dest: quotient_of_denom_pos quotient_of_div)
  with assms have p: "0 < p" by (simp add: zero_less_divide_iff)
  have "flog2 x = (let k = bitlen p - bitlen q in if pow2 k \<le> x then k else k - 1)"
    by (simp add: flog2_def pq Let_def)
  with bitlen_quotient[OF p q] show ?thesis by (auto simp: Let_def simp flip: x)
qed

lemma flog2_unique:
  assumes "pow2 k \<le> x" "x < pow2 (k + 1)"
  shows "flog2 x = k"
proof -
  have "0 < x" using assms(1) pow2_pos[of k] by linarith
  from flog2_bounds[OF this] assms
  have "pow2 (flog2 x) < pow2 (k + 1)" "pow2 k < pow2 (flog2 x + 1)" by linarith+
  then show ?thesis by simp
qed

lemma flog2_mono: "0 < x \<Longrightarrow> x \<le> y \<Longrightarrow> flog2 x \<le> flog2 y"
proof -
  assume "0 < x" "x \<le> y"
  then have "pow2 (flog2 x) < pow2 (flog2 y + 1)"
    using flog2_bounds[of x] flog2_bounds[of y] by linarith
  then show ?thesis by simp
qed

subsection \<open>Rounding to nearest, ties to even\<close>

text \<open>\<open>round_even\<close> rounds to an integer; it is also what the \<open>%.0f\<close> verb prints.\<close>

definition round_even :: "rat \<Rightarrow> int" where
  "round_even y = (let f = \<lfloor>y\<rfloor>; d = y - of_int f
     in if d < 1 / 2 then f else if 1 / 2 < d then f + 1 else if even f then f else f + 1)"

definition rexp :: "rat \<Rightarrow> int" where
  "rexp x = max (flog2 \<bar>x\<bar> - 52) (- 1074)"

definition rnd :: "rat \<Rightarrow> rat" where
  "rnd x = (if x = 0 then 0 else of_int (round_even (x / pow2 (rexp x))) * pow2 (rexp x))"

lemma round_even_of_int [simp]: "round_even (of_int n) = n"
  by (simp add: round_even_def)

lemma round_even_0 [simp]: "round_even 0 = 0"
  using round_even_of_int[of 0] by simp

lemma round_even_split:
  assumes "0 \<le> d" "d < 1"
  shows "round_even (of_int f + d) =
     (if d < 1 / 2 then f else if 1 / 2 < d then f + 1 else if even f then f else f + 1)"
proof -
  have "\<lfloor>of_int f + d\<rfloor> = f" using assms by (simp add: floor_eq_iff)
  then show ?thesis by (simp only: round_even_def Let_def add_diff_cancel_left')
qed

lemma rat_split_floor: obtains f d where "y = of_int f + d" "0 \<le> d" "d < (1::rat)"
proof
  show "y = of_int \<lfloor>y\<rfloor> + (y - of_int \<lfloor>y\<rfloor>)" by simp
qed linarith+

lemma round_even_error: "\<bar>of_int (round_even y) - y\<bar> \<le> 1 / 2"
proof -
  obtain f d where y: "y = of_int f + d" "0 \<le> d" "d < 1" by (rule rat_split_floor)
  then show ?thesis by (auto simp: round_even_split)
qed

lemma round_even_mono: "x \<le> y \<Longrightarrow> round_even x \<le> round_even y"
proof -
  assume xy: "x \<le> y"
  then have f: "\<lfloor>x\<rfloor> \<le> \<lfloor>y\<rfloor>" by (rule floor_mono)
  show ?thesis
  proof (cases "\<lfloor>x\<rfloor> = \<lfloor>y\<rfloor>")
    case True
    with xy show ?thesis by (auto simp: round_even_def Let_def)
  next
    case False
    with f have "\<lfloor>x\<rfloor> + 1 \<le> \<lfloor>y\<rfloor>" by simp
    then show ?thesis by (auto simp: round_even_def Let_def)
  qed
qed

lemma round_even_minus: "round_even (- y) = - round_even y"
proof -
  define f d where "f = \<lfloor>y\<rfloor>" and "d = y - of_int f"
  have d: "0 \<le> d" "d < 1" unfolding d_def f_def by linarith+
  show ?thesis
  proof (cases "d = 0")
    case True
    then have "y = of_int f" by (simp add: d_def)
    then show ?thesis by (metis of_int_minus round_even_of_int)
  next
    case False
    with d have fm: "\<lfloor>- y\<rfloor> = - f - 1" unfolding d_def by linarith
    have dm: "- y - of_int (- f - 1) = 1 - d" by (simp add: d_def)
    show ?thesis
      unfolding round_even_def Let_def fm dm f_def[symmetric] d_def[symmetric] by auto
  qed
qed


lemma rexp_ge: "- 1074 \<le> rexp x"
  by (simp add: rexp_def)

lemma rexp_minus [simp]: "rexp (- x) = rexp x"
  by (simp add: rexp_def)

lemma rnd_0 [simp]: "rnd 0 = 0"
  by (simp add: rnd_def)

lemma rnd_minus: "rnd (- x) = - rnd x"
  by (simp add: rnd_def round_even_minus)

text \<open>A dyadic value with at most 53 significant bits is representable, so it is kept.\<close>

lemma rexp_le:
  assumes "\<bar>x\<bar> < pow2 (e + 53)" "- 1074 \<le> e" "x \<noteq> 0"
  shows "rexp x \<le> e"
proof -
  have "pow2 (flog2 \<bar>x\<bar>) < pow2 (e + 53)"
    using flog2_bounds[of "\<bar>x\<bar>"] assms by linarith
  with assms(2) show ?thesis by (simp add: rexp_def)
qed

lemma rnd_exact:
  assumes m: "\<bar>m\<bar> < 2 ^ 53" and e: "- 1074 \<le> e"
  shows "rnd (of_int m * pow2 e) = of_int m * pow2 e"
proof (cases "m = 0")
  case False
  let ?x = "of_int m * pow2 e"
  have "\<bar>?x\<bar> < pow2 (e + 53)"
  proof -
    have "\<bar>?x\<bar> = of_int \<bar>m\<bar> * pow2 e" by (simp add: abs_mult)
    also have "\<dots> < of_int (2 ^ 53) * pow2 e"
      using m pow2_pos[of e] by (intro mult_strict_right_mono) (simp_all only: of_int_less_iff)
    finally show ?thesis by (simp add: pow2_add pow2_def[of 53] mult.commute)
  qed
  then have le: "rexp ?x \<le> e" using e False by (intro rexp_le) auto
  have q: "?x / pow2 (rexp ?x) = of_int (m * 2 ^ nat (e - rexp ?x))"
  proof -
    have "?x / pow2 (rexp ?x) = of_int m * pow2 (e - rexp ?x)" by (simp add: pow2_diff)
    then show ?thesis using le by (simp add: pow2_nonneg_int)
  qed
  then have "round_even (?x / pow2 (rexp ?x)) = m * 2 ^ nat (e - rexp ?x)"
    by (simp only: round_even_of_int)
  with False have "rnd ?x = ?x / pow2 (rexp ?x) * pow2 (rexp ?x)"
    by (simp only: rnd_def q) simp
  then show ?thesis by simp
qed simp

lemma rnd_int: "\<bar>m\<bar> < 2 ^ 53 \<Longrightarrow> rnd (of_int m) = of_int m"
  using rnd_exact[of m 0] by (simp add: pow2_def)

text \<open>The error of one rounding is at most half a unit in the last place.\<close>

lemma rnd_error: "x \<noteq> 0 \<Longrightarrow> \<bar>rnd x - x\<bar> \<le> pow2 (rexp x) / 2"
proof -
  assume "x \<noteq> 0"
  let ?e = "rexp x"
  have "\<bar>of_int (round_even (x / pow2 ?e)) - x / pow2 ?e\<bar> * pow2 ?e \<le> 1 / 2 * pow2 ?e"
    using round_even_error pow2_pos[of ?e] by (intro mult_right_mono) auto
  then have "\<bar>(of_int (round_even (x / pow2 ?e)) - x / pow2 ?e) * pow2 ?e\<bar> \<le> pow2 ?e / 2"
    by (simp add: abs_mult)
  then show ?thesis using \<open>x \<noteq> 0\<close>
    by (simp add: rnd_def left_diff_distrib)
qed

text \<open>Rounding is monotone.\<close>

lemma rnd_nonneg: "0 \<le> x \<Longrightarrow> 0 \<le> rnd x"
  using round_even_mono[of 0 "x / pow2 (rexp x)"] by (auto simp: rnd_def divide_nonneg_nonneg intro!: mult_nonneg_nonneg)

lemma rnd_le_pow2:
  assumes "0 < x" "x \<le> pow2 k" "rexp x \<le> k"
  shows "rnd x \<le> pow2 k"
proof -
  have "x / pow2 (rexp x) \<le> pow2 (k - rexp x)"
    using assms(2) by (simp add: pow2_diff divide_right_mono)
  then have "round_even (x / pow2 (rexp x)) \<le> 2 ^ nat (k - rexp x)"
    using assms(3) round_even_mono by (fastforce simp: pow2_nonneg_int simp del: of_int_power)
  then have "of_int (round_even (x / pow2 (rexp x))) \<le> pow2 (k - rexp x)"
    using assms(3) by (simp add: pow2_nonneg_int del: of_int_power)
  then have "rnd x \<le> pow2 (k - rexp x) * pow2 (rexp x)"
    using assms(1) by (simp add: rnd_def)
  then show ?thesis by (simp flip: pow2_add)
qed

lemma rnd_ge_pow2:
  assumes "pow2 k \<le> x" "rexp x \<le> k"
  shows "pow2 k \<le> rnd x"
proof -
  have x: "0 < x" using assms(1) pow2_pos[of k] by linarith
  have "pow2 (k - rexp x) \<le> x / pow2 (rexp x)"
    using assms(1) by (simp add: pow2_diff divide_right_mono)
  then have "2 ^ nat (k - rexp x) \<le> round_even (x / pow2 (rexp x))"
    using assms(2) round_even_mono by (fastforce simp: pow2_nonneg_int simp del: of_int_power)
  then have "pow2 (k - rexp x) \<le> of_int (round_even (x / pow2 (rexp x)))"
    using assms(2) by (simp add: pow2_nonneg_int del: of_int_power)
  then have "pow2 (k - rexp x) * pow2 (rexp x) \<le> rnd x"
    using x by (simp add: rnd_def)
  then show ?thesis by (simp flip: pow2_add)
qed

lemma rnd_mono_pos:
  assumes "0 < x" "x \<le> y"
  shows "rnd x \<le> rnd y"
proof -
  have le: "flog2 x \<le> flog2 y" by (rule flog2_mono[OF assms])
  have ye: "rexp y = max (flog2 y - 52) (- 1074)" and xe: "rexp x = max (flog2 x - 52) (- 1074)"
    using assms by (simp_all add: rexp_def)
  show ?thesis
  proof (cases "rexp x = rexp y")
    case True
    have "round_even (x / pow2 (rexp x)) \<le> round_even (y / pow2 (rexp x))"
      using assms(2) by (intro round_even_mono) (simp add: divide_right_mono)
    then show ?thesis using assms True by (simp add: rnd_def mult_right_mono)
  next
    case False
    with le have lt: "flog2 x < flog2 y" and ey: "rexp y = flog2 y - 52" and ex: "rexp x \<le> flog2 y"
      by (auto simp: xe ye)
    have "x \<le> pow2 (flog2 y)"
      using flog2_bounds[of x] assms(1) lt pow2_le_iff[of "flog2 x + 1" "flog2 y"] by linarith
    then have "rnd x \<le> pow2 (flog2 y)" using assms(1) ex by (intro rnd_le_pow2)
    also have "\<dots> \<le> rnd y"
      using flog2_bounds[of y] assms ey by (intro rnd_ge_pow2) auto
    finally show ?thesis .
  qed
qed

lemma rnd_mono: "x \<le> y \<Longrightarrow> rnd x \<le> rnd y"
proof -
  assume le: "x \<le> y"
  consider "0 < x" | "y < 0" | "x \<le> 0" "0 \<le> y" by linarith
  then show ?thesis
  proof cases
    case 1
    from this le show ?thesis by (rule rnd_mono_pos)
  next
    case 2
    with le have "rnd (- y) \<le> rnd (- x)" by (intro rnd_mono_pos) auto
    then show ?thesis by (simp add: rnd_minus)
  next
    case 3
    then have "0 \<le> rnd (- x)" "0 \<le> rnd y" by (auto intro: rnd_nonneg)
    then show ?thesis by (simp add: rnd_minus)
  qed
qed



subsection \<open>Evaluating a rounding on a fraction\<close>

text \<open>\<open>rnd\<close> of \<open>p / q\<close> in integer arithmetic: mantissa and exponent.\<close>

definition rz_exp :: "int \<Rightarrow> int \<Rightarrow> int" where
  "rz_exp p q = (let k = bitlen p - bitlen q;
                     k' = (if (if 0 \<le> k then q * 2 ^ nat k \<le> p else q \<le> p * 2 ^ nat (- k)) then k else k - 1)
                 in max (k' - 52) (- 1074))"

definition rndz :: "int \<Rightarrow> int \<Rightarrow> int \<times> int" where
  "rndz p q = (let e = rz_exp p q;
                   n = (if 0 \<le> e then p else p * 2 ^ nat (- e));
                   d = (if 0 \<le> e then q * 2 ^ nat e else q);
                   m = n div d; r = n mod d
     in (if 2 * r < d then m else if d < 2 * r then m + 1 else if even m then m else m + 1, e))"

lemma flog2_frac:
  assumes p: "0 < p" and q: "0 < q"
  shows "flog2 (of_int p / of_int q) =
     (let k = bitlen p - bitlen q in if pow2 k * of_int q \<le> of_int p then k else k - 1)"
proof -
  define a b x where "a = bitlen p" and "b = bitlen q" and "x = of_int p / (of_int q :: rat)"
  have x: "0 < x" using p q by (simp add: x_def)
  have "pow2 (a - b - 1) \<le> x \<and> x < pow2 (a - b + 1)"
    unfolding x_def a_def b_def by (rule bitlen_quotient[OF p q])
  moreover have "pow2 (a - b) * of_int q \<le> of_int p \<longleftrightarrow> pow2 (a - b) \<le> x"
    using q by (simp add: x_def pos_le_divide_eq)
  ultimately show ?thesis
    using flog2_unique[of "a - b" x] flog2_unique[of "a - b - 1" x]
    by (simp add: Let_def flip: a_def b_def x_def)
qed

lemma rexp_frac:
  assumes p: "0 < p" and q: "0 < q"
  shows "rexp (of_int p / of_int q) = rz_exp p q"
proof -
  define k where "k = bitlen p - bitlen q"
  have "pow2 k * of_int q \<le> of_int p \<longleftrightarrow>
      (if 0 \<le> k then q * 2 ^ nat k \<le> p else q \<le> p * 2 ^ nat (- k))"
  proof (cases "0 \<le> k")
    case True
    then have "pow2 k * of_int q = of_int (q * 2 ^ nat k)"
      by (simp add: pow2_nonneg_int)
    with True show ?thesis by (simp only: of_int_le_iff if_True)
  next
    case False
    then have "pow2 k * of_int q \<le> of_int p \<longleftrightarrow> of_int q \<le> (of_int p * 2 ^ nat (- k) :: rat)"
      by (simp add: pow2_def pos_divide_le_eq)
    also have "\<dots> \<longleftrightarrow> of_int q \<le> (of_int (p * 2 ^ nat (- k)) :: rat)" by simp
    finally show ?thesis using False by (simp only: of_int_le_iff if_False)
  qed
  moreover have "0 < of_int p / (of_int q :: rat)" using p q by simp
  ultimately show ?thesis
    by (simp only: rexp_def abs_of_pos flog2_frac[OF p q] rz_exp_def Let_def k_def)
qed

lemma rnd_frac:
  assumes p: "0 < p" and q: "0 < q"
  shows "rnd (of_int p / of_int q) = of_int (fst (rndz p q)) * pow2 (snd (rndz p q))"
proof -
  define x where "x = of_int p / (of_int q :: rat)"
  have x: "0 < x" using p q by (simp add: x_def)
  define e where "e = rz_exp p q"
  have e: "rexp x = e" by (simp only: x_def e_def rexp_frac[OF p q])
  define n where "n = (if 0 \<le> e then p else p * 2 ^ nat (- e))"
  define d where "d = (if 0 \<le> e then q * 2 ^ nat e else q)"
  have d0: "0 < d" using q by (simp add: d_def)
  define m r where "m = n div d" and "r = n mod d"
  have "n = m * d + r" by (simp add: m_def r_def)
  then have "of_int n / of_int d = of_int m + of_int r / (of_int d :: rat)"
    using d0 by (simp add: add_divide_distrib)
  moreover have "x / pow2 e = of_int n / of_int d"
    by (simp add: x_def n_def d_def pow2_def)
  ultimately have "x / pow2 e = of_int m + of_int r / of_int d" by simp
  moreover have "0 \<le> r" "r < d" using d0 by (simp_all add: r_def)
  then have "0 \<le> of_int r / (of_int d :: rat)" "of_int r / of_int d < (1 :: rat)" by auto
  moreover have "of_int r / of_int d < (1 / 2 :: rat) \<longleftrightarrow> of_int (2 * r) < (of_int d :: rat)"
    using d0 by (simp add: pos_divide_less_eq mult.commute)
  then have "of_int r / of_int d < (1 / 2 :: rat) \<longleftrightarrow> 2 * r < d"
    by (simp only: of_int_less_iff)
  moreover have "(1 / 2 :: rat) < of_int r / of_int d \<longleftrightarrow> of_int d < (of_int (2 * r) :: rat)"
    using d0 by (simp add: pos_less_divide_eq mult.commute)
  then have "(1 / 2 :: rat) < of_int r / of_int d \<longleftrightarrow> d < 2 * r"
    by (simp only: of_int_less_iff)
  moreover have "fst (rndz p q) = (if 2 * r < d then m else if d < 2 * r then m + 1 else if even m then m else m + 1)"
    by (simp only: rndz_def Let_def fst_conv n_def d_def m_def r_def e_def)
  ultimately have "round_even (x / pow2 e) = fst (rndz p q)"
    by (simp only: round_even_split)
  moreover have "snd (rndz p q) = e"
    by (simp only: rndz_def Let_def snd_conv e_def)
  ultimately show ?thesis using x by (simp add: rnd_def e flip: x_def)
qed


lemma bitlen_numeral [simp]:
  "bitlen (numeral Num.One) = 1"
  "bitlen (numeral (Num.Bit0 k)) = bitlen (numeral k) + 1"
  "bitlen (numeral (Num.Bit1 k)) = bitlen (numeral k) + 1"
  by (subst compute_bitlen, simp)+

lemma bitlen_1 [simp]: "bitlen 1 = 1"
  using bitlen_numeral(1) by simp

named_theorems float_eval \<open>evaluation of closed float64 terms\<close>

lemma rnd_numerals [float_eval]:
  "rnd (numeral p / numeral q) =
     of_int (fst (rndz (numeral p) (numeral q))) * pow2 (snd (rndz (numeral p) (numeral q)))"
  "rnd (1 / numeral q) =
     of_int (fst (rndz 1 (numeral q))) * pow2 (snd (rndz 1 (numeral q)))"
  "rnd (numeral p) = of_int (fst (rndz (numeral p) 1)) * pow2 (snd (rndz (numeral p) 1))"
  "rnd 1 = 1"
  using rnd_frac[of "numeral p" "numeral q"] rnd_frac[of 1 "numeral q"]
    rnd_frac[of "numeral p" 1] rnd_int[of 1] by simp_all

lemma rnd_neg_numerals [float_eval]:
  "rnd (- (numeral p / numeral q)) = - rnd (numeral p / numeral q)"
  "rnd (- (1 / numeral q)) = - rnd (1 / numeral q)"
  "rnd (- numeral p) = - rnd (numeral p)"
  "rnd (- 1) = - 1"
  using rnd_minus[of 1] by (simp_all only: rnd_minus rnd_numerals(4))

lemmas rndz_eval [float_eval] = rndz_def rz_exp_def Let_def pow2_def

subsection \<open>The values of float64 and its operations\<close>

datatype f64 = Fin rat | PInf | NInf | NaN

definition fin :: "rat \<Rightarrow> f64" where
  "fin x = (let r = rnd x in
     if 2 ^ 1024 \<le> r then PInf else if r \<le> - (2 ^ 1024) then NInf else Fin r)"

lemma fin_small:
  assumes "\<bar>x\<bar> \<le> 2 ^ 200"
  shows "fin x = Fin (rnd x)"
proof -
  have "rnd (2 ^ 200) = 2 ^ 200"
    using rnd_exact[of 1 200] by (simp add: pow2_def)
  then have "rnd x \<le> 2 ^ 200" "- (2 ^ 200) \<le> rnd x"
    using rnd_mono[of x "2 ^ 200"] rnd_mono[of "- (2 ^ 200)" x] assms rnd_minus[of "2 ^ 200"]
    by (auto simp: abs_le_iff)
  moreover have "(2::rat) ^ 200 < 2 ^ 1024" by (rule power_strict_increasing) auto
  ultimately show ?thesis by (simp add: fin_def Let_def)
qed

fun f64_neg :: "f64 \<Rightarrow> f64" where
  "f64_neg (Fin a) = Fin (- a)"
| "f64_neg PInf = NInf"
| "f64_neg NInf = PInf"
| "f64_neg NaN = NaN"

fun f64_add :: "f64 \<Rightarrow> f64 \<Rightarrow> f64" where
  "f64_add (Fin a) (Fin b) = fin (a + b)"
| "f64_add NaN _ = NaN"
| "f64_add _ NaN = NaN"
| "f64_add PInf NInf = NaN"
| "f64_add NInf PInf = NaN"
| "f64_add PInf _ = PInf"
| "f64_add _ PInf = PInf"
| "f64_add NInf _ = NInf"
| "f64_add _ NInf = NInf"

definition signed_inf :: "rat \<Rightarrow> f64" where
  "signed_inf s = (if 0 < s then PInf else if s < 0 then NInf else NaN)"

fun f64_sgn :: "f64 \<Rightarrow> rat" where
  "f64_sgn (Fin a) = sgn a"
| "f64_sgn PInf = 1"
| "f64_sgn NInf = - 1"
| "f64_sgn NaN = 0"

fun f64_mul :: "f64 \<Rightarrow> f64 \<Rightarrow> f64" where
  "f64_mul (Fin a) (Fin b) = fin (a * b)"
| "f64_mul NaN _ = NaN"
| "f64_mul _ NaN = NaN"
| "f64_mul a b = signed_inf (f64_sgn a * f64_sgn b)"

text \<open>A zero divisor counts as \<open>+0\<close>: the sign of a zero is not kept.\<close>

fun f64_div :: "f64 \<Rightarrow> f64 \<Rightarrow> f64" where
  "f64_div (Fin a) (Fin b) = (if b = 0 then signed_inf (sgn a) else fin (a / b))"
| "f64_div NaN _ = NaN"
| "f64_div _ NaN = NaN"
| "f64_div (Fin a) _ = Fin 0"
| "f64_div a (Fin b) = signed_inf (f64_sgn a * (if b = 0 then 1 else sgn b))"
| "f64_div _ _ = NaN"

fun f64_less :: "f64 \<Rightarrow> f64 \<Rightarrow> bool" where
  "f64_less (Fin a) (Fin b) = (a < b)"
| "f64_less NaN _ = False"
| "f64_less _ NaN = False"
| "f64_less NInf b = (b \<noteq> NInf)"
| "f64_less _ NInf = False"
| "f64_less PInf _ = False"
| "f64_less _ PInf = True"

definition f64_eq :: "f64 \<Rightarrow> f64 \<Rightarrow> bool" where
  "f64_eq a b = (a \<noteq> NaN \<and> a = b)"

instantiation f64 :: "{plus, minus, uminus, times, inverse, ord, zero, one}"
begin

definition "0 = Fin 0"
definition "1 = Fin 1"
definition "- a = f64_neg a"
definition "a + b = f64_add a b"
definition "a - b = f64_add a (f64_neg b)"
definition "a * b = f64_mul a b"
definition "a div b = f64_div a b"
definition "inverse a = f64_div (Fin 1) a"
definition "a < b = f64_less a b"
definition "a \<le> b = (f64_less a b \<or> f64_eq a b)"

instance ..

end

text \<open>Conversions: \<open>float64(n)\<close>, and \<open>int(x)\<close>, which truncates.\<close>

definition f64_of_int :: "int \<Rightarrow> f64" where
  "f64_of_int n = fin (of_int n)"

definition f64_lit :: "rat \<Rightarrow> f64" where
  "f64_lit q = fin q"

definition rat_trunc :: "rat \<Rightarrow> int" where
  "rat_trunc x = (if 0 \<le> x then \<lfloor>x\<rfloor> else \<lceil>x\<rceil>)"

definition in_int64 :: "int \<Rightarrow> bool" where
  "in_int64 n \<longleftrightarrow> - (2 ^ 63) \<le> n \<and> n < 2 ^ 63"

fun f64_to_int :: "f64 \<Rightarrow> int" where
  "f64_to_int (Fin x) = (if in_int64 (rat_trunc x) then rat_trunc x else - (2 ^ 63))"
| "f64_to_int _ = - (2 ^ 63)"


lemma floor_numerals [float_eval]:
  "\<lfloor>numeral p / numeral q :: rat\<rfloor> = numeral p div numeral q"
  "\<lfloor>1 / numeral q :: rat\<rfloor> = 1 div numeral q"
  "\<lfloor>- (numeral p / numeral q) :: rat\<rfloor> = - numeral p div numeral q"
  using floor_divide_of_int_eq[of "numeral p" "numeral q", where 'a=rat]
    floor_divide_of_int_eq[of 1 "numeral q", where 'a=rat]
    floor_divide_of_int_eq[of "- numeral p" "numeral q", where 'a=rat]
  by simp_all

lemmas f64_ops [float_eval] = plus_f64_def minus_f64_def times_f64_def uminus_f64_def
  divide_f64_def less_f64_def less_eq_f64_def zero_f64_def one_f64_def
  f64_of_int_def f64_lit_def f64_eq_def fin_small rat_trunc_def in_int64_def

subsection \<open>math.Pow on integral exponents\<close>

text \<open>
  The square-and-multiply loop of the standard library's \<open>math.Pow\<close>: the base is split by
  \<open>Frexp\<close> into a fraction in \<open>[1/2, 1)\<close> and an exponent, the fractions are multiplied in
  float64, the exponents are added as integers, and \<open>Ldexp\<close> puts the result together.
\<close>

definition frexp :: "rat \<Rightarrow> rat \<times> int" where
  "frexp x = (if x = 0 then (0, 0)
     else let e = flog2 \<bar>x\<bar> + 1 in (x / pow2 e, e))"

lemma flog2_numerals [float_eval]:
  "flog2 (numeral p / numeral q) =
     (let k = bitlen (numeral p) - bitlen (numeral q)
      in if pow2 k * numeral q \<le> numeral p then k else k - 1)"
  using flog2_frac[of "numeral p" "numeral q"] by simp

lemmas frexp_eval [float_eval] = frexp_def

fun ldexp :: "f64 \<Rightarrow> int \<Rightarrow> f64" where
  "ldexp (Fin x) e = fin (x * pow2 e)"
| "ldexp a _ = a"

fun pow_loop :: "nat \<Rightarrow> f64 \<Rightarrow> int \<Rightarrow> f64 \<Rightarrow> int \<Rightarrow> f64 \<times> int" where
  "pow_loop i x1 xe a1 ae =
     (if i = 0 then (a1, ae)
      else if xe < - 4096 \<or> 4096 < xe then (a1, ae + xe)
      else let a2 = (if odd i then a1 * x1 else a1);
               ae2 = (if odd i then ae + xe else ae);
               x2 = x1 * x1
           in if x2 < f64_lit (1 / 2) then pow_loop (i div 2) (x2 + x2) (2 * xe - 1) a2 ae2
              else pow_loop (i div 2) x2 (2 * xe) a2 ae2)"

declare pow_loop.simps [simp del]

fun math_pow :: "rat \<Rightarrow> f64 \<Rightarrow> f64" where
  "math_pow x (Fin y) =
     (if y = 0 \<or> x = 1 then 1
      else if y = 1 then Fin x
      else if 2 ^ 63 \<le> \<bar>y\<bar> then (if (\<bar>x\<bar> < 1) = (0 < y) then 0 else PInf)
      else let (x1, xe) = frexp x;
               (a1, ae) = pow_loop (nat \<lfloor>\<bar>y\<bar>\<rfloor>) (Fin x1) xe 1 0
           in if y < 0 then ldexp (1 / a1) (- ae) else ldexp a1 ae)"
| "math_pow x NaN = NaN"
| "math_pow x PInf = (if \<bar>x\<bar> < 1 then 0 else PInf)"
| "math_pow x NInf = (if \<bar>x\<bar> < 1 then PInf else 0)"


lemma pow_loop_numeral [float_eval]:
  "pow_loop 0 x1 xe a1 ae = (a1, ae)"
  "pow_loop (numeral n) x1 xe a1 ae =
     (if xe < - 4096 \<or> 4096 < xe then (a1, ae + xe)
      else let a2 = (if odd (numeral n :: nat) then a1 * x1 else a1);
               ae2 = (if odd (numeral n :: nat) then ae + xe else ae);
               x2 = x1 * x1
           in if x2 < f64_lit (1 / 2) then pow_loop (numeral n div 2) (x2 + x2) (2 * xe - 1) a2 ae2
              else pow_loop (numeral n div 2) x2 (2 * xe) a2 ae2)"
  "pow_loop (Suc 0) x1 xe a1 ae =
     (if xe < - 4096 \<or> 4096 < xe then (a1, ae + xe) else (a1 * x1, ae + xe))"
proof -
  show "pow_loop 0 x1 xe a1 ae = (a1, ae)" by (subst pow_loop.simps) simp
  show "pow_loop (numeral n) x1 xe a1 ae =
     (if xe < - 4096 \<or> 4096 < xe then (a1, ae + xe)
      else let a2 = (if odd (numeral n :: nat) then a1 * x1 else a1);
               ae2 = (if odd (numeral n :: nat) then ae + xe else ae);
               x2 = x1 * x1
           in if x2 < f64_lit (1 / 2) then pow_loop (numeral n div 2) (x2 + x2) (2 * xe - 1) a2 ae2
              else pow_loop (numeral n div 2) x2 (2 * xe) a2 ae2)"
    by (subst pow_loop.simps) simp
  show "pow_loop (Suc 0) x1 xe a1 ae =
     (if xe < - 4096 \<or> 4096 < xe then (a1, ae + xe) else (a1 * x1, ae + xe))"
    by (subst pow_loop.simps) (simp add: Let_def pow_loop.simps[of 0])
qed

end
