(* ===== verification/Snapshot.thy ===== *)
theory Snapshot
  imports Prelude Go_Float
begin

text \<open>
  The cluster snapshot of \<open>internal/collector/model.go\<close>: one record per struct, in the order of
  the file. \<open>int\<close> and \<open>int32\<close> fields are \<open>int\<close>, \<open>float64\<close> fields are \<open>f64\<close>, a
  \<open>map[string]string\<close> is an association list.
\<close>

record resource_ref =
  rr_namespace :: string
  rr_name :: string
  rr_api_version :: string
  rr_kind :: string

record pod_issue =
  pi_namespace :: string
  pi_name :: string
  pi_reason :: string
  pi_restarts :: int

record node_issue =
  ni_name :: string
  ni_reason :: string

record pdb_issue =
  pdb_namespace :: string
  pdb_name :: string

record workload_pod =
  wp_name :: string
  wp_reason :: string
  wp_restarts :: int

record node_workload =
  nw_name :: string
  nw_status :: string
  nw_conditions :: "string list"

record config_ref =
  cr_kind :: string
  cr_name :: string

record workload =
  w_kind :: string
  w_namespace :: string
  w_name :: string
  w_status :: string
  w_pod_labels :: strmap
  w_config_refs :: "config_ref list"
  w_pvcs :: "string list"
  w_nodes :: "string list"
  w_istio :: bool

record bare_pod =
  bp_namespace :: string
  bp_name :: string
  bp_status :: string

record pvc_ref =
  pvc_namespace :: string
  pvc_name :: string
  pvc_storage_class :: string
  pvc_phase :: string
  pvc_binding_mode :: string

record deployment_workload =
  dw_namespace :: string
  dw_name :: string
  dw_ready_replicas :: int
  dw_desired_replicas :: int
  dw_pods :: "workload_pod list"
  dw_pod_labels :: strmap
  dw_config_refs :: "config_ref list"
  dw_nodes :: "string list"
  dw_istio :: bool

record statefulset_issue =
  ss_namespace :: string
  ss_name :: string
  ss_ready_replicas :: int
  ss_total_replicas :: int
  ss_pods :: "workload_pod list"

record daemonset_issue =
  ds_namespace :: string
  ds_name :: string
  ds_number_unavailable :: int
  ds_pods :: "workload_pod list"

text \<open>Job status values.\<close>

definition JobStatusActive :: string where "JobStatusActive = ''Active''"
definition JobStatusFailed :: string where "JobStatusFailed = ''Failed''"
definition JobStatusCompleted :: string where "JobStatusCompleted = ''Completed''"
definition JobStatusPending :: string where "JobStatusPending = ''Pending''"

record job_issue =
  ji_namespace :: string
  ji_name :: string
  ji_active :: int
  ji_status :: string
  ji_reason :: string
  ji_pods :: "workload_pod list"

record deprecated_api =
  da_group :: string
  da_version :: string
  da_resource :: string
  da_removed_in :: string

record service_ref =
  svc_namespace :: string
  svc_name :: string
  svc_type :: string
  svc_selector :: strmap

record ingress_ref =
  ing_namespace :: string
  ing_name :: string
  ing_services :: "string list"
  ing_has_tls :: bool

record detected_addon =
  ad_name :: string
  ad_version :: string
  ad_namespace :: string
  ad_detected_via :: string

record cluster_snapshot =
  s_cluster_name :: string
  s_cluster_version :: string
  s_namespace_count :: int
  s_resources :: "resource_ref list"
  s_total_pods :: int
  s_not_ready_pods :: int
  s_total_restarts :: int
  s_pod_issues :: "pod_issue list"
  s_restarting_pods :: int
  s_cpu_requests :: f64
  s_cpu_capacity :: f64
  s_mem_requests :: f64
  s_mem_capacity :: f64
  s_node_issues :: "node_issue list"
  s_previous_total_pods :: int
  s_previous_restarts :: int
  s_deprecated_apis :: int
  s_deprecated_api_list :: "deprecated_api list"
  s_addon_issues :: int
  s_pdb_blocking :: bool
  s_pdb_issues :: "pdb_issue list"
  s_services :: "service_ref list"
  s_ingresses :: "ingress_ref list"
  s_detected_addons :: "detected_addon list"
  s_workloads :: "workload list"
  s_bare_pods :: "bare_pod list"
  s_pvcs :: "pvc_ref list"
  s_node_workloads :: "node_workload list"
  s_deployment_workloads :: "deployment_workload list"
  s_statefulset_issues :: "statefulset_issue list"
  s_daemonset_issues :: "daemonset_issue list"
  s_job_issues :: "job_issue list"

text \<open>\<open>&ClusterSnapshot{}\<close>: every field at its zero value.\<close>

definition empty_snapshot :: cluster_snapshot where
  "empty_snapshot = \<lparr>
     s_cluster_name = [], s_cluster_version = [], s_namespace_count = 0, s_resources = [],
     s_total_pods = 0, s_not_ready_pods = 0, s_total_restarts = 0, s_pod_issues = [],
     s_restarting_pods = 0, s_cpu_requests = 0, s_cpu_capacity = 0, s_mem_requests = 0,
     s_mem_capacity = 0, s_node_issues = [], s_previous_total_pods = 0,
     s_previous_restarts = 0, s_deprecated_apis = 0, s_deprecated_api_list = [],
     s_addon_issues = 0, s_pdb_blocking = False, s_pdb_issues = [], s_services = [],
     s_ingresses = [], s_detected_addons = [], s_workloads = [], s_bare_pods = [],
     s_pvcs = [], s_node_workloads = [], s_deployment_workloads = [],
     s_statefulset_issues = [], s_daemonset_issues = [], s_job_issues = [] \<rparr>"

end
