(* ===== verification/Graph_Build.thy ===== *)
theory Graph_Build
  imports Snapshot
begin

text \<open>
  The component graph and its builder: \<open>internal/graph/component.go\<close> and
  \<open>internal/graph/build.go\<close>. The builder is a record threaded through the passes in the order
  \<open>BuildFromSnapshot\<close> runs them; a \<open>for\<close> loop is a \<open>fold\<close>.
\<close>

section \<open>Components, edges and graphs\<close>

datatype component_type =
  TypeWorkload | TypeNetwork | TypeAddon | TypeConfig | TypeStorage | TypeInfra

definition EdgeRoutesTo :: string where "EdgeRoutesTo = ''routes-to''"
definition EdgeSelects :: string where "EdgeSelects = ''selects''"
definition EdgeUsesConfig :: string where "EdgeUsesConfig = ''uses-config''"
definition EdgeUsesStorage :: string where "EdgeUsesStorage = ''uses-storage''"
definition EdgeRunsOn :: string where "EdgeRunsOn = ''runs-on''"
definition EdgeDependsOn :: string where "EdgeDependsOn = ''depends-on''"

lemmas edge_type_defs = EdgeRoutesTo_def EdgeSelects_def EdgeUsesConfig_def
  EdgeUsesStorage_def EdgeRunsOn_def EdgeDependsOn_def

record component =
  c_id :: string
  c_kind :: string
  c_name :: string
  c_namespace :: string
  c_type :: component_type
  c_version :: string
  c_status :: string
  c_risk :: int

record edge =
  e_from :: string
  e_to :: string
  e_type :: string

record graph =
  g_nodes :: "component list"
  g_edges :: "edge list"

definition comp_id :: "string \<Rightarrow> string \<Rightarrow> string \<Rightarrow> string" where
  "comp_id kind ns name =
     (if ns = [] then kind @ ''/'' @ name else kind @ ''/'' @ ns @ ''/'' @ name)"

definition AddonID :: "string \<Rightarrow> string" where
  "AddonID name = comp_id ''Addon'' [] name"

section \<open>The builder\<close>

record workload_info =
  wi_id :: string
  wi_namespace :: string
  wi_labels :: strmap
  wi_refs :: "config_ref list"
  wi_pvcs :: "string list"
  wi_nodes :: "string list"
  wi_istio :: bool

record builder =
  b_nodes :: "component list"
  b_edges :: "edge list"
  b_exists :: "string \<Rightarrow> bool"
  b_addon_id :: "string \<rightharpoonup> string"
  b_workloads :: "workload_info list"

definition new_builder :: builder where
  "new_builder = \<lparr>b_nodes = [], b_edges = [], b_exists = (\<lambda>_. False),
     b_addon_id = Map.empty, b_workloads = []\<rparr>"

definition add_node :: "component \<Rightarrow> builder \<Rightarrow> builder" where
  "add_node c b =
     (if b_exists b (c_id c) then b
      else b\<lparr>b_exists := (b_exists b)(c_id c := True), b_nodes := b_nodes b @ [c]\<rparr>)"

definition add_edge :: "string \<Rightarrow> string \<Rightarrow> string \<Rightarrow> builder \<Rightarrow> builder" where
  "add_edge from to typ b =
     (if \<not> b_exists b from \<or> \<not> b_exists b to then b
      else b\<lparr>b_edges := b_edges b @ [\<lparr>e_from = from, e_to = to, e_type = typ\<rparr>]\<rparr>)"

subsection \<open>Node passes\<close>

definition addon_component :: "detected_addon \<Rightarrow> component" where
  "addon_component a = \<lparr>c_id = comp_id ''Addon'' [] (ad_name a), c_kind = ''Addon'',
     c_name = ad_name a, c_namespace = ad_namespace a, c_type = TypeAddon,
     c_version = ad_version a, c_status = [], c_risk = 0\<rparr>"

definition add_addons :: "cluster_snapshot \<Rightarrow> builder \<Rightarrow> builder" where
  "add_addons snap = fold (\<lambda>a b.
     let nid = comp_id ''Addon'' [] (ad_name a)
     in add_node (addon_component a) (b\<lparr>b_addon_id := (b_addon_id b)(ad_name a \<mapsto> nid)\<rparr>))
     (s_detected_addons snap)"

definition node_component :: "node_workload \<Rightarrow> component" where
  "node_component n = \<lparr>c_id = comp_id ''Node'' [] (nw_name n), c_kind = ''Node'',
     c_name = nw_name n, c_namespace = [], c_type = TypeInfra,
     c_version = [], c_status = nw_status n, c_risk = 0\<rparr>"

definition add_infra :: "cluster_snapshot \<Rightarrow> builder \<Rightarrow> builder" where
  "add_infra snap = fold (\<lambda>n. add_node (node_component n)) (s_node_workloads snap)"

definition workload_component :: "workload \<Rightarrow> component" where
  "workload_component w = \<lparr>c_id = comp_id (w_kind w) (w_namespace w) (w_name w),
     c_kind = w_kind w, c_name = w_name w, c_namespace = w_namespace w, c_type = TypeWorkload,
     c_version = [], c_status = w_status w, c_risk = 0\<rparr>"

definition workload_info_of :: "workload \<Rightarrow> workload_info" where
  "workload_info_of w = \<lparr>wi_id = comp_id (w_kind w) (w_namespace w) (w_name w),
     wi_namespace = w_namespace w, wi_labels = w_pod_labels w, wi_refs = w_config_refs w,
     wi_pvcs = w_pvcs w, wi_nodes = w_nodes w, wi_istio = w_istio w\<rparr>"

definition add_workloads :: "cluster_snapshot \<Rightarrow> builder \<Rightarrow> builder" where
  "add_workloads snap = fold (\<lambda>w b.
     let b' = add_node (workload_component w) b
     in b'\<lparr>b_workloads := b_workloads b' @ [workload_info_of w]\<rparr>) (s_workloads snap)"

definition bare_pod_component :: "bare_pod \<Rightarrow> component" where
  "bare_pod_component p = \<lparr>c_id = comp_id ''Pod'' (bp_namespace p) (bp_name p),
     c_kind = ''Pod'', c_name = bp_name p, c_namespace = bp_namespace p, c_type = TypeWorkload,
     c_version = [], c_status = bp_status p, c_risk = 0\<rparr>"

definition add_bare_pods :: "cluster_snapshot \<Rightarrow> builder \<Rightarrow> builder" where
  "add_bare_pods snap = fold (\<lambda>p. add_node (bare_pod_component p)) (s_bare_pods snap)"

definition service_component :: "service_ref \<Rightarrow> component" where
  "service_component s = \<lparr>c_id = comp_id ''Service'' (svc_namespace s) (svc_name s),
     c_kind = ''Service'', c_name = svc_name s, c_namespace = svc_namespace s,
     c_type = TypeNetwork, c_version = [], c_status = [], c_risk = 0\<rparr>"

definition ingress_component :: "ingress_ref \<Rightarrow> component" where
  "ingress_component i = \<lparr>c_id = comp_id ''Ingress'' (ing_namespace i) (ing_name i),
     c_kind = ''Ingress'', c_name = ing_name i, c_namespace = ing_namespace i,
     c_type = TypeNetwork, c_version = [], c_status = [], c_risk = 0\<rparr>"

definition add_network :: "cluster_snapshot \<Rightarrow> builder \<Rightarrow> builder" where
  "add_network snap b =
     fold (\<lambda>i. add_node (ingress_component i)) (s_ingresses snap)
       (fold (\<lambda>s. add_node (service_component s)) (s_services snap) b)"

definition pvc_status :: "pvc_ref \<Rightarrow> string" where
  "pvc_status p =
     (if pvc_phase p = ''Pending'' \<and> pvc_binding_mode p = ''WaitForFirstConsumer''
      then ''Pending (WaitForFirstConsumer)'' else pvc_phase p)"

definition pvc_component :: "pvc_ref \<Rightarrow> component" where
  "pvc_component p = \<lparr>c_id = comp_id ''PVC'' (pvc_namespace p) (pvc_name p),
     c_kind = ''PVC'', c_name = pvc_name p, c_namespace = pvc_namespace p,
     c_type = TypeStorage, c_version = [], c_status = pvc_status p, c_risk = 0\<rparr>"

definition add_storage :: "cluster_snapshot \<Rightarrow> builder \<Rightarrow> builder" where
  "add_storage snap = fold (\<lambda>p. add_node (pvc_component p)) (s_pvcs snap)"

subsection \<open>Edge passes\<close>

text \<open>\<open>labels[k] != v\<close>: a missing label reads as the empty string.\<close>

definition labels_match :: "strmap \<Rightarrow> strmap \<Rightarrow> bool" where
  "labels_match selector labels = list_all (\<lambda>(k, v). lget labels k = v) selector"

definition link_addon :: "string \<Rightarrow> string \<Rightarrow> builder \<Rightarrow> builder" where
  "link_addon from addon b =
     (case b_addon_id b addon of None \<Rightarrow> b | Some aid \<Rightarrow> add_edge from aid EdgeDependsOn b)"

definition link_ingresses :: "cluster_snapshot \<Rightarrow> builder \<Rightarrow> builder" where
  "link_ingresses snap = fold (\<lambda>ing b.
     let iid = comp_id ''Ingress'' (ing_namespace ing) (ing_name ing);
         b1 = fold (\<lambda>svc. add_edge iid (comp_id ''Service'' (ing_namespace ing) svc) EdgeRoutesTo)
                (ing_services ing) b
     in if ing_has_tls ing then link_addon iid ''cert-manager'' b1 else b1) (s_ingresses snap)"

definition link_services :: "cluster_snapshot \<Rightarrow> builder \<Rightarrow> builder" where
  "link_services snap = fold (\<lambda>s b.
     if svc_selector s = [] then b
     else let sid = comp_id ''Service'' (svc_namespace s) (svc_name s)
          in fold (\<lambda>w b. if wi_namespace w = svc_namespace s \<and> labels_match (svc_selector s) (wi_labels w)
                         then add_edge sid (wi_id w) EdgeSelects b else b) (b_workloads b) b)
     (s_services snap)"

definition config_component :: "string \<Rightarrow> config_ref \<Rightarrow> component" where
  "config_component ns r = \<lparr>c_id = comp_id (cr_kind r) ns (cr_name r),
     c_kind = cr_kind r, c_name = cr_name r, c_namespace = ns,
     c_type = TypeConfig, c_version = [], c_status = [], c_risk = 0\<rparr>"

definition link_workload :: "workload_info \<Rightarrow> builder \<Rightarrow> builder" where
  "link_workload w b =
     (let b1 = fold (\<lambda>r b. add_edge (wi_id w) (comp_id (cr_kind r) (wi_namespace w) (cr_name r))
                  EdgeUsesConfig (add_node (config_component (wi_namespace w) r) b)) (wi_refs w) b;
          b2 = fold (\<lambda>claim. add_edge (wi_id w) (comp_id ''PVC'' (wi_namespace w) claim)
                  EdgeUsesStorage) (wi_pvcs w) b1;
          b3 = fold (\<lambda>node. add_edge (wi_id w) (comp_id ''Node'' [] node) EdgeRunsOn)
                  (wi_nodes w) b2
      in if wi_istio w then link_addon (wi_id w) ''istio'' b3 else b3)"

definition link_workloads :: "builder \<Rightarrow> builder" where
  "link_workloads b = fold link_workload (b_workloads b) b"

definition build_nodes :: "cluster_snapshot \<Rightarrow> builder" where
  "build_nodes snap =
     (let b1 = add_addons snap new_builder;
          b2 = add_infra snap b1;
          b3 = add_workloads snap b2;
          b4 = add_bare_pods snap b3;
          b5 = add_network snap b4
      in add_storage snap b5)"

definition build_all :: "cluster_snapshot \<Rightarrow> builder" where
  "build_all snap = link_workloads (link_services snap (link_ingresses snap (build_nodes snap)))"

definition BuildFromSnapshot :: "cluster_snapshot \<Rightarrow> graph" where
  "BuildFromSnapshot snap = (let b = build_all snap in \<lparr>g_nodes = b_nodes b, g_edges = b_edges b\<rparr>)"

end
