(* ===== verification/Graph_Wf.thy ===== *)
theory Graph_Wf
  imports Graph_Build
begin

text \<open>
  What \<open>BuildFromSnapshot\<close> guarantees: component ids are unique, no edge dangles, every
  inventory item is mirrored, and the edges are exactly the dependencies of the snapshot whose
  endpoints are mirrored. The kinds of the endpoints order the graph in layers, so it is acyclic.
\<close>

section \<open>What the builder's operations do to each field\<close>

lemma add_node_fields [simp]:
  "b_edges (add_node c b) = b_edges b" "b_addon_id (add_node c b) = b_addon_id b"
  "b_workloads (add_node c b) = b_workloads b"
  "b_exists (add_node c b) = (b_exists b)(c_id c := True)"
  by (auto simp: add_node_def fun_eq_iff)

lemma add_edge_fields [simp]:
  "b_nodes (add_edge f t ty b) = b_nodes b" "b_addon_id (add_edge f t ty b) = b_addon_id b"
  "b_workloads (add_edge f t ty b) = b_workloads b" "b_exists (add_edge f t ty b) = b_exists b"
  by (auto simp: add_edge_def)

definition mk_edge :: "string \<Rightarrow> string \<Rightarrow> string \<Rightarrow> edge" where
  "mk_edge f t ty = \<lparr>e_from = f, e_to = t, e_type = ty\<rparr>"

lemma mk_edge_sel [simp]: "e_from (mk_edge f t ty) = f" "e_to (mk_edge f t ty) = t"
  "e_type (mk_edge f t ty) = ty"
  by (simp_all add: mk_edge_def)

lemma mk_edge_inject [simp]:
  "mk_edge f t ty = mk_edge f' t' ty' \<longleftrightarrow> f = f' \<and> t = t' \<and> ty = ty'"
  by (simp add: mk_edge_def)

lemma mk_edge_eta: "mk_edge (e_from e) (e_to e) (e_type e) = e"
  by (simp add: mk_edge_def)

lemma set_add_edge [simp]:
  "set (b_edges (add_edge f t ty b)) =
     set (b_edges b) \<union> (if b_exists b f \<and> b_exists b t then {mk_edge f t ty} else {})"
  by (auto simp: add_edge_def mk_edge_def)

lemma link_addon_fields [simp]:
  "b_nodes (link_addon f a b) = b_nodes b" "b_addon_id (link_addon f a b) = b_addon_id b"
  "b_workloads (link_addon f a b) = b_workloads b" "b_exists (link_addon f a b) = b_exists b"
  by (auto simp: link_addon_def split: option.splits)

lemma set_link_addon [simp]:
  "set (b_edges (link_addon f a b)) = set (b_edges b) \<union>
     {mk_edge f t EdgeDependsOn | t. b_addon_id b a = Some t \<and> b_exists b f \<and> b_exists b t}"
  by (auto simp: link_addon_def split: option.splits)

subsection \<open>Loops over the operations\<close>

lemma fold_add_node_fields [simp]:
  "b_edges (fold (\<lambda>x. add_node (f x)) xs b) = b_edges b"
  "b_addon_id (fold (\<lambda>x. add_node (f x)) xs b) = b_addon_id b"
  "b_workloads (fold (\<lambda>x. add_node (f x)) xs b) = b_workloads b"
  by (induction xs arbitrary: b) auto

lemma exists_fold_add_node [simp]:
  "b_exists (fold (\<lambda>x. add_node (f x)) xs b) i \<longleftrightarrow> b_exists b i \<or> i \<in> (\<lambda>x. c_id (f x)) ` set xs"
  by (induction xs arbitrary: b) auto

lemma fold_add_edge_fields [simp]:
  "b_nodes (fold (\<lambda>x. add_edge (f x) (t x) (ty x)) xs b) = b_nodes b"
  "b_addon_id (fold (\<lambda>x. add_edge (f x) (t x) (ty x)) xs b) = b_addon_id b"
  "b_workloads (fold (\<lambda>x. add_edge (f x) (t x) (ty x)) xs b) = b_workloads b"
  "b_exists (fold (\<lambda>x. add_edge (f x) (t x) (ty x)) xs b) = b_exists b"
  by (induction xs arbitrary: b) auto

lemma set_fold_add_edge [simp]:
  "set (b_edges (fold (\<lambda>x. add_edge (f x) (t x) (ty x)) xs b)) = set (b_edges b) \<union>
     {mk_edge (f x) (t x) (ty x) | x. x \<in> set xs \<and> b_exists b (f x) \<and> b_exists b (t x)}"
  by (induction xs arbitrary: b) (auto simp: add_edge_fields)

lemma fold_add_edge_if_fields [simp]:
  "b_nodes (fold (\<lambda>x b. if P x then add_edge f (t x) ty b else b) xs b) = b_nodes b"
  "b_addon_id (fold (\<lambda>x b. if P x then add_edge f (t x) ty b else b) xs b) = b_addon_id b"
  "b_workloads (fold (\<lambda>x b. if P x then add_edge f (t x) ty b else b) xs b) = b_workloads b"
  "b_exists (fold (\<lambda>x b. if P x then add_edge f (t x) ty b else b) xs b) = b_exists b"
  by (induction xs arbitrary: b) auto

lemma set_fold_add_edge_if [simp]:
  "set (b_edges (fold (\<lambda>x b. if P x then add_edge f (t x) ty b else b) xs b)) = set (b_edges b) \<union>
     {mk_edge f (t x) ty | x. x \<in> set xs \<and> P x \<and> b_exists b f \<and> b_exists b (t x)}"
  by (induction xs arbitrary: b) (auto simp: add_edge_fields)

section \<open>Unique ids, no dangling edges\<close>

definition builder_ok :: "builder \<Rightarrow> bool" where
  "builder_ok b \<longleftrightarrow> distinct (map c_id (b_nodes b)) \<and>
     (\<forall>i. b_exists b i \<longleftrightarrow> i \<in> c_id ` set (b_nodes b)) \<and>
     (\<forall>e\<in>set (b_edges b). b_exists b (e_from e) \<and> b_exists b (e_to e))"

named_theorems builder_inv \<open>operations that keep \<open>builder_ok\<close>\<close>

lemma new_builder_ok [builder_inv]: "builder_ok new_builder"
  by (simp add: builder_ok_def new_builder_def)

lemma add_node_ok [builder_inv]: "builder_ok b \<Longrightarrow> builder_ok (add_node c b)"
  by (auto simp: builder_ok_def add_node_def)

lemma add_edge_ok [builder_inv]: "builder_ok b \<Longrightarrow> builder_ok (add_edge f t ty b)"
  by (auto simp: builder_ok_def)

lemma builder_ok_frame [simp]:
  "builder_ok (b\<lparr>b_addon_id := m\<rparr>) = builder_ok b" "builder_ok (b\<lparr>b_workloads := ws\<rparr>) = builder_ok b"
  by (simp_all add: builder_ok_def)

lemma link_addon_ok [builder_inv]: "builder_ok b \<Longrightarrow> builder_ok (link_addon f a b)"
  by (auto simp: link_addon_def builder_inv split: option.splits)

lemma link_workload_ok [builder_inv]: "builder_ok b \<Longrightarrow> builder_ok (link_workload w b)"
  unfolding link_workload_def Let_def by (auto intro!: builder_inv fold_inv[where P = builder_ok])

lemma build_all_ok: "builder_ok (build_all snap)"
  unfolding build_all_def build_nodes_def add_addons_def add_infra_def add_workloads_def
    add_bare_pods_def add_network_def add_storage_def link_ingresses_def link_services_def
    link_workloads_def Let_def
  by (intro builder_inv fold_inv[where P = builder_ok])
    (auto intro!: builder_inv fold_inv[where P = builder_ok])


section \<open>Passes that only add edges\<close>

text \<open>
  The contract of one iteration of an edge pass: it leaves everything but the edges alone, and
  the edges it adds are a function of what the node passes built. The whole pass then adds the
  union of them.
\<close>

locale edge_pass =
  fixes step :: "'x \<Rightarrow> builder \<Rightarrow> builder"
    and req :: "'x \<Rightarrow> (string \<Rightarrow> bool) \<Rightarrow> (string \<rightharpoonup> string) \<Rightarrow> workload_info list \<Rightarrow> edge set"
  assumes step_nodes: "b_nodes (step x b) = b_nodes b"
    and step_exists: "b_exists (step x b) = b_exists b"
    and step_addons: "b_addon_id (step x b) = b_addon_id b"
    and step_workloads: "b_workloads (step x b) = b_workloads b"
    and step_edges: "set (b_edges (step x b)) =
          set (b_edges b) \<union> req x (b_exists b) (b_addon_id b) (b_workloads b)"
begin

lemma pass_fields:
  "b_nodes (fold step xs b) = b_nodes b" "b_exists (fold step xs b) = b_exists b"
  "b_addon_id (fold step xs b) = b_addon_id b" "b_workloads (fold step xs b) = b_workloads b"
  by (induction xs arbitrary: b)
    (simp_all add: step_nodes step_exists step_addons step_workloads)

lemma pass_edges:
  "set (b_edges (fold step xs b)) =
     set (b_edges b) \<union> (\<Union>x\<in>set xs. req x (b_exists b) (b_addon_id b) (b_workloads b))"
  by (induction xs arbitrary: b)
    (auto simp: step_edges step_exists step_addons step_workloads)

end

abbreviation ingress_id :: "ingress_ref \<Rightarrow> string" where
  "ingress_id i \<equiv> comp_id ''Ingress'' (ing_namespace i) (ing_name i)"

abbreviation service_id :: "string \<Rightarrow> string \<Rightarrow> string" where
  "service_id ns n \<equiv> comp_id ''Service'' ns n"

definition ingress_step :: "ingress_ref \<Rightarrow> builder \<Rightarrow> builder" where
  "ingress_step ing b =
     (let b1 = fold (\<lambda>svc. add_edge (ingress_id ing) (service_id (ing_namespace ing) svc) EdgeRoutesTo)
                (ing_services ing) b
      in if ing_has_tls ing then link_addon (ingress_id ing) ''cert-manager'' b1 else b1)"

definition ingress_req where
  "ingress_req ing ex ad ws =
     {mk_edge (ingress_id ing) (service_id (ing_namespace ing) svc) EdgeRoutesTo | svc.
        svc \<in> set (ing_services ing) \<and> ex (ingress_id ing) \<and> ex (service_id (ing_namespace ing) svc)}
     \<union> {mk_edge (ingress_id ing) t EdgeDependsOn | t.
        ing_has_tls ing \<and> ad ''cert-manager'' = Some t \<and> ex (ingress_id ing) \<and> ex t}"

interpretation ingress: edge_pass ingress_step ingress_req
  by unfold_locales (auto simp: ingress_step_def ingress_req_def Let_def)

lemma link_ingresses_fold: "link_ingresses snap = fold ingress_step (s_ingresses snap)"
  unfolding link_ingresses_def ingress_step_def Let_def by simp

definition service_step :: "service_ref \<Rightarrow> builder \<Rightarrow> builder" where
  "service_step s b =
     (if svc_selector s = [] then b
      else fold (\<lambda>w b. if wi_namespace w = svc_namespace s \<and> labels_match (svc_selector s) (wi_labels w)
                       then add_edge (service_id (svc_namespace s) (svc_name s)) (wi_id w) EdgeSelects b
                       else b) (b_workloads b) b)"

definition service_req :: "service_ref \<Rightarrow> (string \<Rightarrow> bool) \<Rightarrow> (string \<rightharpoonup> string) \<Rightarrow> workload_info list \<Rightarrow> edge set" where
  "service_req s ex ad ws =
     {mk_edge (service_id (svc_namespace s) (svc_name s)) (wi_id w) EdgeSelects | w.
        w \<in> set ws \<and> svc_selector s \<noteq> [] \<and> wi_namespace w = svc_namespace s \<and>
        labels_match (svc_selector s) (wi_labels w) \<and>
        ex (service_id (svc_namespace s) (svc_name s)) \<and> ex (wi_id w)}"

interpretation service: edge_pass service_step service_req
  by unfold_locales (auto simp: service_step_def service_req_def)

lemma link_services_fold: "link_services snap = fold service_step (s_services snap)"
  unfolding link_services_def service_step_def Let_def by simp

section \<open>The node passes\<close>

lemma add_addons_fields [simp]:
  "b_edges (add_addons snap b) = b_edges b" "b_workloads (add_addons snap b) = b_workloads b"
  "b_exists (add_addons snap b) i \<longleftrightarrow>
     b_exists b i \<or> i \<in> (\<lambda>a. AddonID (ad_name a)) ` set (s_detected_addons snap)"
  "b_addon_id (add_addons snap b) n =
     (if n \<in> ad_name ` set (s_detected_addons snap) then Some (AddonID n) else b_addon_id b n)"
proof -
  let ?f = "\<lambda>a b. add_node (addon_component a)
      (b\<lparr>b_addon_id := (b_addon_id b)(ad_name a \<mapsto> comp_id ''Addon'' [] (ad_name a))\<rparr>)"
  have "b_edges (fold ?f as b) = b_edges b \<and> b_workloads (fold ?f as b) = b_workloads b \<and>
    b_exists (fold ?f as b) i = (b_exists b i \<or> i \<in> (\<lambda>a. AddonID (ad_name a)) ` set as) \<and>
    b_addon_id (fold ?f as b) n =
      (if n \<in> ad_name ` set as then Some (AddonID n) else b_addon_id b n)" for as
    by (induction as arbitrary: b) (auto simp: addon_component_def AddonID_def)
  then show "b_edges (add_addons snap b) = b_edges b" "b_workloads (add_addons snap b) = b_workloads b"
    "b_exists (add_addons snap b) i \<longleftrightarrow>
     b_exists b i \<or> i \<in> (\<lambda>a. AddonID (ad_name a)) ` set (s_detected_addons snap)"
    "b_addon_id (add_addons snap b) n =
     (if n \<in> ad_name ` set (s_detected_addons snap) then Some (AddonID n) else b_addon_id b n)"
    by (simp_all add: add_addons_def Let_def)
qed

lemma add_workloads_fields [simp]:
  "b_edges (add_workloads snap b) = b_edges b" "b_addon_id (add_workloads snap b) = b_addon_id b"
  "b_workloads (add_workloads snap b) = b_workloads b @ map workload_info_of (s_workloads snap)"
  "b_exists (add_workloads snap b) i \<longleftrightarrow>
     b_exists b i \<or> i \<in> (\<lambda>w. c_id (workload_component w)) ` set (s_workloads snap)"
proof -
  let ?f = "\<lambda>w b. (add_node (workload_component w) b)
    \<lparr>b_workloads := b_workloads (add_node (workload_component w) b) @ [workload_info_of w]\<rparr>"
  have "b_edges (fold ?f ws b) = b_edges b \<and> b_addon_id (fold ?f ws b) = b_addon_id b \<and>
    b_workloads (fold ?f ws b) = b_workloads b @ map workload_info_of ws \<and>
    b_exists (fold ?f ws b) i = (b_exists b i \<or> i \<in> (\<lambda>w. c_id (workload_component w)) ` set ws)" for ws
    by (induction ws arbitrary: b) auto
  then show "b_edges (add_workloads snap b) = b_edges b"
    "b_addon_id (add_workloads snap b) = b_addon_id b"
    "b_workloads (add_workloads snap b) = b_workloads b @ map workload_info_of (s_workloads snap)"
    "b_exists (add_workloads snap b) i \<longleftrightarrow>
     b_exists b i \<or> i \<in> (\<lambda>w. c_id (workload_component w)) ` set (s_workloads snap)"
    by (simp_all add: add_workloads_def Let_def)
qed

definition inventory_ids :: "cluster_snapshot \<Rightarrow> string set" where
  "inventory_ids snap =
     c_id ` (addon_component ` set (s_detected_addons snap) \<union> node_component ` set (s_node_workloads snap)
       \<union> workload_component ` set (s_workloads snap) \<union> bare_pod_component ` set (s_bare_pods snap)
       \<union> service_component ` set (s_services snap) \<union> ingress_component ` set (s_ingresses snap)
       \<union> pvc_component ` set (s_pvcs snap))"

lemma build_nodes_fields [simp]:
  "b_edges (build_nodes snap) = []"
  "b_workloads (build_nodes snap) = map workload_info_of (s_workloads snap)"
  "b_addon_id (build_nodes snap) n =
     (if n \<in> ad_name ` set (s_detected_addons snap) then Some (AddonID n) else None)"
  "b_exists (build_nodes snap) i \<longleftrightarrow> i \<in> inventory_ids snap"
  by (auto simp: build_nodes_def Let_def add_infra_def add_bare_pods_def add_network_def
      add_storage_def new_builder_def inventory_ids_def image_Un image_image
      addon_component_def AddonID_def)


section \<open>Layers\<close>

text \<open>The kind of a component is the text of its id before the first slash.\<close>

definition kind_of :: "string \<Rightarrow> string" where
  "kind_of i = before_byte CHR ''/'' i"

lemma kind_of_comp_id [simp]: "CHR ''/'' \<notin> set k \<Longrightarrow> kind_of (comp_id k ns n) = k"
proof -
  assume "CHR ''/'' \<notin> set k"
  then have "\<forall>x\<in>set k. x \<noteq> CHR ''/''" by metis
  then show ?thesis
    by (simp add: kind_of_def before_byte_def comp_id_def takeWhile_append2)
qed

definition workload_kinds :: "string list" where
  "workload_kinds = [''Deployment'', ''StatefulSet'', ''DaemonSet'', ''Job'', ''CronJob'']"

definition config_kinds :: "string list" where
  "config_kinds = [''ConfigMap'', ''Secret'']"

definition snap_kinds :: "cluster_snapshot \<Rightarrow> bool" where
  "snap_kinds snap = list_all (\<lambda>w. w_kind w \<in> set workload_kinds \<and>
     list_all (\<lambda>r. cr_kind r \<in> set config_kinds) (w_config_refs w)) (s_workloads snap)"

definition layer :: "string \<Rightarrow> nat" where
  "layer i = (if kind_of i = ''Ingress'' then 3 else if kind_of i = ''Service'' then 2
     else if kind_of i \<in> set workload_kinds then 1 else 0)"

lemmas kind_defs = workload_kinds_def config_kinds_def

lemma kind_of_workload:
  "k \<in> set workload_kinds \<Longrightarrow> kind_of (comp_id k ns n) = k"
  by (rule kind_of_comp_id) (auto simp: kind_defs)

lemma kind_of_config: "k \<in> set config_kinds \<Longrightarrow> kind_of (comp_id k ns n) = k"
  by (rule kind_of_comp_id) (auto simp: kind_defs)

lemma kind_of_AddonID [simp]: "kind_of (AddonID n) = ''Addon''"
  by (simp add: AddonID_def)

section \<open>The dependencies of a snapshot\<close>

text \<open>The specification: which component depends on which, read off the inventory.\<close>

abbreviation wid :: "workload \<Rightarrow> string" where
  "wid w \<equiv> comp_id (w_kind w) (w_namespace w) (w_name w)"

text \<open>
  What a selector selects: a workload that carries every pair of it. A pair with an empty value is also
  met by a workload that has no such label, as the Go map reads it; Kubernetes and the comment of \<open>labelsMatch\<close>
  require the label to be there.
\<close>

definition selected :: "strmap \<Rightarrow> strmap \<Rightarrow> bool" where
  "selected selector labels \<longleftrightarrow>
     (\<forall>(k, v) \<in> set selector. map_of labels k = Some v \<or> v = [] \<and> map_of labels k = None)"

lemma labels_match_selected: "labels_match selector labels \<longleftrightarrow> selected selector labels"
proof -
  have "lget labels k = v \<longleftrightarrow> map_of labels k = Some v \<or> v = [] \<and> map_of labels k = None" for k v
    by (auto simp: lget_def zget_def split: option.split)
  then show ?thesis by (simp add: labels_match_def selected_def list_all_iff)
qed

lemma selected_plain:
  "(\<And>k v. (k, v) \<in> set selector \<Longrightarrow> v \<noteq> []) \<Longrightarrow>
     selected selector labels \<longleftrightarrow> (\<forall>(k, v) \<in> set selector. map_of labels k = Some v)"
  by (force simp: selected_def)

inductive depends_on :: "cluster_snapshot \<Rightarrow> string \<Rightarrow> string \<Rightarrow> string \<Rightarrow> bool"
  for snap :: cluster_snapshot where
  routes: "ing \<in> set (s_ingresses snap) \<Longrightarrow> svc \<in> set (ing_services ing) \<Longrightarrow>
     depends_on snap (ingress_id ing) (service_id (ing_namespace ing) svc) EdgeRoutesTo"
| tls: "ing \<in> set (s_ingresses snap) \<Longrightarrow> ing_has_tls ing \<Longrightarrow>
     ''cert-manager'' \<in> ad_name ` set (s_detected_addons snap) \<Longrightarrow>
     depends_on snap (ingress_id ing) (AddonID ''cert-manager'') EdgeDependsOn"
| selects: "s \<in> set (s_services snap) \<Longrightarrow> w \<in> set (s_workloads snap) \<Longrightarrow>
     svc_selector s \<noteq> [] \<Longrightarrow> w_namespace w = svc_namespace s \<Longrightarrow>
     selected (svc_selector s) (w_pod_labels w) \<Longrightarrow>
     depends_on snap (service_id (svc_namespace s) (svc_name s)) (wid w) EdgeSelects"
| config: "w \<in> set (s_workloads snap) \<Longrightarrow> r \<in> set (w_config_refs w) \<Longrightarrow>
     depends_on snap (wid w) (comp_id (cr_kind r) (w_namespace w) (cr_name r)) EdgeUsesConfig"
| storage: "w \<in> set (s_workloads snap) \<Longrightarrow> claim \<in> set (w_pvcs w) \<Longrightarrow>
     depends_on snap (wid w) (comp_id ''PVC'' (w_namespace w) claim) EdgeUsesStorage"
| runs: "w \<in> set (s_workloads snap) \<Longrightarrow> n \<in> set (w_nodes w) \<Longrightarrow>
     depends_on snap (wid w) (comp_id ''Node'' [] n) EdgeRunsOn"
| istio: "w \<in> set (s_workloads snap) \<Longrightarrow> w_istio w \<Longrightarrow>
     ''istio'' \<in> ad_name ` set (s_detected_addons snap) \<Longrightarrow>
     depends_on snap (wid w) (AddonID ''istio'') EdgeDependsOn"

lemma layer_ids [simp]:
  "k \<in> set workload_kinds \<Longrightarrow> layer (comp_id k ns n) = 1"
  "k \<in> set config_kinds \<Longrightarrow> layer (comp_id k ns n) = 0"
  "layer (comp_id ''Ingress'' ns n) = 3" "layer (comp_id ''Service'' ns n) = 2"
  "layer (comp_id ''PVC'' ns n) = 0" "layer (comp_id ''Node'' ns n) = 0"
  "layer (AddonID n) = 0"
  by (auto simp: layer_def kind_of_workload kind_of_config kind_defs)

lemma snap_kindsD:
  assumes "snap_kinds snap" "w \<in> set (s_workloads snap)"
  shows "w_kind w \<in> set workload_kinds"
    and "r \<in> set (w_config_refs w) \<Longrightarrow> cr_kind r \<in> set config_kinds"
  using assms by (auto simp: snap_kinds_def list_all_iff)

text \<open>Every dependency goes down at least one layer.\<close>

lemma depends_on_layer:
  assumes "snap_kinds snap" and "depends_on snap f t ty"
  shows "layer t < layer f"
  using assms(2)
  by (induction rule: depends_on.induct) (simp_all add: snap_kindsD[OF assms(1)])

section \<open>Linking the workloads\<close>

definition config_ids :: "workload_info \<Rightarrow> string set" where
  "config_ids w = (\<lambda>r. comp_id (cr_kind r) (wi_namespace w) (cr_name r)) ` set (wi_refs w)"

lemma link_configs [simp]:
  fixes w and b :: builder
  defines "F \<equiv> fold (\<lambda>r b. add_edge (wi_id w) (comp_id (cr_kind r) (wi_namespace w) (cr_name r))
                  EdgeUsesConfig (add_node (config_component (wi_namespace w) r) b))"
  shows "b_addon_id (F rs b) = b_addon_id b" "b_workloads (F rs b) = b_workloads b"
    "b_exists (F rs b) i \<longleftrightarrow>
       b_exists b i \<or> i \<in> (\<lambda>r. comp_id (cr_kind r) (wi_namespace w) (cr_name r)) ` set rs"
    "b_exists b (wi_id w) \<Longrightarrow> set (b_edges (F rs b)) = set (b_edges b) \<union>
       {mk_edge (wi_id w) (comp_id (cr_kind r) (wi_namespace w) (cr_name r)) EdgeUsesConfig | r. r \<in> set rs}"
  unfolding F_def by (induction rs arbitrary: b) (auto simp: config_component_def)

lemma link_workload_fields [simp]:
  "b_addon_id (link_workload w b) = b_addon_id b" "b_workloads (link_workload w b) = b_workloads b"
  "b_exists (link_workload w b) i \<longleftrightarrow> b_exists b i \<or> i \<in> config_ids w"
  by (simp_all add: link_workload_def Let_def config_ids_def)

text \<open>The edges one workload asks for; \<open>ex\<close> says which ids the node passes mirrored.\<close>

definition workload_req :: "workload_info \<Rightarrow> (string \<Rightarrow> bool) \<Rightarrow> (string \<rightharpoonup> string) \<Rightarrow> edge set" where
  "workload_req w ex ad =
     {mk_edge (wi_id w) (comp_id (cr_kind r) (wi_namespace w) (cr_name r)) EdgeUsesConfig | r. r \<in> set (wi_refs w)}
     \<union> {mk_edge (wi_id w) (comp_id ''PVC'' (wi_namespace w) c) EdgeUsesStorage | c.
          c \<in> set (wi_pvcs w) \<and> ex (comp_id ''PVC'' (wi_namespace w) c)}
     \<union> {mk_edge (wi_id w) (comp_id ''Node'' [] n) EdgeRunsOn | n.
          n \<in> set (wi_nodes w) \<and> ex (comp_id ''Node'' [] n)}
     \<union> {mk_edge (wi_id w) t EdgeDependsOn | t. wi_istio w \<and> ad ''istio'' = Some t \<and> ex t}"

lemma link_workload_edges:
  assumes "b_exists b (wi_id w)"
  shows "set (b_edges (link_workload w b)) =
    set (b_edges b) \<union> workload_req w (\<lambda>i. b_exists b i \<or> i \<in> config_ids w) (b_addon_id b)"
  using assms by (auto simp: link_workload_def Let_def workload_req_def config_ids_def)

definition info_kinds :: "workload_info \<Rightarrow> bool" where
  "info_kinds w \<longleftrightarrow> kind_of (wi_id w) \<in> set workload_kinds \<and> (\<forall>r\<in>set (wi_refs w). cr_kind r \<in> set config_kinds)"

lemma config_ids_kind: "info_kinds w \<Longrightarrow> i \<in> config_ids w \<Longrightarrow> kind_of i \<in> set config_kinds"
  by (auto simp: info_kinds_def config_ids_def kind_of_config)

text \<open>Ids that are not config ids exist before the link passes or never.\<close>

lemma link_workloads_edges:
  assumes "\<forall>w\<in>set ws. b_exists b (wi_id w) \<and> info_kinds w"
    and "\<forall>n t. b_addon_id b n = Some t \<longrightarrow> kind_of t = ''Addon''"
  shows "set (b_edges (fold link_workload ws b)) =
           set (b_edges b) \<union> (\<Union>w\<in>set ws. workload_req w (b_exists b) (b_addon_id b)) \<and>
         (\<forall>i. b_exists (fold link_workload ws b) i \<longleftrightarrow> b_exists b i \<or> i \<in> \<Union> (config_ids ` set ws))"
  using assms
proof (induction ws arbitrary: b)
  case (Cons w ws)
  let ?b = "link_workload w b"
  have nc: "i \<notin> config_ids w" if "kind_of i \<in> {''PVC'', ''Node'', ''Addon''}" for i
    using Cons.prems(1) config_ids_kind[of w i] that by (auto simp: kind_defs)
  have req: "workload_req v (\<lambda>i. b_exists b i \<or> i \<in> config_ids w) (b_addon_id b) =
      workload_req v (b_exists b) (b_addon_id b)" for v
    using nc Cons.prems(2) by (auto simp: workload_req_def)
  have "set (b_edges ?b) = set (b_edges b) \<union> workload_req w (b_exists b) (b_addon_id b)"
    using Cons.prems by (simp add: link_workload_edges req)
  moreover have "b_exists ?b = (\<lambda>i. b_exists b i \<or> i \<in> config_ids w)" by (simp add: fun_eq_iff)
  ultimately show ?case using Cons.IH[of ?b] Cons.prems by (auto simp: req)
qed simp

section \<open>The graph of a snapshot\<close>

abbreviation node_ids :: "graph \<Rightarrow> string set" where
  "node_ids g \<equiv> c_id ` set (g_nodes g)"

text \<open>The components a snapshot names, in the order of the node passes, configs last.\<close>

definition inventory :: "cluster_snapshot \<Rightarrow> component list" where
  "inventory snap =
     map addon_component (s_detected_addons snap) @ map node_component (s_node_workloads snap) @
     map workload_component (s_workloads snap) @ map bare_pod_component (s_bare_pods snap) @
     map service_component (s_services snap) @ map ingress_component (s_ingresses snap) @
     map pvc_component (s_pvcs snap)"

definition configs :: "cluster_snapshot \<Rightarrow> component list" where
  "configs snap = concat (map (\<lambda>w. map (config_component (w_namespace w)) (w_config_refs w)) (s_workloads snap))"

text \<open>The first component of every id.\<close>

fun first_by :: "('a \<Rightarrow> 'b) \<Rightarrow> 'a list \<Rightarrow> 'a list" where
  "first_by f [] = []"
| "first_by f (x # xs) = x # filter (\<lambda>y. f y \<noteq> f x) (first_by f xs)"

lemma first_by_image [simp]: "f ` set (first_by f xs) = f ` set xs"
proof (induction xs)
  case (Cons x xs)
  have "f ` {y \<in> set (first_by f xs). f y \<noteq> f x} = f ` set (first_by f xs) - {f x}" by auto
  with Cons show ?case by auto
qed simp

lemma first_by_snoc:
  "first_by f (xs @ [y]) = first_by f xs @ (if f y \<in> f ` set xs then [] else [y])"
  by (induction xs) auto

definition mirrors :: "component list \<Rightarrow> builder \<Rightarrow> bool" where
  "mirrors cs b \<longleftrightarrow> b_nodes b = first_by c_id cs \<and> (\<forall>i. b_exists b i \<longleftrightarrow> i \<in> c_id ` set cs)"

lemma mirrors_add_node: "mirrors cs b \<Longrightarrow> mirrors (cs @ [c]) (add_node c b)"
  by (auto simp: mirrors_def add_node_def first_by_snoc)

lemma mirrors_fold_gen:
  assumes "mirrors cs b" "\<And>x cs b. mirrors cs b \<Longrightarrow> mirrors (cs @ g x) (f x b)"
  shows "mirrors (cs @ concat (map g xs)) (fold f xs b)"
  using assms(1)
proof (induction xs arbitrary: cs b)
  case (Cons x xs)
  from Cons.IH[OF assms(2)[OF Cons.prems]] show ?case by simp
qed simp

lemma mirrors_fold:
  assumes "mirrors cs b" "\<And>x cs b. mirrors cs b \<Longrightarrow> mirrors (cs @ [g x]) (f x b)"
  shows "mirrors (cs @ map g xs) (fold f xs b)"
  using mirrors_fold_gen[of cs b "\<lambda>x. [g x]" f xs] assms by simp

lemma mirrors_field [simp]:
  "mirrors cs (b\<lparr>b_addon_id := m\<rparr>) = mirrors cs b"
  "mirrors cs (b\<lparr>b_workloads := ws\<rparr>) = mirrors cs b"
  "mirrors cs (add_edge f t ty b) = mirrors cs b" "mirrors cs (link_addon f t b) = mirrors cs b"
  by (simp_all add: mirrors_def)

lemma mirrors_passes:
  assumes "mirrors cs b"
  shows "mirrors (cs @ map addon_component (s_detected_addons snap)) (add_addons snap b)"
    "mirrors (cs @ map node_component (s_node_workloads snap)) (add_infra snap b)"
    "mirrors (cs @ map workload_component (s_workloads snap)) (add_workloads snap b)"
    "mirrors (cs @ map bare_pod_component (s_bare_pods snap)) (add_bare_pods snap b)"
    "mirrors (cs @ map pvc_component (s_pvcs snap)) (add_storage snap b)"
  unfolding add_addons_def add_infra_def add_workloads_def add_bare_pods_def add_storage_def Let_def
  by (rule mirrors_fold[OF assms]; simp add: mirrors_add_node)+

lemma mirrors_network:
  "mirrors cs b \<Longrightarrow> mirrors (cs @ map service_component (s_services snap) @
     map ingress_component (s_ingresses snap)) (add_network snap b)"
  unfolding add_network_def append_assoc[symmetric]
  by (intro mirrors_fold mirrors_add_node)

lemma mirrors_build_nodes: "mirrors (inventory snap) (build_nodes snap)"
proof -
  have "mirrors [] new_builder" by (simp add: mirrors_def new_builder_def)
  note m = mirrors_passes(5)[OF mirrors_network[OF mirrors_passes(4)[OF mirrors_passes(3)[OF
      mirrors_passes(2)[OF mirrors_passes(1)[OF this]]]]]]
  from m show ?thesis by (simp add: inventory_def build_nodes_def Let_def)
qed

lemma mirrors_link_workload:
  assumes "mirrors cs b"
  shows "mirrors (cs @ map (config_component (wi_namespace w)) (wi_refs w)) (link_workload w b)"
proof -
  let ?f = "\<lambda>r b. add_edge (wi_id w) (comp_id (cr_kind r) (wi_namespace w) (cr_name r))
                  EdgeUsesConfig (add_node (config_component (wi_namespace w) r) b)"
  have "mirrors (cs @ map (config_component (wi_namespace w)) (wi_refs w)) (fold ?f (wi_refs w) b)"
    by (rule mirrors_fold[OF assms]) (simp add: mirrors_add_node)
  then show ?thesis by (simp add: link_workload_def Let_def mirrors_def)
qed

lemma mirrors_build_all: "mirrors (inventory snap @ configs snap) (build_all snap)"
proof -
  let ?b = "link_services snap (link_ingresses snap (build_nodes snap))"
  have fields: "b_nodes ?b = b_nodes (build_nodes snap)" "b_exists ?b = b_exists (build_nodes snap)"
    "b_workloads ?b = map workload_info_of (s_workloads snap)"
    by (simp_all add: link_services_fold link_ingresses_fold ingress.pass_fields service.pass_fields)
  have "mirrors (inventory snap) ?b"
    using mirrors_build_nodes by (simp add: mirrors_def fields)
  from mirrors_fold_gen[OF this, of "\<lambda>w. map (config_component (wi_namespace w)) (wi_refs w)"
      link_workload "b_workloads ?b"]
  have "mirrors (inventory snap @ concat (map (\<lambda>w. map (config_component (wi_namespace w)) (wi_refs w))
      (b_workloads ?b))) (build_all snap)"
    by (simp add: mirrors_link_workload build_all_def link_workloads_def)
  then show ?thesis
    by (simp add: fields configs_def comp_def workload_info_of_def)
qed

lemma graph_nodes: "g_nodes (BuildFromSnapshot snap) = first_by c_id (inventory snap @ configs snap)"
  using mirrors_build_all by (simp add: BuildFromSnapshot_def Let_def mirrors_def)

lemma graph_ids: "node_ids (BuildFromSnapshot snap) = c_id ` set (inventory snap @ configs snap)"
  by (simp only: graph_nodes first_by_image)

lemma inventory_ids_eq: "c_id ` set (inventory snap) = inventory_ids snap"
  by (auto simp: inventory_def inventory_ids_def image_Un)

subsection \<open>Edges\<close>

lemma workload_info_sel [simp]:
  "wi_id (workload_info_of w) = wid w" "wi_namespace (workload_info_of w) = w_namespace w"
  "wi_labels (workload_info_of w) = w_pod_labels w" "wi_refs (workload_info_of w) = w_config_refs w"
  "wi_pvcs (workload_info_of w) = w_pvcs w" "wi_nodes (workload_info_of w) = w_nodes w"
  "wi_istio (workload_info_of w) = w_istio w"
  by (simp_all add: workload_info_of_def)

lemma wid_mirrored: "w \<in> set (s_workloads snap) \<Longrightarrow> wid w \<in> inventory_ids snap"
  by (auto simp: inventory_ids_def workload_component_def image_Un image_image)

lemma ingress_mirrored: "i \<in> set (s_ingresses snap) \<Longrightarrow> ingress_id i \<in> inventory_ids snap"
  by (auto simp: inventory_ids_def ingress_component_def image_Un image_image)

lemma service_mirrored:
  "s \<in> set (s_services snap) \<Longrightarrow> service_id (svc_namespace s) (svc_name s) \<in> inventory_ids snap"
  by (auto simp: inventory_ids_def service_component_def image_Un image_image)

lemma addon_mirrored:
  "n \<in> ad_name ` set (s_detected_addons snap) \<Longrightarrow> AddonID n \<in> inventory_ids snap"
  by (auto simp: inventory_ids_def addon_component_def AddonID_def image_Un image_image)

lemmas mirrored = wid_mirrored ingress_mirrored service_mirrored addon_mirrored

definition snapshot_edges :: "cluster_snapshot \<Rightarrow> edge set" where
  "snapshot_edges snap =
     (let ex = (\<lambda>i. i \<in> inventory_ids snap); ad = b_addon_id (build_nodes snap);
          ws = map workload_info_of (s_workloads snap)
      in (\<Union>i\<in>set (s_ingresses snap). ingress_req i ex ad ws) \<union>
         (\<Union>s\<in>set (s_services snap). service_req s ex ad ws) \<union>
         (\<Union>w\<in>set ws. workload_req w ex ad))"

lemma info_kinds_of: "snap_kinds snap \<Longrightarrow> w \<in> set (s_workloads snap) \<Longrightarrow> info_kinds (workload_info_of w)"
  by (simp add: info_kinds_def snap_kindsD kind_of_workload)

lemma graph_edges:
  assumes "snap_kinds snap"
  shows "set (g_edges (BuildFromSnapshot snap)) = snapshot_edges snap"
proof -
  let ?b = "link_services snap (link_ingresses snap (build_nodes snap))"
  have fields: "b_exists ?b = (\<lambda>i. i \<in> inventory_ids snap)" "b_addon_id ?b = b_addon_id (build_nodes snap)"
    "b_workloads ?b = map workload_info_of (s_workloads snap)"
    by (auto simp: link_services_fold link_ingresses_fold ingress.pass_fields service.pass_fields)
  have "set (g_edges (BuildFromSnapshot snap)) = set (b_edges ?b) \<union>
      (\<Union>w\<in>set (b_workloads ?b). workload_req w (b_exists ?b) (b_addon_id ?b))"
    unfolding BuildFromSnapshot_def build_all_def link_workloads_def Let_def graph.select_convs
    by (rule link_workloads_edges[THEN conjunct1])
      (auto simp: fields mirrored info_kinds_of[OF assms] split: if_splits)
  moreover have ex: "b_exists (build_nodes snap) = (\<lambda>i. i \<in> inventory_ids snap)" by auto
  then have "set (b_edges ?b) = (\<Union>i\<in>set (s_ingresses snap). ingress_req i (b_exists ?b) (b_addon_id ?b) (b_workloads ?b))
      \<union> (\<Union>s\<in>set (s_services snap). service_req s (b_exists ?b) (b_addon_id ?b) (b_workloads ?b))"
    by (simp add: fields link_services_fold link_ingresses_fold ingress.pass_edges service.pass_edges
        ingress.pass_fields service.pass_fields ex)
  ultimately show ?thesis
    by (simp add: snapshot_edges_def Let_def fields)
qed

lemma node_ids_not_config:
  assumes "snap_kinds snap" "kind_of i \<notin> set config_kinds"
  shows "i \<in> node_ids (BuildFromSnapshot snap) \<longleftrightarrow> i \<in> inventory_ids snap"
  using assms
  by (auto simp: graph_ids image_Un inventory_ids_eq configs_def config_component_def
      dest!: snap_kindsD(2) simp: kind_of_config)

lemma config_mirrored:
  "w \<in> set (s_workloads snap) \<Longrightarrow> r \<in> set (w_config_refs w) \<Longrightarrow>
     comp_id (cr_kind r) (w_namespace w) (cr_name r) \<in> c_id ` set (configs snap)"
  by (auto simp: image_iff configs_def config_component_def)

lemma selects_same_namespace:
  assumes "s \<in> set (s_services snap)" "w \<in> set (s_workloads snap)" "svc_selector s \<noteq> []"
    "w_namespace w = svc_namespace s" "selected (svc_selector s) (w_pod_labels w)"
  shows "depends_on snap (service_id (svc_namespace s) (svc_name s))
           (comp_id (w_kind w) (svc_namespace s) (w_name w)) EdgeSelects"
  using depends_on.selects[OF assms] assms(4) by simp

lemma depends_on_mirrored:
  assumes "snap_kinds snap" "depends_on snap f t ty" "t \<in> node_ids (BuildFromSnapshot snap)"
  shows "mk_edge f t ty \<in> snapshot_edges snap"
proof -
  have ids: "comp_id k ns n \<in> inventory_ids snap"
    if "comp_id k ns n \<in> node_ids (BuildFromSnapshot snap)" "k \<in> {''PVC'', ''Node'', ''Service''}" for k ns n
    using that node_ids_not_config[OF assms(1), of "comp_id k ns n"]
    by (elim insertE) (simp_all add: kind_defs)
  let ?ex = "\<lambda>i. i \<in> inventory_ids snap" and ?ad = "b_addon_id (build_nodes snap)"
  let ?ws = "map workload_info_of (s_workloads snap)"
  have I: "e \<in> snapshot_edges snap" if "e \<in> ingress_req i ?ex ?ad ?ws" "i \<in> set (s_ingresses snap)" for i e
    using that by (auto simp: snapshot_edges_def Let_def)
  have S: "e \<in> snapshot_edges snap" if "e \<in> service_req s ?ex ?ad ?ws" "s \<in> set (s_services snap)" for s e
    using that by (auto simp: snapshot_edges_def Let_def)
  have W: "e \<in> snapshot_edges snap"
    if "e \<in> workload_req (workload_info_of w) ?ex ?ad" "w \<in> set (s_workloads snap)" for w e
    using that by (auto simp: snapshot_edges_def Let_def)
  from assms(2,3) show ?thesis
  proof (induction rule: depends_on.induct)
    case (routes ing svc)
    then have "service_id (ing_namespace ing) svc \<in> inventory_ids snap" by (simp add: ids)
    with routes have "mk_edge (ingress_id ing) (service_id (ing_namespace ing) svc) EdgeRoutesTo
        \<in> ingress_req ing ?ex ?ad ?ws"
      unfolding ingress_req_def by (intro UnI1) (auto simp: mirrored)
    then show ?case by (rule I) (fact routes)
  next
    case (tls ing)
    then show ?case by (intro I[of _ ing]) (simp_all add: ingress_req_def mirrored)
  next
    case (selects s w)
    note wid = wid_mirrored[OF selects(2)]
    have "mk_edge (service_id (svc_namespace s) (svc_name s)) (wi_id (workload_info_of w)) EdgeSelects
        \<in> service_req s ?ex ?ad ?ws"
      unfolding service_req_def using selects wid
      by (intro CollectI exI[of _ "workload_info_of w"]) (simp add: mirrored labels_match_selected)
    with selects(1) show ?case by (intro S[of _ s]) simp_all
  next
    case (config w r)
    then show ?case by (intro W[of _ w]) (auto simp: workload_req_def)
  next
    case (storage w c)
    then have "comp_id ''PVC'' (w_namespace w) c \<in> inventory_ids snap" by (simp add: ids)
    with storage have "mk_edge (wid w) (comp_id ''PVC'' (w_namespace w) c) EdgeUsesStorage \<in> workload_req (workload_info_of w) ?ex ?ad"
      unfolding workload_req_def by auto
    then show ?case by (rule W) (fact storage)
  next
    case (runs w n)
    then have "comp_id ''Node'' [] n \<in> inventory_ids snap" by (simp add: ids)
    with runs have "mk_edge (wid w) (comp_id ''Node'' [] n) EdgeRunsOn \<in> workload_req (workload_info_of w) ?ex ?ad"
      unfolding workload_req_def by auto
    then show ?case by (rule W) (fact runs)
  next
    case (istio w)
    then show ?case by (intro W[of _ w]) (simp_all add: workload_req_def mirrored)
  qed
qed

lemma snapshot_edges_depends:
  "mk_edge f t ty \<in> snapshot_edges snap \<Longrightarrow>
     depends_on snap f t ty \<and> t \<in> node_ids (BuildFromSnapshot snap)"
  by (auto simp: snapshot_edges_def Let_def ingress_req_def service_req_def workload_req_def
      graph_ids image_Un inventory_ids_eq mirrored config_mirrored labels_match_selected
      split: if_splits intro: depends_on.intros selects_same_namespace)

lemma edge_iff_depends:
  assumes "snap_kinds snap"
  shows "mk_edge f t ty \<in> set (g_edges (BuildFromSnapshot snap)) \<longleftrightarrow>
    depends_on snap f t ty \<and> t \<in> node_ids (BuildFromSnapshot snap)"
  using depends_on_mirrored[OF assms] snapshot_edges_depends by (auto simp: graph_edges[OF assms])

end
