(* ===== verification/Go_Scale.thy ===== *)
theory Go_Scale
  imports Go_Float Prelude
begin

text \<open>
  Two facts on float64 arithmetic that the scores and risks rest on: an integer percentage scaled
  by a decimal fraction and truncated is the exact integer quotient, as long as the exact product
  is not itself an integer; and comparing a ratio of small integers with a decimal fraction is
  exact. Also the value \<open>%.0f\<close> prints.
\<close>

section \<open>Scaling and truncating\<close>

lemma f64_of_int_small: "\<bar>n\<bar> < 2 ^ 53 \<Longrightarrow> f64_of_int n = Fin (of_int n)"
proof -
  assume n: "\<bar>n\<bar> < 2 ^ 53"
  then have "\<bar>of_int n :: rat\<bar> < of_int (2 ^ 53)"
    by (metis of_int_abs of_int_less_iff)
  then have "\<bar>of_int n :: rat\<bar> \<le> 2 ^ 200" by simp
  then show ?thesis using rnd_int[OF n] by (simp add: f64_of_int_def fin_small)
qed

lemma rnd_scale:
  fixes c :: rat
  assumes v: "0 \<le> v" "v \<le> 100" and p: "0 < p" "p < 10"
    and c: "\<bar>c - of_int p / 10\<bar> \<le> 1 / 2 ^ 50"
    and exact: "p * v mod 10 = 0 \<Longrightarrow> rnd (of_int v * c) = of_int (p * v div 10)"
  shows "of_int (p * v div 10) \<le> rnd (of_int v * c) \<and> rnd (of_int v * c) < of_int (p * v div 10) + 1"
proof (cases "p * v mod 10 = 0")
  case False
  define k where "k = p * v div 10"
  define x where "x = of_int v * c"
  have "p * v \<le> 9 * v" using p v by (intro mult_right_mono) auto
  then have pv: "0 \<le> p * v" "p * v \<le> 900" using p v by auto
  have k: "10 * k + 1 \<le> p * v" "p * v \<le> 10 * k + 9" using False unfolding k_def by presburger+
  then have k90: "0 \<le> k" "k \<le> 90" using pv by auto
  have "x - of_int (p * v) / 10 = of_int v * (c - of_int p / 10)"
    by (simp add: x_def algebra_simps)
  then have "\<bar>x - of_int (p * v) / 10\<bar> = of_int v * \<bar>c - of_int p / 10\<bar>"
    using v by (simp add: abs_mult)
  also have "\<dots> \<le> 100 * (1 / 2 ^ 50)" using v by (intro mult_mono c) auto
  finally have x: "\<bar>x - of_int (p * v) / 10\<bar> \<le> 1 / 100" by simp
  define z where "z = (of_int (p * v) :: rat)"
  have "of_int (10 * k + 1) \<le> z" "z \<le> of_int (10 * k + 9)"
    using k by (simp_all only: of_int_le_iff z_def)
  then have "10 * of_int k + 1 \<le> z" "z \<le> 10 * of_int k + 9" by simp_all
  moreover have "x - z / 10 \<le> 1 / 100" "- (x - z / 10) \<le> 1 / 100"
    using abs_le_D1[OF x] abs_le_D2[OF x] by (simp_all only: z_def)
  ultimately have "of_int k \<le> x" "x * 16 \<le> 16 * of_int k + 15" by linarith+
  then have "of_int k \<le> x" "x \<le> of_int (16 * k + 15) * pow2 (- 4)"
    by (simp_all add: pow2_def)
  from this[THEN rnd_mono] have "of_int k \<le> rnd x" "rnd x \<le> of_int (16 * k + 15) * pow2 (- 4)"
    using rnd_int[of k] rnd_exact[of "16 * k + 15" "- 4"] k90 by simp_all
  then show ?thesis by (simp add: x_def k_def pow2_def)
qed (simp add: exact)

lemma scale_trunc:
  assumes v: "0 \<le> v" "v \<le> 100" and p: "0 < p" "p < 10"
    and c: "\<bar>c - of_int p / 10\<bar> \<le> 1 / 2 ^ 50"
    and exact: "p * v mod 10 = 0 \<Longrightarrow> rnd (of_int v * c) = of_int (p * v div 10)"
  shows "f64_to_int (f64_of_int v * Fin c) = p * v div 10"
proof -
  let ?x = "rnd (of_int v * c)" and ?k = "p * v div 10"
  have x: "of_int ?k \<le> ?x" "?x < of_int ?k + 1" using rnd_scale[OF assms] by simp_all
  then have fl: "\<lfloor>?x\<rfloor> = ?k" by (simp add: floor_unique)
  have "p * v \<le> 9 * v" using p v by (intro mult_right_mono) auto
  moreover have "0 \<le> p * v" using p v by simp
  ultimately have k: "0 \<le> ?k" "?k \<le> 90" using v by linarith+
  then have "(0::rat) \<le> of_int ?k" by simp
  then have x0: "0 \<le> ?x" using x by linarith
  have "0 < (of_int p :: rat)" "of_int p \<le> (of_int 9 :: rat)" using p by (simp_all only: of_int_0_less_iff of_int_le_iff)
  then have "\<bar>c\<bar> \<le> 1" using abs_le_D1[OF c] abs_le_D2[OF c] by (simp add: abs_le_iff)
  then have "\<bar>of_int v * c\<bar> \<le> 100 * 1"
    using v unfolding abs_mult by (intro mult_mono) auto
  then have "fin (of_int v * c) = Fin ?x" by (intro fin_small) simp
  moreover have "f64_of_int v = Fin (of_int v)" using v by (simp add: f64_of_int_small)
  ultimately show ?thesis
    using fl k x0 by (simp add: times_f64_def rat_trunc_def in_int64_def)
qed

section \<open>Ratios against a threshold\<close>

lemma rnd_error_frac: "\<bar>x\<bar> < 1 \<Longrightarrow> \<bar>rnd x - x\<bar> \<le> 1 / 2 ^ 54"
proof (cases "x = 0")
  case False
  assume "\<bar>x\<bar> < 1"
  then have "rexp x \<le> - 53" using False by (intro rexp_le) (simp_all add: pow2_def)
  then have "pow2 (rexp x) \<le> pow2 (- 53)" by simp
  then show ?thesis using rnd_error[OF False] by (simp add: pow2_def)
qed simp

lemma ratio_threshold:
  assumes a: "0 \<le> a" "a \<le> b" and b: "0 < b" and p: "0 < p" "p < q" and size: "b * q < 2 ^ 53"
  shows "rnd (of_int p / of_int q) < rnd (of_int a / of_int b) \<longleftrightarrow> p * b < q * a"
proof
  assume lt: "rnd (of_int p / of_int q) < rnd (of_int a / of_int b)"
  show "p * b < q * a"
  proof (rule ccontr)
    assume "\<not> p * b < q * a"
    then have "(of_int (q * a) :: rat) \<le> of_int (p * b)" by (simp only: of_int_le_iff not_less)
    then have "(of_int a / of_int b :: rat) \<le> of_int p / of_int q"
      using b p by (simp add: field_simps)
    then show False using rnd_mono lt by (meson not_less)
  qed
next
  assume "p * b < q * a"
  define x where "x = (of_int a / of_int b :: rat)"
  define y where "y = (of_int p / of_int q :: rat)"
  have "(of_int (p * b + 1) :: rat) \<le> of_int (q * a)"
    using \<open>p * b < q * a\<close> by (simp only: of_int_le_iff)
  then have "1 / of_int (b * q) \<le> x - y"
    using b p by (simp add: x_def y_def field_simps)
  moreover have "(of_int (b * q) :: rat) < of_int (2 ^ 53)" using size by (simp only: of_int_less_iff)
  then have "1 / 2 ^ 53 < (1 / of_int (b * q) :: rat)"
    using b p by (intro divide_strict_left_mono) simp_all
  ultimately have gap: "1 / 2 ^ 53 < x - y" by linarith
  have y: "0 < y" "y < 1" using p by (simp_all add: y_def)
  have ex: "\<bar>rnd x - x\<bar> \<le> 1 / 2 ^ 54"
  proof (cases "a = b")
    case True
    then have "x = 1" using b by (simp add: x_def)
    then show ?thesis using rnd_int[of 1] by simp
  next
    case False
    then have "\<bar>x\<bar> < 1" using a b by (simp add: x_def abs_less_iff)
    then show ?thesis by (rule rnd_error_frac)
  qed
  have "(1 / 2 ^ 53 :: rat) = 2 * (1 / 2 ^ 54)" by simp
  moreover have "\<bar>rnd y - y\<bar> \<le> 1 / 2 ^ 54" using y by (intro rnd_error_frac) simp
  ultimately show "rnd (of_int p / of_int q) < rnd (of_int a / of_int b)"
    using ex gap unfolding x_def[symmetric] y_def[symmetric] abs_le_iff by linarith
qed

section \<open>Printing\<close>

text \<open>The \<open>%.0f\<close> verb; the sign of a zero is not kept.\<close>

fun fmt_0f :: "f64 \<Rightarrow> string" where
  "fmt_0f (Fin x) = (if x < 0 then CHR ''-'' # dec_int (round_even (- x)) else dec_int (round_even x))"
| "fmt_0f PInf = ''+Inf''"
| "fmt_0f NInf = ''-Inf''"
| "fmt_0f NaN = ''NaN''"

end
