(* ===== verification/Risk_Decay.thy ===== *)
theory Risk_Decay
  imports Go_Scale
begin

text \<open>
  The decay of \<open>internal/graph/risk.go\<close>, \<open>int(float64(v) * riskDecay)\<close>: a float64 product
  truncated to an integer. On the range of risks, 0 to 100, it is exactly \<open>6 * v div 10\<close>.
\<close>

definition riskDecay :: f64 where "riskDecay = f64_lit (6 / 10)"

definition decay :: "int \<Rightarrow> int" where
  "decay v = f64_to_int (f64_of_int v * riskDecay)"

lemma riskDecay_value: "riskDecay = Fin (5404319552844595 / 9007199254740992)"
  by (simp add: riskDecay_def float_eval)

text \<open>Where the exact product is an integer, at the multiples of five, rounding restores it.\<close>

lemma decay_fifths:
  "list_all (\<lambda>w. rnd (of_int (5*w) * (5404319552844595 / 9007199254740992)) = of_int (3*w)) [0..20]"
  by (simp add: upto.simps float_eval)

lemma decay_eq: "0 \<le> v \<Longrightarrow> v \<le> 100 \<Longrightarrow> decay v = 6 * v div 10"
  unfolding decay_def riskDecay_value
proof (rule scale_trunc)
  assume v: "0 \<le> v" "v \<le> 100" "6 * v mod 10 = 0"
  define m where "m = 6 * v div 10"
  have m: "6 * v = 10 * m" unfolding m_def by (metis add.right_neutral mult_div_mod_eq v(3))
  define w where "w = 2 * m - v"
  have w: "v = 5 * w" using m by (simp add: w_def)
  then have w3: "6 * v div 10 = 3 * w" by simp
  have "w \<in> set [0..20]" using v(1,2) w by simp
  then have "rnd (of_int (5 * w) * (5404319552844595 / 9007199254740992)) = of_int (3 * w)"
    using decay_fifths unfolding list_all_iff by blast
  then show "rnd (of_int v * (5404319552844595 / 9007199254740992)) = of_int (6 * v div 10)"
    unfolding w3 w[symmetric] .
qed simp_all

lemma decay_range: "0 \<le> v \<Longrightarrow> v \<le> 100 \<Longrightarrow> 0 \<le> decay v \<and> decay v \<le> v"
  using decay_eq[of v] by linarith

lemma decay_mono: "0 \<le> u \<Longrightarrow> u \<le> v \<Longrightarrow> v \<le> 100 \<Longrightarrow> decay u \<le> decay v"
  using zdiv_mono1[of "6 * u" "6 * v" 10] by (simp add: decay_eq)

end
