(* ===== verification/Graph_Risk.thy ===== *)
theory Graph_Risk
  imports Graph_Wf Risk_Decay
begin

text \<open>
  Risk propagation, \<open>internal/graph/risk.go\<close>: the base risk of a component, the depth-first
  search that lets a component inherit a decayed share of the risk of what it depends on, with
  its memo table \<open>eff\<close> and its \<open>visiting\<close> cycle guard, and the namespace aggregates.
\<close>

section \<open>Base risk\<close>

definition atRiskThreshold :: int where "atRiskThreshold = 50"

definition baseRisk :: "component \<Rightarrow> (string \<rightharpoonup> string) \<Rightarrow> int" where
  "baseRisk c addonStatus = (case c_type c of
      TypeAddon \<Rightarrow>
        (let s = zget addonStatus (c_name c) in
         if s = ''incompatible'' then 90 else if s = ''unknown'' then 40 else 0)
    | TypeWorkload \<Rightarrow>
        (if c_status c = ''Down'' \<or> c_status c = ''Failed'' then 70
         else if has_prefix (c_status c) ''Degraded'' then 40
         else if c_status c = ''Scaled to zero'' then 10 else 0)
    | TypeInfra \<Rightarrow> (if c_status c = ''NotReady'' then 60 else 0)
    | TypeStorage \<Rightarrow>
        (if c_status c = ''Lost'' then 90 else if c_status c = ''Pending'' then 50 else 0)
    | _ \<Rightarrow> 0)"

section \<open>The search\<close>

text \<open>A missing key of \<open>map[string]int\<close> reads as 0.\<close>

definition iget :: "(string \<rightharpoonup> int) \<Rightarrow> string \<Rightarrow> int" where
  "iget m k = (case m k of None \<Rightarrow> 0 | Some v \<Rightarrow> v)"

definition base_map :: "component list \<Rightarrow> (string \<rightharpoonup> string) \<Rightarrow> (string \<rightharpoonup> int)" where
  "base_map ns addonStatus = fold (\<lambda>n m. m(c_id n \<mapsto> baseRisk n addonStatus)) ns Map.empty"

definition adjacency :: "edge list \<Rightarrow> string \<Rightarrow> string list" where
  "adjacency es = fold (\<lambda>e m. m(e_from e := m (e_from e) @ [e_to e])) es (\<lambda>_. [])"

record dfs_state =
  d_eff :: "string \<rightharpoonup> int"
  d_visiting :: "string \<Rightarrow> bool"

function (sequential) compute :: "(string \<rightharpoonup> int) \<Rightarrow> edge list \<Rightarrow> string \<Rightarrow> dfs_state \<Rightarrow> int \<times> dfs_state"
  and relax :: "(string \<rightharpoonup> int) \<Rightarrow> edge list \<Rightarrow> string list \<Rightarrow> int \<Rightarrow> dfs_state \<Rightarrow> int \<times> dfs_state"
  where
  "compute base es i st = (case d_eff st i of
      Some v \<Rightarrow> (v, st)
    | None \<Rightarrow>
        if d_visiting st i then (iget base i, st)
        else
          let r = relax base es (adjacency es i) (iget base i)
                    (st\<lparr>d_visiting := (d_visiting st)(i := True)\<rparr>);
              best = fst r; st' = snd r
          in (best, st'\<lparr>d_visiting := (d_visiting st')(i := False),
                        d_eff := (d_eff st')(i \<mapsto> best)\<rparr>))"
| "relax base es [] best st = (best, st)"
| "relax base es (d # ds) best st =
     (let r = compute base es d st; inherited = decay (fst r)
      in relax base es ds (if inherited > best then inherited else best) (snd r))"
  by pat_completeness auto

lemma adjacency_fold:
  "fold (\<lambda>e m. m(e_from e := m (e_from e) @ [e_to e])) es m i =
     m i @ map e_to (filter (\<lambda>e. e_from e = i) es)"
  by (induction es arbitrary: m) auto

lemma adjacency_eq: "adjacency es i = map e_to (filter (\<lambda>e. e_from e = i) es)"
  by (simp add: adjacency_def adjacency_fold)

text \<open>A call leaves the guard as it found it; this is what makes the search terminate.\<close>

lemma visiting_partial:
  "compute_relax_dom (Inl (base, es, i, st)) \<Longrightarrow>
     d_visiting (snd (compute base es i st)) = d_visiting st"
  "compute_relax_dom (Inr (base, es, ds, best, st)) \<Longrightarrow>
     d_visiting (snd (relax base es ds best st)) = d_visiting st"
proof (induction base es i st and base es ds best st rule: compute_relax.pinduct)
  case (1 base es i st)
  then show ?case
    by (auto simp: compute.psimps Let_def fun_eq_iff split: option.splits)
qed (simp_all add: relax.psimps Let_def)

definition unvisited :: "edge list \<Rightarrow> dfs_state \<Rightarrow> nat" where
  "unvisited es st = card {i \<in> e_from ` set es. \<not> d_visiting st i}"

lemma unvisited_mark:
  assumes "\<not> d_visiting st i" "adjacency es i \<noteq> []"
  shows "unvisited es (st\<lparr>d_visiting := (d_visiting st)(i := True)\<rparr>) < unvisited es st"
proof -
  have "i \<in> e_from ` set es"
    using assms(2) by (auto simp: adjacency_eq filter_empty_conv)
  then show ?thesis
    unfolding unvisited_def using assms(1)
    by (intro psubset_card_mono) (auto split: if_splits)
qed

lemma unvisited_mark_le:
  "unvisited es (st\<lparr>d_visiting := (d_visiting st)(i := True)\<rparr>) \<le> unvisited es st"
  unfolding unvisited_def by (intro card_mono) auto

termination compute
  by (relation "inv_image (less_than <*lex*> less_than) (\<lambda>x. case x of
      Inl (base, es, i, st) \<Rightarrow> (unvisited es st, 1)
    | Inr (base, es, ds, best, st) \<Rightarrow>
        (unvisited es st, if ds = [] then 0 else Suc (length ds)))")
    (auto simp: visiting_partial unvisited_def[of _ "snd _"]
      unvisited_def[symmetric] unvisited_mark
      intro: le_neq_implies_less[OF unvisited_mark_le])

lemma visiting_kept [simp]:
  "d_visiting (snd (compute base es i st)) = d_visiting st"
  "d_visiting (snd (relax base es ds best st)) = d_visiting st"
proof (induction base es i st and base es ds best st rule: compute_relax.induct)
  case (1 base es i st)
  then show ?case
    by (subst compute.simps) (auto simp: Let_def fun_eq_iff split: option.splits)
qed (simp_all add: Let_def del: compute.simps)

declare compute.simps [simp del]

text \<open>\<open>for i := range g.Nodes { g.Nodes[i].Risk = compute(g.Nodes[i].ID) }\<close>\<close>

definition compute_all :: "(string \<rightharpoonup> int) \<Rightarrow> edge list \<Rightarrow> component list \<Rightarrow> component list \<times> dfs_state" where
  "compute_all base es ns =
     fold (\<lambda>n (out, st). let r = compute base es (c_id n) st
                        in (out @ [n\<lparr>c_risk := fst r\<rparr>], snd r)) ns
       ([], \<lparr>d_eff = Map.empty, d_visiting = (\<lambda>_. False)\<rparr>)"

section \<open>Namespace aggregates\<close>

record namespace_risk =
  nr_namespace :: string
  nr_risk :: int
  nr_components :: int
  nr_at_risk :: int

record ns_acc =
  acc_risk :: int
  acc_count :: int
  acc_at_risk :: int

definition namespaceBucket :: "component \<Rightarrow> string" where
  "namespaceBucket c =
     (if c_type c = TypeInfra then ''cluster-scoped''
      else if c_namespace c = [] then ''default'' else c_namespace c)"

definition bump :: "component \<Rightarrow> ns_acc \<Rightarrow> ns_acc" where
  "bump n a = \<lparr>acc_risk = (if c_risk n > acc_risk a then c_risk n else acc_risk a),
     acc_count = acc_count a + 1,
     acc_at_risk = (if c_risk n \<ge> atRiskThreshold then acc_at_risk a + 1 else acc_at_risk a)\<rparr>"

fun ns_step :: "component \<Rightarrow> (string \<rightharpoonup> ns_acc) \<times> string list \<Rightarrow> (string \<rightharpoonup> ns_acc) \<times> string list" where
  "ns_step n (byNS, order) =
     (let ns = namespaceBucket n
      in case byNS ns of
           None \<Rightarrow> (byNS(ns \<mapsto> bump n \<lparr>acc_risk = 0, acc_count = 0, acc_at_risk = 0\<rparr>), order @ [ns])
         | Some a \<Rightarrow> (byNS(ns \<mapsto> bump n a), order))"

definition aggregateByNamespace :: "component list \<Rightarrow> namespace_risk list" where
  "aggregateByNamespace nodes =
     (let (byNS, order) = fold ns_step nodes (Map.empty, [])
      in map (\<lambda>ns. case byNS ns of
                  Some a \<Rightarrow> \<lparr>nr_namespace = ns, nr_risk = acc_risk a,
                              nr_components = acc_count a, nr_at_risk = acc_at_risk a\<rparr>
                | None \<Rightarrow> \<lparr>nr_namespace = ns, nr_risk = 0, nr_components = 0, nr_at_risk = 0\<rparr>) order)"

definition ApplyRisk :: "graph \<Rightarrow> (string \<rightharpoonup> string) \<Rightarrow> graph \<times> namespace_risk list" where
  "ApplyRisk g addonStatus =
     (let ns = fst (compute_all (base_map (g_nodes g) addonStatus) (g_edges g) (g_nodes g))
      in (g\<lparr>g_nodes := ns\<rparr>, aggregateByNamespace ns))"

section \<open>Specification\<close>

text \<open>
  A risk a component may carry: its own base risk, or a decayed share of a risk that a dependency
  of it may carry.
\<close>

inductive inherits :: "(string \<Rightarrow> int) \<Rightarrow> edge list \<Rightarrow> string \<Rightarrow> int \<Rightarrow> bool"
  for base :: "string \<Rightarrow> int" and es :: "edge list" where
  own: "inherits base es i (base i)"
| share: "e \<in> set es \<Longrightarrow> inherits base es (e_to e) v \<Longrightarrow> inherits base es (e_from e) (decay v)"

inductive_cases inherits_cases: "inherits base es i v"

definition effective :: "(string \<Rightarrow> int) \<Rightarrow> edge list \<Rightarrow> string \<Rightarrow> int \<Rightarrow> bool" where
  "effective base es i v \<longleftrightarrow> inherits base es i v \<and> (\<forall>u. inherits base es i u \<longrightarrow> u \<le> v)"


section \<open>The search against its specification\<close>

text \<open>The three ways a call can go, and one iteration of the loop.\<close>

definition mark :: "string \<Rightarrow> dfs_state \<Rightarrow> dfs_state" where
  "mark i st = st\<lparr>d_visiting := (d_visiting st)(i := True)\<rparr>"

definition settle :: "string \<Rightarrow> int \<times> dfs_state \<Rightarrow> int \<times> dfs_state" where
  "settle i r = (fst r, (snd r)\<lparr>d_visiting := (d_visiting (snd r))(i := False),
                                d_eff := (d_eff (snd r))(i \<mapsto> fst r)\<rparr>)"

lemma compute_eqs:
  "d_eff st i = Some v \<Longrightarrow> compute base es i st = (v, st)"
  "d_eff st i = None \<Longrightarrow> d_visiting st i \<Longrightarrow> compute base es i st = (iget base i, st)"
  "d_eff st i = None \<Longrightarrow> \<not> d_visiting st i \<Longrightarrow>
     compute base es i st = settle i (relax base es (adjacency es i) (iget base i) (mark i st))"
  by (simp_all add: compute.simps[of base es i st] Let_def mark_def settle_def)

lemma if_max: "(if b < a then a else b) = max b (a::int)"
  by simp

lemma relax_Cons:
  "relax base es (d # ds) best st =
     relax base es ds (max best (decay (fst (compute base es d st)))) (snd (compute base es d st))"
  by (simp add: Let_def max_def)

declare relax.simps(2) [simp del]

lemma call_cases:
  fixes st :: dfs_state
  obtains (memo) v where "d_eff st i = Some v" | (guard) "d_eff st i = None" "d_visiting st i"
    | (fresh) "d_eff st i = None" "\<not> d_visiting st i"
  by fastforce

lemmas search_induct [case_names call finish step] = compute_relax.induct

text \<open>Any risk the search reports is one the component may carry, at least its own base risk.\<close>

definition sound_memo :: "(string \<rightharpoonup> int) \<Rightarrow> edge list \<Rightarrow> dfs_state \<Rightarrow> bool" where
  "sound_memo base es st \<longleftrightarrow>
     (\<forall>i v. d_eff st i = Some v \<longrightarrow> inherits (iget base) es i v \<and> iget base i \<le> v)"

lemma adjacency_edge: "d \<in> set (adjacency es i) \<longleftrightarrow> (\<exists>e\<in>set es. e_from e = i \<and> e_to e = d)"
  by (auto simp: adjacency_eq)

lemma inherits_adjacent:
  "d \<in> set (adjacency es i) \<Longrightarrow> inherits base es d v \<Longrightarrow> inherits base es i (decay v)"
  by (auto simp: adjacency_edge dest: share)

lemma search_sound:
  "sound_memo base es st \<Longrightarrow>
     sound_memo base es (snd (compute base es i st)) \<and>
     inherits (iget base) es i (fst (compute base es i st)) \<and> iget base i \<le> fst (compute base es i st)"
  "sound_memo base es st \<Longrightarrow>
     sound_memo base es (snd (relax base es ds best st)) \<and> best \<le> fst (relax base es ds best st) \<and>
     (\<forall>i. set ds \<subseteq> set (adjacency es i) \<longrightarrow> inherits (iget base) es i best \<longrightarrow>
        inherits (iget base) es i (fst (relax base es ds best st)))"
proof (induction base es i st and base es ds best st rule: search_induct)
  case (call base es i st)
  show ?case
  proof (cases st i rule: call_cases)
    case fresh
    let ?r = "relax base es (adjacency es i) (iget base i) (mark i st)"
    have "sound_memo base es (mark i st)" using call.prems by (simp add: sound_memo_def mark_def)
    note ih = call.IH[OF fresh this[unfolded mark_def], folded mark_def]
    have "inherits (iget base) es i (fst ?r)" "iget base i \<le> fst ?r" "sound_memo base es (snd ?r)"
      using ih own[of "iget base" es i] by blast+
    then show ?thesis unfolding compute_eqs(3)[OF fresh] by (simp add: settle_def sound_memo_def)
  qed (use call.prems in \<open>simp_all add: compute_eqs own sound_memo_def\<close>)
next
  case (step base es d ds best st)
  define r where "r = compute base es d st"
  let ?b = "max best (decay (fst r))"
  note ih = step.IH(1)[OF step.prems, folded r_def]
  note ih2 = step.IH(2)[OF r_def refl, unfolded if_max, OF conjunct1[OF ih]]
  have "inherits (iget base) es i ?b"
    if "set (d # ds) \<subseteq> set (adjacency es i)" "inherits (iget base) es i best" for i
    using that ih inherits_adjacent[of d es i] by (simp add: max_def)
  then show ?case using ih2 unfolding relax_Cons r_def[symmetric] by simp
qed simp

text \<open>
  On an acyclic graph, witnessed by a rank that falls along every edge, it is the greatest such
  risk. The guard is never met: whatever is being visited ranks above the component.
\<close>

locale base_law =
  fixes base :: "string \<Rightarrow> int"
  assumes base_range: "0 \<le> base i \<and> base i \<le> 100"
begin

lemma inherits_range: "inherits base es i v \<Longrightarrow> 0 \<le> v \<and> v \<le> 100"
proof (induction rule: inherits.induct)
  case (share e v)
  then show ?case using decay_range[of v] by auto
qed (rule base_range)

lemma effective_unique: "effective base es i u \<Longrightarrow> effective base es i v \<Longrightarrow> u = v"
  by (meson effective_def order_antisym)

lemma effective_step:
  assumes "base i \<le> r" "\<forall>d\<in>set (adjacency es i). \<forall>u. inherits base es d u \<longrightarrow> decay u \<le> r"
    and "r = base i \<or> (\<exists>d\<in>set (adjacency es i). \<exists>u. inherits base es d u \<and> r = decay u)"
  shows "effective base es i r"
  unfolding effective_def
proof (intro conjI allI impI)
  show "inherits base es i r"
    using assms(3) by (auto intro: own inherits_adjacent)
  show "u \<le> r" if "inherits base es i u" for u
    using that
  proof (cases rule: inherits.cases)
    case (share e v)
    then have "e_to e \<in> set (adjacency es i)" by (auto simp: adjacency_edge)
    with share assms(2) show ?thesis by blast
  qed (simp add: assms(1))
qed

lemma effective_decay:
  "effective base es d v \<Longrightarrow> inherits base es d u \<Longrightarrow> decay u \<le> decay v"
  by (meson effective_def decay_mono inherits_range)

end

definition ranked :: "edge list \<Rightarrow> (string \<Rightarrow> nat) \<Rightarrow> bool" where
  "ranked es rk \<longleftrightarrow> (\<forall>e\<in>set es. rk (e_to e) < rk (e_from e))"

definition exact_memo :: "(string \<rightharpoonup> int) \<Rightarrow> edge list \<Rightarrow> dfs_state \<Rightarrow> bool" where
  "exact_memo base es st \<longleftrightarrow> (\<forall>i v. d_eff st i = Some v \<longrightarrow> effective (iget base) es i v)"

definition above :: "(string \<Rightarrow> nat) \<Rightarrow> dfs_state \<Rightarrow> string \<Rightarrow> bool" where
  "above rk st i \<longleftrightarrow> (\<forall>x. d_visiting st x \<longrightarrow> rk i < rk x)"

text \<open>What a loop over the dependencies \<open>ds\<close> computes, starting from \<open>best\<close>.\<close>

definition best_of :: "(string \<Rightarrow> int) \<Rightarrow> edge list \<Rightarrow> string list \<Rightarrow> int \<Rightarrow> int \<Rightarrow> bool" where
  "best_of base es ds best r \<longleftrightarrow> best \<le> r \<and>
     (\<forall>d\<in>set ds. \<forall>u. inherits base es d u \<longrightarrow> decay u \<le> r) \<and>
     (r = best \<or> (\<exists>d\<in>set ds. \<exists>u. inherits base es d u \<and> r = decay u))"

lemma best_of_step:
  assumes "base_law base" "effective base es d v" "best_of base es ds (max best (decay v)) r"
  shows "best_of base es (d # ds) best r"
proof -
  have "inherits base es d v" using assms(2) by (simp add: effective_def)
  moreover have "decay u \<le> decay v" if "inherits base es d u" for u
    using base_law.effective_decay[OF assms(1,2) that] .
  ultimately show ?thesis
    using assms(3) by (fastforce simp: best_of_def max_def split: if_splits)
qed

lemma search_exact:
  assumes "ranked es rk" "base_law (iget base)"
  shows "exact_memo base es st \<Longrightarrow> above rk st i \<Longrightarrow>
     exact_memo base es (snd (compute base es i st)) \<and>
     effective (iget base) es i (fst (compute base es i st))"
  and "exact_memo base es st \<Longrightarrow> \<forall>d\<in>set ds. above rk st d \<Longrightarrow>
     exact_memo base es (snd (relax base es ds best st)) \<and>
     best_of (iget base) es ds best (fst (relax base es ds best st))"
  using assms
proof (induction base es i st and base es ds best st rule: search_induct)
  case (call base es i st)
  show ?case
  proof (cases st i rule: call_cases)
    case memo
    with call.prems show ?thesis by (simp add: compute_eqs exact_memo_def)
  next
    case guard
    with call.prems(2) show ?thesis by (auto simp: above_def)
  next
    case fresh
    let ?r = "relax base es (adjacency es i) (iget base i) (mark i st)"
    have "exact_memo base es (mark i st)" using call.prems(1) by (simp add: exact_memo_def mark_def)
    moreover have "\<forall>d\<in>set (adjacency es i). above rk (mark i st) d"
      using call.prems(2,3) by (fastforce simp: above_def mark_def ranked_def adjacency_edge)
    ultimately have ih: "exact_memo base es (snd ?r)" "best_of (iget base) es (adjacency es i) (iget base i) (fst ?r)"
      using call.IH[OF fresh] call.prems(3,4) by (simp_all add: mark_def)
    have "effective (iget base) es i (fst ?r)"
      using base_law.effective_step[OF call.prems(4)] ih(2) by (simp add: best_of_def)
    with ih(1) show ?thesis unfolding compute_eqs(3)[OF fresh] by (simp add: settle_def exact_memo_def)
  qed
next
  case (finish base es best st)
  then show ?case by (simp add: best_of_def)
next
  case (step base es d ds best st)
  define r where "r = compute base es d st"
  have ih: "exact_memo base es (snd r)" "effective (iget base) es d (fst r)"
    using step.IH(1) step.prems by (simp_all add: r_def)
  have "\<forall>d\<in>set ds. above rk (snd r) d"
    using step.prems(2) by (simp add: above_def r_def)
  then have "exact_memo base es (snd (relax base es (d # ds) best st)) \<and>
      best_of (iget base) es ds (max best (decay (fst r))) (fst (relax base es (d # ds) best st))"
    using step.IH(2)[OF r_def refl, unfolded if_max, OF ih(1) _ step.prems(3,4)]
    unfolding relax_Cons r_def[symmetric] by simp
  with best_of_step[OF step.prems(4) ih(2)] show ?case by blast
qed

section \<open>All components\<close>

interpretation node_base: base_law "iget (base_map ns addonStatus)" for ns addonStatus
proof
  have "0 \<le> baseRisk n addonStatus \<and> baseRisk n addonStatus \<le> 100" for n
    by (auto simp: baseRisk_def Let_def split: component_type.split)
  then have "\<forall>i. 0 \<le> iget (base_map ns addonStatus) i \<and> iget (base_map ns addonStatus) i \<le> 100"
    unfolding base_map_def
    by (intro fold_inv[where P = "\<lambda>m. \<forall>i. 0 \<le> iget m i \<and> iget m i \<le> 100"]) (auto simp: iget_def)
  then show "0 \<le> iget (base_map ns addonStatus) i \<and> iget (base_map ns addonStatus) i \<le> 100" for i
    by blast
qed

definition rescored :: "(string \<Rightarrow> int \<Rightarrow> bool) \<Rightarrow> component list \<Rightarrow> component list \<Rightarrow> bool" where
  "rescored P = list_all2 (\<lambda>n n'. n' = n\<lparr>c_risk := c_risk n'\<rparr> \<and> P (c_id n) (c_risk n'))"

lemma compute_all_inv:
  assumes "I \<lparr>d_eff = Map.empty, d_visiting = (\<lambda>_. False)\<rparr>"
    and "\<And>i st. I st \<Longrightarrow> I (snd (compute base es i st)) \<and> P i (fst (compute base es i st))"
  shows "rescored P ns (fst (compute_all base es ns))"
proof -
  let ?f = "\<lambda>n (out, st). let r = compute base es (c_id n) st
                        in (out @ [n\<lparr>c_risk := fst r\<rparr>], snd r)"
  have "rescored P (ms @ ns) (fst (fold ?f ns (out, st)))" if "I st" "rescored P ms out" for ms out st
    using that
  proof (induction ns arbitrary: ms out st)
    case (Cons n ns)
    let ?r = "compute base es (c_id n) st"
    have "rescored P (ms @ [n]) (out @ [n\<lparr>c_risk := fst ?r\<rparr>])"
      using Cons.prems assms(2) by (auto simp: rescored_def intro!: list_all2_appendI)
    with Cons.IH[of "snd ?r" "ms @ [n]"] Cons.prems assms(2) show ?case by (simp add: Let_def)
  qed simp
  from this[OF assms(1), of "[]" "[]"] show ?thesis by (simp add: compute_all_def rescored_def)
qed

lemma rescored_ids: "rescored P ns ns' \<Longrightarrow> map c_id ns' = map c_id ns"
  unfolding rescored_def
  by (induction rule: list_all2_induct) (auto, metis component.select_convs(1) component.surjective component.update_convs(8))

lemma compute_all_sound:
  "rescored (\<lambda>i v. inherits (iget base) es i v \<and> iget base i \<le> v) ns (fst (compute_all base es ns))"
  by (rule compute_all_inv[where I = "sound_memo base es"], simp add: sound_memo_def, rule conjI)
    (simp_all only: search_sound simp_thms)

lemma compute_all_exact:
  assumes "ranked es rk" "base_law (iget base)"
  shows "rescored (effective (iget base) es) ns (fst (compute_all base es ns))"
proof (rule compute_all_inv[where I = "\<lambda>st. exact_memo base es st \<and> d_visiting st = (\<lambda>_. False)"])
  fix i st
  assume "exact_memo base es st \<and> d_visiting st = (\<lambda>_. False)"
  then show "(exact_memo base es (snd (compute base es i st)) \<and>
      d_visiting (snd (compute base es i st)) = (\<lambda>_. False)) \<and>
      effective (iget base) es i (fst (compute base es i st))"
    using search_exact(1)[OF assms, of st i] by (simp add: above_def)
qed (simp add: exact_memo_def)

section \<open>The aggregates\<close>

definition namespace_summary :: "component list \<Rightarrow> string \<Rightarrow> namespace_risk" where
  "namespace_summary nodes ns =
     (let cs = filter (\<lambda>n. namespaceBucket n = ns) nodes
      in \<lparr>nr_namespace = ns, nr_risk = Max (insert 0 (c_risk ` set cs)),
          nr_components = int (length cs),
          nr_at_risk = int (length (filter (\<lambda>n. c_risk n \<ge> atRiskThreshold) cs))\<rparr>)"

definition acc_of :: "component list \<Rightarrow> ns_acc" where
  "acc_of cs = \<lparr>acc_risk = Max (insert 0 (c_risk ` set cs)), acc_count = int (length cs),
     acc_at_risk = int (length (filter (\<lambda>n. c_risk n \<ge> atRiskThreshold) cs))\<rparr>"

lemma bump_acc_of: "bump n (acc_of cs) = acc_of (cs @ [n])"
proof -
  define M where "M = Max (insert 0 (c_risk ` set cs))"
  have "insert 0 (c_risk ` set (cs @ [n])) = insert (c_risk n) (insert 0 (c_risk ` set cs))" by auto
  then have "Max (insert 0 (c_risk ` set (cs @ [n]))) = max (c_risk n) M"
    unfolding M_def by (simp only: Max_insert finite_insert finite_imageI finite_set) simp
  then show ?thesis by (simp add: bump_def acc_of_def M_def[symmetric] max_def del: set_append)
qed

lemma acc_of_Nil: "\<lparr>acc_risk = 0, acc_count = 0, acc_at_risk = 0\<rparr> = acc_of []"
  by (simp add: acc_of_def)

lemma aggregate_fold:
  "fold ns_step nodes (Map.empty, []) =
   ((\<lambda>ns. if ns \<in> namespaceBucket ` set nodes
          then Some (acc_of (filter (\<lambda>n. namespaceBucket n = ns) nodes)) else None),
    first_by id (map namespaceBucket nodes))"
proof (induction nodes rule: rev_induct)
  case (snoc n nodes)
  have nil: "filter (\<lambda>m. namespaceBucket m = namespaceBucket n) nodes = []"
    if "namespaceBucket n \<notin> namespaceBucket ` set nodes"
    using that by (metis (mono_tags, lifting) filter_empty_conv imageI)
  show ?case
    using snoc nil by (auto simp: Let_def bump_acc_of acc_of_Nil first_by_snoc fun_eq_iff)
qed auto

lemma aggregate_summary:
  "aggregateByNamespace nodes =
     map (namespace_summary nodes) (first_by id (map namespaceBucket nodes))"
proof -
  have "set (first_by id (map namespaceBucket nodes)) = namespaceBucket ` set nodes"
    using first_by_image[of id "map namespaceBucket nodes"] by simp
  then show ?thesis
    by (auto simp: aggregateByNamespace_def aggregate_fold namespace_summary_def acc_of_def Let_def)
qed

lemma ApplyRisk_edges: "g_edges (fst (ApplyRisk g st)) = g_edges g"
  by (simp add: ApplyRisk_def Let_def)

end
