(* ===== verification/Go_Sort.thy ===== *)
theory Go_Sort
  imports Prelude
begin

text \<open>
  Package \<open>sort\<close>: \<open>sort.Strings\<close>, \<open>sort.Slice\<close> and \<open>sort.SliceStable\<close> with a comparison
  function. The contract of a comparison is the locale \<open>sort_less\<close>; what the sorted slice is,
  as far as the comparison decides it, is proved once from that contract.
\<close>

section \<open>Stable sorting with a comparison function\<close>

fun go_insert :: "('a \<Rightarrow> 'a \<Rightarrow> bool) \<Rightarrow> 'a \<Rightarrow> 'a list \<Rightarrow> 'a list" where
  "go_insert lt x [] = [x]"
| "go_insert lt x (y # ys) = (if lt y x then y # go_insert lt x ys else x # y # ys)"

definition go_sort :: "('a \<Rightarrow> 'a \<Rightarrow> bool) \<Rightarrow> 'a list \<Rightarrow> 'a list" where
  "go_sort lt xs = foldr (go_insert lt) xs []"

lemma mset_go_insert: "mset (go_insert lt x ys) = add_mset x (mset ys)"
  by (induction ys) auto

lemma mset_go_sort [simp]: "mset (go_sort lt xs) = mset xs"
  by (induction xs) (auto simp: go_sort_def mset_go_insert)

lemma set_go_sort [simp]: "set (go_sort lt xs) = set xs"
  by (metis mset_go_sort set_mset_mset)

lemma length_go_sort [simp]: "length (go_sort lt xs) = length xs"
  by (metis mset_go_sort size_mset)

lemma distinct_go_sort [simp]: "distinct (go_sort lt xs) = distinct xs"
  by (metis mset_go_sort mset_eq_imp_distinct_iff)

lemma set_go_insert: "set (go_insert lt x ys) = insert x (set ys)"
  by (induction ys) auto

text \<open>The contract of a comparison function: a strict weak order.\<close>

locale sort_less =
  fixes lt :: "'a \<Rightarrow> 'a \<Rightarrow> bool"
  assumes asym: "lt a b \<Longrightarrow> \<not> lt b a"
    and neg_trans: "\<not> lt a b \<Longrightarrow> \<not> lt b c \<Longrightarrow> \<not> lt a c"
begin

lemma irrefl: "\<not> lt a a"
  using asym by blast

lemma insert_sorted:
  "sorted_wrt (\<lambda>a b. \<not> lt b a) ys \<Longrightarrow> sorted_wrt (\<lambda>a b. \<not> lt b a) (go_insert lt x ys)"
proof (induction ys)
  case (Cons y ys)
  show ?case
  proof (cases "lt y x")
    case True
    with Cons show ?thesis by (auto simp: set_go_insert dest: asym)
  next
    case False
    with Cons.prems show ?thesis by simp (metis neg_trans)
  qed
qed simp

lemma sort_sorted: "sorted_wrt (\<lambda>a b. \<not> lt b a) (go_sort lt xs)"
  by (induction xs) (auto simp: go_sort_def insert_sorted)

text \<open>Stability: elements the comparison does not separate keep their order.\<close>

lemma insert_filter:
  assumes "\<And>a. P a \<longleftrightarrow> \<not> lt a z \<and> \<not> lt z a"
    and "sorted_wrt (\<lambda>a b. \<not> lt b a) ys"
  shows "filter P (go_insert lt x ys) = filter P (x # ys)"
  using assms(2)
proof (induction ys)
  case (Cons y ys)
  show ?case
  proof (cases "lt y x")
    case True
    with asym neg_trans assms(1) have "\<not> (P x \<and> P y)" by blast
    with Cons True show ?thesis by auto
  qed simp
qed simp

lemma sort_stable:
  "filter (\<lambda>a. \<not> lt a z \<and> \<not> lt z a) (go_sort lt xs) =
   filter (\<lambda>a. \<not> lt a z \<and> \<not> lt z a) xs"
proof (induction xs)
  case (Cons x xs)
  have "go_sort lt (x # xs) = go_insert lt x (go_sort lt xs)"
    by (simp add: go_sort_def)
  with Cons show ?case
    by (simp add: insert_filter[of "\<lambda>a. \<not> lt a z \<and> \<not> lt z a" z, OF _ sort_sorted])
qed (simp add: go_sort_def)

end

text \<open>
  A comparison that separates any two different elements: the sorted slice does not depend on
  the order of the input, so \<open>sort.Slice\<close>, which is not stable, has the same result.
\<close>

locale sort_total = sort_less +
  assumes total: "\<not> lt a b \<Longrightarrow> \<not> lt b a \<Longrightarrow> a = b"
begin

lemma sorted_unique:
  assumes "sorted_wrt (\<lambda>a b. \<not> lt b a) xs" "sorted_wrt (\<lambda>a b. \<not> lt b a) ys" "mset xs = mset ys"
  shows "xs = ys"
  using assms
proof (induction xs arbitrary: ys)
  case (Cons x xs)
  then obtain y ys' where ys: "ys = y # ys'" by (cases ys) auto
  have "x \<in> set ys" "y \<in> set (x # xs)"
    using Cons.prems(3) ys by (metis list.set_intros(1) set_mset_mset)+
  then have "\<not> lt x y" "\<not> lt y x"
    using Cons.prems ys irrefl by auto
  then have "x = y" by (rule total)
  with Cons ys show ?case by auto
qed simp

lemma sort_perm: "mset xs = mset ys \<Longrightarrow> go_sort lt xs = go_sort lt ys"
  by (rule sorted_unique) (simp_all add: sort_sorted)

end

section \<open>sort.Strings\<close>

definition sort_strings :: "string list \<Rightarrow> string list" where
  "sort_strings xs = go_sort (<) xs"

interpretation strings: sort_total "(<) :: string \<Rightarrow> string \<Rightarrow> bool"
  by unfold_locales auto

lemma sort_strings_props [simp]:
  "set (sort_strings xs) = set xs" "distinct (sort_strings xs) = distinct xs"
  "length (sort_strings xs) = length xs" "mset (sort_strings xs) = mset xs"
  by (simp_all add: sort_strings_def)

lemma sorted_sort_strings: "sorted (sort_strings xs)"
  using strings.sort_sorted[of xs] by (simp add: sort_strings_def linorder_not_less sorted_wrt_iff_nth_less)

end
