(* ===== verification/Graph_AtRisk.thy ===== *)
theory Graph_AtRisk
  imports Graph_Risk Go_Sort
begin

text \<open>
  The at-risk report, \<open>internal/graph/atrisk.go\<close>: the breadth-first walk over the reverse edges,
  the choice of the dependency a risk is inherited from, and the sorted list of components at or
  above the threshold.
\<close>

section \<open>Dependents\<close>

definition reverseEdges :: "edge list \<Rightarrow> string \<Rightarrow> string list" where
  "reverseEdges es = fold (\<lambda>e m. m(e_to e := m (e_to e) @ [e_from e])) es (\<lambda>_. [])"

lemma reverseEdges_fold:
  "fold (\<lambda>e m. m(e_to e := m (e_to e) @ [e_from e])) es m i =
     m i @ map e_from (filter (\<lambda>e. e_to e = i) es)"
  by (induction es arbitrary: m) auto

lemma reverseEdges_eq: "reverseEdges es i = map e_from (filter (\<lambda>e. e_to e = i) es)"
  by (simp add: reverseEdges_def reverseEdges_fold)

text \<open>The inner loop: mark, report and enqueue what has not been seen.\<close>

fun visit :: "string list \<Rightarrow> (string \<Rightarrow> bool) \<times> string list \<times> string list
    \<Rightarrow> (string \<Rightarrow> bool) \<times> string list \<times> string list" where
  "visit [] s = s"
| "visit (d # ds) (seen, queue, out) =
     (if seen d then visit ds (seen, queue, out)
      else visit ds (seen(d := True), queue @ [d], out @ [d]))"

fun fresh :: "(string \<Rightarrow> bool) \<Rightarrow> string list \<Rightarrow> string list" where
  "fresh seen [] = []"
| "fresh seen (d # ds) = (if seen d then fresh seen ds else d # fresh (seen(d := True)) ds)"

lemma set_fresh: "set (fresh seen ds) = {d \<in> set ds. \<not> seen d}"
  by (induction ds arbitrary: seen) auto

lemma distinct_fresh: "distinct (fresh seen ds)"
  by (induction ds arbitrary: seen) (auto simp: set_fresh)

lemma visit_fresh:
  "visit ds (seen, queue, out) =
     ((\<lambda>x. seen x \<or> x \<in> set ds), queue @ fresh seen ds, out @ fresh seen ds)"
proof (induction ds arbitrary: seen queue out)
  case (Cons d ds)
  have "seen d \<Longrightarrow> (\<lambda>x. seen x \<or> x \<in> set (d # ds)) = (\<lambda>x. seen x \<or> x \<in> set ds)"
    by (auto simp: fun_eq_iff)
  moreover have "(\<lambda>x. (seen(d := True)) x \<or> x \<in> set ds) = (\<lambda>x. seen x \<or> x \<in> set (d # ds))"
    by (auto simp: fun_eq_iff)
  ultimately show ?case
    unfolding visit.simps fresh.simps by (cases "seen d") (simp_all only: Cons if_True if_False append.simps append_assoc)
qed simp

definition unseen :: "edge list \<Rightarrow> (string \<Rightarrow> bool) \<Rightarrow> nat" where
  "unseen es seen = card {i \<in> e_from ` set es. \<not> seen i}"

function bfs :: "edge list \<Rightarrow> (string \<Rightarrow> bool) \<Rightarrow> string list \<Rightarrow> string list \<Rightarrow> string list" where
  "bfs es seen [] out = out"
| "bfs es seen (cur # queue) out =
     (let s = visit (reverseEdges es cur) (seen, queue, out)
      in bfs es (fst s) (fst (snd s)) (snd (snd s)))"
  by pat_completeness auto

lemma unseen_visit:
  assumes "fresh seen (reverseEdges es i) \<noteq> []"
  shows "unseen es (\<lambda>x. seen x \<or> x \<in> set (reverseEdges es i)) < unseen es seen"
proof -
  obtain d where "d \<in> set (fresh seen (reverseEdges es i))"
    using assms by (meson hd_in_set)
  then have "d \<in> set (reverseEdges es i)" "\<not> seen d" by (simp_all add: set_fresh)
  then show ?thesis
    unfolding unseen_def
    by (intro psubset_card_mono) (auto simp: reverseEdges_eq)
qed

lemma unseen_visit_same:
  assumes "fresh seen ds = []"
  shows "(\<lambda>x. seen x \<or> x \<in> set ds) = seen"
  using assms set_fresh[of seen ds] by (auto simp: fun_eq_iff)

termination bfs
proof (relation "measures [\<lambda>(es, seen, queue, out). unseen es seen, \<lambda>(es, seen, queue, out). length queue]")
  fix es seen cur queue out s
  assume s: "s = visit (reverseEdges es cur) (seen, queue, out)"
  show "((es, fst s, fst (snd s), snd (snd s)), es, seen, cur # queue, out)
    \<in> measures [\<lambda>(es, seen, queue, out). unseen es seen, \<lambda>(es, seen, queue, out). length queue]"
    using unseen_visit[of seen es cur] unseen_visit_same[of seen "reverseEdges es cur"]
    by (cases "fresh seen (reverseEdges es cur) = []") (simp_all add: s visit_fresh)
qed simp

definition dependentsOf :: "edge list \<Rightarrow> string \<Rightarrow> string list" where
  "dependentsOf es i = sort_strings (bfs es (\<lambda>x. x = i) [i] [])"

definition Dependents :: "graph \<Rightarrow> string \<Rightarrow> string list" where
  "Dependents g i = dependentsOf (g_edges g) i"

definition edge_rel :: "edge list \<Rightarrow> (string \<times> string) set" where
  "edge_rel es = (\<lambda>e. (e_from e, e_to e)) ` set es"

lemma reverseEdges_rel: "d \<in> set (reverseEdges es i) \<longleftrightarrow> (d, i) \<in> edge_rel es"
  by (auto simp: reverseEdges_eq edge_rel_def)

text \<open>
  The invariant of the walk from \<open>i\<close>: everything seen reaches \<open>i\<close>, everything seen but \<open>i\<close> has been
  reported once, and what has been seen and left the queue has all its dependents seen.
\<close>

definition bfs_inv :: "edge list \<Rightarrow> string \<Rightarrow> (string \<Rightarrow> bool) \<Rightarrow> string list \<Rightarrow> string list \<Rightarrow> bool" where
  "bfs_inv es i seen queue out \<longleftrightarrow> seen i \<and> (\<forall>x. seen x \<longrightarrow> (x, i) \<in> (edge_rel es)\<^sup>*) \<and>
     set out = {x. seen x} - {i} \<and> distinct out \<and> set queue \<subseteq> {x. seen x} \<and>
     (\<forall>x y. seen x \<longrightarrow> x \<notin> set queue \<longrightarrow> (y, x) \<in> edge_rel es \<longrightarrow> seen y)"

lemma bfs_inv_step:
  assumes inv: "bfs_inv es i seen (cur # queue) out"
  defines "ds \<equiv> reverseEdges es cur"
  shows "bfs_inv es i (\<lambda>x. seen x \<or> x \<in> set ds) (queue @ fresh seen ds) (out @ fresh seen ds)"
  unfolding bfs_inv_def
proof (intro conjI allI impI)
  have cur: "(cur, i) \<in> (edge_rel es)\<^sup>*"
    and seen: "seen i" "\<And>x. seen x \<Longrightarrow> (x, i) \<in> (edge_rel es)\<^sup>*"
    and out: "set out = {x. seen x} - {i}" "distinct out" "set queue \<subseteq> {x. seen x}"
    and left: "\<And>x y. seen x \<Longrightarrow> x \<noteq> cur \<Longrightarrow> x \<notin> set queue \<Longrightarrow> (y, x) \<in> edge_rel es \<Longrightarrow> seen y"
    using inv unfolding bfs_inv_def by simp_all
  show "seen i \<or> i \<in> set ds" using seen(1) by simp
  show "(x, i) \<in> (edge_rel es)\<^sup>*" if "seen x \<or> x \<in> set ds" for x
  proof (cases "seen x")
    case False
    with that have "(x, cur) \<in> edge_rel es" by (simp add: ds_def reverseEdges_rel)
    then show ?thesis using cur by (rule converse_rtrancl_into_rtrancl)
  qed (rule seen)
  show "set (out @ fresh seen ds) = {x. seen x \<or> x \<in> set ds} - {i}"
    using out(1) seen(1) unfolding set_append set_fresh by blast
  show "set (queue @ fresh seen ds) \<subseteq> {x. seen x \<or> x \<in> set ds}"
    using out(3) unfolding set_append set_fresh by blast
  have "set out \<inter> set (fresh seen ds) = {}" using out(1) unfolding set_fresh by blast
  then show "distinct (out @ fresh seen ds)"
    using out(2) distinct_fresh by simp
  show "seen y \<or> y \<in> set ds"
    if "seen x \<or> x \<in> set ds" "x \<notin> set (queue @ fresh seen ds)" "(y, x) \<in> edge_rel es" for x y
  proof (cases "x = cur")
    case True
    then show ?thesis using that(3) by (simp add: ds_def reverseEdges_rel)
  next
    case False
    moreover have "seen x" "x \<notin> set queue" using that by (auto simp: set_fresh)
    ultimately show ?thesis using left that(3) by blast
  qed
qed

lemma bfs_reach:
  "bfs_inv es i seen queue out \<Longrightarrow>
     set (bfs es seen queue out) = {x. (x, i) \<in> (edge_rel es)\<^sup>*} - {i} \<and> distinct (bfs es seen queue out)"
proof (induction es seen queue out rule: bfs.induct)
  case (1 es seen out)
  from 1 have seen: "seen i" "\<And>x. seen x \<Longrightarrow> (x, i) \<in> (edge_rel es)\<^sup>*" and
    left: "\<And>x y. seen x \<Longrightarrow> (y, x) \<in> edge_rel es \<Longrightarrow> seen y" and
    out: "set out = {x. seen x} - {i}" "distinct out"
    unfolding bfs_inv_def by simp_all
  have "seen x" if "(x, i) \<in> (edge_rel es)\<^sup>*" for x
    using that by (induction rule: converse_rtrancl_induct) (blast intro: seen left)+
  then have "{x. (x, i) \<in> (edge_rel es)\<^sup>*} = {x. seen x}" using seen(2) by blast
  with out show ?case by simp
next
  case (2 es seen cur queue out)
  with bfs_inv_step[OF 2(2)] show ?case by (simp add: visit_fresh Let_def)
qed

lemma dependentsOf_props:
  "set (dependentsOf es i) = {x. (x, i) \<in> (edge_rel es)\<^sup>*} - {i}" "distinct (dependentsOf es i)"
  "sorted (dependentsOf es i)"
proof -
  have "bfs_inv es i (\<lambda>x. x = i) [i] []" by (simp add: bfs_inv_def)
  from bfs_reach[OF this] show "set (dependentsOf es i) = {x. (x, i) \<in> (edge_rel es)\<^sup>*} - {i}"
    "distinct (dependentsOf es i)"
    by (simp_all add: dependentsOf_def)
  show "sorted (dependentsOf es i)" by (simp add: dependentsOf_def sorted_sort_strings)
qed

section \<open>The at-risk list\<close>

record at_risk_component =
  ar_id :: string
  ar_kind :: string
  ar_name :: string
  ar_namespace :: string
  ar_status :: string
  ar_risk :: int
  ar_inherited_from :: string
  ar_dependents :: "string list"

definition riskier :: "(string \<rightharpoonup> int) \<Rightarrow> string \<Rightarrow> string \<Rightarrow> string" where
  "riskier risk i best =
     (if best = [] \<or> iget risk i > iget risk best \<or> (iget risk i = iget risk best \<and> i < best)
      then i else best)"

definition riskiest :: "string list \<Rightarrow> (string \<rightharpoonup> int) \<Rightarrow> string" where
  "riskiest ids risk = fold (riskier risk) ids []"

definition risk_map :: "component list \<Rightarrow> (string \<rightharpoonup> int)" where
  "risk_map ns = fold (\<lambda>n m. m(c_id n \<mapsto> c_risk n)) ns Map.empty"

definition at_risk_entry :: "graph \<Rightarrow> (string \<rightharpoonup> string) \<Rightarrow> component \<Rightarrow> at_risk_component" where
  "at_risk_entry g addonStatus n =
     \<lparr>ar_id = c_id n, ar_kind = c_kind n, ar_name = c_name n, ar_namespace = c_namespace n,
      ar_status = c_status n, ar_risk = c_risk n,
      ar_inherited_from =
        (if baseRisk n addonStatus < c_risk n
         then riskiest (adjacency (g_edges g) (c_id n)) (risk_map (g_nodes g)) else []),
      ar_dependents = dependentsOf (g_edges g) (c_id n)\<rparr>"

definition at_risk_less :: "at_risk_component \<Rightarrow> at_risk_component \<Rightarrow> bool" where
  "at_risk_less a b =
     (if ar_risk a \<noteq> ar_risk b then ar_risk a > ar_risk b else ar_id a < ar_id b)"

definition AtRisk :: "graph \<Rightarrow> (string \<rightharpoonup> string) \<Rightarrow> at_risk_component list" where
  "AtRisk g addonStatus =
     go_sort at_risk_less
       (fold (\<lambda>n out. if c_risk n < atRiskThreshold then out
                      else out @ [at_risk_entry g addonStatus n]) (g_nodes g) [])"

interpretation at_risk: sort_less at_risk_less
  by unfold_locales (auto simp: at_risk_less_def split: if_splits)

lemma AtRisk_unsorted:
  "fold (\<lambda>n out. if c_risk n < atRiskThreshold then out else out @ [at_risk_entry g st n]) ns out =
     out @ map (at_risk_entry g st) (filter (\<lambda>n. atRiskThreshold \<le> c_risk n) ns)"
  by (induction ns arbitrary: out) auto

lemma mset_AtRisk:
  "mset (AtRisk g st) = mset (map (at_risk_entry g st) (filter (\<lambda>n. atRiskThreshold \<le> c_risk n) (g_nodes g)))"
  by (simp add: AtRisk_def AtRisk_unsorted)

lemma set_AtRisk:
  "set (AtRisk g st) = at_risk_entry g st ` {n \<in> set (g_nodes g). atRiskThreshold \<le> c_risk n}"
  by (simp add: AtRisk_def AtRisk_unsorted)

text \<open>The riskiest id: of greatest risk, and the least of those.\<close>

definition outranks :: "(string \<rightharpoonup> int) \<Rightarrow> string \<Rightarrow> string \<Rightarrow> bool" where
  "outranks risk r i \<longleftrightarrow> iget risk i < iget risk r \<or> (iget risk i = iget risk r \<and> r \<le> i)"

lemma outranks_refl: "outranks risk r r"
  by (simp add: outranks_def)

lemma outranks_trans: "outranks risk r j \<Longrightarrow> outranks risk j i \<Longrightarrow> outranks risk r i"
  by (auto simp: outranks_def)

lemma riskier_outranks:
  assumes "best \<noteq> []"
  shows "outranks risk (riskier risk i best) best" "outranks risk (riskier risk i best) i"
    "riskier risk i best \<in> {i, best}"
  using assms by (auto simp: outranks_def riskier_def not_less intro: order.strict_implies_order)

lemma riskiest_fold:
  assumes "\<forall>i\<in>set ids. i \<noteq> []" "best \<noteq> []"
  shows "fold (riskier risk) ids best \<in> insert best (set ids) \<and>
     (\<forall>i\<in>insert best (set ids). outranks risk (fold (riskier risk) ids best) i)"
  using assms
proof (induction ids arbitrary: best)
  case (Cons i ids)
  define b where "b = riskier risk i best"
  have b: "b \<in> {i, best}" "outranks risk b best" "outranks risk b i"
    using riskier_outranks[OF Cons.prems(2)] by (simp_all only: b_def)
  then have "b \<noteq> []" using Cons.prems by (elim insertE) simp_all
  define r where "r = fold (riskier risk) ids b"
  have ih: "r \<in> insert b (set ids)" "\<forall>j\<in>insert b (set ids). outranks risk r j"
    using Cons.IH[OF _ \<open>b \<noteq> []\<close>] Cons.prems(1) by (simp_all add: r_def)
  then have rb: "outranks risk r b" by simp
  have "r \<in> insert best (set (i # ids))" using ih(1) b(1) by simp blast
  moreover have "\<forall>j\<in>insert best (set (i # ids)). outranks risk r j"
    using ih(2) outranks_trans[OF rb b(2)] outranks_trans[OF rb b(3)] by simp
  moreover have "fold (riskier risk) (i # ids) best = r" by (simp add: r_def b_def)
  ultimately show ?case by (simp only:)
qed (simp add: outranks_refl)

lemma riskiest_max:
  assumes "\<forall>i\<in>set ids. i \<noteq> []" "ids \<noteq> []"
  shows "riskiest ids risk \<in> set ids" "i \<in> set ids \<Longrightarrow> outranks risk (riskiest ids risk) i"
proof -
  obtain j js where js: "ids = j # js" using assms(2) by (cases ids) auto
  have "riskier risk j [] = j" by (simp add: riskier_def)
  with riskiest_fold[of js j risk] assms(1)
  show "riskiest ids risk \<in> set ids" "i \<in> set ids \<Longrightarrow> outranks risk (riskiest ids risk) i"
    by (simp_all add: js riskiest_def) blast
qed

end
