(* ===== verification/Compat.thy ===== *)
theory Compat
  imports Snapshot
begin

text \<open>
  The compatibility engine, \<open>internal/compat/evaluate.go\<close> and \<open>internal/compat/matrix.go\<close>. The
  semver package (\<open>blang/semver\<close>: \<open>Parse\<close>, \<open>ParseRange\<close>, the version's major and minor number)
  and the YAML decoder are third-party code: they are the record \<open>semver_lib\<close> and a function
  argument, used by every definition that needs them.
\<close>

section \<open>Data\<close>

record compat_rule =
  cp_addon_range :: string
  cp_k8s_range :: string
  cp_note :: string

type_synonym matrix = "string \<rightharpoonup> compat_rule list"

record addon_compatibility =
  ac_name :: string
  ac_version :: string
  ac_status :: string
  ac_required_version :: string
  ac_note :: string

definition StatusCompatible :: string where "StatusCompatible = ''compatible''"
definition StatusIncompatible :: string where "StatusIncompatible = ''incompatible''"
definition StatusUnknown :: string where "StatusUnknown = ''unknown''"

lemmas status_defs = StatusCompatible_def StatusIncompatible_def StatusUnknown_def

record 'v semver_lib =
  sv_parse :: "string \<Rightarrow> 'v option"
  sv_range :: "string \<Rightarrow> ('v \<Rightarrow> bool) option"
  sv_major :: "'v \<Rightarrow> nat"
  sv_minor :: "'v \<Rightarrow> nat"

section \<open>Versions\<close>

definition pad_parts :: "string list \<Rightarrow> string list" where
  "pad_parts ps = ps @ replicate (3 - length ps) ''0''"

definition parseSemver :: "'v semver_lib \<Rightarrow> string \<Rightarrow> 'v option" where
  "parseSemver lib v =
     (let v1 = trim_prefix (trim_space v) ''v'';
          v2 = before_byte CHR ''+'' v1;
          ps = pad_parts (split_byte_n CHR ''.'' 3 v2)
      in sv_parse lib (ps ! 0 @ ''.'' @ ps ! 1 @ ''.'' @ ps ! 2))"

section \<open>Evaluation\<close>

definition requiredAddonVersion :: "'v semver_lib \<Rightarrow> compat_rule list \<Rightarrow> 'v \<Rightarrow> string" where
  "requiredAddonVersion lib rules target =
     (case find (\<lambda>r. case sv_range lib (cp_k8s_range r) of None \<Rightarrow> False | Some kr \<Rightarrow> kr target) rules of
        None \<Rightarrow> [] | Some r \<Rightarrow> cp_addon_range r)"

definition applicable_rules :: "'v semver_lib \<Rightarrow> compat_rule list \<Rightarrow> 'v \<Rightarrow> compat_rule list" where
  "applicable_rules lib rules av = fold (\<lambda>rule acc.
     case sv_range lib (cp_addon_range rule) of
       None \<Rightarrow> acc
     | Some ar \<Rightarrow> if ar av then acc @ [rule] else acc) rules []"

definition result :: "detected_addon \<Rightarrow> string \<Rightarrow> string \<Rightarrow> string \<Rightarrow> addon_compatibility" where
  "result a st req note = \<lparr>ac_name = ad_name a, ac_version = ad_version a, ac_status = st,
     ac_required_version = req, ac_note = note\<rparr>"

definition evaluateAddon :: "'v semver_lib \<Rightarrow> detected_addon \<Rightarrow> 'v option \<Rightarrow> compat_rule list \<Rightarrow> addon_compatibility" where
  "evaluateAddon lib a target rules =
     (if rules = [] then result a StatusUnknown [] ''no compatibility data for this add-on''
      else case target of
        None \<Rightarrow> result a StatusUnknown [] ''target version could not be parsed''
      | Some t \<Rightarrow>
          (case parseSemver lib (ad_version a) of
             None \<Rightarrow> result a StatusUnknown [] ''add-on version unknown; cannot match a specific rule''
           | Some av \<Rightarrow>
               if ad_version a = [] then
                 result a StatusUnknown [] ''add-on version unknown; cannot match a specific rule''
               else
                 (let app = applicable_rules lib rules av in
                  if app = [] then
                    result a StatusUnknown [] ''no compatibility rule matches the detected add-on version''
                  else case find (\<lambda>r. case sv_range lib (cp_k8s_range r) of
                                        None \<Rightarrow> False | Some kr \<Rightarrow> kr t) app of
                    Some r \<Rightarrow> result a StatusCompatible [] (cp_note r)
                  | None \<Rightarrow>
                      (let req = requiredAddonVersion lib rules t;
                           k8s = dec_nat (sv_major lib t) @ ''.'' @ dec_nat (sv_minor lib t);
                           head = ad_name a @ '' '' @ ad_version a @ '' supports Kubernetes ''
                                    @ cp_k8s_range (hd app)
                       in result a StatusIncompatible req
                            (if req \<noteq> []
                             then head @ ''; upgrade '' @ ad_name a @ '' to '' @ req
                                    @ '' to support Kubernetes '' @ k8s
                             else head @ ''; no known '' @ ad_name a
                                    @ '' version supports Kubernetes '' @ k8s)))))"

definition Evaluate :: "'v semver_lib \<Rightarrow> detected_addon list \<Rightarrow> string \<Rightarrow> matrix
    \<Rightarrow> addon_compatibility list \<times> int" where
  "Evaluate lib addons targetVersion m =
     (let target = parseSemver lib targetVersion
      in fold (\<lambda>a (results, incompatible).
           let res = evaluateAddon lib a target (case m (ad_name a) of None \<Rightarrow> [] | Some rs \<Rightarrow> rs)
           in (results @ [res],
               if ac_status res = StatusIncompatible then incompatible + 1 else incompatible))
         addons ([], 0))"

section \<open>The matrix\<close>

text \<open>\<open>cloneMatrix\<close> copies every rule list, so the caller's copy shares no slice with the built-in one.\<close>

definition cloneMatrix :: "matrix \<Rightarrow> matrix" where
  "cloneMatrix src = (\<lambda>name. map_option (\<lambda>rules. map (\<lambda>r. r) rules) (src name))"

text \<open>
  The built-in matrix, decoded when the program starts; \<open>None\<close> is the panic on a malformed file.
\<close>

definition mustLoadEmbedded :: "(string \<Rightarrow> string + (string \<times> compat_rule list) list) \<Rightarrow> string \<Rightarrow> matrix option" where
  "mustLoadEmbedded decode embeddedMatrix =
     (case decode embeddedMatrix of Inl err \<Rightarrow> None | Inr addons \<Rightarrow> Some (map_of addons))"

definition DefaultMatrix :: "matrix \<Rightarrow> matrix" where
  "DefaultMatrix defaultMatrix = cloneMatrix defaultMatrix"

text \<open>
  \<open>decode\<close> is \<open>yaml.Unmarshal\<close> into the override document: an error, or the entries of its map in
  the order the \<open>range\<close> loop meets them. The result is the matrix and the error, if any.
\<close>

definition LoadMatrix :: "(string \<Rightarrow> string + (string \<times> compat_rule list) list) \<Rightarrow> matrix \<Rightarrow> string
    \<Rightarrow> matrix \<times> string option" where
  "LoadMatrix decode defaultMatrix yamlData =
     (let m = cloneMatrix defaultMatrix
      in if yamlData = [] then (m, None)
         else case decode yamlData of
           Inl err \<Rightarrow> (m, Some err)
         | Inr addons \<Rightarrow> (fold (\<lambda>(name, rules) m. m(name \<mapsto> rules)) addons m, None))"

section \<open>Lemmas\<close>

definition supports :: "'v semver_lib \<Rightarrow> 'v \<Rightarrow> compat_rule \<Rightarrow> bool" where
  "supports lib t r \<longleftrightarrow> (\<exists>kr. sv_range lib (cp_k8s_range r) = Some kr \<and> kr t)"

definition covers :: "'v semver_lib \<Rightarrow> 'v \<Rightarrow> compat_rule \<Rightarrow> bool" where
  "covers lib av r \<longleftrightarrow> (\<exists>ar. sv_range lib (cp_addon_range r) = Some ar \<and> ar av)"

lemma supports_case:
  "(case sv_range lib (cp_k8s_range r) of None \<Rightarrow> False | Some kr \<Rightarrow> kr t) = supports lib t r"
  by (auto simp: supports_def split: option.splits)

lemma applicable_rules_eq: "applicable_rules lib rules av = filter (covers lib av) rules"
proof -
  have "fold (\<lambda>rule acc. case sv_range lib (cp_addon_range rule) of
      None \<Rightarrow> acc | Some ar \<Rightarrow> if ar av then acc @ [rule] else acc) rules acc
    = acc @ filter (covers lib av) rules" for acc
    by (induction rules arbitrary: acc) (auto simp: covers_def split: option.splits)
  then show ?thesis by (simp add: applicable_rules_def)
qed

text \<open>The verdict on one add-on, as the documentation states it.\<close>

definition addon_verdict :: "'v semver_lib \<Rightarrow> detected_addon \<Rightarrow> 'v option \<Rightarrow> compat_rule list \<Rightarrow> string" where
  "addon_verdict lib a target rules =
     (case (target, parseSemver lib (ad_version a)) of
        (Some t, Some av) \<Rightarrow>
          if ad_version a = [] \<or> \<not> list_ex (covers lib av) rules then ''unknown''
          else if list_ex (\<lambda>r. covers lib av r \<and> supports lib t r) rules then ''compatible''
          else ''incompatible''
      | _ \<Rightarrow> ''unknown'')"

lemma find_None_ex: "find P xs = None \<longleftrightarrow> \<not> list_ex P xs"
  by (auto simp: find_None_iff list_ex_iff)

lemma evaluateAddon_status: "ac_status (evaluateAddon lib a target rules) = addon_verdict lib a target rules"
proof (cases "target = None \<or> parseSemver lib (ad_version a) = None \<or> rules = []")
  case True
  then show ?thesis
    by (auto simp: evaluateAddon_def addon_verdict_def result_def status_defs split: option.splits)
next
  case False
  then obtain t av where t: "target = Some t" "parseSemver lib (ad_version a) = Some av" "rules \<noteq> []" by auto
  let ?app = "filter (covers lib av) rules"
  have app: "?app = [] \<longleftrightarrow> \<not> list_ex (covers lib av) rules"
    by (auto simp: filter_empty_conv list_ex_iff)
  have f: "find (supports lib t) ?app = None \<longleftrightarrow> \<not> list_ex (\<lambda>r. covers lib av r \<and> supports lib t r) rules"
    by (auto simp: find_None_iff list_ex_iff)
  show ?thesis
    using t f
    by (cases "find (supports lib t) ?app")
      (simp_all add: evaluateAddon_def addon_verdict_def result_def status_defs Let_def
        applicable_rules_eq supports_case app)
qed

lemma requiredAddonVersion_supports:
  assumes "requiredAddonVersion lib rules t \<noteq> []"
  shows "\<exists>r\<in>set rules. cp_addon_range r = requiredAddonVersion lib rules t \<and> supports lib t r"
proof (cases "find (supports lib t) rules")
  case None
  with assms show ?thesis by (simp add: requiredAddonVersion_def supports_case)
next
  case (Some r)
  then have "r \<in> set rules" "supports lib t r" by (auto simp: find_Some_iff)
  then show ?thesis using Some by (auto simp: requiredAddonVersion_def supports_case)
qed

lemma Evaluate_fold:
  "fold (\<lambda>a (results, incompatible).
           let res = f a in (results @ [res], if ac_status res = s then incompatible + 1 else incompatible))
     addons (rs, n) =
   (rs @ map f addons, n + int (length (filter (\<lambda>r. ac_status r = s) (map f addons))))"
  by (induction addons arbitrary: rs n) (auto simp: Let_def)

lemma Evaluate_eq:
  "Evaluate lib addons targetVersion m =
     (let rs = map (\<lambda>a. evaluateAddon lib a (parseSemver lib targetVersion)
                  (case m (ad_name a) of None \<Rightarrow> [] | Some rs \<Rightarrow> rs)) addons
      in (rs, int (length (filter (\<lambda>r. ac_status r = ''incompatible'') rs))))"
  unfolding Evaluate_def Let_def[of "parseSemver lib targetVersion"] Evaluate_fold
  by (simp add: Let_def status_defs)

lemma cloneMatrix_id: "cloneMatrix m = m"
  by (simp add: cloneMatrix_def option.map_ident)

subsection \<open>Version strings\<close>

definition digits :: "string \<Rightarrow> bool" where
  "digits s \<longleftrightarrow> s \<noteq> [] \<and> list_all is_digit s"

lemma is_digit_plain:
  "is_digit c \<Longrightarrow> c \<noteq> CHR ''.'' \<and> c \<noteq> CHR ''+'' \<and> c \<noteq> CHR ''v'' \<and> \<not> is_space c"
  by (auto simp: is_digit_def is_space_def)

lemma digitsD:
  assumes "digits s"
  shows "CHR ''.'' \<notin> set s" "CHR ''+'' \<notin> set s" "s \<noteq> []" "\<not> is_space (hd s)" "hd s \<noteq> CHR ''v''"
    "\<not> is_space (last s)"
  using assms is_digit_plain by (auto simp: digits_def list_all_iff)

lemma trim_space_id: "s \<noteq> [] \<Longrightarrow> \<not> is_space (hd s) \<Longrightarrow> \<not> is_space (last s) \<Longrightarrow> trim_space s = s"
proof -
  assume s: "s \<noteq> []" "\<not> is_space (hd s)" "\<not> is_space (last s)"
  then have "dropWhile is_space s = s" by (cases s) auto
  moreover have "dropWhile is_space (rev s) = rev s"
    using s by (cases s rule: rev_cases) auto
  ultimately show ?thesis by (simp add: trim_space_def)
qed

lemma trim_space_mid:
  assumes "s \<noteq> []" "\<not> is_space (hd s)" "\<not> is_space c"
  shows "\<exists>u. trim_space (s @ c # t) = s @ c # u"
proof -
  have "dropWhile is_space (s @ c # t) = s @ c # t" using assms(1,2) by (cases s) auto
  moreover have "dropWhile is_space (xs @ c # rev s) = dropWhile is_space xs @ c # rev s" for xs
    using assms(3) by (induction xs) auto
  ultimately show ?thesis by (simp add: trim_space_def)
qed

lemma split_byte_n_3:
  assumes "c \<notin> set x" "c \<notin> set y"
  shows "split_byte_n c 3 (x @ c # y @ c # z) = [x, y, z]"
proof -
  obtain p ps where p: "split_byte c z = p # ps" by (cases "split_byte c z") auto
  have "ps = [] \<Longrightarrow> p = z" using join_split[of c z] p by simp
  then show ?thesis
    using assms join_split[of c z] p
    by (cases ps) (auto simp: split_byte_n_def Let_def split_byte_append)
qed

lemma split_byte_n_short:
  "c \<notin> set x \<Longrightarrow> split_byte_n c 3 x = [x]"
  "c \<notin> set x \<Longrightarrow> c \<notin> set y \<Longrightarrow> split_byte_n c 3 (x @ c # y) = [x, y]"
  by (simp_all add: split_byte_n_def split_byte_append split_byte_no_sep)

lemma pad_parts_eq:
  "pad_parts [a] = [a, ''0'', ''0'']" "pad_parts [a, b] = [a, b, ''0'']" "pad_parts [a, b, c] = [a, b, c]"
  by (simp_all add: pad_parts_def numeral_2_eq_2)

lemma trim_v:
  "trim_prefix (''v'' @ s) ''v'' = s" "s \<noteq> [] \<Longrightarrow> hd s \<noteq> CHR ''v'' \<Longrightarrow> trim_prefix s ''v'' = s"
  by (cases s; simp add: trim_prefix_def has_prefix_def)+

lemma before_byte_eq:
  "c \<notin> set s \<Longrightarrow> before_byte c s = s" "c \<notin> set s \<Longrightarrow> before_byte c (s @ c # t) = s"
  by (auto simp: before_byte_def takeWhile_append takeWhile_eq_all_conv)

text \<open>The text the parser keeps: after the optional \<open>v\<close>, before the build metadata.\<close>

lemma parseSemver_core:
  assumes "s \<noteq> []" "\<not> is_space (hd s)" "hd s \<noteq> CHR ''v''" "\<not> is_space (last s)" "CHR ''+'' \<notin> set s"
    and "p = [] \<or> p = ''v''" and "build = [] \<or> (\<exists>t. build = CHR ''+'' # t)"
  shows "parseSemver lib (p @ s @ build) =
    (let ps = pad_parts (split_byte_n CHR ''.'' 3 s)
     in sv_parse lib (ps ! 0 @ ''.'' @ ps ! 1 @ ''.'' @ ps ! 2))"
proof -
  have ps: "p @ s \<noteq> []" "\<not> is_space (hd (p @ s))" "\<not> is_space (last (p @ s))"
    using assms by (auto simp: is_space_def)
  have "\<exists>b. trim_space (p @ s @ build) = p @ s @ b \<and> (b = [] \<or> (\<exists>t. b = CHR ''+'' # t))"
  proof (cases "build = []")
    case True
    then show ?thesis using trim_space_id[OF ps] by auto
  next
    case False
    then obtain t where "build = CHR ''+'' # t" using assms(7) by auto
    moreover have "\<not> is_space (CHR ''+'')" by (simp add: is_space_def)
    ultimately show ?thesis using trim_space_mid[OF ps(1,2), of "CHR ''+''" t] by auto
  qed
  then obtain b where b: "trim_space (p @ s @ build) = p @ s @ b" "b = [] \<or> (\<exists>t. b = CHR ''+'' # t)"
    by blast
  have "trim_prefix (p @ s @ b) ''v'' = s @ b"
    using assms(1,3,6) trim_v(1)[of "s @ b"] trim_v(2)[of "s @ b"] by auto
  moreover have "before_byte CHR ''+'' (s @ b) = s"
    using b(2) assms(5) by (auto simp: before_byte_eq)
  ultimately show ?thesis by (simp add: parseSemver_def b(1) Let_def)
qed

section \<open>Properties\<close>

text \<open>A small semver package, for the concrete instances: three numbers, ranges \<open>>=a.b.c\<close>.\<close>

definition sample_parse :: "string \<Rightarrow> (int \<times> int \<times> int) option" where
  "sample_parse s = (case split_byte CHR ''.'' s of
      [a, b, c] \<Rightarrow> (case (atoi_digits a, atoi_digits b, atoi_digits c) of
          (Some x, Some y, Some z) \<Rightarrow> Some (x, y, z) | _ \<Rightarrow> None)
    | _ \<Rightarrow> None)"

definition sample_semver :: "(int \<times> int \<times> int) semver_lib" where
  "sample_semver = \<lparr>sv_parse = sample_parse,
     sv_range = (\<lambda>r. if has_prefix r ''>='' then
        map_option (\<lambda>(a, b, c) (x, y, z). a < x \<or> (a = x \<and> (b < y \<or> (b = y \<and> c \<le> z))))
          (sample_parse (drop 2 r)) else None),
     sv_major = (\<lambda>(x, y, z). nat x), sv_minor = (\<lambda>(x, y, z). nat y)\<rparr>"

abbreviation "sample_addon \<equiv> \<lparr>ad_name = ''istio'', ad_version = ''1.10.2'',
  ad_namespace = ''istio-system'', ad_detected_via = ''image''\<rparr>"

abbreviation "sample_rules \<equiv>
  [\<lparr>cp_addon_range = ''>=1.24.0'', cp_k8s_range = ''>=1.29.0'', cp_note = []\<rparr>,
   \<lparr>cp_addon_range = ''>=1.9.0'', cp_k8s_range = ''>=1.35.0'', cp_note = []\<rparr>]"

text \<open>C13: every add-on gets the documented verdict, in order: unknown when the target, its own version
  or a matching rule is missing, compatible when some rule that covers its version supports the
  target, incompatible otherwise; the count is the number of incompatible ones.\<close>

theorem Evaluate_verdicts:
  "map ac_status (fst (Evaluate lib addons targetVersion m)) =
     map (\<lambda>a. addon_verdict lib a (parseSemver lib targetVersion)
            (case m (ad_name a) of None \<Rightarrow> [] | Some rs \<Rightarrow> rs)) addons \<and>
   map ac_name (fst (Evaluate lib addons targetVersion m)) = map ad_name addons \<and>
   snd (Evaluate lib addons targetVersion m) =
     int (length (filter (\<lambda>s. s = ''incompatible'')
       (map ac_status (fst (Evaluate lib addons targetVersion m)))))"
proof -
  have "ac_name (evaluateAddon lib a t rules) = ad_name a" for a t rules
    by (simp add: evaluateAddon_def result_def Let_def split: option.splits)
  then show ?thesis
    by (simp add: Evaluate_eq Let_def evaluateAddon_status comp_def filter_map)
qed

text \<open>an incompatible add-on is never told to move to a range its present version already satisfies:
  the recommended range is that of a rule that supports the target, and the detected version is not in it.\<close>

theorem requiredVersion_helps:
  assumes "ac_status (evaluateAddon lib a (Some t) rules) = ''incompatible''"
    and "ac_required_version (evaluateAddon lib a (Some t) rules) \<noteq> []"
  shows "\<exists>r\<in>set rules. cp_addon_range r = ac_required_version (evaluateAddon lib a (Some t) rules) \<and>
    supports lib t r \<and> (\<exists>av. parseSemver lib (ad_version a) = Some av \<and> \<not> covers lib av r)"
proof -
  from assms(1) obtain av where av: "parseSemver lib (ad_version a) = Some av" "ad_version a \<noteq> []"
      "list_ex (covers lib av) rules" "\<not> list_ex (\<lambda>r. covers lib av r \<and> supports lib t r) rules"
    unfolding evaluateAddon_status addon_verdict_def by (auto split: option.splits if_splits)
  have "ac_required_version (evaluateAddon lib a (Some t) rules) = requiredAddonVersion lib rules t"
    using assms(2) by (auto simp: evaluateAddon_def result_def Let_def split: option.splits if_splits)
  with assms(2) requiredAddonVersion_supports[of lib rules t] av show ?thesis
    by (auto simp: list_ex_iff)
qed

theorem requiredVersion_helps_witness:
  "\<exists>r\<in>set sample_rules. cp_addon_range r = ''>=1.24.0'' \<and> supports sample_semver (1, 31, 0) r"
proof -
  have "ac_status (evaluateAddon sample_semver sample_addon (Some (1, 31, 0)) sample_rules) = ''incompatible''"
    "ac_required_version (evaluateAddon sample_semver sample_addon (Some (1, 31, 0)) sample_rules) = ''>=1.24.0''"
    by code_simp+
  then show ?thesis
    using requiredVersion_helps[of sample_semver sample_addon "(1, 31, 0)" sample_rules] by auto
qed

text \<open>Version strings are normalised: an optional \<open>v\<close>, missing minor and patch numbers and build
  metadata after \<open>+\<close> do not change what is parsed; a patch suffix is kept.\<close>

theorem parseSemver_normalises:
  assumes "digits x" and "digits y" and "z \<noteq> []" and "CHR ''+'' \<notin> set z" and "\<not> is_space (last z)"
    and "p = [] \<or> p = ''v''" and "build = [] \<or> (\<exists>t. build = CHR ''+'' # t)"
  shows "parseSemver lib (p @ (x @ ''.'' @ y @ ''.'' @ z) @ build) = sv_parse lib (x @ ''.'' @ y @ ''.'' @ z) \<and>
    parseSemver lib (p @ (x @ ''.'' @ y) @ build) = sv_parse lib (x @ ''.'' @ y @ ''.0'') \<and>
    parseSemver lib (p @ x @ build) = sv_parse lib (x @ ''.0.0'')"
proof (intro conjI)
  note x = digitsD[OF assms(1)] and y = digitsD[OF assms(2)]
  show "parseSemver lib (p @ (x @ ''.'' @ y @ ''.'' @ z) @ build) = sv_parse lib (x @ ''.'' @ y @ ''.'' @ z)"
    using x y assms(3-7) by (subst parseSemver_core) (auto simp: split_byte_n_3 pad_parts_eq)
  show "parseSemver lib (p @ (x @ ''.'' @ y) @ build) = sv_parse lib (x @ ''.'' @ y @ ''.0'')"
    using x y assms(6,7) by (subst parseSemver_core) (auto simp: split_byte_n_short pad_parts_eq)
  show "parseSemver lib (p @ x @ build) = sv_parse lib (x @ ''.0.0'')"
    using x assms(6,7) by (subst parseSemver_core) (auto simp: split_byte_n_short pad_parts_eq)
qed

theorem parseSemver_normalises_witness:
  "parseSemver sample_semver ''v1.30.1+k3s1'' = Some (1, 30, 1) \<and>
   parseSemver sample_semver ''v1.30+k3s1'' = Some (1, 30, 0) \<and>
   parseSemver sample_semver ''v1+k3s1'' = Some (1, 0, 0)"
proof -
  have "digits ''1''" "digits ''30''" "\<not> is_space CHR ''1''" by code_simp+
  moreover have "sv_parse sample_semver ''1.30.1'' = Some (1, 30, 1)"
    "sv_parse sample_semver ''1.30.0'' = Some (1, 30, 0)" "sv_parse sample_semver ''1.0.0'' = Some (1, 0, 0)"
    by code_simp+
  ultimately show ?thesis
    using parseSemver_normalises[of "''1''" "''30''" "''1''" "''v''" "''+k3s1''" sample_semver] by simp
qed

text \<open>Loading the matrix: the built-in rules, replaced add-on by add-on by the override; an empty or
  undecodable override leaves the built-in matrix, and only the latter reports an error.\<close>

theorem LoadMatrix_overlay:
  "LoadMatrix decode def [] = (def, None) \<and>
   (if yaml = [] then True else case decode yaml of
      Inl err \<Rightarrow> LoadMatrix decode def yaml = (def, Some err)
    | Inr addons \<Rightarrow> LoadMatrix decode def yaml = (def ++ map_of (rev addons), None))"
proof -
  have "fold (\<lambda>(name, rules) m. m(name \<mapsto> rules)) addons m = m ++ map_of (rev addons)" for addons and m :: matrix
    by (induction addons arbitrary: m) (auto simp: fun_eq_iff map_add_def split: option.splits)
  then show ?thesis
    by (auto simp: LoadMatrix_def cloneMatrix_id Let_def split: sum.splits)
qed

end
