(* ===== verification/Report.thy ===== *)
theory Report
  imports Graph_AtRisk Compat
begin

text \<open>
  The documents the analysis writes, \<open>internal/analysis/report.go\<close> and the types of
  \<open>internal/analysis/mirror_report.go\<close>: one record per struct. A nil graph or risk pointer is
  \<open>None\<close>; a nil slice and an empty one are both \<open>[]\<close>.
\<close>

definition ReportKindUpgradeAnalysis :: string where "ReportKindUpgradeAnalysis = ''UpgradeAnalysis''"
definition ReportKindClusterMirror :: string where "ReportKindClusterMirror = ''ClusterMirror''"

section \<open>Workload reports\<close>

record node_report =
  nrp_name :: string
  nrp_status :: string
  nrp_conditions :: "string list"

record workload_pod_report =
  wpr_name :: string
  wpr_reason :: string
  wpr_restarts :: int

record deployment_report =
  dr_namespace :: string
  dr_name :: string
  dr_ready_replicas :: int
  dr_desired_replicas :: int
  dr_pods :: "workload_pod_report list"

record statefulset_report =
  sr_namespace :: string
  sr_name :: string
  sr_ready_replicas :: int
  sr_desired_replicas :: int
  sr_pods :: "workload_pod_report list"

record daemonset_report =
  dsr_namespace :: string
  dsr_name :: string
  dsr_number_unavailable :: int
  dsr_pods :: "workload_pod_report list"

record job_report =
  jr_namespace :: string
  jr_name :: string
  jr_active :: int
  jr_status :: string
  jr_reason :: string
  jr_pods :: "workload_pod_report list"

record pdb_report =
  pdr_namespace :: string
  pdr_name :: string

record pvc_report =
  pvr_namespace :: string
  pvr_name :: string
  pvr_storage_class :: string
  pvr_phase :: string

record bare_pod_report =
  bpr_namespace :: string
  bpr_name :: string
  bpr_status :: string

record deprecated_api_report =
  dar_group :: string
  dar_version :: string
  dar_resource :: string
  dar_removed_in :: string

record report_workloads =
  rw_nodes :: "node_report list"
  rw_deployments :: "deployment_report list"
  rw_statefulsets :: "statefulset_report list"
  rw_daemonsets :: "daemonset_report list"
  rw_jobs :: "job_report list"
  rw_pdbs :: "pdb_report list"
  rw_pvcs :: "pvc_report list"
  rw_bare_pods :: "bare_pod_report list"
  rw_deprecated_apis :: "deprecated_api_report list"

section \<open>Scores, metrics, conditions and the decision\<close>

record base_scores =
  bs_score :: int
  bs_weight :: string
  bs_contribution :: int
  bs_health :: int
  bs_capacity :: int
  bs_stability :: int
  bs_compatibility :: int

record ai_scores =
  as_score :: int
  as_weight :: string
  as_contribution :: int
  as_model :: string

record scores =
  sc_total :: int
  sc_base :: base_scores
  sc_ai :: ai_scores

record pod_metrics =
  pm_total :: int
  pm_not_ready :: int
  pm_restarts :: int
  pm_restarting :: int

record resource_metrics =
  rm_cpu_pressure :: f64
  rm_memory_pressure :: f64

record stability_metrics =
  sm_pod_drop_ratio :: f64
  sm_restart_delta :: int

record compatibility_metrics =
  cm_deprecated_apis :: int
  cm_addon_issues :: int

record metrics =
  m_pods :: pod_metrics
  m_resources :: resource_metrics
  m_stability :: stability_metrics
  m_compatibility :: compatibility_metrics

record conditions =
  cd_pdb_blocking :: bool
  cd_high_cpu :: bool
  cd_high_memory :: bool
  cd_unstable :: bool
  cd_severely_unstable :: bool

record decision =
  dc_allow :: bool
  dc_level :: string
  dc_blockers :: "string list"

section \<open>The reports\<close>

record addon_impact =
  im_addon :: string
  im_version :: string
  im_required_version :: string
  im_affected :: "string list"

record risk_breakdown =
  rb_by_namespace :: "namespace_risk list"

record report =
  r_kind :: string
  r_generated_at :: string
  r_cluster :: string
  r_cluster_version :: string
  r_target_version :: string
  r_decision :: decision
  r_reason :: string
  r_ai_reasoning :: string
  r_scores :: scores
  r_conditions :: conditions
  r_metrics :: metrics
  r_workloads :: report_workloads
  r_issues :: "string list"
  r_addons :: "addon_compatibility list"
  r_graph :: "graph option"
  r_risk :: "risk_breakdown option"
  r_upgrade_impact :: "addon_impact list"

record upgrade_analysis_summary =
  us_name :: string
  us_target_version :: string
  us_decision :: string
  us_score :: int
  us_last_analysis_time :: string
  us_report :: string
  us_location :: string

record mirror_upgrade =
  mu_enabled :: bool
  mu_analyses :: "upgrade_analysis_summary list"
  mu_error :: string

record mirror_summary =
  ms_components :: int
  ms_edges :: int
  ms_at_risk :: int
  ms_namespaces :: int
  ms_namespaces_at_risk :: int

record mirror_addon =
  ma_name :: string
  ma_namespace :: string
  ma_version :: string

record mirror_report =
  mr_kind :: string
  mr_generated_at :: string
  mr_mirror :: string
  mr_cluster_version :: string
  mr_upgrade :: mirror_upgrade
  mr_summary :: mirror_summary
  mr_pods :: pod_metrics
  mr_at_risk :: "at_risk_component list"
  mr_risk :: "risk_breakdown option"
  mr_addons :: "mirror_addon list"
  mr_workloads :: report_workloads
  mr_issues :: "string list"
  mr_graph :: "graph option"

end
