(* ===== verification/Score.thy ===== *)
theory Score
  imports Report Go_Scale
begin

text \<open>
  The readiness score and the verdict: \<open>internal/analysis/profile.go\<close> and
  \<open>internal/analysis/score.go\<close>. Scores are computed in float64 as the code computes them;
  \<open>int\<close> subtractions wrap at 64 bits.
\<close>

section \<open>Profiles\<close>

record scoring_profile =
  sp_name :: string
  sp_warn :: f64
  sp_block :: f64
  sp_safe :: int

definition ProfileProduction :: string where "ProfileProduction = ''production''"
definition ProfileNonProduction :: string where "ProfileNonProduction = ''non-production''"

definition scoringProfiles :: "string \<rightharpoonup> scoring_profile" where
  "scoringProfiles = [
     ProfileProduction \<mapsto> \<lparr>sp_name = ProfileProduction, sp_warn = f64_lit (5 / 100),
        sp_block = f64_lit (30 / 100), sp_safe = 90\<rparr>,
     ProfileNonProduction \<mapsto> \<lparr>sp_name = ProfileNonProduction, sp_warn = f64_lit (15 / 100),
        sp_block = f64_lit (60 / 100), sp_safe = 85\<rparr>]"

definition profileFor :: "string \<Rightarrow> scoring_profile" where
  "profileFor name = (case scoringProfiles name of
      Some p \<Rightarrow> p | None \<Rightarrow> the (scoringProfiles ProfileProduction))"

section \<open>Arithmetic helpers\<close>

definition nonZero :: "f64 \<Rightarrow> f64" where
  "nonZero v = (if f64_eq v 0 then 1 else v)"

definition nonZeroInt :: "int \<Rightarrow> int" where
  "nonZeroInt v = (if v = 0 then 1 else v)"

definition clamp :: "int \<Rightarrow> int \<Rightarrow> int" where
  "clamp v m = (if v < 0 then 0 else if v > m then m else v)"

definition capPenalty :: "f64 \<Rightarrow> f64 \<Rightarrow> f64" where
  "capPenalty v limit = (if v < 0 then 0 else if limit < v then limit else v)"

definition podDropRatio :: "cluster_snapshot \<Rightarrow> f64" where
  "podDropRatio snap =
     (let dropped = wrap64 (s_previous_total_pods snap - s_total_pods snap)
      in if dropped < 0 then 0
         else f64_of_int dropped / f64_of_int (nonZeroInt (s_total_pods snap)))"

section \<open>Metrics and conditions\<close>

definition buildMetrics :: "cluster_snapshot \<Rightarrow> metrics" where
  "buildMetrics snap = \<lparr>
     m_pods = \<lparr>pm_total = s_total_pods snap, pm_not_ready = s_not_ready_pods snap,
               pm_restarts = s_total_restarts snap, pm_restarting = s_restarting_pods snap\<rparr>,
     m_resources = \<lparr>rm_cpu_pressure = s_cpu_requests snap / nonZero (s_cpu_capacity snap),
                    rm_memory_pressure = s_mem_requests snap / nonZero (s_mem_capacity snap)\<rparr>,
     m_stability = \<lparr>sm_pod_drop_ratio = podDropRatio snap,
                    sm_restart_delta = wrap64 (s_total_restarts snap - s_previous_restarts snap)\<rparr>,
     m_compatibility = \<lparr>cm_deprecated_apis = s_deprecated_apis snap,
                        cm_addon_issues = s_addon_issues snap\<rparr>\<rparr>"

definition buildConditions :: "cluster_snapshot \<Rightarrow> metrics \<Rightarrow> scoring_profile \<Rightarrow> conditions" where
  "buildConditions snap m p =
     (let notReadyRatio = f64_of_int (pm_not_ready (m_pods m)) / f64_of_int (nonZeroInt (pm_total (m_pods m)))
      in \<lparr>cd_pdb_blocking = s_pdb_blocking snap,
          cd_high_cpu = f64_lit (9 / 10) < rm_cpu_pressure (m_resources m),
          cd_high_memory = f64_lit (9 / 10) < rm_memory_pressure (m_resources m),
          cd_unstable = (0 < pm_total (m_pods m) \<and> sp_warn p < notReadyRatio),
          cd_severely_unstable = (0 < pm_total (m_pods m) \<and> sp_block p < notReadyRatio)\<rparr>)"

section \<open>The four dimensions\<close>

definition calcHealth :: "metrics \<Rightarrow> int" where
  "calcHealth m =
     (let tot = f64_of_int (nonZeroInt (pm_total (m_pods m)));
          notReadyPenalty = f64_of_int (pm_not_ready (m_pods m)) / tot * f64_of_int 15;
          restartPenalty = f64_of_int (pm_restarting (m_pods m)) / tot * f64_of_int 10
      in clamp (f64_to_int (f64_of_int 25 - notReadyPenalty - restartPenalty)) 25)"

definition calcCapacity :: "metrics \<Rightarrow> int" where
  "calcCapacity m =
     clamp (f64_to_int (f64_of_int 30 - rm_cpu_pressure (m_resources m) * f64_of_int 15
              - rm_memory_pressure (m_resources m) * f64_of_int 15)) 30"

definition calcStability :: "metrics \<Rightarrow> int" where
  "calcStability m =
     (let restartingRatio = f64_of_int (pm_restarting (m_pods m)) / f64_of_int (nonZeroInt (pm_total (m_pods m)));
          crashPenalty = capPenalty (restartingRatio * f64_of_int 10) (f64_of_int 10);
          restartPenalty = capPenalty (f64_of_int (sm_restart_delta (m_stability m)) * f64_lit (5 / 10)) (f64_of_int 6);
          podPenalty = capPenalty (sm_pod_drop_ratio (m_stability m) * f64_of_int 10) (f64_of_int 4)
      in clamp (f64_to_int (f64_of_int 20 - crashPenalty - restartPenalty - podPenalty)) 20)"

text \<open>\<open>compatDecay\<close>, as the float64 the constant is converted to.\<close>

definition compatDecay :: rat where "compatDecay = rnd (6 / 10)"

definition calcCompatibility :: "metrics \<Rightarrow> int" where
  "calcCompatibility m =
     (let issues = f64_of_int (cm_deprecated_apis (m_compatibility m))
                   + f64_of_int 2 * f64_of_int (cm_addon_issues (m_compatibility m));
          penalty = f64_of_int 25 * (1 - math_pow compatDecay issues)
      in clamp (f64_to_int (f64_of_int 25 - penalty)) 25)"

section \<open>The decision\<close>

definition levelSafe :: string where "levelSafe = ''SAFE''"
definition levelWarning :: string where "levelWarning = ''WARNING''"
definition levelCritical :: string where "levelCritical = ''CRITICAL''"

lemmas level_defs = levelSafe_def levelWarning_def levelCritical_def

definition decide :: "int \<Rightarrow> conditions \<Rightarrow> scoring_profile \<Rightarrow> string \<times> bool" where
  "decide tot c p =
     (if cd_pdb_blocking c \<or> cd_high_cpu c \<or> cd_high_memory c \<or> cd_severely_unstable c
      then (levelCritical, False)
      else if cd_unstable c \<or> tot < sp_safe p then (levelWarning, True)
      else (levelSafe, True))"

section \<open>Issues and the reason\<close>

definition jobStatusFailed :: string where "jobStatusFailed = ''Failed''"

definition stateIssues :: "cluster_snapshot \<Rightarrow> string list" where
  "stateIssues snap =
     map (\<lambda>p. ''pod '' @ pi_namespace p @ ''/'' @ pi_name p @ '': '' @ pi_reason p
               @ '' (restarts: '' @ dec_int (pi_restarts p) @ '')'') (s_pod_issues snap)
     @ map (\<lambda>n. ''node '' @ ni_name n @ '': '' @ ni_reason n) (s_node_issues snap)
     @ map (\<lambda>ss. ''statefulset '' @ ss_namespace ss @ ''/'' @ ss_name ss @ '': ''
               @ dec_int (ss_ready_replicas ss) @ ''/'' @ dec_int (ss_total_replicas ss)
               @ '' replicas ready'') (s_statefulset_issues snap)
     @ map (\<lambda>ds. ''daemonset '' @ ds_namespace ds @ ''/'' @ ds_name ds @ '': ''
               @ dec_int (ds_number_unavailable ds) @ '' pod(s) unavailable'') (s_daemonset_issues snap)
     @ map (\<lambda>j. ''job '' @ ji_namespace j @ ''/'' @ ji_name j @ '': failed ('' @ ji_reason j @ '')'')
         (filter (\<lambda>j. ji_status j = jobStatusFailed) (s_job_issues snap))"

definition buildIssues :: "cluster_snapshot \<Rightarrow> string list" where
  "buildIssues snap = stateIssues snap
     @ map (\<lambda>p. ''pdb '' @ pdb_namespace p @ ''/'' @ pdb_name p @ '': would block drain'') (s_pdb_issues snap)
     @ map (\<lambda>j. ''job '' @ ji_namespace j @ ''/'' @ ji_name j @ '': '' @ dec_int (ji_active j)
               @ '' active pod(s) may be interrupted'')
         (filter (\<lambda>j. ji_status j \<noteq> jobStatusFailed) (s_job_issues snap))
     @ map (\<lambda>a. ''deprecated API '' @ da_resource a @ '' ('' @ da_version a @ '') removed in k8s '' @ da_removed_in a)
         (s_deprecated_api_list snap)"

definition buildReason :: "string \<Rightarrow> conditions \<Rightarrow> metrics \<Rightarrow> cluster_snapshot \<Rightarrow> string" where
  "buildReason level c m snap =
     (if cd_pdb_blocking c then
        (case s_pdb_issues snap of
           p # _ \<Rightarrow> ''Blocked by PodDisruptionBudget '' @ pdb_namespace p @ ''/'' @ pdb_name p
         | [] \<Rightarrow> ''Blocked by PodDisruptionBudget'')
      else if s_node_issues snap \<noteq> [] then
        dec_nat (length (s_node_issues snap)) @ '' node(s) with issues: ''
          @ join_str '', '' (map (\<lambda>n. ni_name n @ '' ('' @ ni_reason n @ '')'') (s_node_issues snap))
      else if cd_high_cpu c then
        ''High CPU pressure detected ('' @ fmt_0f (rm_cpu_pressure (m_resources m) * f64_of_int 100) @ ''% of capacity)''
      else if cd_high_memory c then
        ''High memory pressure detected ('' @ fmt_0f (rm_memory_pressure (m_resources m) * f64_of_int 100) @ ''% of capacity)''
      else if cd_unstable c \<and> s_pod_issues snap \<noteq> [] then
        dec_nat (length (s_pod_issues snap)) @ '' pod(s) not ready: ''
          @ join_str '', '' (map (\<lambda>p. pi_namespace p @ ''/'' @ pi_name p @ '' ('' @ pi_reason p @ '')'') (s_pod_issues snap))
      else case s_statefulset_issues snap of
        ss # _ \<Rightarrow> ''StatefulSet '' @ ss_namespace ss @ ''/'' @ ss_name ss @ '' not fully ready (''
                     @ dec_int (ss_ready_replicas ss) @ ''/'' @ dec_int (ss_total_replicas ss) @ '' replicas)''
      | [] \<Rightarrow>
        (case s_daemonset_issues snap of
           ds # _ \<Rightarrow> ''DaemonSet '' @ ds_namespace ds @ ''/'' @ ds_name ds @ '' has ''
                        @ dec_int (ds_number_unavailable ds) @ '' unavailable pod(s)''
         | [] \<Rightarrow>
           if s_job_issues snap \<noteq> [] then
             (let failed = length (filter (\<lambda>j. ji_status j = jobStatusFailed) (s_job_issues snap))
              in if failed > 0 then dec_nat failed @ '' job(s) failed after exhausting retries''
                 else dec_nat (length (s_job_issues snap)) @ '' active job(s) may be interrupted during upgrade'')
           else if cm_deprecated_apis (m_compatibility m) > 0 then
             ''Risk detected: '' @ dec_int (cm_deprecated_apis (m_compatibility m)) @ '' deprecated API(s) in use''
           else if cm_addon_issues (m_compatibility m) > 0 then
             ''Risk detected: '' @ dec_int (cm_addon_issues (m_compatibility m)) @ '' addon issue(s)''
           else if level = levelSafe then ''Cluster is ready for upgrade''
           else ''Cluster upgrade requires attention''))"

definition pod_reports :: "workload_pod list \<Rightarrow> workload_pod_report list" where
  "pod_reports = map (\<lambda>p. \<lparr>wpr_name = wp_name p, wpr_reason = wp_reason p, wpr_restarts = wp_restarts p\<rparr>)"

definition buildWorkloads :: "cluster_snapshot \<Rightarrow> report_workloads" where
  "buildWorkloads snap = \<lparr>
     rw_nodes = map (\<lambda>n. \<lparr>nrp_name = nw_name n, nrp_status = nw_status n, nrp_conditions = nw_conditions n\<rparr>)
       (s_node_workloads snap),
     rw_deployments = map (\<lambda>d. \<lparr>dr_namespace = dw_namespace d, dr_name = dw_name d,
         dr_ready_replicas = dw_ready_replicas d, dr_desired_replicas = dw_desired_replicas d,
         dr_pods = pod_reports (dw_pods d)\<rparr>) (s_deployment_workloads snap),
     rw_statefulsets = map (\<lambda>ss. \<lparr>sr_namespace = ss_namespace ss, sr_name = ss_name ss,
         sr_ready_replicas = ss_ready_replicas ss, sr_desired_replicas = ss_total_replicas ss,
         sr_pods = pod_reports (ss_pods ss)\<rparr>) (s_statefulset_issues snap),
     rw_daemonsets = map (\<lambda>ds. \<lparr>dsr_namespace = ds_namespace ds, dsr_name = ds_name ds,
         dsr_number_unavailable = ds_number_unavailable ds, dsr_pods = pod_reports (ds_pods ds)\<rparr>)
       (s_daemonset_issues snap),
     rw_jobs = map (\<lambda>j. \<lparr>jr_namespace = ji_namespace j, jr_name = ji_name j, jr_active = ji_active j,
         jr_status = ji_status j, jr_reason = ji_reason j, jr_pods = pod_reports (ji_pods j)\<rparr>)
       (s_job_issues snap),
     rw_pdbs = map (\<lambda>p. \<lparr>pdr_namespace = pdb_namespace p, pdr_name = pdb_name p\<rparr>) (s_pdb_issues snap),
     rw_pvcs = map (\<lambda>p. \<lparr>pvr_namespace = pvc_namespace p, pvr_name = pvc_name p,
         pvr_storage_class = pvc_storage_class p, pvr_phase = pvc_phase p\<rparr>) (s_pvcs snap),
     rw_bare_pods = map (\<lambda>p. \<lparr>bpr_namespace = bp_namespace p, bpr_name = bp_name p, bpr_status = bp_status p\<rparr>)
       (s_bare_pods snap),
     rw_deprecated_apis = map (\<lambda>a. \<lparr>dar_group = da_group a, dar_version = da_version a,
         dar_resource = da_resource a, dar_removed_in = da_removed_in a\<rparr>) (s_deprecated_api_list snap)\<rparr>"

section \<open>The report\<close>

definition Calculate :: "cluster_snapshot \<Rightarrow> string \<Rightarrow> string \<Rightarrow> report" where
  "Calculate snap targetVersion profileName =
     (let profile = profileFor profileName;
          m = buildMetrics snap;
          c = buildConditions snap m profile;
          health = calcHealth m; capacity = calcCapacity m;
          stability = calcStability m; compatibility = calcCompatibility m;
          tot = health + capacity + stability + compatibility;
          (level, allow) = decide tot c profile
      in \<lparr>r_kind = ReportKindUpgradeAnalysis, r_generated_at = [],
          r_cluster = s_cluster_name snap, r_cluster_version = s_cluster_version snap,
          r_target_version = targetVersion,
          r_decision = \<lparr>dc_allow = allow, dc_level = level, dc_blockers = []\<rparr>,
          r_reason = buildReason level c m snap, r_ai_reasoning = [],
          r_scores = \<lparr>sc_total = tot,
             sc_base = \<lparr>bs_score = tot, bs_weight = ''100%'', bs_contribution = tot,
                        bs_health = health, bs_capacity = capacity, bs_stability = stability,
                        bs_compatibility = compatibility\<rparr>,
             sc_ai = \<lparr>as_score = 0, as_weight = [], as_contribution = 0, as_model = []\<rparr>\<rparr>,
          r_conditions = c, r_metrics = m, r_workloads = buildWorkloads snap,
          r_issues = buildIssues snap, r_addons = [], r_graph = None, r_risk = None,
          r_upgrade_impact = []\<rparr>)"

definition ApplyAIScore :: "report \<Rightarrow> int \<Rightarrow> string \<Rightarrow> string \<Rightarrow> string \<Rightarrow> report" where
  "ApplyAIScore r aiScore reasoning model profileName =
     (let baseScore = bs_score (sc_base (r_scores r));
          baseContribution = f64_to_int (f64_of_int baseScore * f64_lit (7 / 10));
          aiContribution = f64_to_int (f64_of_int aiScore * f64_lit (3 / 10));
          blended = wrap64 (baseContribution + aiContribution);
          (level, allow) = decide blended (r_conditions r) (profileFor profileName)
      in r\<lparr>r_scores := \<lparr>sc_total = blended,
               sc_base = (sc_base (r_scores r))\<lparr>bs_weight := ''70%'', bs_contribution := baseContribution\<rparr>,
               sc_ai = \<lparr>as_score = aiScore, as_weight = ''30%'', as_contribution = aiContribution,
                        as_model = model\<rparr>\<rparr>,
           r_ai_reasoning := (if reasoning \<noteq> [] then reasoning else r_ai_reasoning r),
           r_decision := (r_decision r)\<lparr>dc_level := level, dc_allow := allow\<rparr>\<rparr>)"

definition collectBlockers :: "report \<Rightarrow> string list" where
  "collectBlockers r =
     (let c = r_conditions r; m = r_metrics r in
      (if cd_pdb_blocking c then
         (case rw_pdbs (r_workloads r) of
            p # _ \<Rightarrow> [''PodDisruptionBudget '' @ pdr_namespace p @ ''/'' @ pdr_name p @ '' would stall node drain'']
          | [] \<Rightarrow> [''a PodDisruptionBudget would stall node drain'']) else [])
      @ (if cd_high_cpu c then
          [''CPU pressure at '' @ fmt_0f (rm_cpu_pressure (m_resources m) * f64_of_int 100) @ ''% of capacity''] else [])
      @ (if cd_high_memory c then
          [''memory pressure at '' @ fmt_0f (rm_memory_pressure (m_resources m) * f64_of_int 100) @ ''% of capacity''] else [])
      @ (if cd_severely_unstable c then
          (let pods = m_pods m;
               pct = (if pm_total pods > 0
                      then f64_of_int (pm_not_ready pods) / f64_of_int (pm_total pods) * f64_of_int 100 else 0)
           in [fmt_0f pct @ ''% of pods not ready ('' @ dec_int (pm_not_ready pods) @ ''/''
                 @ dec_int (pm_total pods) @ '')'']) else [])
      @ map (\<lambda>a. if ac_required_version a \<noteq> []
                 then ''incompatible add-on: '' @ ac_name a @ '' '' @ ac_version a @ '' (upgrade to ''
                        @ ac_required_version a @ '')''
                 else ''incompatible add-on: '' @ ac_name a @ '' '' @ ac_version a)
          (filter (\<lambda>a. ac_status a = ''incompatible'') (r_addons r))
      @ (case r_graph r of None \<Rightarrow> []
         | Some g \<Rightarrow> map (\<lambda>n. ''PVC '' @ c_namespace n @ ''/'' @ c_name n @ '' is Lost'')
             (filter (\<lambda>n. c_type n = TypeStorage \<and> c_status n = ''Lost'') (g_nodes g))))"

definition ApplyGraphDecision :: "report \<Rightarrow> report" where
  "ApplyGraphDecision r =
     (let blockers = collectBlockers r
      in if blockers \<noteq> []
         then r\<lparr>r_decision := \<lparr>dc_allow = False, dc_level = levelCritical, dc_blockers = blockers\<rparr>\<rparr>
         else r\<lparr>r_decision := (r_decision r)\<lparr>dc_blockers := blockers\<rparr>\<rparr>)"

section \<open>The mirror report\<close>

definition stateWorkloads :: "cluster_snapshot \<Rightarrow> report_workloads" where
  "stateWorkloads snap =
     (let w = buildWorkloads snap
      in w\<lparr>rw_pdbs := [], rw_deprecated_apis := [],
           rw_jobs := filter (\<lambda>j. jr_status j = jobStatusFailed) (rw_jobs w)\<rparr>)"

definition BuildMirrorReport :: "cluster_snapshot \<Rightarrow> graph \<Rightarrow> namespace_risk list \<Rightarrow> mirror_report" where
  "BuildMirrorReport snap g nsRisk =
     \<lparr>mr_kind = ReportKindClusterMirror, mr_generated_at = [], mr_mirror = [],
      mr_cluster_version = s_cluster_version snap,
      mr_upgrade = \<lparr>mu_enabled = False, mu_analyses = [], mu_error = []\<rparr>,
      mr_summary = fold (\<lambda>nr s.
          let s' = s\<lparr>ms_at_risk := ms_at_risk s + nr_at_risk nr\<rparr>
          in if nr_at_risk nr > 0 then s'\<lparr>ms_namespaces_at_risk := ms_namespaces_at_risk s' + 1\<rparr> else s')
        nsRisk
        \<lparr>ms_components = int (length (g_nodes g)), ms_edges = int (length (g_edges g)), ms_at_risk = 0,
         ms_namespaces = int (length nsRisk), ms_namespaces_at_risk = 0\<rparr>,
      mr_pods = m_pods (buildMetrics snap),
      mr_at_risk = AtRisk g Map.empty,
      mr_risk = Some \<lparr>rb_by_namespace = nsRisk\<rparr>,
      mr_addons = map (\<lambda>a. \<lparr>ma_name = ad_name a, ma_namespace = ad_namespace a, ma_version = ad_version a\<rparr>)
        (s_detected_addons snap),
      mr_workloads = stateWorkloads snap, mr_issues = stateIssues snap, mr_graph = Some g\<rparr>"

end
