(* ===== verification/Score_Props.thy ===== *)
theory Score_Props
  imports Score
begin

text \<open>
  What the score and the verdict guarantee: the dimensions stay in their budgets, the thresholds
  decide as the decimal fractions they are written as, health only falls when more pods fail, the
  AI blend is the integer blend, and the verdict lists every fact that blocks and is the absence of such facts.
\<close>

section \<open>Float arithmetic on counts\<close>

lemma clamp_range: "0 \<le> m \<Longrightarrow> 0 \<le> clamp v m \<and> clamp v m \<le> m"
  by (simp add: clamp_def)

lemma clamp_mono: "u \<le> v \<Longrightarrow> 0 \<le> m \<Longrightarrow> clamp u m \<le> clamp v m"
  by (simp add: clamp_def)

lemma ratio_value:
  assumes "0 \<le> a" "a < 2 ^ 53" "0 < b" "b < 2 ^ 53"
  shows "f64_of_int a / f64_of_int b = Fin (rnd (of_int a / of_int b))"
    and "0 \<le> rnd (of_int a / of_int b)" "rnd (of_int a / of_int b) \<le> 2 ^ 53"
proof -
  have ab: "0 \<le> (of_int a / of_int b :: rat)" using assms by simp
  have "(of_int a :: rat) \<le> of_int (2 ^ 53)" using assms(2) by (simp only: of_int_le_iff)
  moreover have "(1 :: rat) \<le> of_int b" using assms(3) by simp
  ultimately have le: "(of_int a / of_int b :: rat) \<le> 2 ^ 53 / 1"
    using assms(1) by (intro frac_le) simp_all
  have "rnd (2 ^ 53) = 2 ^ 53" using rnd_exact[of 1 53] by (simp add: pow2_def)
  then show "rnd (of_int a / of_int b) \<le> 2 ^ 53" using rnd_mono[OF le] by simp
  show "0 \<le> rnd (of_int a / of_int b)" by (rule rnd_nonneg[OF ab])
  have "\<bar>of_int a / of_int b :: rat\<bar> \<le> 2 ^ 200" using ab le by simp
  then show "f64_of_int a / f64_of_int b = Fin (rnd (of_int a / of_int b))"
    using assms by (simp add: f64_of_int_small divide_f64_def fin_small)
qed

text \<open>\<open>x\<close> in \<open>[0, 2^53]\<close> times a small constant, rounded.\<close>

lemma rnd_times_range:
  assumes "0 \<le> x" "x \<le> 2 ^ 53" "0 \<le> k" "k \<le> 16"
  shows "0 \<le> rnd (x * k) \<and> rnd (x * k) \<le> 2 ^ 57"
proof -
  have "x * k \<le> 2 ^ 53 * 16" using assms by (intro mult_mono) simp_all
  moreover have "rnd (2 ^ 57) = 2 ^ 57" using rnd_exact[of 1 57] by (simp add: pow2_def)
  ultimately show ?thesis using rnd_mono[of "x * k" "2 ^ 57"] assms by (simp add: rnd_nonneg)
qed

lemma fin_bounded: "- (2 ^ 60) \<le> x \<Longrightarrow> x \<le> 2 ^ 60 \<Longrightarrow> fin x = Fin (rnd x)"
proof -
  assume x: "- (2 ^ 60) \<le> x" "x \<le> 2 ^ 60"
  have "(2 :: rat) ^ 60 \<le> 2 ^ 200" by (rule power_increasing) simp_all
  with x show ?thesis by (intro fin_small) (simp only: abs_le_iff, linarith)
qed

definition health_value :: "int \<Rightarrow> int \<Rightarrow> int \<Rightarrow> rat" where
  "health_value a r t =
     rnd (rnd (25 - rnd (rnd (of_int a / of_int t) * 15)) - rnd (rnd (of_int r / of_int t) * 10))"

lemma calcHealth_value:
  assumes "0 \<le> pm_not_ready (m_pods m)" "pm_not_ready (m_pods m) < 2 ^ 53"
    and "0 \<le> pm_restarting (m_pods m)" "pm_restarting (m_pods m) < 2 ^ 53"
    and "0 \<le> pm_total (m_pods m)" "pm_total (m_pods m) < 2 ^ 53"
  shows "calcHealth m = clamp (f64_to_int (Fin (health_value (pm_not_ready (m_pods m))
     (pm_restarting (m_pods m)) (nonZeroInt (pm_total (m_pods m)))))) 25"
proof -
  define a r t where "a = pm_not_ready (m_pods m)" and "r = pm_restarting (m_pods m)"
    and "t = nonZeroInt (pm_total (m_pods m))"
  have art: "0 \<le> a" "a < 2 ^ 53" "0 \<le> r" "r < 2 ^ 53" "0 < t" "t < 2 ^ 53"
    using assms by (auto simp: a_def r_def t_def nonZeroInt_def)
  define x where "x = rnd (of_int a / of_int t)"
  define y where "y = rnd (of_int r / of_int t)"
  have xy: "0 \<le> x" "x \<le> 2 ^ 53" "0 \<le> y" "y \<le> 2 ^ 53"
    using ratio_value[OF art(1,2,5,6)] ratio_value[OF art(3-6)] by (simp_all add: x_def y_def)
  have p: "0 \<le> rnd (x * 15) \<and> rnd (x * 15) \<le> 2 ^ 57" "0 \<le> rnd (y * 10) \<and> rnd (y * 10) \<le> 2 ^ 57"
    using rnd_times_range[of x 15] rnd_times_range[of y 10] xy by simp_all
  have ld: "f64_of_int 15 = Fin 15" "f64_of_int 10 = Fin 10" "f64_of_int 25 = Fin 25"
    using f64_of_int_small[of 15] f64_of_int_small[of 10] f64_of_int_small[of 25] by simp_all
  have m1: "Fin x * Fin 15 = Fin (rnd (x * 15))" "Fin y * Fin 10 = Fin (rnd (y * 10))"
    using xy by (simp_all add: times_f64_def fin_small)
  have "Fin 25 - Fin (rnd (x * 15)) = Fin (rnd (25 - rnd (x * 15)))"
    using p(1) fin_bounded[of "25 - rnd (x * 15)"] by (simp add: minus_f64_def)
  moreover have "\<bar>rnd (25 - rnd (x * 15))\<bar> \<le> 2 ^ 58"
  proof -
    have "rnd (- (2 ^ 57)) \<le> rnd (25 - rnd (x * 15))" "rnd (25 - rnd (x * 15)) \<le> rnd 25"
      using p(1) by (intro rnd_mono; simp)+
    moreover have "rnd (- (2 ^ 57)) = - (2 ^ 57)" "rnd 25 = 25"
      using rnd_exact[of "- 1" 57] rnd_int[of 25] by (simp_all add: pow2_def)
    ultimately show ?thesis by (simp add: abs_le_iff)
  qed
  then have "Fin (rnd (25 - rnd (x * 15))) - Fin (rnd (y * 10)) =
      Fin (rnd (rnd (25 - rnd (x * 15)) - rnd (y * 10)))"
    using p(2) fin_bounded[of "rnd (25 - rnd (x * 15)) - rnd (y * 10)"]
    by (simp add: minus_f64_def abs_le_iff)
  ultimately show ?thesis
    using ratio_value(1)[OF art(1,2,5,6)] ratio_value(1)[OF art(3-6)]
    by (simp add: calcHealth_def Let_def ld m1 health_value_def flip: a_def r_def t_def x_def y_def)
qed

lemma rat_trunc_mono: "x \<le> y \<Longrightarrow> rat_trunc x \<le> rat_trunc y"
  unfolding rat_trunc_def by (auto intro: floor_mono ceiling_mono) (meson ceiling_le_zero dual_order.trans not_le_imp_less order_less_imp_le zero_le_floor)

text \<open>A value at most 25 converts to its truncation or, far below zero, to the least integer.\<close>

lemma clamp_trunc_mono:
  assumes "x \<le> y" "y \<le> 25"
  shows "clamp (f64_to_int (Fin x)) 25 \<le> clamp (f64_to_int (Fin y)) 25"
proof (cases "in_int64 (rat_trunc x)")
  case True
  have "rat_trunc y \<le> rat_trunc 25" by (rule rat_trunc_mono[OF assms(2)])
  then have "in_int64 (rat_trunc y)"
    using True rat_trunc_mono[OF assms(1)] by (simp add: in_int64_def rat_trunc_def)
  then show ?thesis using True rat_trunc_mono[OF assms(1)] by (simp add: clamp_mono)
next
  case False
  then show ?thesis using clamp_range[of 25] by (simp add: clamp_def)
qed

lemma health_value_mono:
  assumes "a \<le> a'" "r \<le> r'" "0 < t" "0 \<le> a" "0 \<le> r"
  shows "health_value a' r' t \<le> health_value a r t" "health_value a r t \<le> 25"
proof -
  have "rnd (of_int a / of_int t) \<le> rnd (of_int a' / of_int t)"
    "rnd (of_int r / of_int t) \<le> rnd (of_int r' / of_int t)"
    using assms by (intro rnd_mono divide_right_mono; simp)+
  then have "rnd (rnd (of_int a / of_int t) * 15) \<le> rnd (rnd (of_int a' / of_int t) * 15)"
    "rnd (rnd (of_int r / of_int t) * 10) \<le> rnd (rnd (of_int r' / of_int t) * 10)"
    by (intro rnd_mono; simp)+
  moreover have "rnd (25 - rnd (rnd (of_int a' / of_int t) * 15)) \<le> rnd (25 - rnd (rnd (of_int a / of_int t) * 15))"
    using calculation by (intro rnd_mono) simp
  ultimately show "health_value a' r' t \<le> health_value a r t"
    unfolding health_value_def by (intro rnd_mono) linarith
  have z: "0 \<le> rnd (rnd (of_int a / of_int t) * 15)" "0 \<le> rnd (rnd (of_int r / of_int t) * 10)"
    using assms by (intro rnd_nonneg mult_nonneg_nonneg divide_nonneg_pos; simp)+
  have r25: "rnd 25 = 25" using rnd_int[of 25] by simp
  have "rnd (25 - rnd (rnd (of_int a / of_int t) * 15)) \<le> rnd 25"
    using z(1) by (intro rnd_mono) simp
  then have "health_value a r t \<le> rnd 25"
    unfolding health_value_def using z(2) r25 by (intro rnd_mono) linarith
  then show "health_value a r t \<le> 25" by (simp add: r25)
qed

section \<open>Properties of the score\<close>

lemma calc_ranges:
  "0 \<le> calcHealth m \<and> calcHealth m \<le> 25" "0 \<le> calcCapacity m \<and> calcCapacity m \<le> 30"
  "0 \<le> calcStability m \<and> calcStability m \<le> 20" "0 \<le> calcCompatibility m \<and> calcCompatibility m \<le> 25"
  by (simp_all add: calcHealth_def calcCapacity_def calcStability_def calcCompatibility_def Let_def clamp_range)

lemma Calculate_total:
  "sc_total (r_scores (Calculate snap tv pn)) \<in> {0..100}"
  "bs_score (sc_base (r_scores (Calculate snap tv pn))) = sc_total (r_scores (Calculate snap tv pn))"
  "as_score (sc_ai (r_scores (Calculate snap tv pn))) = 0"
  using calc_ranges[of "buildMetrics snap"] by (simp_all add: Calculate_def Let_def split: prod.splits)

text \<open>C39: the four dimensions stay inside their budgets, the total is their sum and lies between 0 and
  100, and before the graph is looked at the upgrade is allowed exactly when no PDB blocks, neither
  CPU nor memory is exhausted and the cluster is not severely unstable.\<close>

theorem Calculate_bounds:
  fixes snap tv pn
  defines "r \<equiv> Calculate snap tv pn"
  defines "b \<equiv> sc_base (r_scores r)" and "c \<equiv> r_conditions r"
  shows "0 \<le> bs_health b \<and> bs_health b \<le> 25 \<and> 0 \<le> bs_capacity b \<and> bs_capacity b \<le> 30 \<and>
    0 \<le> bs_stability b \<and> bs_stability b \<le> 20 \<and> 0 \<le> bs_compatibility b \<and> bs_compatibility b \<le> 25 \<and>
    sc_total (r_scores r) = bs_health b + bs_capacity b + bs_stability b + bs_compatibility b \<and>
    0 \<le> sc_total (r_scores r) \<and> sc_total (r_scores r) \<le> 100 \<and>
    (dc_allow (r_decision r) \<longleftrightarrow>
       \<not> (cd_pdb_blocking c \<or> cd_high_cpu c \<or> cd_high_memory c \<or> cd_severely_unstable c))"
proof -
  let ?m = "buildMetrics snap"
  show ?thesis using calc_ranges[of ?m]
    by (simp add: r_def b_def c_def Calculate_def Let_def decide_def split: prod.splits)
qed

text \<open>with every count below 2^53, a cluster with more pods not ready or more pods restarting never
  has a better health score.\<close>

theorem calcHealth_antimono:
  assumes "0 \<le> a" "a \<le> a'" "a' < 2 ^ 53" and "0 \<le> r" "r \<le> r'" "r' < 2 ^ 53"
    and "0 \<le> t" "t < 2 ^ 53"
    and "m_pods m = \<lparr>pm_total = t, pm_not_ready = a, pm_restarts = n, pm_restarting = r\<rparr>"
    and "m_pods m' = \<lparr>pm_total = t, pm_not_ready = a', pm_restarts = n', pm_restarting = r'\<rparr>"
  shows "calcHealth m' \<le> calcHealth m"
proof -
  have t: "0 < nonZeroInt t" using assms(7) by (simp add: nonZeroInt_def)
  have "calcHealth m = clamp (f64_to_int (Fin (health_value a r (nonZeroInt t)))) 25"
    "calcHealth m' = clamp (f64_to_int (Fin (health_value a' r' (nonZeroInt t)))) 25"
    using calcHealth_value[of m] calcHealth_value[of m'] assms by simp_all
  then show ?thesis
    using clamp_trunc_mono[OF health_value_mono[OF assms(2,5) t assms(1,4)]] by simp
qed

definition sample_metrics :: "int \<Rightarrow> int \<Rightarrow> metrics" where
  "sample_metrics bad crash = \<lparr>m_pods = \<lparr>pm_total = 8, pm_not_ready = bad, pm_restarts = 0, pm_restarting = crash\<rparr>,
     m_resources = \<lparr>rm_cpu_pressure = 0, rm_memory_pressure = 0\<rparr>,
     m_stability = \<lparr>sm_pod_drop_ratio = 0, sm_restart_delta = 0\<rparr>,
     m_compatibility = \<lparr>cm_deprecated_apis = 0, cm_addon_issues = 0\<rparr>\<rparr>"

theorem calcHealth_antimono_witness:
  "calcHealth (sample_metrics 4 2) \<le> calcHealth (sample_metrics 1 0) \<and> calcHealth (sample_metrics 4 2) = 15"
proof
  show "calcHealth (sample_metrics 4 2) \<le> calcHealth (sample_metrics 1 0)"
    by (rule calcHealth_antimono[where a = 1 and a' = 4 and r = 0 and r' = 2 and t = 8])
      (simp_all add: sample_metrics_def)
  show "calcHealth (sample_metrics 4 2) = 15"
    by (simp add: calcHealth_def sample_metrics_def nonZeroInt_def clamp_def float_eval Let_def)
qed

definition warn_percent :: "string \<Rightarrow> int" where
  "warn_percent pn = (if pn = ''non-production'' then 15 else 5)"

definition block_percent :: "string \<Rightarrow> int" where
  "block_percent pn = (if pn = ''non-production'' then 60 else 30)"

lemma profileFor_cases:
  "profileFor pn = (if pn = ''non-production''
     then \<lparr>sp_name = ''non-production'', sp_warn = f64_lit (15 / 100), sp_block = f64_lit (60 / 100), sp_safe = 85\<rparr>
     else \<lparr>sp_name = ''production'', sp_warn = f64_lit (5 / 100), sp_block = f64_lit (30 / 100), sp_safe = 90\<rparr>)"
  by (auto simp: profileFor_def scoringProfiles_def ProfileProduction_def ProfileNonProduction_def)

lemma percent_threshold:
  assumes "0 \<le> a" "a \<le> b" "0 < b" "b < 2 ^ 46" and "0 < p" "p < 100"
  shows "f64_lit (of_int p / 100) < f64_of_int a / f64_of_int b \<longleftrightarrow> p * b < 100 * a"
proof -
  have "b * 100 < 2 ^ 53" using assms(4) by simp
  from ratio_threshold[OF assms(1,2,3,5,6) this]
  have "rnd (of_int p / 100) < rnd (of_int a / of_int b) \<longleftrightarrow> p * b < 100 * a" by simp
  moreover have "0 \<le> (of_int p / 100 :: rat)" "(of_int p / 100 :: rat) \<le> 1" using assms(5,6) by simp_all
  then have "f64_lit (of_int p / 100) = Fin (rnd (of_int p / 100))"
    using fin_bounded[of "of_int p / 100"] by (simp add: f64_lit_def)
  ultimately show ?thesis using ratio_value(1)[of a b] assms by (simp add: less_f64_def)
qed

text \<open>the profiles' float64 thresholds decide exactly as the percentages they stand for: more than
  5 and 30 per cent of the pods not ready in production, 15 and 60 per cent otherwise.\<close>

theorem unstable_exact:
  assumes "0 \<le> s_not_ready_pods snap" "s_not_ready_pods snap \<le> s_total_pods snap" "s_total_pods snap < 2 ^ 46"
  shows "(cd_unstable (r_conditions (Calculate snap tv pn)) \<longleftrightarrow>
      warn_percent pn * s_total_pods snap < 100 * s_not_ready_pods snap) \<and>
    (cd_severely_unstable (r_conditions (Calculate snap tv pn)) \<longleftrightarrow>
      block_percent pn * s_total_pods snap < 100 * s_not_ready_pods snap)"
proof -
  let ?a = "s_not_ready_pods snap" and ?b = "s_total_pods snap"
  have thr: "f64_lit (of_int p / 100) < f64_of_int ?a / f64_of_int (nonZeroInt ?b) \<longleftrightarrow> p * ?b < 100 * ?a"
    if "0 < p" "p < 100" "0 < ?b" for p
    using percent_threshold[of ?a ?b p] assms that by (simp add: nonZeroInt_def)
  have c: "r_conditions (Calculate snap tv pn) = buildConditions snap (buildMetrics snap) (profileFor pn)"
    by (simp add: Calculate_def Let_def split: prod.splits)
  show ?thesis
  proof (cases "0 < ?b")
    case True
    then show ?thesis
      using thr[of 5] thr[of 15] thr[of 30] thr[of 60]
      by (simp add: c buildConditions_def buildMetrics_def profileFor_cases warn_percent_def
          block_percent_def Let_def)
  next
    case False
    then have "?b = 0" "?a = 0" using assms by simp_all
    then show ?thesis by (simp add: c buildConditions_def buildMetrics_def Let_def)
  qed
qed

definition sample_pods :: "int \<Rightarrow> int \<Rightarrow> cluster_snapshot" where
  "sample_pods n bad = empty_snapshot\<lparr>s_total_pods := n, s_not_ready_pods := bad\<rparr>"

theorem unstable_exact_witness:
  "\<not> cd_unstable (r_conditions (Calculate (sample_pods 20 1) ''1.31'' ''production'')) \<and>
   cd_unstable (r_conditions (Calculate (sample_pods 20 2) ''1.31'' ''production''))"
  using unstable_exact[of "sample_pods 20 1" "''1.31''" "''production''"]
    unstable_exact[of "sample_pods 20 2" "''1.31''" "''production''"]
  by (simp add: sample_pods_def warn_percent_def)

lemma compatDecay_value: "compatDecay = 5404319552844595 / 9007199254740992"
  by (simp add: compatDecay_def float_eval)

definition compat_score :: "int \<Rightarrow> int" where
  "compat_score n = clamp (f64_to_int (f64_of_int 25 - f64_of_int 25 * (1 - math_pow compatDecay (Fin (of_int n))))) 25"

lemma compat_scores:
  "compat_score 0 = 25" "compat_score 1 = 15" "compat_score 2 = 9" "compat_score 3 = 5"
  "compat_score 4 = 3" "compat_score 5 = 1" "compat_score 6 = 1" "compat_score 7 = 0"
  by (simp_all add: compat_score_def compatDecay_value clamp_def float_eval Let_def)

lemma calcCompatibility_score:
  assumes "0 \<le> cm_deprecated_apis (m_compatibility m)" "cm_deprecated_apis (m_compatibility m) \<le> 2 ^ 40"
    "0 \<le> cm_addon_issues (m_compatibility m)" "cm_addon_issues (m_compatibility m) \<le> 2 ^ 40"
  shows "calcCompatibility m =
    compat_score (cm_deprecated_apis (m_compatibility m) + 2 * cm_addon_issues (m_compatibility m))"
proof -
  define d a where "d = cm_deprecated_apis (m_compatibility m)" and "a = cm_addon_issues (m_compatibility m)"
  have da: "0 \<le> d" "d \<le> 2 ^ 40" "0 \<le> a" "a \<le> 2 ^ 40" using assms by (simp_all add: d_def a_def)
  have small: "fin (of_int n) = Fin (of_int n)" if "\<bar>n\<bar> < 2 ^ 53" for n
    using f64_of_int_small[OF that] by (simp add: f64_of_int_def)
  have "f64_of_int 2 * f64_of_int a = Fin (of_int (2 * a))"
    using da small[of "2 * a"] by (simp add: f64_of_int_small times_f64_def)
  then have "f64_of_int d + f64_of_int 2 * f64_of_int a = Fin (of_int (d + 2 * a))"
    using da small[of "d + 2 * a"] by (simp add: f64_of_int_small plus_f64_def)
  then show ?thesis by (simp add: calcCompatibility_def compat_score_def Let_def d_def a_def)
qed

text \<open>The compatibility dimension counts an add-on issue twice and falls as
  25, 15, 9, 5, 3, 1, 1, 0 over the first seven issue points.\<close>

theorem calcCompatibility_table:
  assumes "cm_deprecated_apis (m_compatibility m) = d" "cm_addon_issues (m_compatibility m) = a"
    and "0 \<le> d" "0 \<le> a" "d + 2 * a \<le> 7"
  shows "calcCompatibility m = [25, 15, 9, 5, 3, 1, 1, 0] ! nat (d + 2 * a)"
proof -
  have "d + 2 * a \<in> {0, 1, 2, 3, 4, 5, 6, 7}" using assms(3-5) by auto
  moreover have "calcCompatibility m = compat_score (d + 2 * a)"
    using calcCompatibility_score[of m] assms by simp
  ultimately show ?thesis
    by (elim insertE) (simp_all add: compat_scores nat_numeral numeral_nat)
qed

theorem calcCompatibility_table_witness:
  "calcCompatibility (m_compatibility_update (\<lambda>_. \<lparr>cm_deprecated_apis = 1, cm_addon_issues = 2\<rparr>) (sample_metrics 0 0)) = 1"
  by (subst calcCompatibility_table[where d = 1 and a = 2]) simp_all

section \<open>The AI blend\<close>

lemma weight_values: "f64_lit (7 / 10) = Fin (6305039478318694 / 9007199254740992)"
  "f64_lit (3 / 10) = Fin (5404319552844595 / 18014398509481984)"
  by (simp_all add: float_eval)

lemma weight_tens:
  "list_all (\<lambda>w. w = 9 \<or> rnd (of_int (10*w) * (6305039478318694 / 9007199254740992)) = of_int (7*w)) [0..10]"
  "list_all (\<lambda>w. rnd (of_int (10*w) * (5404319552844595 / 18014398509481984)) = of_int (3*w)) [0..10]"
  by (simp_all add: upto.simps float_eval)

lemma multiple_of_ten:
  assumes "p * v mod 10 = 0" "p = 7 \<or> p = 3" "0 \<le> v" "v \<le> 100"
  shows "\<exists>w\<in>set [0..10]. v = 10 * w \<and> p * v div 10 = p * w"
proof -
  define m where "m = p * v div 10"
  have m: "p * v = 10 * m" unfolding m_def by (metis add.right_neutral mult_div_mod_eq assms(1))
  have "\<exists>w. v = 10 * w"
    using assms(2)
  proof
    assume "p = 7"
    then have "v = 10 * (3 * m - 2 * v)" using m by simp
    then show ?thesis by blast
  next
    assume "p = 3"
    then have "v = 10 * (7 * m - 2 * v)" using m by simp
    then show ?thesis by blast
  qed
  then obtain w where "v = 10 * w" by blast
  with assms(3,4) show ?thesis by (intro bexI[of _ w]) simp_all
qed

text \<open>The base score's share is \<open>7 b / 10\<close> rounded down, except that the float64 product for 90 falls
  just short of 63.\<close>

definition base_share :: "int \<Rightarrow> int" where
  "base_share b = (if b = 90 then 62 else 7 * b div 10)"

lemma base_share_eq:
  assumes "0 \<le> b" "b \<le> 100"
  shows "f64_to_int (f64_of_int b * f64_lit (7 / 10)) = base_share b"
proof (cases "b = 90")
  case True
  then show ?thesis by (simp add: base_share_def float_eval)
next
  case False
  have "f64_to_int (f64_of_int b * Fin (6305039478318694 / 9007199254740992)) = 7 * b div 10"
  proof (rule scale_trunc[OF assms])
    assume "7 * b mod 10 = 0"
    then obtain w where w: "w \<in> set [0..10]" "b = 10 * w" "7 * b div 10 = 7 * w"
      using multiple_of_ten[of 7 b] assms by auto
    then have "w \<noteq> 9" using False by auto
    with w(1) have "rnd (of_int (10 * w) * (6305039478318694 / 9007199254740992)) = of_int (7 * w)"
      using weight_tens(1) unfolding list_all_iff by blast
    then show "rnd (of_int b * (6305039478318694 / 9007199254740992)) = of_int (7 * b div 10)"
      unfolding w(3) w(2)[symmetric] .
  qed simp_all
  then show ?thesis using False by (simp only: weight_values base_share_def if_False)
qed

lemma ai_share_eq:
  assumes "0 \<le> a" "a \<le> 100"
  shows "f64_to_int (f64_of_int a * f64_lit (3 / 10)) = 3 * a div 10"
  unfolding weight_values
proof (rule scale_trunc[OF assms])
  assume "3 * a mod 10 = 0"
  then obtain w where w: "w \<in> set [0..10]" "a = 10 * w" "3 * a div 10 = 3 * w"
    using multiple_of_ten[of 3 a] assms by auto
  then have "rnd (of_int (10 * w) * (5404319552844595 / 18014398509481984)) = of_int (3 * w)"
    using weight_tens(2) unfolding list_all_iff by blast
  then show "rnd (of_int a * (5404319552844595 / 18014398509481984)) = of_int (3 * a div 10)"
    unfolding w(3) w(2)[symmetric] .
qed simp_all

lemma blend_total:
  assumes "bs_score (sc_base (r_scores r)) = b" "0 \<le> b" "b \<le> 100" "0 \<le> a" "a \<le> 100"
  shows "sc_total (r_scores (ApplyAIScore r a reasoning model pn)) = base_share b + 3 * a div 10 \<and>
    0 \<le> sc_total (r_scores (ApplyAIScore r a reasoning model pn)) \<and>
    sc_total (r_scores (ApplyAIScore r a reasoning model pn)) \<le> 100"
proof -
  have "0 \<le> base_share b \<and> base_share b \<le> 70 \<and> 0 \<le> 3 * a div 10 \<and> 3 * a div 10 \<le> 30"
    using assms(2-5) by (auto simp: base_share_def)
  then show ?thesis
    by (simp add: ApplyAIScore_def Let_def assms(1) base_share_eq[OF assms(2,3)] ai_share_eq[OF assms(4,5)]
        wrap64_id split: prod.splits)
qed

text \<open>On scores from 0 to 100 the blended total is 7/10 of the base score plus 3/10 of the AI score,
  each rounded down (62 for a base of 90), so it stays between 0 and 100.\<close>

theorem ApplyAIScore_blend:
  assumes "bs_score (sc_base (r_scores r)) = b" "0 \<le> b" "b \<le> 100" "0 \<le> a" "a \<le> 100"
  shows "sc_total (r_scores (ApplyAIScore r a reasoning model pn)) = base_share b + 3 * a div 10 \<and>
    0 \<le> sc_total (r_scores (ApplyAIScore r a reasoning model pn)) \<and>
    sc_total (r_scores (ApplyAIScore r a reasoning model pn)) \<le> 100"
  by (rule blend_total[OF assms])

definition sample_report :: report where
  "sample_report = Calculate empty_snapshot ''1.31'' ''production''"

lemma sample_report_score: "bs_score (sc_base (r_scores sample_report)) = 100"
proof -
  have "calcHealth (buildMetrics empty_snapshot) = 25" "calcCapacity (buildMetrics empty_snapshot) = 30"
    "calcStability (buildMetrics empty_snapshot) = 20" "calcCompatibility (buildMetrics empty_snapshot) = 25"
    by (simp_all add: calcHealth_def calcCapacity_def calcStability_def calcCompatibility_score compat_scores
        buildMetrics_def empty_snapshot_def nonZeroInt_def nonZero_def clamp_def podDropRatio_def capPenalty_def
        wrap64_def float_eval Let_def)
  then show ?thesis
    by (simp add: sample_report_def Calculate_def Let_def split: prod.splits)
qed

lemma sample_report_conditions:
  "r_conditions sample_report = \<lparr>cd_pdb_blocking = False, cd_high_cpu = False,
      cd_high_memory = False, cd_unstable = False, cd_severely_unstable = False\<rparr>"
  by (simp add: sample_report_def Calculate_def buildConditions_def buildMetrics_def empty_snapshot_def
      nonZero_def float_eval Let_def split: prod.splits)

theorem ApplyAIScore_blend_witness:
  "sc_total (r_scores (ApplyAIScore sample_report 77 [] ''model'' ''production'')) = 93"
  using ApplyAIScore_blend[OF sample_report_score, of 77 "[]" "''model''" "''production''"]
  by (simp add: base_share_def)

text \<open>agreeing with the base score can lower it: at a base and an AI score of 90, both at production's
  SAFE bar, the blend is 89 and the verdict falls from SAFE to WARNING.\<close>

theorem ApplyAIScore_agreement_downgrades:
  "decide 90 (r_conditions sample_report) (profileFor ''production'') = (''SAFE'', True) \<and>
   dc_level (r_decision (ApplyAIScore
     (sample_report\<lparr>r_scores := (r_scores sample_report)\<lparr>sc_base := (sc_base (r_scores sample_report))\<lparr>bs_score := 90\<rparr>\<rparr>\<rparr>)
     90 [] [] ''production'')) = ''WARNING''"
proof -
  show ?thesis
    by (simp add: ApplyAIScore_def sample_report_conditions decide_def profileFor_cases level_defs base_share_eq ai_share_eq
        base_share_def wrap64_id Let_def)
qed

section \<open>The verdict\<close>

lemma collectBlockers_empty:
  "collectBlockers r = [] \<longleftrightarrow>
     \<not> (cd_pdb_blocking (r_conditions r) \<or> cd_high_cpu (r_conditions r) \<or> cd_high_memory (r_conditions r) \<or>
        cd_severely_unstable (r_conditions r)) \<and>
     \<not> (\<exists>a\<in>set (r_addons r). ac_status a = ''incompatible'') \<and>
     \<not> (\<exists>g. r_graph r = Some g \<and> (\<exists>n\<in>set (g_nodes g). c_type n = TypeStorage \<and> c_status n = ''Lost''))"
proof -
  have "(case xs of p # ps \<Rightarrow> [f p] | [] \<Rightarrow> [y]) \<noteq> ([] :: string list)" for xs :: "pdb_report list" and f y
    by (simp split: list.split)
  then show ?thesis
    by (simp add: collectBlockers_def Let_def filter_empty_conv split: option.split)
qed

text \<open>The facts that stand in the way of an upgrade, in the order of the conditions, the add-ons and the mirror's claims.\<close>

datatype blocker =
  Budget_Blocks "(string \<times> string) option"
| Cpu_Pressure f64
| Memory_Pressure f64
| Pods_Not_Ready int int
| Incompatible_Addon string string string
| Lost_Claim string string

definition blocking_facts :: "report \<Rightarrow> blocker list" where
  "blocking_facts r = concat [
     [Budget_Blocks (map_option (\<lambda>p. (pdr_namespace p, pdr_name p)) (find (\<lambda>_. True) (rw_pdbs (r_workloads r)))).
        _ \<leftarrow> [()], cd_pdb_blocking (r_conditions r)],
     [Cpu_Pressure (rm_cpu_pressure (m_resources (r_metrics r))). _ \<leftarrow> [()], cd_high_cpu (r_conditions r)],
     [Memory_Pressure (rm_memory_pressure (m_resources (r_metrics r))). _ \<leftarrow> [()], cd_high_memory (r_conditions r)],
     [Pods_Not_Ready (pm_not_ready (m_pods (r_metrics r))) (pm_total (m_pods (r_metrics r))).
        _ \<leftarrow> [()], cd_severely_unstable (r_conditions r)],
     [Incompatible_Addon (ac_name a) (ac_version a) (ac_required_version a). a \<leftarrow> r_addons r, ac_status a = ''incompatible''],
     [Lost_Claim (c_namespace n) (c_name n). g \<leftarrow> (case r_graph r of None \<Rightarrow> [] | Some g \<Rightarrow> [g]), n \<leftarrow> g_nodes g,
        c_type n = TypeStorage, c_status n = ''Lost'']]"

text \<open>The text that tells a user of a fact.\<close>

fun tells :: "blocker \<Rightarrow> string \<Rightarrow> bool" where
  "tells (Budget_Blocks (Some (ns, n))) t = (t = ''PodDisruptionBudget '' @ ns @ ''/'' @ n @ '' would stall node drain'')"
| "tells (Budget_Blocks None) t = (t = ''a PodDisruptionBudget would stall node drain'')"
| "tells (Cpu_Pressure x) t = (t = ''CPU pressure at '' @ fmt_0f (x * f64_of_int 100) @ ''% of capacity'')"
| "tells (Memory_Pressure x) t = (t = ''memory pressure at '' @ fmt_0f (x * f64_of_int 100) @ ''% of capacity'')"
| "tells (Pods_Not_Ready n m) t = (\<exists>p. t = p @ ''% of pods not ready ('' @ dec_int n @ ''/'' @ dec_int m @ '')'' \<and>
     (0 < m \<longrightarrow> p = fmt_0f (f64_of_int n / f64_of_int m * f64_of_int 100)))"
| "tells (Incompatible_Addon n v []) t = (t = ''incompatible add-on: '' @ n @ '' '' @ v)"
| "tells (Incompatible_Addon n v (c # cs)) t =
     (t = ''incompatible add-on: '' @ n @ '' '' @ v @ '' (upgrade to '' @ (c # cs) @ '')'')"
| "tells (Lost_Claim ns n) t = (t = ''PVC '' @ ns @ ''/'' @ n @ '' is Lost'')"

lemma list_all2_filter_map:
  "(\<And>x. P x \<Longrightarrow> R (f x) (g x)) \<Longrightarrow>
     list_all2 R (concat (map (\<lambda>x. if P x then [f x] else []) xs)) (map g (filter P xs))"
  by (induction xs) auto

lemma addon_told: "tells (Incompatible_Addon n v q)
   (if q \<noteq> [] then ''incompatible add-on: '' @ n @ '' '' @ v @ '' (upgrade to '' @ q @ '')''
    else ''incompatible add-on: '' @ n @ '' '' @ v)"
  by (cases q) simp_all

lemma blockers_told: "list_all2 tells (blocking_facts r) (collectBlockers r)"
proof -
  have claims: "list_all2 tells (concat (map (\<lambda>n. if c_type n = TypeStorage
         then if c_status n = ''Lost'' then [Lost_Claim (c_namespace n) (c_name n)] else [] else []) ns))
      (map (\<lambda>n. ''PVC '' @ c_namespace n @ ''/'' @ c_name n @ '' is Lost'')
         (filter (\<lambda>n. c_type n = TypeStorage \<and> c_status n = ''Lost'') ns))" for ns
    by (induction ns) auto
  show ?thesis
    unfolding blocking_facts_def collectBlockers_def Let_def concat.simps append_Nil2
    by (intro list_all2_appendI list_all2_filter_map addon_told)
      (auto simp: claims[simplified] split: list.split option.split)
qed

lemma facts_empty: "blocking_facts r = [] \<longleftrightarrow> collectBlockers r = []"
  using list_all2_lengthD[OF blockers_told, of r] by force

text \<open>C9: the verdict after the graph has been looked at: every fact that blocks, each condition of the snapshot, each
  add-on that is incompatible and each claim of the mirror that is lost, is listed once, in order, with its
  own text; the upgrade is allowed exactly when there is no such fact, and CRITICAL exactly when there is one;
  without one the level is the one decided before.\<close>

theorem final_decision:
  assumes "dc_allow (r_decision r) = snd (decide n (r_conditions r) p)"
    and "dc_level (r_decision r) = fst (decide n (r_conditions r) p)"
  shows "(let d = r_decision (ApplyGraphDecision r) in
    list_all2 tells (blocking_facts r) (dc_blockers d) \<and>
    (dc_allow d \<longleftrightarrow> blocking_facts r = []) \<and> (dc_level d = ''CRITICAL'' \<longleftrightarrow> blocking_facts r \<noteq> []) \<and>
    (blocking_facts r = [] \<longrightarrow> dc_level d = dc_level (r_decision r)))"
proof -
  have "collectBlockers r = [] \<Longrightarrow> snd (decide n (r_conditions r) p) \<and>
      fst (decide n (r_conditions r) p) \<noteq> ''CRITICAL''"
    using collectBlockers_empty[of r] by (simp add: decide_def level_defs)
  then show ?thesis
    using assms blockers_told[of r] by (auto simp: ApplyGraphDecision_def Let_def level_defs facts_empty)
qed

lemma Calculate_decision:
  "dc_allow (r_decision (Calculate snap tv pn)) =
     snd (decide (sc_total (r_scores (Calculate snap tv pn))) (r_conditions (Calculate snap tv pn)) (profileFor pn))"
  "dc_level (r_decision (Calculate snap tv pn)) =
     fst (decide (sc_total (r_scores (Calculate snap tv pn))) (r_conditions (Calculate snap tv pn)) (profileFor pn))"
  by (simp_all add: Calculate_def Let_def split: prod.splits)

theorem final_decision_witness:
  "dc_allow (r_decision sample_report) \<and>
   dc_blockers (r_decision (ApplyGraphDecision (sample_report\<lparr>r_addons := [
       \<lparr>ac_name = ''istio'', ac_version = ''1.10'', ac_status = ''incompatible'', ac_required_version = [], ac_note = []\<rparr>,
       \<lparr>ac_name = ''linkerd'', ac_version = ''2.9'', ac_status = ''incompatible'', ac_required_version = ''2.14'', ac_note = []\<rparr>]\<rparr>))) =
     [''incompatible add-on: istio 1.10'', ''incompatible add-on: linkerd 2.9 (upgrade to 2.14)'']"
proof
  show "dc_allow (r_decision sample_report)"
    unfolding sample_report_def Calculate_decision
    using sample_report_conditions by (simp add: sample_report_def decide_def)
  let ?r = "sample_report\<lparr>r_addons := [
       \<lparr>ac_name = ''istio'', ac_version = ''1.10'', ac_status = ''incompatible'', ac_required_version = [], ac_note = []\<rparr>,
       \<lparr>ac_name = ''linkerd'', ac_version = ''2.9'', ac_status = ''incompatible'', ac_required_version = ''2.14'', ac_note = []\<rparr>]\<rparr>"
  have "dc_allow (r_decision ?r) = snd (decide (sc_total (r_scores sample_report)) (r_conditions ?r) (profileFor ''production''))"
    "dc_level (r_decision ?r) = fst (decide (sc_total (r_scores sample_report)) (r_conditions ?r) (profileFor ''production''))"
    by (simp_all add: sample_report_def Calculate_decision)
  note verdict = final_decision[OF this]
  have "r_graph sample_report = None" by (simp add: sample_report_def Calculate_def Let_def split: prod.splits)
  then have "blocking_facts ?r = [Incompatible_Addon ''istio'' ''1.10'' [], Incompatible_Addon ''linkerd'' ''2.9'' ''2.14'']"
    by (simp add: blocking_facts_def sample_report_conditions)
  with verdict show "dc_blockers (r_decision (ApplyGraphDecision ?r)) =
      [''incompatible add-on: istio 1.10'', ''incompatible add-on: linkerd 2.9 (upgrade to 2.14)'']"
    by (auto simp: Let_def list_all2_Cons1)
qed

lemma ApplyAIScore_frame:
  "r_conditions (ApplyAIScore r a reasoning model pn) = r_conditions r"
  "r_metrics (ApplyAIScore r a reasoning model pn) = r_metrics r"
  "r_workloads (ApplyAIScore r a reasoning model pn) = r_workloads r"
  "r_addons (ApplyAIScore r a reasoning model pn) = r_addons r"
  "r_graph (ApplyAIScore r a reasoning model pn) = r_graph r"
  by (simp_all add: ApplyAIScore_def Let_def split_def)

lemma ApplyAIScore_blockers:
  "collectBlockers (ApplyAIScore r a reasoning model pn) = collectBlockers r"
  by (simp only: collectBlockers_def ApplyAIScore_frame)

lemma ApplyAIScore_allow:
  "dc_allow (r_decision (ApplyAIScore r a reasoning model pn)) =
     snd (decide (sc_total (r_scores (ApplyAIScore r a reasoning model pn))) (r_conditions r) (profileFor pn))"
  by (simp add: ApplyAIScore_def Let_def split_def)

lemma ApplyAIScore_level:
  "dc_level (r_decision (ApplyAIScore r a reasoning model pn)) =
     fst (decide (sc_total (r_scores (ApplyAIScore r a reasoning model pn))) (r_conditions r) (profileFor pn))"
  by (simp add: ApplyAIScore_def Let_def split_def)

section \<open>Issues and the mirror report\<close>

text \<open>The upgrade report lists the mirror's issues first and adds only what the upgrade makes matter:
  every issue of the snapshot is listed once, jobs once whether failed or running.\<close>

theorem buildIssues_extends:
  "take (length (stateIssues snap)) (buildIssues snap) = stateIssues snap \<and>
   length (buildIssues snap) = length (s_pod_issues snap) + length (s_node_issues snap) +
     length (s_statefulset_issues snap) + length (s_daemonset_issues snap) + length (s_job_issues snap) +
     length (s_pdb_issues snap) + length (s_deprecated_api_list snap)"
proof -
  have "length (filter P js) + length (filter (\<lambda>j. \<not> P j) js) = length js" for P and js :: "job_issue list"
    by (rule sum_length_filter_compl)
  from this[of "\<lambda>j. ji_status j = jobStatusFailed" "s_job_issues snap"] show ?thesis
    by (simp add: buildIssues_def stateIssues_def)
qed

text \<open>the mirror report says nothing about the upgrade: PDBs, removed APIs, add-on issue counts and
  running jobs of the snapshot do not change it.\<close>

theorem mirror_ignores_upgrade:
  "BuildMirrorReport (snap\<lparr>s_pdb_blocking := b, s_pdb_issues := pdbs, s_deprecated_apis := n,
       s_deprecated_api_list := apis, s_addon_issues := k,
       s_job_issues := filter (\<lambda>j. ji_status j = ''Failed'') (s_job_issues snap)\<rparr>) g nsRisk =
   BuildMirrorReport snap g nsRisk"
  by (simp add: BuildMirrorReport_def stateWorkloads_def buildWorkloads_def stateIssues_def buildMetrics_def
      filter_map comp_def jobStatusFailed_def Let_def)

lemma mirror_summary_fold:
  "ms_at_risk (fold (\<lambda>nr s.
          let s' = s\<lparr>ms_at_risk := ms_at_risk s + nr_at_risk nr\<rparr>
          in if nr_at_risk nr > 0 then s'\<lparr>ms_namespaces_at_risk := ms_namespaces_at_risk s' + 1\<rparr> else s')
        nsRisk s) = ms_at_risk s + sum_list (map nr_at_risk nsRisk)"
  by (induction nsRisk arbitrary: s) (auto simp: Let_def)

lemma first_by_distinct: "distinct (map f (first_by f xs))"
  by (induction xs) (auto simp: distinct_map_filter)

lemma buckets_partition:
  assumes "distinct bs" "bucket ` set xs \<subseteq> set bs"
  shows "sum_list (map (\<lambda>b. int (length (filter (\<lambda>x. P x \<and> bucket x = b) xs))) bs) = int (length (filter P xs))"
  using assms(2)
proof (induction xs)
  case Nil
  show ?case by (induction bs) auto
next
  case (Cons x xs)
  have one: "sum_list (map (\<lambda>b. if bucket x = b then 1 else 0 :: int) cs) = (if bucket x \<in> set cs then 1 else 0)"
    if "distinct cs" for cs
    using that by (induction cs) auto
  have "(\<lambda>b. int (length (filter (\<lambda>y. P y \<and> bucket y = b) (x # xs)))) =
      (\<lambda>b. int (length (filter (\<lambda>y. P y \<and> bucket y = b) xs)) + (if P x then if bucket x = b then 1 else 0 else 0))"
    by (auto simp: fun_eq_iff)
  with Cons one[OF assms(1)] show ?case by (simp add: sum_list_addf)
qed

text \<open>the headline number of components at risk is the number of entries of the at-risk list, for a
  graph scored by \<open>ApplyRisk\<close>, as are the numbers of components and edges those of the graph.\<close>

theorem mirror_summary_counts:
  fixes g0 st snap
  defines "g \<equiv> fst (ApplyRisk g0 st)" and "nsRisk \<equiv> snd (ApplyRisk g0 st)"
  shows "ms_at_risk (mr_summary (BuildMirrorReport snap g nsRisk)) =
      int (length (mr_at_risk (BuildMirrorReport snap g nsRisk)))"
proof -
  let ?bs = "first_by id (map namespaceBucket (g_nodes g))"
  have ns: "nsRisk = map (namespace_summary (g_nodes g)) ?bs"
    by (simp add: nsRisk_def g_def ApplyRisk_def Let_def aggregate_summary)
  have "(\<lambda>b. nr_at_risk (namespace_summary (g_nodes g) b)) =
      (\<lambda>b. int (length (filter (\<lambda>n. atRiskThreshold \<le> c_risk n \<and> namespaceBucket n = b) (g_nodes g))))"
    by (auto simp: namespace_summary_def Let_def fun_eq_iff conj_commute)
  moreover have "distinct ?bs" "namespaceBucket ` set (g_nodes g) \<subseteq> set ?bs"
    using first_by_distinct[of id "map namespaceBucket (g_nodes g)"]
      first_by_image[of id "map namespaceBucket (g_nodes g)"] by simp_all
  ultimately have "sum_list (map nr_at_risk nsRisk) =
      int (length (filter (\<lambda>n. atRiskThreshold \<le> c_risk n) (g_nodes g)))"
    by (simp add: ns comp_def buckets_partition)
  moreover have "length (AtRisk g Map.empty) = length (filter (\<lambda>n. atRiskThreshold \<le> c_risk n) (g_nodes g))"
    by (simp add: AtRisk_def AtRisk_unsorted)
  ultimately show ?thesis
    by (simp add: BuildMirrorReport_def mirror_summary_fold)
qed

end
