(* ===== verification/K8s.thy ===== *)
theory K8s
  imports Snapshot "HOL-Library.Signed_Division"
begin

text \<open>
  The Kubernetes objects the collectors read, each as the record of the fields they use, and the
  API server as the client sees it during one collection: what every \<open>List\<close> call returns, an error
  or the items. A kind that is listed several times may change in between, so its result is a
  function of the number of the call. These types belong to the Kubernetes client library.
\<close>

section \<open>Pods and pod templates\<close>

record container_status =
  cst_restart_count :: int
  cst_waiting :: "string option"
  cst_terminated :: "string option"

record env_from =
  ef_config_map :: "string option"
  ef_secret :: "string option"

record env_source =
  es_config_map_key :: "string option"
  es_secret_key :: "string option"

record container =
  ctr_image :: string
  ctr_cpu_milli :: "int option"
  ctr_mem :: "int option"
  ctr_env_from :: "env_from list"
  ctr_env :: "env_source option list"

record volume =
  vol_pvc :: "string option"
  vol_config_map :: "string option"
  vol_secret :: "string option"

record pod_spec =
  ps_node_name :: string
  ps_restart_policy :: string
  ps_containers :: "container list"
  ps_volumes :: "volume list"

record pod_template =
  pt_labels :: strmap
  pt_annotations :: strmap
  pt_spec :: pod_spec

record owner_ref =
  or_kind :: string
  or_name :: string

record kcondition =
  kc_type :: string
  kc_status :: string
  kc_reason :: string

record pod =
  pod_namespace :: string
  pod_name :: string
  pod_owners :: "owner_ref list"
  pod_created :: int
  pod_spec :: pod_spec
  pod_phase :: string
  pod_conditions :: "kcondition list"
  pod_statuses :: "container_status list"

section \<open>Workloads\<close>

record replica_set =
  rs_namespace :: string
  rs_name :: string
  rs_owners :: "owner_ref list"

record deployment =
  dep_namespace :: string
  dep_name :: string
  dep_labels :: strmap
  dep_replicas :: "int option"
  dep_template :: pod_template
  dep_ready :: int

record stateful_set =
  sts_namespace :: string
  sts_name :: string
  sts_replicas :: "int option"
  sts_template :: pod_template
  sts_ready :: int

record daemon_set =
  dms_namespace :: string
  dms_name :: string
  dms_labels :: strmap
  dms_template :: pod_template
  dms_unavailable :: int
  dms_ready :: int
  dms_desired :: int

record job =
  job_namespace :: string
  job_name :: string
  job_template :: pod_template
  job_active :: int
  job_succeeded :: int
  job_conditions :: "kcondition list"

record cron_job =
  cj_namespace :: string
  cj_name :: string
  cj_template :: pod_template
  cj_suspend :: "bool option"

section \<open>Everything else\<close>

record node =
  node_name :: string
  node_cpu_milli :: "int option"
  node_mem :: "int option"
  node_conditions :: "kcondition list"

record pdb =
  kpdb_namespace :: string
  kpdb_name :: string
  kpdb_disruptions_allowed :: int

record service =
  ksvc_namespace :: string
  ksvc_name :: string
  ksvc_type :: string
  ksvc_selector :: strmap

text \<open>A rule is \<open>None\<close> when its \<open>HTTP\<close> is nil; a path holds its backend's service name, if any.\<close>

record ingress =
  king_namespace :: string
  king_name :: string
  king_tls :: "string list"
  king_rules :: "string option list option list"
  king_default_backend :: "string option option"

record pvc =
  kpvc_namespace :: string
  kpvc_name :: string
  kpvc_storage_class :: "string option"
  kpvc_phase :: string

record storage_class =
  ksc_name :: string
  ksc_binding_mode :: "string option"
  ksc_annotations :: strmap

record api_resource =
  kar_group :: string
  kar_name :: string

record api_list =
  kal_group_version :: string
  kal_resources :: "api_resource list"

type_synonym 'a listing = "string + 'a list"

record cluster_api =
  k_server_version :: "string + string"
  k_namespaces :: "string listing"
  k_replica_sets :: "replica_set listing"
  k_pods :: "pod listing"
  k_deployments :: "nat \<Rightarrow> deployment listing"
  k_nodes :: "node listing"
  k_pdbs :: "pdb listing"
  k_stateful_sets :: "nat \<Rightarrow> stateful_set listing"
  k_daemon_sets :: "nat \<Rightarrow> daemon_set listing"
  k_jobs :: "nat \<Rightarrow> job listing"
  k_cron_jobs :: "cron_job listing"
  k_services :: "service listing"
  k_ingresses :: "ingress listing"
  k_pvcs :: "pvc listing"
  k_storage_classes :: "storage_class listing"
  k_api_resources :: "string option \<times> api_list list option"
  k_server_groups :: "string listing"
  k_now :: "nat \<Rightarrow> int"

section \<open>Errors\<close>

text \<open>\<open>if err != nil { return nil, err }\<close>\<close>

definition and_then :: "'e + 'a \<Rightarrow> ('a \<Rightarrow> 'e + 'b) \<Rightarrow> 'e + 'b" where
  "and_then r f = (case r of Inl e \<Rightarrow> Inl e | Inr x \<Rightarrow> f x)"

lemma and_then_simps [simp]:
  "and_then (Inl e) f = Inl e" "and_then (Inr x) f = f x"
  by (simp_all add: and_then_def)

lemma and_then_Inr: "and_then r f = Inr y \<longleftrightarrow> (\<exists>x. r = Inr x \<and> f x = Inr y)"
  by (cases r) auto

text \<open>A failed call whose error is dropped leaves the list empty.\<close>

definition items :: "'a listing \<Rightarrow> 'a list" where
  "items r = (case r of Inl _ \<Rightarrow> [] | Inr xs \<Rightarrow> xs)"

end
