(* ===== verification/Restart.thy ===== *)
theory Restart
  imports K8s Go_Scale
begin

text \<open>
  Abnormal restarts, \<open>internal/collector/restart.go\<close>. Times are nanoseconds; the difference of
  two times saturates at the bounds of \<open>int64\<close>, as \<open>time.Time.Sub\<close> does.
\<close>

definition AbnormalRestartRate24h :: int where "AbnormalRestartRate24h = 10"

text \<open>\<open>now.Sub(t)\<close> and \<open>Duration.Hours()\<close>.\<close>

definition time_sub :: "int \<Rightarrow> int \<Rightarrow> int" where
  "time_sub a b = max (- (2 ^ 63)) (min (2 ^ 63 - 1) (a - b))"

definition hour_ns :: int where "hour_ns = 3600000000000"

definition duration_hours :: "int \<Rightarrow> f64" where
  "duration_hours d = f64_of_int (d sdiv hour_ns) + f64_of_int (d smod hour_ns) / f64_of_int hour_ns"

definition crash_reasons :: "string list" where
  "crash_reasons = [''CrashLoopBackOff'', ''ImagePullBackOff'', ''ErrImagePull'']"

definition isCurrentlyCrashing :: "pod \<Rightarrow> bool" where
  "isCurrentlyCrashing pod =
     (ps_restart_policy (pod_spec pod) = ''Always'' \<and>
      list_ex (\<lambda>cs. case cst_waiting cs of None \<Rightarrow> False | Some r \<Rightarrow> r \<in> set crash_reasons) (pod_statuses pod))"

definition restart_sum :: "pod \<Rightarrow> int" where
  "restart_sum pod = fold (\<lambda>cs restarts. wrap32 (restarts + cst_restart_count cs)) (pod_statuses pod) 0"

definition podRestartRate24h :: "pod \<Rightarrow> int \<Rightarrow> f64" where
  "podRestartRate24h pod now =
     (if \<not> isCurrentlyCrashing pod then 0
      else let restarts = restart_sum pod
           in if restarts = 0 then 0
              else let h = duration_hours (time_sub now (pod_created pod));
                       ageHours = (if h < 1 then 1 else h)
                   in f64_of_int restarts / ageHours * f64_of_int 24)"

definition isRestartingAbnormally :: "pod \<Rightarrow> int \<Rightarrow> bool" where
  "isRestartingAbnormally pod now = (f64_of_int AbnormalRestartRate24h \<le> podRestartRate24h pod now)"

end
