(* ===== verification/Inventory.thy ===== *)
theory Inventory
  imports K8s Go_Sort
begin

text \<open>
  The workload inventory and the network inputs of the mirror:
  \<open>internal/collector/workload_inventory.go\<close> and \<open>internal/collector/network_collector.go\<close>.
  A set of node names is the list of its members, each once; a map to slices is a function whose
  default is the empty list.
\<close>

section \<open>References of a pod template\<close>

definition annotationTrue :: string where "annotationTrue = ''true''"

text \<open>\<open>seen\<close> and \<open>refs\<close> together: a reference is added when its name is set and it is new.\<close>

definition add_ref :: "string \<Rightarrow> string \<Rightarrow> config_ref list \<Rightarrow> config_ref list" where
  "add_ref kind name refs =
     (if name = [] \<or> list_ex (\<lambda>r. cr_kind r = kind \<and> cr_name r = name) refs then refs
      else refs @ [\<lparr>cr_kind = kind, cr_name = name\<rparr>])"

definition add_opt :: "string \<Rightarrow> string option \<Rightarrow> config_ref list \<Rightarrow> config_ref list" where
  "add_opt kind name refs = (case name of None \<Rightarrow> refs | Some n \<Rightarrow> add_ref kind n refs)"

definition container_refs :: "container \<Rightarrow> config_ref list \<Rightarrow> config_ref list" where
  "container_refs ctr refs =
     fold (\<lambda>e refs. case e of None \<Rightarrow> refs
             | Some s \<Rightarrow> add_opt ''Secret'' (es_secret_key s) (add_opt ''ConfigMap'' (es_config_map_key s) refs))
       (ctr_env ctr)
       (fold (\<lambda>ef refs. add_opt ''Secret'' (ef_secret ef) (add_opt ''ConfigMap'' (ef_config_map ef) refs))
         (ctr_env_from ctr) refs)"

definition podSpecConfigRefs :: "pod_spec \<Rightarrow> config_ref list" where
  "podSpecConfigRefs spec =
     fold (\<lambda>v refs. add_opt ''Secret'' (vol_secret v) (add_opt ''ConfigMap'' (vol_config_map v) refs))
       (ps_volumes spec) (fold container_refs (ps_containers spec) [])"

definition podSpecPVCs :: "pod_spec \<Rightarrow> string list" where
  "podSpecPVCs spec =
     fold (\<lambda>v claims. case vol_pvc v of None \<Rightarrow> claims
             | Some n \<Rightarrow> if n \<in> set claims then claims else claims @ [n]) (ps_volumes spec) []"

definition usesIstioSidecar :: "strmap \<Rightarrow> strmap \<Rightarrow> bool" where
  "usesIstioSidecar labels annotations =
     (if lget labels ''sidecar.istio.io/inject'' = annotationTrue then True
      else lget annotations ''sidecar.istio.io/inject'' = annotationTrue)"

section \<open>Statuses\<close>

definition replicaStatus :: "int \<Rightarrow> int \<Rightarrow> string" where
  "replicaStatus ready desired =
     (if desired = 0 then ''Scaled to zero''
      else if desired \<le> ready then ''Healthy''
      else if ready = 0 then ''Down''
      else ''Degraded ('' @ dec_int ready @ ''/'' @ dec_int desired @ '')'')"

text \<open>The first true \<open>Failed\<close> condition; \<open>None\<close> is \<open>(false, "")\<close>.\<close>

definition jobFailedReason :: "job \<Rightarrow> string option" where
  "jobFailedReason j =
     (case find (\<lambda>c. kc_type c = ''Failed'' \<and> kc_status c = ''True'') (job_conditions j) of
        None \<Rightarrow> None
      | Some c \<Rightarrow> Some (if kc_reason c = [] then ''Failed'' else kc_reason c))"

definition jobStatus :: "job \<Rightarrow> string" where
  "jobStatus j =
     (if jobFailedReason j \<noteq> None then JobStatusFailed
      else if job_active j > 0 then JobStatusActive
      else if job_succeeded j > 0 then JobStatusCompleted
      else JobStatusPending)"

section \<open>Pods and their workloads\<close>

definition slash :: "string \<Rightarrow> string \<Rightarrow> string" where
  "slash a b = a @ ''/'' @ b"

fun resolve_owner :: "(string \<rightharpoonup> string) \<Rightarrow> string \<Rightarrow> owner_ref list \<Rightarrow> (string \<times> string) option" where
  "resolve_owner rsToDeploy ns [] = None"
| "resolve_owner rsToDeploy ns (r # refs) =
     (if or_kind r = ''ReplicaSet'' then
        (case rsToDeploy (slash ns (or_name r)) of
           Some d \<Rightarrow> Some (''Deployment'', d)
         | None \<Rightarrow> resolve_owner rsToDeploy ns refs)
      else if or_kind r \<in> {''StatefulSet'', ''DaemonSet'', ''Job''} then Some (or_kind r, or_name r)
      else resolve_owner rsToDeploy ns refs)"

definition resolveWorkload :: "pod \<Rightarrow> (string \<rightharpoonup> string) \<Rightarrow> (string \<times> string) option" where
  "resolveWorkload p rsToDeploy = resolve_owner rsToDeploy (pod_namespace p) (pod_owners p)"

type_synonym node_sets = "string \<Rightarrow> string list"

definition recordPodNode :: "pod \<Rightarrow> (string \<rightharpoonup> string) \<Rightarrow> node_sets \<Rightarrow> node_sets" where
  "recordPodNode p rsToDeploy nodes =
     (let n = ps_node_name (pod_spec p) in
      if n = [] then nodes
      else case resolveWorkload p rsToDeploy of
        None \<Rightarrow> nodes
      | Some (kind, name) \<Rightarrow>
          (let key = kind @ ''/'' @ slash (pod_namespace p) name
           in if n \<in> set (nodes key) then nodes else nodes(key := nodes key @ [n])))"

record pod_groups =
  pg_deployment :: "string \<Rightarrow> workload_pod list"
  pg_statefulset :: "string \<Rightarrow> workload_pod list"
  pg_daemonset :: "string \<Rightarrow> workload_pod list"
  pg_job :: "string \<Rightarrow> workload_pod list"

definition append_at :: "string \<Rightarrow> 'a \<Rightarrow> (string \<Rightarrow> 'a list) \<Rightarrow> string \<Rightarrow> 'a list" where
  "append_at k x m = m(k := m k @ [x])"

definition groupNotReadyPod :: "pod \<Rightarrow> workload_pod \<Rightarrow> (string \<rightharpoonup> string) \<Rightarrow> pod_groups \<Rightarrow> pod_groups" where
  "groupNotReadyPod p wp rsToDeploy = fold (\<lambda>r g.
     let key = slash (pod_namespace p) (or_name r) in
     if or_kind r = ''ReplicaSet'' then
       (case rsToDeploy key of
          Some d \<Rightarrow> g\<lparr>pg_deployment := append_at (slash (pod_namespace p) d) wp (pg_deployment g)\<rparr>
        | None \<Rightarrow> g)
     else if or_kind r = ''StatefulSet'' then g\<lparr>pg_statefulset := append_at key wp (pg_statefulset g)\<rparr>
     else if or_kind r = ''DaemonSet'' then g\<lparr>pg_daemonset := append_at key wp (pg_daemonset g)\<rparr>
     else if or_kind r = ''Job'' then g\<lparr>pg_job := append_at key wp (pg_job g)\<rparr>
     else g) (pod_owners p)"

definition sortedKeys :: "string list \<Rightarrow> string list" where
  "sortedKeys ks = (if ks = [] then [] else sort_strings ks)"

section \<open>The workload inventory\<close>

definition newWorkload :: "string \<Rightarrow> string \<Rightarrow> string \<Rightarrow> pod_template \<Rightarrow> string list \<Rightarrow> string \<Rightarrow> workload" where
  "newWorkload kind ns name tmpl nodes status =
     \<lparr>w_kind = kind, w_namespace = ns, w_name = name, w_status = status,
      w_pod_labels = pt_labels tmpl, w_config_refs = podSpecConfigRefs (pt_spec tmpl),
      w_pvcs = podSpecPVCs (pt_spec tmpl), w_nodes = nodes,
      w_istio = usesIstioSidecar (pt_labels tmpl) (pt_annotations tmpl)\<rparr>"

definition desired_of :: "int option \<Rightarrow> int" where
  "desired_of r = (case r of None \<Rightarrow> 1 | Some n \<Rightarrow> n)"

definition append_workloads :: "('a \<Rightarrow> string) \<Rightarrow> ('a \<Rightarrow> workload) \<Rightarrow> (string \<Rightarrow> bool) \<Rightarrow> 'a list
    \<Rightarrow> cluster_snapshot \<Rightarrow> cluster_snapshot" where
  "append_workloads ns mk excluded xs snap =
     snap\<lparr>s_workloads := fold (\<lambda>x ws. if excluded (ns x) then ws else ws @ [mk x]) xs (s_workloads snap)\<rparr>"

definition collectWorkloads :: "cluster_api \<Rightarrow> (string \<Rightarrow> bool) \<Rightarrow> node_sets \<Rightarrow> cluster_snapshot
    \<Rightarrow> string + cluster_snapshot" where
  "collectWorkloads k excluded nodesByWorkload snap =
     (let nodes = (\<lambda>kind ns name. sortedKeys (nodesByWorkload (kind @ ''/'' @ slash ns name))) in
      and_then (k_deployments k 2) (\<lambda>deps.
      let s1 = append_workloads dep_namespace (\<lambda>d. newWorkload ''Deployment'' (dep_namespace d) (dep_name d)
                 (dep_template d) (nodes ''Deployment'' (dep_namespace d) (dep_name d))
                 (replicaStatus (dep_ready d) (desired_of (dep_replicas d)))) excluded deps snap in
      and_then (k_stateful_sets k 1) (\<lambda>sss.
      let s2 = append_workloads sts_namespace (\<lambda>d. newWorkload ''StatefulSet'' (sts_namespace d) (sts_name d)
                 (sts_template d) (nodes ''StatefulSet'' (sts_namespace d) (sts_name d))
                 (replicaStatus (sts_ready d) (desired_of (sts_replicas d)))) excluded sss s1 in
      and_then (k_daemon_sets k 1) (\<lambda>dss.
      let s3 = append_workloads dms_namespace (\<lambda>d. newWorkload ''DaemonSet'' (dms_namespace d) (dms_name d)
                 (dms_template d) (nodes ''DaemonSet'' (dms_namespace d) (dms_name d))
                 (replicaStatus (dms_ready d) (dms_desired d))) excluded dss s2 in
      and_then (k_jobs k 1) (\<lambda>jobs.
      let s4 = append_workloads job_namespace (\<lambda>j. newWorkload ''Job'' (job_namespace j) (job_name j)
                 (job_template j) (nodes ''Job'' (job_namespace j) (job_name j)) (jobStatus j)) excluded jobs s3 in
      and_then (k_cron_jobs k) (\<lambda>crons.
      Inr (append_workloads cj_namespace (\<lambda>c. newWorkload ''CronJob'' (cj_namespace c) (cj_name c)
             (cj_template c) [] (if cj_suspend c = Some True then ''Suspended'' else ''Scheduled''))
             excluded crons s4)))))))"

section \<open>Claims, services and ingresses\<close>

definition storageClassBindingModes :: "cluster_api \<Rightarrow> (string \<rightharpoonup> string) \<times> string" where
  "storageClassBindingModes k =
     (case k_storage_classes k of
        Inl _ \<Rightarrow> (Map.empty, [])
      | Inr scs \<Rightarrow> fold (\<lambda>sc (modes, defaultSC).
          ((case ksc_binding_mode sc of None \<Rightarrow> modes | Some m \<Rightarrow> modes(ksc_name sc \<mapsto> m)),
           (if lget (ksc_annotations sc) ''storageclass.kubernetes.io/is-default-class'' = annotationTrue
            then ksc_name sc else defaultSC))) scs (Map.empty, []))"

definition collectPVCs :: "cluster_api \<Rightarrow> (string \<Rightarrow> bool) \<Rightarrow> cluster_snapshot \<Rightarrow> cluster_snapshot" where
  "collectPVCs k excluded snap =
     (case k_pvcs k of
        Inl _ \<Rightarrow> snap
      | Inr pvcs \<Rightarrow>
          (let (modes, defaultSC) = storageClassBindingModes k
           in snap\<lparr>s_pvcs := fold (\<lambda>p out.
                if excluded (kpvc_namespace p) then out
                else let sc = (case kpvc_storage_class p of None \<Rightarrow> [] | Some c \<Rightarrow> c);
                         lookup = (if sc = [] then defaultSC else sc)
                     in out @ [\<lparr>pvc_namespace = kpvc_namespace p, pvc_name = kpvc_name p,
                          pvc_storage_class = sc, pvc_phase = kpvc_phase p,
                          pvc_binding_mode = zget modes lookup\<rparr>]) pvcs (s_pvcs snap)\<rparr>))"

definition collectServices :: "cluster_api \<Rightarrow> (string \<Rightarrow> bool) \<Rightarrow> cluster_snapshot \<Rightarrow> string + cluster_snapshot" where
  "collectServices k excluded snap =
     and_then (k_services k) (\<lambda>svcs.
       Inr (snap\<lparr>s_services := fold (\<lambda>s out.
         if excluded (ksvc_namespace s) then out
         else out @ [\<lparr>svc_namespace = ksvc_namespace s, svc_name = ksvc_name s, svc_type = ksvc_type s,
                      svc_selector = ksvc_selector s\<rparr>]) svcs (s_services snap)\<rparr>))"

text \<open>The services of the paths, in order and once each, then the default backend's unless seen.\<close>

definition ingress_services :: "ingress \<Rightarrow> string list" where
  "ingress_services ing =
     (let paths = fold (\<lambda>rule svcs. case rule of None \<Rightarrow> svcs
            | Some ps \<Rightarrow> fold (\<lambda>p svcs. case p of None \<Rightarrow> svcs
                 | Some n \<Rightarrow> if n \<in> set svcs then svcs else svcs @ [n]) ps svcs) (king_rules ing) []
      in case king_default_backend ing of
           Some (Some n) \<Rightarrow> if n \<in> set paths then paths else paths @ [n]
         | _ \<Rightarrow> paths)"

definition collectIngresses :: "cluster_api \<Rightarrow> (string \<Rightarrow> bool) \<Rightarrow> cluster_snapshot \<Rightarrow> cluster_snapshot" where
  "collectIngresses k excluded snap =
     (case k_ingresses k of
        Inl _ \<Rightarrow> snap
      | Inr ings \<Rightarrow> snap\<lparr>s_ingresses := fold (\<lambda>i out.
          if excluded (king_namespace i) then out
          else out @ [\<lparr>ing_namespace = king_namespace i, ing_name = king_name i,
                       ing_services = ingress_services i, ing_has_tls = (king_tls i \<noteq> [])\<rparr>])
          ings (s_ingresses snap)\<rparr>)"

end
