(* ===== verification/Addons.thy ===== *)
theory Addons
  imports K8s Compat
begin

text \<open>
  Add-on detection, \<open>internal/collector/addon_detector.go\<close>: the catalogue of signatures, the match
  of one signature against deployments, daemonsets and API groups, and the version read from a
  label or an image tag.
\<close>

record addon_signature =
  sig_name :: string
  sig_crd_groups :: "string list"
  sig_deployments :: "string list"
  sig_daemonsets :: "string list"

definition sig :: "string \<Rightarrow> string list \<Rightarrow> string list \<Rightarrow> string list \<Rightarrow> addon_signature" where
  "sig n groups deps dss = \<lparr>sig_name = n, sig_crd_groups = groups, sig_deployments = deps, sig_daemonsets = dss\<rparr>"

definition addonSignatures :: "addon_signature list" where
  "addonSignatures = [
     sig ''istio'' [''networking.istio.io'', ''security.istio.io''] [''istiod''] [],
     sig ''cert-manager'' [''cert-manager.io''] [''cert-manager''] [],
     sig ''argocd'' [''argoproj.io''] [''argocd-server''] [],
     sig ''prometheus'' [''monitoring.coreos.com''] [''prometheus-operator''] [],
     sig ''ingress-nginx'' [] [''ingress-nginx-controller''] [],
     sig ''external-dns'' [] [''external-dns''] [],
     sig ''traefik'' [''traefik.io'', ''traefik.containo.us''] [''traefik''] [],
     sig ''kyverno'' [''kyverno.io''] [''kyverno''] [],
     sig ''gatekeeper'' [''templates.gatekeeper.sh'', ''constraints.gatekeeper.sh'', ''config.gatekeeper.sh''] [''gatekeeper-controller-manager''] [],
     sig ''keda'' [''keda.sh''] [''keda-operator''] [],
     sig ''metrics-server'' [] [''metrics-server''] [],
     sig ''cluster-autoscaler'' [] [''cluster-autoscaler''] [],
     sig ''karpenter'' [''karpenter.sh'', ''karpenter.k8s.aws''] [''karpenter''] [],
     sig ''aws-load-balancer-controller'' [''elbv2.k8s.aws''] [''aws-load-balancer-controller''] [],
     sig ''flux'' [''source.toolkit.fluxcd.io'', ''kustomize.toolkit.fluxcd.io'', ''helm.toolkit.fluxcd.io''] [''source-controller'', ''kustomize-controller'', ''helm-controller'', ''notification-controller''] [],
     sig ''calico'' [''crd.projectcalico.org'', ''operator.tigera.io''] [''calico-kube-controllers''] [''calico-node''],
     sig ''cilium'' [''cilium.io''] [''cilium-operator''] [''cilium''],
     sig ''longhorn'' [''longhorn.io''] [''longhorn-driver-deployer''] [''longhorn-manager'']]"

section \<open>Versions\<close>

definition normalizeVersion :: "string \<Rightarrow> string" where
  "normalizeVersion v = trim_prefix v ''v''"

text \<open>\<open>strings.LastIndex\<close> of one byte: -1 when it does not occur.\<close>

fun last_index_from :: "char \<Rightarrow> int \<Rightarrow> int \<Rightarrow> string \<Rightarrow> int" where
  "last_index_from c i best [] = best"
| "last_index_from c i best (x # s) = last_index_from c (i + 1) (if x = c then i else best) s"

definition last_index :: "char \<Rightarrow> string \<Rightarrow> int" where
  "last_index c s = last_index_from c 0 (- 1) s"

definition imageTag :: "string \<Rightarrow> string" where
  "imageTag ref =
     (let img = before_byte CHR ''@'' ref;
          lastColon = last_index CHR '':'' img;
          lastSlash = last_index CHR ''/'' img
      in if lastColon > lastSlash then drop (nat (lastColon + 1)) img else [])"

definition version_label :: string where "version_label = ''app.kubernetes.io/version''"

definition workloadVersion :: "strmap \<Rightarrow> pod_template \<Rightarrow> string" where
  "workloadVersion objLabels tmpl =
     (if lget objLabels version_label \<noteq> [] then normalizeVersion (lget objLabels version_label)
      else if lget (pt_labels tmpl) version_label \<noteq> []
        then normalizeVersion (lget (pt_labels tmpl) version_label)
      else case find (\<lambda>c. imageTag (ctr_image c) \<noteq> []) (ps_containers (pt_spec tmpl)) of
             Some c \<Rightarrow> normalizeVersion (imageTag (ctr_image c))
           | None \<Rightarrow> [])"

section \<open>Matching\<close>

definition matchAddon :: "addon_signature \<Rightarrow> deployment list \<Rightarrow> daemon_set list \<Rightarrow> (string \<Rightarrow> bool)
    \<Rightarrow> detected_addon option" where
  "matchAddon s deps dsets groupSet =
     (case find (\<lambda>d. list_ex (str_contains (dep_name d)) (sig_deployments s)) deps of
        Some d \<Rightarrow> Some \<lparr>ad_name = sig_name s, ad_version = workloadVersion (dep_labels d) (dep_template d),
                       ad_namespace = dep_namespace d, ad_detected_via = ''deployment''\<rparr>
      | None \<Rightarrow>
        (case find (\<lambda>d. list_ex (str_contains (dms_name d)) (sig_daemonsets s)) dsets of
           Some d \<Rightarrow> Some \<lparr>ad_name = sig_name s, ad_version = workloadVersion (dms_labels d) (dms_template d),
                          ad_namespace = dms_namespace d, ad_detected_via = ''daemonset''\<rparr>
         | None \<Rightarrow>
             if list_ex groupSet (sig_crd_groups s)
             then Some \<lparr>ad_name = sig_name s, ad_version = [], ad_namespace = [], ad_detected_via = ''crd''\<rparr>
             else None))"

definition detectAddons :: "cluster_api \<Rightarrow> cluster_snapshot \<Rightarrow> cluster_snapshot" where
  "detectAddons k snap =
     (let groupSet = fold (\<lambda>g m. m(g := True)) (items (k_server_groups k)) (\<lambda>_. False);
          deps = items (k_deployments k 3); dss = items (k_daemon_sets k 2)
      in snap\<lparr>s_detected_addons := fold (\<lambda>s out.
           case matchAddon s deps dss groupSet of None \<Rightarrow> out | Some a \<Rightarrow> out @ [a])
           addonSignatures (s_detected_addons snap)\<rparr>)"

end
