(* ===== verification/Collector.thy ===== *)
theory Collector
  imports Restart Inventory Addons
begin

text \<open>
  The cluster collector, \<open>internal/collector/cluster_collector.go\<close>: one pass over the pods and the
  steps of \<open>Collect\<close> in their order. A failed call of a required kind ends the collection with its
  error; ingresses, claims, storage classes, discovery and the add-on lists are best effort.
\<close>

section \<open>Scope\<close>

record scope =
  scope_mode :: string
  scope_exclude :: "string list"

definition systemNamespaces :: "string list" where
  "systemNamespaces = [''kube-system'', ''kube-public'', ''kube-node-lease'']"

definition excluded_set :: "scope \<Rightarrow> string \<Rightarrow> bool" where
  "excluded_set sc =
     (let m = fold (\<lambda>ns m. m(ns := True)) (scope_exclude sc) (\<lambda>_. False)
      in if scope_mode sc = ''application'' then fold (\<lambda>ns m. m(ns := True)) systemNamespaces m else m)"

section \<open>Pods\<close>

definition buildRSToDeployMap :: "cluster_api \<Rightarrow> string + (string \<rightharpoonup> string)" where
  "buildRSToDeployMap k =
     and_then (k_replica_sets k) (\<lambda>rss. Inr (fold (\<lambda>rs m.
       case find (\<lambda>r. or_kind r = ''Deployment'') (rs_owners rs) of
         None \<Rightarrow> m
       | Some r \<Rightarrow> m(slash (rs_namespace rs) (rs_name rs) \<mapsto> or_name r)) rss Map.empty))"

definition isPodReady :: "pod \<Rightarrow> bool" where
  "isPodReady p = (case find (\<lambda>c. kc_type c = ''Ready'') (pod_conditions p) of
      None \<Rightarrow> False | Some c \<Rightarrow> kc_status c = ''True'')"

fun status_reason :: "container_status list \<Rightarrow> string option" where
  "status_reason [] = None"
| "status_reason (cs # css) =
     (if cst_waiting cs \<notin> {None, Some []} then cst_waiting cs
      else if cst_terminated cs \<notin> {None, Some []}
        then (if cst_restart_count cs > 0 then Some ''CrashLoopBackOff'' else cst_terminated cs)
      else status_reason css)"

definition podNotReadyReason :: "pod \<Rightarrow> string" where
  "podNotReadyReason p =
     (case status_reason (pod_statuses p) of
        Some r \<Rightarrow> r
      | None \<Rightarrow> if pod_phase p = ''Running'' then ''ReadinessProbeFailed''
                else if pod_phase p \<noteq> [] then pod_phase p else ''NotReady'')"

text \<open>The state of the loop over the pods.\<close>

record pod_scan =
  sc_snapshot :: cluster_snapshot
  sc_groups :: pod_groups
  sc_nodes :: node_sets

definition pod_restarts :: "pod \<Rightarrow> int" where
  "pod_restarts p = fold (\<lambda>cs n. n + cst_restart_count cs) (pod_statuses p) 0"

definition add_requests :: "pod \<Rightarrow> cluster_snapshot \<Rightarrow> cluster_snapshot" where
  "add_requests p = fold (\<lambda>c snap.
     let s1 = (case ctr_cpu_milli c of None \<Rightarrow> snap
               | Some v \<Rightarrow> snap\<lparr>s_cpu_requests := s_cpu_requests snap + f64_of_int v\<rparr>)
     in case ctr_mem c of None \<Rightarrow> s1
        | Some v \<Rightarrow> s1\<lparr>s_mem_requests := s_mem_requests s1 + f64_of_int v\<rparr>) (ps_containers (pod_spec p))"

definition add_bare_pod :: "pod \<Rightarrow> cluster_snapshot \<Rightarrow> cluster_snapshot" where
  "add_bare_pod p snap =
     (if pod_owners p \<noteq> [] then snap
      else snap\<lparr>s_bare_pods := s_bare_pods snap @
             [\<lparr>bp_namespace = pod_namespace p, bp_name = pod_name p,
               bp_status = (if isPodReady p then ''Running'' else ''Down'')\<rparr>]\<rparr>)"

definition add_pod_issue :: "pod \<Rightarrow> cluster_snapshot \<Rightarrow> cluster_snapshot" where
  "add_pod_issue p snap =
     snap\<lparr>s_not_ready_pods := s_not_ready_pods snap + 1,
          s_pod_issues := s_pod_issues snap @
            [\<lparr>pi_namespace = pod_namespace p, pi_name = pod_name p, pi_reason = podNotReadyReason p,
              pi_restarts = pod_restarts p\<rparr>]\<rparr>"

definition scan_pod :: "(string \<Rightarrow> bool) \<Rightarrow> (string \<rightharpoonup> string) \<Rightarrow> pod \<Rightarrow> int \<Rightarrow> pod_scan \<Rightarrow> pod_scan" where
  "scan_pod excluded rsToDeploy p now st =
     (if excluded (pod_namespace p) then st
      else if pod_phase p = ''Succeeded'' then st
      else
        let s0 = sc_snapshot st;
            s1 = s0\<lparr>s_total_pods := s_total_pods s0 + 1, s_total_restarts := s_total_restarts s0 + pod_restarts p\<rparr>;
            s2 = add_requests p s1;
            s3 = (if isRestartingAbnormally p now then s2\<lparr>s_restarting_pods := s_restarting_pods s2 + 1\<rparr> else s2);
            nodes = recordPodNode p rsToDeploy (sc_nodes st);
            s4 = add_bare_pod p s3
        in if isPodReady p then st\<lparr>sc_snapshot := s4, sc_nodes := nodes\<rparr>
           else \<lparr>sc_snapshot = add_pod_issue p s4,
                 sc_groups = groupNotReadyPod p \<lparr>wp_name = pod_name p, wp_reason = podNotReadyReason p,
                    wp_restarts = pod_restarts p\<rparr> rsToDeploy (sc_groups st),
                 sc_nodes = nodes\<rparr>)"

definition scan_pods :: "cluster_api \<Rightarrow> (string \<Rightarrow> bool) \<Rightarrow> (string \<rightharpoonup> string) \<Rightarrow> pod list \<Rightarrow> cluster_snapshot \<Rightarrow> pod_scan" where
  "scan_pods k excluded rsToDeploy pods snap =
     fold (\<lambda>(i, p). scan_pod excluded rsToDeploy p (k_now k i)) (enumerate 0 pods)
       \<lparr>sc_snapshot = snap,
        sc_groups = \<lparr>pg_deployment = (\<lambda>_. []), pg_statefulset = (\<lambda>_. []), pg_daemonset = (\<lambda>_. []), pg_job = (\<lambda>_. [])\<rparr>,
        sc_nodes = (\<lambda>_. [])\<rparr>"

section \<open>Workloads and nodes\<close>

text \<open>The one workload collector, \<open>DeploymentCollector\<close>.\<close>

definition DeploymentCollector_Collect :: "cluster_api \<Rightarrow> string + resource_ref list" where
  "DeploymentCollector_Collect k =
     and_then (k_deployments k 0) (\<lambda>deps. Inr (map (\<lambda>d.
       \<lparr>rr_namespace = dep_namespace d, rr_name = dep_name d, rr_api_version = ''apps/v1'', rr_kind = ''Deployment''\<rparr>) deps))"

definition collectDeployments :: "cluster_api \<Rightarrow> (string \<Rightarrow> bool) \<Rightarrow> (string \<Rightarrow> workload_pod list)
    \<Rightarrow> cluster_snapshot \<Rightarrow> string + cluster_snapshot" where
  "collectDeployments k excluded podsBy snap =
     and_then (k_deployments k 1) (\<lambda>deps.
       Inr (snap\<lparr>s_deployment_workloads := fold (\<lambda>d out.
         if excluded (dep_namespace d) then out
         else out @ [\<lparr>dw_namespace = dep_namespace d, dw_name = dep_name d, dw_ready_replicas = dep_ready d,
           dw_desired_replicas = desired_of (dep_replicas d), dw_pods = podsBy (slash (dep_namespace d) (dep_name d)),
           dw_pod_labels = pt_labels (dep_template d), dw_config_refs = podSpecConfigRefs (pt_spec (dep_template d)),
           dw_nodes = [], dw_istio = usesIstioSidecar (pt_labels (dep_template d)) (pt_annotations (dep_template d))\<rparr>])
         deps (s_deployment_workloads snap)\<rparr>))"

text \<open>The condition types the switch names, with the text reported for each.\<close>

definition pressure_conditions :: "string list" where
  "pressure_conditions = [''MemoryPressure'', ''DiskPressure'', ''PIDPressure'']"

definition node_problems :: "node \<Rightarrow> string list" where
  "node_problems n =
     map kc_type (filter (\<lambda>c. kc_status c = ''True'' \<and> kc_type c \<in> set pressure_conditions) (node_conditions n))
     @ map (\<lambda>_. ''NotReady'') (filter (\<lambda>c. kc_type c = ''Ready'' \<and> kc_status c \<noteq> ''True'') (node_conditions n))"

definition collect_node :: "node \<Rightarrow> cluster_snapshot \<Rightarrow> cluster_snapshot" where
  "collect_node n snap =
     (let s1 = (case node_cpu_milli n of None \<Rightarrow> snap
                | Some v \<Rightarrow> snap\<lparr>s_cpu_capacity := s_cpu_capacity snap + f64_of_int v\<rparr>);
          s2 = (case node_mem n of None \<Rightarrow> s1
                | Some v \<Rightarrow> s1\<lparr>s_mem_capacity := s_mem_capacity s1 + f64_of_int v\<rparr>);
          ps = node_problems n
      in s2\<lparr>s_node_issues := s_node_issues s2 @ map (\<lambda>r. \<lparr>ni_name = node_name n, ni_reason = r\<rparr>) ps,
            s_node_workloads := s_node_workloads s2 @
              [\<lparr>nw_name = node_name n, nw_status = (if ''NotReady'' \<in> set ps then ''NotReady'' else ''Ready''),
                nw_conditions = ps\<rparr>]\<rparr>)"

definition collectNodes :: "cluster_api \<Rightarrow> cluster_snapshot \<Rightarrow> string + cluster_snapshot" where
  "collectNodes k snap = and_then (k_nodes k) (\<lambda>ns. Inr (fold collect_node ns snap))"

definition collectPDBs :: "cluster_api \<Rightarrow> (string \<Rightarrow> bool) \<Rightarrow> cluster_snapshot \<Rightarrow> string + cluster_snapshot" where
  "collectPDBs k excluded snap =
     and_then (k_pdbs k) (\<lambda>pdbs. Inr (fold (\<lambda>p snap.
       if excluded (kpdb_namespace p) then snap
       else if kpdb_disruptions_allowed p = 0
         then snap\<lparr>s_pdb_blocking := True,
                   s_pdb_issues := s_pdb_issues snap @ [\<lparr>pdb_namespace = kpdb_namespace p, pdb_name = kpdb_name p\<rparr>]\<rparr>
         else snap) pdbs snap))"

definition collectStatefulSets :: "cluster_api \<Rightarrow> (string \<Rightarrow> bool) \<Rightarrow> (string \<Rightarrow> workload_pod list)
    \<Rightarrow> cluster_snapshot \<Rightarrow> string + cluster_snapshot" where
  "collectStatefulSets k excluded podsBy snap =
     and_then (k_stateful_sets k 0) (\<lambda>sss. Inr (fold (\<lambda>ss snap.
       if excluded (sts_namespace ss) then snap
       else
         let s1 = snap\<lparr>s_resources := s_resources snap @ [\<lparr>rr_namespace = sts_namespace ss, rr_name = sts_name ss,
                    rr_api_version = ''apps/v1'', rr_kind = ''StatefulSet''\<rparr>]\<rparr>;
             desired = desired_of (sts_replicas ss)
         in if sts_ready ss < desired
            then s1\<lparr>s_statefulset_issues := s_statefulset_issues s1 @
                   [\<lparr>ss_namespace = sts_namespace ss, ss_name = sts_name ss, ss_ready_replicas = sts_ready ss,
                     ss_total_replicas = desired, ss_pods = podsBy (slash (sts_namespace ss) (sts_name ss))\<rparr>]\<rparr>
            else s1) sss snap))"

definition collectDaemonSets :: "cluster_api \<Rightarrow> (string \<Rightarrow> bool) \<Rightarrow> (string \<Rightarrow> workload_pod list)
    \<Rightarrow> cluster_snapshot \<Rightarrow> string + cluster_snapshot" where
  "collectDaemonSets k excluded podsBy snap =
     and_then (k_daemon_sets k 0) (\<lambda>dss. Inr (fold (\<lambda>ds snap.
       if excluded (dms_namespace ds) then snap
       else
         let s1 = snap\<lparr>s_resources := s_resources snap @ [\<lparr>rr_namespace = dms_namespace ds, rr_name = dms_name ds,
                    rr_api_version = ''apps/v1'', rr_kind = ''DaemonSet''\<rparr>]\<rparr>
         in if dms_unavailable ds > 0
            then s1\<lparr>s_daemonset_issues := s_daemonset_issues s1 @
                   [\<lparr>ds_namespace = dms_namespace ds, ds_name = dms_name ds, ds_number_unavailable = dms_unavailable ds,
                     ds_pods = podsBy (slash (dms_namespace ds) (dms_name ds))\<rparr>]\<rparr>
            else s1) dss snap))"

definition collectJobs :: "cluster_api \<Rightarrow> (string \<Rightarrow> bool) \<Rightarrow> (string \<Rightarrow> workload_pod list)
    \<Rightarrow> cluster_snapshot \<Rightarrow> string + cluster_snapshot" where
  "collectJobs k excluded podsBy snap =
     and_then (k_jobs k 0) (\<lambda>jobs. Inr (snap\<lparr>s_job_issues := fold (\<lambda>j out.
       if excluded (job_namespace j) then out
       else
         let failed = (jobFailedReason j \<noteq> None);
             reason = (case jobFailedReason j of None \<Rightarrow> [] | Some r \<Rightarrow> r)
         in if job_active j > 0 \<or> failed
            then out @ [\<lparr>ji_namespace = job_namespace j, ji_name = job_name j, ji_active = job_active j,
                   ji_status = (if failed then JobStatusFailed else JobStatusActive), ji_reason = reason,
                   ji_pods = podsBy (slash (job_namespace j) (job_name j))\<rparr>]
            else out) jobs (s_job_issues snap)\<rparr>))"

section \<open>Deprecated APIs\<close>

definition deprecatedAPIRemovedIn :: "string \<rightharpoonup> string" where
  "deprecatedAPIRemovedIn = [
     ''extensions/v1beta1/ingresses'' \<mapsto> ''1.22'',
     ''networking.k8s.io/v1beta1/ingresses'' \<mapsto> ''1.22'',
     ''extensions/v1beta1/networkpolicies'' \<mapsto> ''1.16'',
     ''extensions/v1beta1/deployments'' \<mapsto> ''1.16'',
     ''extensions/v1beta1/replicasets'' \<mapsto> ''1.16'',
     ''extensions/v1beta1/daemonsets'' \<mapsto> ''1.16'',
     ''rbac.authorization.k8s.io/v1alpha1/roles'' \<mapsto> ''1.29'',
     ''rbac.authorization.k8s.io/v1beta1/roles'' \<mapsto> ''1.22'',
     ''storage.k8s.io/v1beta1/csidrivers'' \<mapsto> ''1.22'',
     ''storage.k8s.io/v1beta1/storageclasses'' \<mapsto> ''1.22'',
     ''policy/v1beta1/poddisruptionbudgets'' \<mapsto> ''1.25'',
     ''policy/v1beta1/podsecuritypolicies'' \<mapsto> ''1.25'',
     ''autoscaling/v2beta1/horizontalpodautoscalers'' \<mapsto> ''1.26'',
     ''autoscaling/v2beta2/horizontalpodautoscalers'' \<mapsto> ''1.26'',
     ''flowcontrol.apiserver.k8s.io/v1beta1/flowschemas'' \<mapsto> ''1.29'',
     ''flowcontrol.apiserver.k8s.io/v1beta2/flowschemas'' \<mapsto> ''1.29'']"

definition detectDeprecatedAPIs :: "cluster_api \<Rightarrow> cluster_snapshot \<Rightarrow> cluster_snapshot" where
  "detectDeprecatedAPIs k snap =
     (if fst (k_api_resources k) \<noteq> None \<and> snd (k_api_resources k) = None then snap
      else fold (\<lambda>l. fold (\<lambda>r snap.
        case deprecatedAPIRemovedIn (slash (kal_group_version l) (kar_name r)) of
          None \<Rightarrow> snap
        | Some removedIn \<Rightarrow> snap\<lparr>s_deprecated_apis := s_deprecated_apis snap + 1,
            s_deprecated_api_list := s_deprecated_api_list snap @
              [\<lparr>da_group = kar_group r, da_version = kal_group_version l, da_resource = kar_name r,
                da_removed_in = removedIn\<rparr>]\<rparr>) (kal_resources l))
        (case snd (k_api_resources k) of None \<Rightarrow> [] | Some ls \<Rightarrow> ls) snap)"

section \<open>The collection\<close>

definition Collect :: "cluster_api \<Rightarrow> scope \<Rightarrow> string + cluster_snapshot" where
  "Collect k sc =
     and_then (k_server_version k) (\<lambda>version.
     and_then (k_namespaces k) (\<lambda>nss.
     let s0 = empty_snapshot\<lparr>s_cluster_version := version, s_namespace_count := int (length nss)\<rparr>;
         excluded = excluded_set sc in
     and_then (buildRSToDeployMap k) (\<lambda>rsToDeploy.
     and_then (k_pods k) (\<lambda>pods.
     let scan = scan_pods k excluded rsToDeploy pods s0; g = sc_groups scan in
     and_then (DeploymentCollector_Collect k) (\<lambda>refs.
     and_then (collectDeployments k excluded (pg_deployment g)
       ((sc_snapshot scan)\<lparr>s_resources := s_resources (sc_snapshot scan) @ refs\<rparr>)) (\<lambda>s1.
     and_then (collectNodes k s1) (\<lambda>s2.
     and_then (collectPDBs k excluded s2) (\<lambda>s3.
     and_then (collectStatefulSets k excluded (pg_statefulset g) s3) (\<lambda>s4.
     and_then (collectDaemonSets k excluded (pg_daemonset g) s4) (\<lambda>s5.
     and_then (collectJobs k excluded (pg_job g) s5) (\<lambda>s6.
     and_then (collectServices k excluded s6) (\<lambda>s7.
     and_then (collectWorkloads k excluded (sc_nodes scan) (collectIngresses k excluded s7)) (\<lambda>s8.
     Inr (detectAddons k (detectDeprecatedAPIs k (collectPVCs k excluded s8))))))))))))))))"

end
