(* ===== verification/Graph_Props.thy ===== *)
theory Graph_Props
  imports Graph_AtRisk
begin

text \<open>
  The properties of the component graph as a whole: what the builder produces from a snapshot,
  what the risk propagation computes on it, and what the at-risk report says.
\<close>

section \<open>Lookups by id\<close>

lemma fold_ids_other:
  "i \<notin> c_id ` set ns \<Longrightarrow> fold (\<lambda>n m. m(c_id n \<mapsto> f n)) ns m i = m i"
  by (induction ns arbitrary: m) auto

lemma lookup_fold_ids:
  assumes "distinct (map c_id ns)" "n \<in> set ns"
  shows "fold (\<lambda>n m. m(c_id n \<mapsto> f n)) ns m (c_id n) = Some (f n)"
  using assms
proof (induction ns arbitrary: m)
  case (Cons x ns)
  show ?case
  proof (cases "n = x")
    case True
    then have "c_id n \<notin> c_id ` set ns" using Cons.prems(1) by simp
    from fold_ids_other[OF this, of f "m(c_id n \<mapsto> f n)"] True show ?thesis by (simp only: fold_simps fun_upd_same)
  next
    case False
    with Cons.prems have "distinct (map c_id ns)" "n \<in> set ns" by simp_all
    then show ?thesis by (simp only: fold_simps Cons.IH)
  qed
qed simp

lemma base_lookup:
  "distinct (map c_id ns) \<Longrightarrow> n \<in> set ns \<Longrightarrow> iget (base_map ns st) (c_id n) = baseRisk n st"
  by (simp add: base_map_def iget_def lookup_fold_ids)

lemma risk_lookup:
  "distinct (map c_id ns) \<Longrightarrow> n \<in> set ns \<Longrightarrow> iget (risk_map ns) (c_id n) = c_risk n"
  by (simp add: risk_map_def iget_def lookup_fold_ids)

lemma baseRisk_rescored [simp]: "baseRisk (n\<lparr>c_risk := v\<rparr>) st = baseRisk n st"
  by (cases n) (simp only: baseRisk_def component.simps)

section \<open>The built graph\<close>

lemma build_ids_distinct: "distinct (map c_id (g_nodes (BuildFromSnapshot snap)))"
  using build_all_ok[of snap] by (simp add: BuildFromSnapshot_def Let_def builder_ok_def)

lemma build_edges_closed:
  "e \<in> set (g_edges (BuildFromSnapshot snap)) \<Longrightarrow>
     e_from e \<in> node_ids (BuildFromSnapshot snap) \<and> e_to e \<in> node_ids (BuildFromSnapshot snap)"
  using build_all_ok[of snap]
  by (simp add: BuildFromSnapshot_def Let_def builder_ok_def del: image_iff) blast

lemma build_ranked: "snap_kinds snap \<Longrightarrow> ranked (g_edges (BuildFromSnapshot snap)) layer"
  unfolding ranked_def
  by (metis depends_on_layer edge_iff_depends mk_edge_eta)

lemma ranked_rel: "ranked es rk \<Longrightarrow> (x, y) \<in> edge_rel es \<Longrightarrow> rk y < rk x"
  by (auto simp: ranked_def edge_rel_def)

lemma ranked_acyclic: "ranked es rk \<Longrightarrow> acyclic (edge_rel es)"
proof -
  assume "ranked es rk"
  then have "edge_rel es \<subseteq> (measure rk)\<inverse>" by (auto dest: ranked_rel)
  then show ?thesis by (meson acyclic_converse acyclic_subset wf_acyclic wf_measure)
qed

lemma comp_id_nonempty: "comp_id k ns n \<noteq> []"
  by (simp add: comp_id_def)

lemma build_ids_nonempty: "i \<in> node_ids (BuildFromSnapshot snap) \<Longrightarrow> i \<noteq> []"
  by (auto simp: graph_ids image_Un inventory_ids_eq inventory_ids_def configs_def
      addon_component_def node_component_def workload_component_def bare_pod_component_def
      service_component_def ingress_component_def pvc_component_def config_component_def comp_id_def
      split: if_splits)

abbreviation "sample_deployment \<equiv> \<lparr>w_kind = ''Deployment'', w_namespace = ''shop'', w_name = ''api'',
  w_status = ''Ready'', w_pod_labels = [(''app'', ''api'')],
  w_config_refs = [\<lparr>cr_kind = ''Secret'', cr_name = ''key''\<rparr>], w_pvcs = [''data''],
  w_nodes = [''n1''], w_istio = True\<rparr>"

abbreviation "sample_service \<equiv> \<lparr>svc_namespace = ''shop'', svc_name = ''api'', svc_type = ''ClusterIP'',
  svc_selector = [(''app'', ''api'')]\<rparr>"

definition sample_snapshot :: cluster_snapshot where
  "sample_snapshot = empty_snapshot\<lparr>
     s_detected_addons := [\<lparr>ad_name = ''istio'', ad_version = ''1.10.0'', ad_namespace = ''istio-system'',
                            ad_detected_via = ''image''\<rparr>],
     s_node_workloads := [\<lparr>nw_name = ''n1'', nw_status = ''Ready'', nw_conditions = []\<rparr>],
     s_workloads := [sample_deployment], s_services := [sample_service],
     s_pvcs := [\<lparr>pvc_namespace = ''shop'', pvc_name = ''data'', pvc_storage_class = '''',
                 pvc_phase = ''Lost'', pvc_binding_mode = ''''\<rparr>]\<rparr>"

lemma sample_kinds: "snap_kinds sample_snapshot"
  by (simp add: snap_kinds_def sample_snapshot_def kind_defs)

definition sample_components :: "component list" where
  "sample_components =
    [addon_component \<lparr>ad_name = ''istio'', ad_version = ''1.10.0'', ad_namespace = ''istio-system'',
                      ad_detected_via = ''image''\<rparr>,
     node_component \<lparr>nw_name = ''n1'', nw_status = ''Ready'', nw_conditions = []\<rparr>,
     workload_component sample_deployment, service_component sample_service,
     pvc_component \<lparr>pvc_namespace = ''shop'', pvc_name = ''data'', pvc_storage_class = '''',
                    pvc_phase = ''Lost'', pvc_binding_mode = ''''\<rparr>,
     config_component ''shop'' \<lparr>cr_kind = ''Secret'', cr_name = ''key''\<rparr>]"

lemmas component_defs = addon_component_def node_component_def workload_component_def
  bare_pod_component_def service_component_def ingress_component_def pvc_component_def pvc_status_def
  config_component_def comp_id_def

lemma sample_graph: "BuildFromSnapshot sample_snapshot = \<lparr>g_nodes = sample_components,
   g_edges = [mk_edge ''Service/shop/api'' ''Deployment/shop/api'' EdgeSelects,
     mk_edge ''Deployment/shop/api'' ''Secret/shop/key'' EdgeUsesConfig,
     mk_edge ''Deployment/shop/api'' ''PVC/shop/data'' EdgeUsesStorage,
     mk_edge ''Deployment/shop/api'' ''Node/n1'' EdgeRunsOn,
     mk_edge ''Deployment/shop/api'' ''Addon/istio'' EdgeDependsOn]\<rparr>"
  by code_simp

text \<open>C4: the edges of the built graph are exactly the dependencies of the snapshot whose target is
  mirrored: ingress to service, ingress to cert-manager, service to selected workload, workload
  to configuration, storage, node and istio. A workload is selected when it carries every pair of a selector that is
  not empty, in the service's namespace; the one departure from the comment of \<open>labelsMatch\<close>, that a pair with an
  empty value is also met by a missing label, is part of the statement.\<close>

theorem graph_edges_exact:
  assumes "snap_kinds snap"
  shows "mk_edge f t ty \<in> set (g_edges (BuildFromSnapshot snap)) \<longleftrightarrow>
    depends_on snap f t ty \<and> t \<in> node_ids (BuildFromSnapshot snap)"
  by (rule edge_iff_depends[OF assms])

theorem graph_edges_exact_witness:
  "depends_on sample_snapshot (service_id ''shop'' ''api'')
     (comp_id ''Deployment'' ''shop'' ''api'') EdgeSelects"
  using graph_edges_exact[OF sample_kinds, of "service_id ''shop'' ''api''"
      "comp_id ''Deployment'' ''shop'' ''api''" EdgeSelects]
  by (simp add: sample_graph comp_id_def)

text \<open>C18: the nodes are the inventory in pass order (add-ons, nodes, workloads, bare pods, services,
  ingresses, claims), then the referenced configuration, each id once, first occurrence kept.\<close>

theorem graph_mirrors_inventory:
  "g_nodes (BuildFromSnapshot snap) = first_by c_id (inventory snap @ configs snap)"
  by (rule graph_nodes)

text \<open>Ids are unique and no edge dangles, whatever the snapshot.\<close>

theorem graph_closed:
  "distinct (map c_id (g_nodes (BuildFromSnapshot snap))) \<and>
   (e_from ` set (g_edges (BuildFromSnapshot snap)) \<union> e_to ` set (g_edges (BuildFromSnapshot snap))
      \<subseteq> node_ids (BuildFromSnapshot snap))"
  using build_ids_distinct build_edges_closed by auto

text \<open>C19: the built graph has no dependency cycle.\<close>

theorem graph_acyclic:
  assumes "snap_kinds snap"
  shows "acyclic (edge_rel (g_edges (BuildFromSnapshot snap)))"
  by (rule ranked_acyclic[OF build_ranked[OF assms]])

theorem graph_acyclic_witness:
  "acyclic (edge_rel (g_edges (BuildFromSnapshot sample_snapshot)))"
  by (rule graph_acyclic[OF sample_kinds])

section \<open>Risk\<close>

abbreviation own_risk :: "graph \<Rightarrow> (string \<rightharpoonup> string) \<Rightarrow> string \<Rightarrow> int" where
  "own_risk g st \<equiv> iget (base_map (g_nodes g) st)"

lemma ApplyRisk_exact_gen:
  assumes "snap_kinds snap"
  defines "g \<equiv> BuildFromSnapshot snap"
  shows "rescored (effective (own_risk g st) (g_edges g)) (g_nodes g) (g_nodes (fst (ApplyRisk g st)))"
  using compute_all_exact[OF build_ranked[OF assms(1)] node_base.base_law_axioms]
  by (simp add: ApplyRisk_def g_def Let_def)

text \<open>C3: on the graph of a snapshot the risk written to every component is the greatest risk it
  can have: its own base risk or a decayed share of what any chain of dependencies carries;
  nothing else of the component changes.\<close>

theorem ApplyRisk_exact:
  assumes "snap_kinds snap" and "g = BuildFromSnapshot snap"
  shows "rescored (effective (own_risk g st) (g_edges g)) (g_nodes g) (g_nodes (fst (ApplyRisk g st)))"
  using ApplyRisk_exact_gen[OF assms(1)] by (simp add: assms(2))

theorem ApplyRisk_exact_witness:
  "rescored (effective (own_risk (BuildFromSnapshot sample_snapshot) Map.empty)
       (g_edges (BuildFromSnapshot sample_snapshot)))
     (g_nodes (BuildFromSnapshot sample_snapshot))
     (g_nodes (fst (ApplyRisk (BuildFromSnapshot sample_snapshot) Map.empty)))"
  by (rule ApplyRisk_exact[OF sample_kinds refl])

text \<open>on any graph, cyclic ones included, the propagation never invents risk: a component's risk
  is its own or inherited along edges, and never below its own.\<close>

theorem ApplyRisk_sound:
  "rescored (\<lambda>i v. inherits (own_risk g st) (g_edges g) i v \<and> own_risk g st i \<le> v)
     (g_nodes g) (g_nodes (fst (ApplyRisk g st)))"
  using compute_all_sound by (simp add: ApplyRisk_def Let_def)

text \<open>the namespace aggregates, in order of first appearance, hold the greatest risk, the number
  of components and the number at or above the threshold of each bucket.\<close>

theorem ApplyRisk_aggregates:
  "snd (ApplyRisk g st) =
     map (namespace_summary (g_nodes (fst (ApplyRisk g st))))
       (first_by id (map namespaceBucket (g_nodes g)))"
proof -
  let ?ns = "fst (compute_all (base_map (g_nodes g) st) (g_edges g) (g_nodes g))"
  have "rescored (\<lambda>_ _. True) (g_nodes g) ?ns"
    by (rule compute_all_inv[where I = "\<lambda>_. True"]) simp_all
  then have "map namespaceBucket ?ns = map namespaceBucket (g_nodes g)"
    unfolding rescored_def
    by (induction rule: list_all2_induct) (auto simp: namespaceBucket_def, (metis component.select_convs(4,5) component.surjective component.update_convs(8))+)
  then show ?thesis by (simp add: ApplyRisk_def Let_def aggregate_summary)
qed

definition cyclic_graph :: graph where
  "cyclic_graph = \<lparr>
     g_nodes = [
       \<lparr>c_id = ''a'', c_kind = ''Service'', c_name = ''a'', c_namespace = ''x'', c_type = TypeNetwork,
        c_version = [], c_status = [], c_risk = 0\<rparr>,
       \<lparr>c_id = ''b'', c_kind = ''Service'', c_name = ''b'', c_namespace = ''x'', c_type = TypeNetwork,
        c_version = [], c_status = [], c_risk = 0\<rparr>,
       \<lparr>c_id = ''p'', c_kind = ''PVC'', c_name = ''p'', c_namespace = ''x'', c_type = TypeStorage,
        c_version = [], c_status = ''Lost'', c_risk = 0\<rparr>],
     g_edges = [mk_edge ''a'' ''b'' EdgeDependsOn, mk_edge ''b'' ''a'' EdgeDependsOn,
                mk_edge ''a'' ''p'' EdgeUsesStorage]\<rparr>"

text \<open>The cycle guard's value is memoised for the components inside a cycle, so on a cyclic graph
  a component may be left below a risk it inherits: \<open>b\<close> depends on \<open>a\<close>, whose risk is 54, and stays at 0.\<close>

theorem ApplyRisk_cycle_underestimates:
  "map c_risk (g_nodes (fst (ApplyRisk cyclic_graph Map.empty))) = [54, 0, 90] \<and>
   inherits (own_risk cyclic_graph Map.empty) (g_edges cyclic_graph) ''b'' 32"
proof
  have d: "decay 0 = 0" "decay 90 = 54" "decay 54 = 32" by (simp_all add: decay_eq)
  show "map c_risk (g_nodes (fst (ApplyRisk cyclic_graph Map.empty))) = [54, 0, 90]"
    by (simp add: ApplyRisk_def compute_all_def cyclic_graph_def base_map_def baseRisk_def
        adjacency_eq compute.simps relax.simps iget_def d Let_def)
  let ?E = "g_edges cyclic_graph" and ?b = "own_risk cyclic_graph Map.empty"
  have "?b ''p'' = 90"
    by (simp add: cyclic_graph_def base_map_def baseRisk_def iget_def)
  then have "inherits ?b ?E ''p'' 90" using own[of ?b ?E "''p''"] by simp
  then have "inherits ?b ?E ''a'' 54"
    using share[of "mk_edge ''a'' ''p'' EdgeUsesStorage" ?E ?b 90] by (simp add: cyclic_graph_def d)
  then show "inherits ?b ?E ''b'' 32"
    using share[of "mk_edge ''b'' ''a'' EdgeDependsOn" ?E ?b 54] by (simp add: cyclic_graph_def d)
qed

section \<open>The at-risk report\<close>

text \<open>C28: \<open>Dependents\<close> lists every component that depends on the given one, directly or
  transitively, once each and in order, on any graph; a component on a cycle does not list itself.\<close>

theorem Dependents_exact:
  "set (Dependents g i) = {x. (x, i) \<in> (edge_rel (g_edges g))\<^sup>+ \<and> x \<noteq> i} \<and>
   distinct (Dependents g i) \<and> sorted (Dependents g i)"
  using dependentsOf_props[of "g_edges g" i]
  by (auto simp: Dependents_def rtrancl_eq_or_trancl)

text \<open>C29: the report has one entry per component at or above the threshold, the riskiest first,
  ids in order among equal risks.\<close>

theorem AtRisk_complete_sorted:
  "mset (map ar_id (AtRisk g st)) =
     mset (map c_id (filter (\<lambda>n. c_risk n \<ge> 50) (g_nodes g))) \<and>
   sorted_wrt (\<lambda>a b. ar_risk a > ar_risk b \<or> (ar_risk a = ar_risk b \<and> ar_id a \<le> ar_id b)) (AtRisk g st)"
proof
  have "mset (map ar_id (AtRisk g st)) = image_mset ar_id (mset (AtRisk g st))" by simp
  also have "\<dots> = mset (map c_id (filter (\<lambda>n. c_risk n \<ge> 50) (g_nodes g)))"
    unfolding mset_AtRisk
    by (simp add: atRiskThreshold_def at_risk_entry_def image_mset.compositionality comp_def flip: mset_filter)
  finally show "mset (map ar_id (AtRisk g st)) =
     mset (map c_id (filter (\<lambda>n. c_risk n \<ge> 50) (g_nodes g)))" .
  have "sorted_wrt (\<lambda>a b. \<not> at_risk_less b a) (AtRisk g st)"
    unfolding AtRisk_def by (rule at_risk.sort_sorted)
  then show "sorted_wrt (\<lambda>a b. ar_risk a > ar_risk b \<or> (ar_risk a = ar_risk b \<and> ar_id a \<le> ar_id b)) (AtRisk g st)"
    by (rule sorted_wrt_mono_rel[rotated]) (auto simp: at_risk_less_def split: if_splits)
qed

lemma rescored_member:
  "rescored P ns ns' \<Longrightarrow> n' \<in> set ns' \<Longrightarrow> \<exists>n\<in>set ns. n' = n\<lparr>c_risk := c_risk n'\<rparr> \<and> P (c_id n') (c_risk n')"
  unfolding rescored_def
  by (induction rule: list_all2_induct)
    (auto, (metis component.select_convs(1) component.surjective component.update_convs(8))+)

text \<open>Where inherited risk comes from, on a graph whose risks are the effective ones.\<close>

lemma inherited_from_explained:
  fixes g st
  defines "g' \<equiv> fst (ApplyRisk g st)"
  assumes exact: "rescored (effective (own_risk g st) (g_edges g)) (g_nodes g) (g_nodes g')"
    and dist: "distinct (map c_id (g_nodes g))" and closed: "\<forall>e\<in>set (g_edges g). e_to e \<in> node_ids g"
    and nonempty: "\<forall>i\<in>node_ids g. i \<noteq> []"
    and n: "n \<in> set (g_nodes g')" "baseRisk n st < c_risk n"
  shows "\<exists>d\<in>set (g_nodes g'). ar_inherited_from (at_risk_entry g' st n) = c_id d \<and>
    (c_id n, c_id d) \<in> edge_rel (g_edges g) \<and> c_risk n = decay (c_risk d)"
proof -
  have es: "g_edges g' = g_edges g" by (simp add: g'_def ApplyRisk_edges)
  have ids: "map c_id (g_nodes g') = map c_id (g_nodes g)" by (rule rescored_ids[OF exact])
  then have dist': "distinct (map c_id (g_nodes g'))" and ids': "node_ids g' = node_ids g"
    using dist by (simp, metis list.set_map)
  have eff: "effective (own_risk g st) (g_edges g) (c_id m) (c_risk m)" if "m \<in> set (g_nodes g')" for m
    using rescored_member[OF exact that] by blast
  obtain n0 where n0: "n0 \<in> set (g_nodes g)" "n = n0\<lparr>c_risk := c_risk n\<rparr>"
    using rescored_member[OF exact n(1)] by blast
  then have "c_id n0 = c_id n" "baseRisk n0 st = baseRisk n st"
    by (metis component.select_convs(1) component.surjective component.update_convs(8), metis baseRisk_rescored)
  then have base: "own_risk g st (c_id n) < c_risk n"
    using base_lookup[OF dist n0(1), of st] n(2) by simp
  let ?ds = "adjacency (g_edges g) (c_id n)" and ?risk = "risk_map (g_nodes g')"
  have "inherits (own_risk g st) (g_edges g) (c_id n) (c_risk n)" using eff[OF n(1)] by (simp add: effective_def)
  then obtain e u where e: "e \<in> set (g_edges g)" "e_from e = c_id n" "c_risk n = decay u"
      "inherits (own_risk g st) (g_edges g) (e_to e) u"
    using base by (cases rule: inherits.cases) auto
  then have "e_to e \<in> set ?ds" by (auto simp: adjacency_edge)
  have tgt: "\<exists>d\<in>set (g_nodes g'). c_id d = t" if "t \<in> set ?ds" for t
    using that closed ids' by (metis adjacency_edge imageE)
  have ne: "\<forall>i\<in>set ?ds. i \<noteq> []" using tgt nonempty ids' by (metis imageI)
  define r where "r = riskiest ?ds ?risk"
  have "?ds \<noteq> []" using \<open>e_to e \<in> set ?ds\<close> by (cases ?ds) simp_all
  note max = riskiest_max[OF ne this, where risk = ?risk, folded r_def]
  have r: "r \<in> set ?ds" "iget ?risk t \<le> iget ?risk r" if "t \<in> set ?ds" for t
    using max(1) max(2)[OF that] by (auto simp: outranks_def)
  note r = max(1) r(2)
  obtain d where d: "d \<in> set (g_nodes g')" "c_id d = r" using tgt r(1) by blast
  obtain d0 where d0: "d0 \<in> set (g_nodes g')" "c_id d0 = e_to e" using tgt \<open>e_to e \<in> set ?ds\<close> by blast
  have "u \<le> c_risk d0" using eff[OF d0(1)] e(4) d0(2) by (simp add: effective_def)
  also have "\<dots> \<le> c_risk d"
    using r(2)[OF \<open>e_to e \<in> set ?ds\<close>] risk_lookup[OF dist' d(1)] risk_lookup[OF dist' d0(1)] d d0 by simp
  finally have ud: "u \<le> c_risk d" .
  have inh: "inherits (own_risk g st) (g_edges g) r (c_risk d)" using eff[OF d(1)] d(2) by (simp add: effective_def)
  have "decay u \<le> decay (c_risk d)"
    using ud node_base.inherits_range[OF e(4)] node_base.inherits_range[OF inh] by (intro decay_mono) auto
  moreover have "decay (c_risk d) \<le> c_risk n"
    using eff[OF n(1)] inherits_adjacent[OF r(1) inh] by (simp add: effective_def)
  ultimately have "c_risk n = decay (c_risk d)" using e(3) by simp
  moreover have "(c_id n, c_id d) \<in> edge_rel (g_edges g)"
    using r(1) d(2) by (force simp: adjacency_edge edge_rel_def image_iff)
  moreover have "ar_inherited_from (at_risk_entry g' st n) = c_id d"
    using n(2) d(2) by (simp add: at_risk_entry_def es r_def)
  ultimately show ?thesis using d(1) by blast
qed

text \<open>C15: for a component whose own state is fine, the report names a direct dependency whose decayed
  risk is exactly the component's; it names nothing exactly when the risk is the component's own.\<close>

theorem AtRisk_inherited_from:
  assumes "snap_kinds snap" and "g = fst (ApplyRisk (BuildFromSnapshot snap) st)"
    and "n \<in> set (g_nodes g)"
  shows "if baseRisk n st < c_risk n
    then \<exists>d\<in>set (g_nodes g). ar_inherited_from (at_risk_entry g st n) = c_id d \<and>
      (c_id n, c_id d) \<in> edge_rel (g_edges g) \<and> c_risk n = decay (c_risk d)
    else ar_inherited_from (at_risk_entry g st n) = []"
  using inherited_from_explained[OF ApplyRisk_exact_gen[OF assms(1)] build_ids_distinct _ _
      assms(3)[unfolded assms(2)]] build_edges_closed build_ids_nonempty
  by (simp add: assms(2) ApplyRisk_edges at_risk_entry_def)

abbreviation "sample_status \<equiv> [''istio'' \<mapsto> ''unknown'']"

lemma sample_scored:
  "g_nodes (fst (ApplyRisk (BuildFromSnapshot sample_snapshot) sample_status)) =
     map (\<lambda>(n, r). n\<lparr>c_risk := r\<rparr>) (zip sample_components [40, 0, 54, 32, 90, 0])"
proof -
  have d: "decay 0 = 0" "decay 90 = 54" "decay 54 = 32" "decay 40 = 24" by (simp_all add: decay_eq)
  show ?thesis
    by (simp add: sample_graph ApplyRisk_def compute_all_def base_map_def baseRisk_def has_prefix_def zget_def
        sample_components_def component_defs adjacency_eq compute.simps relax.simps iget_def d Let_def)
qed

theorem AtRisk_inherited_from_witness:
  "\<exists>d::component. ar_inherited_from (at_risk_entry (fst (ApplyRisk (BuildFromSnapshot sample_snapshot) sample_status))
        sample_status ((workload_component sample_deployment)\<lparr>c_risk := 54\<rparr>)) = c_id d \<and> 54 = decay (c_risk d)"
proof -
  let ?n = "(workload_component sample_deployment)\<lparr>c_risk := 54\<rparr>"
  have "?n \<in> set (g_nodes (fst (ApplyRisk (BuildFromSnapshot sample_snapshot) sample_status)))"
    by (simp add: sample_scored sample_components_def)
  note split = AtRisk_inherited_from[OF sample_kinds refl this]
  have own: "baseRisk ?n sample_status < c_risk ?n"
    by (simp add: baseRisk_def workload_component_def has_prefix_def)
  from split[unfolded if_P[OF own]] obtain d :: component where "ar_inherited_from (at_risk_entry (fst (ApplyRisk (BuildFromSnapshot
        sample_snapshot) sample_status)) sample_status ?n) = c_id d" "c_risk ?n = decay (c_risk d)"
    by blast
  then show ?thesis by (intro exI[of _ d]) simp
qed

end
