(* ===== verification/Collector_Props.thy ===== *)
theory Collector_Props
  imports Collector Graph_Props
begin

text \<open>
  What a collection guarantees: which failures are fatal, which namespaces a snapshot speaks of,
  the counters it carries, and the kinds the dependency graph relies on. A property that every step
  keeps holds of the collected snapshot; the locale \<open>collect_law\<close> states it once.
\<close>

section \<open>A property every step keeps\<close>

locale collect_law =
  fixes P :: "(string \<Rightarrow> bool) \<Rightarrow> cluster_snapshot \<Rightarrow> bool"
  assumes init: "P ex (empty_snapshot\<lparr>s_cluster_version := v, s_namespace_count := n\<rparr>)"
    and scan: "P ex (sc_snapshot st) \<Longrightarrow> P ex (sc_snapshot (scan_pod ex rs p now st))"
    and refs: "P ex snap \<Longrightarrow> P ex (snap\<lparr>s_resources := r\<rparr>)"
    and deployments: "P ex snap \<Longrightarrow> collectDeployments k ex pb snap = Inr s \<Longrightarrow> P ex s"
    and node: "P ex snap \<Longrightarrow> P ex (collect_node nd snap)"
    and pdbs: "P ex snap \<Longrightarrow> collectPDBs k ex snap = Inr s \<Longrightarrow> P ex s"
    and stateful_sets: "P ex snap \<Longrightarrow> collectStatefulSets k ex pb snap = Inr s \<Longrightarrow> P ex s"
    and daemon_sets: "P ex snap \<Longrightarrow> collectDaemonSets k ex pb snap = Inr s \<Longrightarrow> P ex s"
    and jobs: "P ex snap \<Longrightarrow> collectJobs k ex pb snap = Inr s \<Longrightarrow> P ex s"
    and services: "P ex snap \<Longrightarrow> collectServices k ex snap = Inr s \<Longrightarrow> P ex s"
    and ingresses: "P ex snap \<Longrightarrow> P ex (collectIngresses k ex snap)"
    and workloads: "P ex snap \<Longrightarrow> collectWorkloads k ex nodes snap = Inr s \<Longrightarrow> P ex s"
    and pvcs: "P ex snap \<Longrightarrow> P ex (collectPVCs k ex snap)"
    and apis: "P ex snap \<Longrightarrow> P ex (detectDeprecatedAPIs k snap)"
    and addons: "P ex snap \<Longrightarrow> P ex (detectAddons k snap)"
begin

lemma scan_pods: "P ex snap \<Longrightarrow> P ex (sc_snapshot (scan_pods k ex rs pods snap))"
  unfolding scan_pods_def
  by (rule fold_inv[where P = "\<lambda>st. P ex (sc_snapshot st)"]) (auto intro: scan)

lemma nodes: "P ex snap \<Longrightarrow> collectNodes k snap = Inr s \<Longrightarrow> P ex s"
  by (auto simp: collectNodes_def and_then_Inr intro!: fold_inv[where P = "P ex"] node)

lemma collected: "Collect k sc = Inr s \<Longrightarrow> P (excluded_set sc) s"
  unfolding Collect_def Let_def and_then_Inr sum.inject
  apply (elim exE conjE)
  apply hypsubst
  apply (intro addons apis pvcs)
  apply (erule workloads[rotated], rule ingresses)
  apply (erule services[rotated])
  apply (erule jobs[rotated])
  apply (erule daemon_sets[rotated])
  apply (erule stateful_sets[rotated])
  apply (erule pdbs[rotated])
  apply (erule nodes[rotated])
  apply (erule deployments[rotated])
  apply (intro refs scan_pods init)
  done

end

section \<open>Helper lemmas on the steps\<close>

lemma fold_skip:
  "fold (\<lambda>x out. if P x then out else out @ [f x]) xs out = out @ map f (filter (\<lambda>x. \<not> P x) xs)"
  by (induction xs arbitrary: out) auto

lemma fold_skip_if:
  "fold (\<lambda>x out. if P x then out else if Q x then out @ [f x] else out) xs out =
     out @ map f (filter (\<lambda>x. \<not> P x \<and> Q x) xs)"
  by (induction xs arbitrary: out) auto

lemma append_workloads_eq:
  "append_workloads ns mk ex xs snap =
     snap\<lparr>s_workloads := s_workloads snap @ map mk (filter (\<lambda>x. \<not> ex (ns x)) xs)\<rparr>"
  by (simp add: append_workloads_def fold_skip)

lemma fold_fields:
  assumes "\<And>x snap. g (f x snap) = g snap"
  shows "g (fold f xs snap) = g snap"
  using assms by (induction xs arbitrary: snap) auto

lemma add_requests_fields [simp]:
  "s_workloads (add_requests p snap) = s_workloads snap"
  "s_total_pods (add_requests p snap) = s_total_pods snap"
  "s_not_ready_pods (add_requests p snap) = s_not_ready_pods snap"
  "s_restarting_pods (add_requests p snap) = s_restarting_pods snap"
  "s_pod_issues (add_requests p snap) = s_pod_issues snap"
  "s_bare_pods (add_requests p snap) = s_bare_pods snap"
  unfolding add_requests_def
  by (rule fold_fields, simp add: Let_def split: option.split)+

section \<open>Counters\<close>

text \<open>The pod counters agree with the list of pod issues and bound each other.\<close>

definition pod_counts :: "cluster_snapshot \<Rightarrow> bool" where
  "pod_counts snap \<longleftrightarrow> s_not_ready_pods snap = int (length (s_pod_issues snap)) \<and>
     s_not_ready_pods snap \<le> s_total_pods snap \<and>
     0 \<le> s_restarting_pods snap \<and> s_restarting_pods snap \<le> s_total_pods snap"

lemmas step_defs = collectDeployments_def collectPDBs_def collectStatefulSets_def collectDaemonSets_def
  collectJobs_def collectServices_def collectIngresses_def collectWorkloads_def collectPVCs_def
  detectDeprecatedAPIs_def detectAddons_def append_workloads_eq and_then_Inr

text \<open>A step that touches none of the fields \<open>g\<close> reads keeps them.\<close>

named_theorems pod_fields \<open>steps that leave the pod fields alone\<close>

definition pod_view :: "cluster_snapshot \<Rightarrow> int \<times> int \<times> int \<times> pod_issue list" where
  "pod_view snap = (s_total_pods snap, s_not_ready_pods snap, s_restarting_pods snap, s_pod_issues snap)"

lemma pod_view_steps [pod_fields]:
  "pod_view (collect_node nd snap) = pod_view snap"
  "collectDeployments k ex pb snap = Inr s \<Longrightarrow> pod_view s = pod_view snap"
  "collectJobs k ex pb snap = Inr s \<Longrightarrow> pod_view s = pod_view snap"
  "collectServices k ex snap = Inr s \<Longrightarrow> pod_view s = pod_view snap"
  "pod_view (collectIngresses k ex snap) = pod_view snap"
  "collectWorkloads k ex nodes snap = Inr s \<Longrightarrow> pod_view s = pod_view snap"
  "pod_view (collectPVCs k ex snap) = pod_view snap"
  "pod_view (detectAddons k snap) = pod_view snap"
  by (auto simp: step_defs collect_node_def Let_def pod_view_def split: option.splits sum.splits prod.splits)

lemma pod_view_folds [pod_fields]:
  "collectPDBs k ex snap = Inr s \<Longrightarrow> pod_view s = pod_view snap"
  "collectStatefulSets k ex pb snap = Inr s \<Longrightarrow> pod_view s = pod_view snap"
  "collectDaemonSets k ex pb snap = Inr s \<Longrightarrow> pod_view s = pod_view snap"
  "pod_view (detectDeprecatedAPIs k snap) = pod_view snap"
  by (auto simp: step_defs Let_def intro!: fold_fields[where g = pod_view] split: option.splits)
    (simp_all add: pod_view_def)

lemma pod_counts_view: "pod_view s = pod_view snap \<Longrightarrow> pod_counts s = pod_counts snap"
  by (simp add: pod_view_def pod_counts_def)

lemmas pod_counts_steps = pod_fields[THEN pod_counts_view]

lemma pod_counts_base:
  "pod_counts (empty_snapshot\<lparr>s_cluster_version := v, s_namespace_count := n\<rparr>)"
  "pod_counts (snap\<lparr>s_resources := r\<rparr>) = pod_counts snap"
  by (simp_all add: pod_counts_def empty_snapshot_def)

lemma pod_counts_scan:
  "pod_counts (sc_snapshot st) \<Longrightarrow> pod_counts (sc_snapshot (scan_pod ex rs p now st))"
  by (auto simp: scan_pod_def pod_counts_def add_bare_pod_def add_pod_issue_def Let_def)

interpretation counts: collect_law "\<lambda>_. pod_counts"
  by unfold_locales (simp_all add: pod_counts_base pod_counts_scan pod_counts_steps)

section \<open>Kinds\<close>

lemma config_ref_eta: "\<lparr>cr_kind = cr_kind r, cr_name = cr_name r\<rparr> = r" for r :: config_ref
  by simp

lemma add_opt_set:
  "set (add_opt kd n refs) = set refs \<union> {\<lparr>cr_kind = kd, cr_name = m\<rparr> | m. n = Some m \<and> m \<noteq> []}"
  by (auto simp: add_opt_def add_ref_def list_ex_iff config_ref_eta split: option.split)

lemma add_opt_distinct: "distinct refs \<Longrightarrow> distinct (add_opt kd n refs)"
  by (auto simp: add_opt_def add_ref_def list_ex_iff split: option.split)

text \<open>The configuration a pod template names, as a set.\<close>

definition named :: "string \<Rightarrow> string option \<Rightarrow> config_ref set" where
  "named kd n = (case n of None \<Rightarrow> {} | Some m \<Rightarrow> if m = [] then {} else {\<lparr>cr_kind = kd, cr_name = m\<rparr>})"

definition container_names :: "container \<Rightarrow> config_ref set" where
  "container_names c =
     (\<Union>ef\<in>set (ctr_env_from c). named ''ConfigMap'' (ef_config_map ef) \<union> named ''Secret'' (ef_secret ef)) \<union>
     (\<Union>e\<in>set (ctr_env c). case e of None \<Rightarrow> {}
        | Some s \<Rightarrow> named ''ConfigMap'' (es_config_map_key s) \<union> named ''Secret'' (es_secret_key s))"

definition template_names :: "pod_spec \<Rightarrow> config_ref set" where
  "template_names spec = (\<Union>c\<in>set (ps_containers spec). container_names c) \<union>
     (\<Union>v\<in>set (ps_volumes spec). named ''ConfigMap'' (vol_config_map v) \<union> named ''Secret'' (vol_secret v))"

lemma set_add_opt [simp]: "set (add_opt kd n refs) = set refs \<union> named kd n"
  by (auto simp: add_opt_set named_def split: option.split)

lemma fold_sets:
  assumes "\<And>x r. set (f x r) = set r \<union> g x"
  shows "set (fold f xs r) = set r \<union> (\<Union>x\<in>set xs. g x)"
  using assms by (induction xs arbitrary: r) auto

lemma env_from_refs:
  "set (fold (\<lambda>ef refs. add_opt ''Secret'' (ef_secret ef) (add_opt ''ConfigMap'' (ef_config_map ef) refs)) efs r) =
     set r \<union> (\<Union>ef\<in>set efs. named ''ConfigMap'' (ef_config_map ef) \<union> named ''Secret'' (ef_secret ef))"
  by (rule fold_sets) (simp add: Un_assoc)

lemma container_refs_set: "set (container_refs c r) = set r \<union> container_names c"
  unfolding container_refs_def container_names_def
  by (subst fold_sets[where g = "\<lambda>e. case e of None \<Rightarrow> {}
        | Some s \<Rightarrow> named ''ConfigMap'' (es_config_map_key s) \<union> named ''Secret'' (es_secret_key s)"])
    (auto simp: env_from_refs split: option.split)

lemma podSpecConfigRefs_set: "set (podSpecConfigRefs spec) = template_names spec"
  unfolding podSpecConfigRefs_def template_names_def
  by (subst fold_sets[where g = "\<lambda>v. named ''ConfigMap'' (vol_config_map v) \<union> named ''Secret'' (vol_secret v)"])
    (auto simp: fold_sets[where g = container_names] container_refs_set)

lemma podSpecConfigRefs_distinct: "distinct (podSpecConfigRefs spec)"
  unfolding podSpecConfigRefs_def container_refs_def
  by (intro fold_inv[where P = distinct]) (auto intro!: add_opt_distinct fold_inv[where P = distinct] split: option.split)

lemma named_kind: "r \<in> named kd n \<Longrightarrow> cr_kind r = kd \<and> cr_name r \<noteq> []"
  by (auto simp: named_def split: option.splits if_splits)

lemma template_kind: "r \<in> template_names spec \<Longrightarrow> cr_kind r \<in> set config_kinds \<and> cr_name r \<noteq> []"
  by (auto simp: template_names_def container_names_def kind_defs dest!: named_kind split: option.splits)

lemma newWorkload_fields [simp]:
  "w_kind (newWorkload kd ns n t nodes st) = kd" "w_namespace (newWorkload kd ns n t nodes st) = ns"
  "w_name (newWorkload kd ns n t nodes st) = n" "w_status (newWorkload kd ns n t nodes st) = st"
  "w_config_refs (newWorkload kd ns n t nodes st) = podSpecConfigRefs (pt_spec t)"
  by (simp_all add: newWorkload_def)

text \<open>The workloads of the snapshot are untouched by every step but their own.\<close>

named_theorems workload_fields \<open>steps that leave the workload inventory alone\<close>

lemma workload_steps [workload_fields]:
  "s_workloads (collect_node nd snap) = s_workloads snap"
  "collectDeployments k ex pb snap = Inr s \<Longrightarrow> s_workloads s = s_workloads snap"
  "collectJobs k ex pb snap = Inr s \<Longrightarrow> s_workloads s = s_workloads snap"
  "collectServices k ex snap = Inr s \<Longrightarrow> s_workloads s = s_workloads snap"
  "s_workloads (collectIngresses k ex snap) = s_workloads snap"
  "s_workloads (collectPVCs k ex snap) = s_workloads snap"
  "s_workloads (detectAddons k snap) = s_workloads snap"
  by (auto simp: step_defs collect_node_def Let_def split: option.splits sum.splits prod.splits)

lemma workload_folds [workload_fields]:
  "collectPDBs k ex snap = Inr s \<Longrightarrow> s_workloads s = s_workloads snap"
  "collectStatefulSets k ex pb snap = Inr s \<Longrightarrow> s_workloads s = s_workloads snap"
  "collectDaemonSets k ex pb snap = Inr s \<Longrightarrow> s_workloads s = s_workloads snap"
  "s_workloads (detectDeprecatedAPIs k snap) = s_workloads snap"
  by (auto simp: step_defs Let_def intro!: fold_fields[where g = s_workloads] split: option.splits)

lemma workload_scan [workload_fields]:
  "s_workloads (sc_snapshot (scan_pod ex rs p now st)) = s_workloads (sc_snapshot st)"
  by (simp add: scan_pod_def add_bare_pod_def add_pod_issue_def Let_def)

definition objects :: "string \<Rightarrow> ('a \<Rightarrow> string) \<Rightarrow> ('a \<Rightarrow> string) \<Rightarrow> (string \<Rightarrow> bool) \<Rightarrow> 'a listing
    \<Rightarrow> (string \<times> string \<times> string) list" where
  "objects kd ns nm ex xs = map (\<lambda>x. (kd, ns x, nm x)) (filter (\<lambda>x. \<not> ex (ns x)) (items xs))"

definition workload_key :: "workload \<Rightarrow> string \<times> string \<times> string" where
  "workload_key w = (w_kind w, w_namespace w, w_name w)"

definition cluster_objects :: "cluster_api \<Rightarrow> (string \<Rightarrow> bool) \<Rightarrow> (string \<times> string \<times> string) list" where
  "cluster_objects k ex =
     objects ''Deployment'' dep_namespace dep_name ex (k_deployments k 2) @
     objects ''StatefulSet'' sts_namespace sts_name ex (k_stateful_sets k 1) @
     objects ''DaemonSet'' dms_namespace dms_name ex (k_daemon_sets k 1) @
     objects ''Job'' job_namespace job_name ex (k_jobs k 1) @
     objects ''CronJob'' cj_namespace cj_name ex (k_cron_jobs k)"

lemma collectWorkloads_keys:
  "collectWorkloads k ex nodes snap = Inr s \<Longrightarrow>
     map workload_key (s_workloads s) = map workload_key (s_workloads snap) @ cluster_objects k ex"
  by (auto simp: collectWorkloads_def append_workloads_eq and_then_Inr Let_def workload_key_def
      cluster_objects_def objects_def items_def comp_def)

lemma collectWorkloads_kinds:
  "collectWorkloads k ex nodes snap = Inr s \<Longrightarrow> snap_kinds snap \<Longrightarrow> snap_kinds s"
  by (auto simp: collectWorkloads_def append_workloads_eq and_then_Inr Let_def snap_kinds_def list_all_iff
      podSpecConfigRefs_set template_kind workload_kinds_def)

lemma snap_kinds_cong: "s_workloads s = s_workloads snap \<Longrightarrow> snap_kinds s = snap_kinds snap"
  by (simp add: snap_kinds_def)

lemmas snap_kinds_steps = workload_fields[THEN snap_kinds_cong]

interpretation kinds: collect_law "\<lambda>_. snap_kinds"
  by unfold_locales
    (simp_all add: snap_kinds_steps, simp_all add: snap_kinds_def empty_snapshot_def collectWorkloads_kinds[unfolded snap_kinds_def])

lemma Collect_workloads:
  assumes "Collect k sc = Inr snap"
  obtains nodes s s' where "s_workloads s = []" "collectWorkloads k (excluded_set sc) nodes s = Inr s'"
    "s_workloads snap = s_workloads s'"
proof -
  have scan: "s_workloads (sc_snapshot (scan_pods k ex rs pods s0)) = s_workloads s0" for ex rs pods s0
    unfolding scan_pods_def
    by (rule fold_inv[where P = "\<lambda>st. s_workloads (sc_snapshot st) = s_workloads s0"]) (auto simp: workload_fields)
  have nodes: "collectNodes k s0 = Inr s1 \<Longrightarrow> s_workloads s1 = s_workloads s0" for s0 s1
    by (auto simp: collectNodes_def and_then_Inr workload_fields intro!: fold_fields[where g = s_workloads])
  show thesis
    using assms unfolding Collect_def Let_def and_then_Inr sum.inject
    apply (elim exE conjE)
    apply hypsubst
    apply (drule workload_fields nodes)+
    apply (rule that[rotated], assumption)
    apply (simp_all add: workload_fields scan empty_snapshot_def)
    done
qed

section \<open>Scope\<close>

lemma excluded_set_iff:
  "excluded_set sc ns \<longleftrightarrow> ns \<in> set (scope_exclude sc) \<or>
     (scope_mode sc = ''application'' \<and> ns \<in> set systemNamespaces)"
proof -
  have mark: "fold (\<lambda>ns m. m(ns := True)) xs m ns \<longleftrightarrow> ns \<in> set xs \<or> m ns" for xs m
    by (induction xs arbitrary: m) auto
  show ?thesis by (auto simp: excluded_set_def Let_def mark)
qed

text \<open>The namespaces a snapshot speaks of, the reference list of \<open>Resources\<close> apart.\<close>

definition spoken_of :: "cluster_snapshot \<Rightarrow> string list" where
  "spoken_of snap =
     map pi_namespace (s_pod_issues snap) @ map bp_namespace (s_bare_pods snap) @
     map dw_namespace (s_deployment_workloads snap) @ map ss_namespace (s_statefulset_issues snap) @
     map ds_namespace (s_daemonset_issues snap) @ map ji_namespace (s_job_issues snap) @
     map pdb_namespace (s_pdb_issues snap) @ map svc_namespace (s_services snap) @
     map ing_namespace (s_ingresses snap) @ map w_namespace (s_workloads snap) @
     map pvc_namespace (s_pvcs snap)"

definition in_scope :: "(string \<Rightarrow> bool) \<Rightarrow> cluster_snapshot \<Rightarrow> bool" where
  "in_scope ex snap = list_all (\<lambda>ns. \<not> ex ns) (spoken_of snap)"

lemma spoken_requests [simp]: "spoken_of (add_requests p snap) = spoken_of snap"
  unfolding add_requests_def
  by (rule fold_fields) (simp add: spoken_of_def Let_def split: option.split)

lemma spoken_base:
  "spoken_of (empty_snapshot\<lparr>s_cluster_version := v, s_namespace_count := n\<rparr>) = []"
  "spoken_of (snap\<lparr>s_resources := r\<rparr>) = spoken_of snap"
  "spoken_of (collect_node nd snap) = spoken_of snap"
  "spoken_of (detectAddons k snap) = spoken_of snap"
  by (simp_all add: spoken_of_def empty_snapshot_def collect_node_def detectAddons_def Let_def split: option.split)

lemma spoken_apis: "spoken_of (detectDeprecatedAPIs k snap) = spoken_of snap"
  by (auto simp: detectDeprecatedAPIs_def spoken_of_def intro!: fold_fields[where g = spoken_of, unfolded spoken_of_def] split: option.splits)

lemma spoken_counters [simp]:
  "spoken_of (snap\<lparr>s_total_pods := n, s_total_restarts := m\<rparr>) = spoken_of snap"
  "spoken_of (snap\<lparr>s_restarting_pods := n\<rparr>) = spoken_of snap"
  by (simp_all add: spoken_of_def)

lemma in_scope_bare: "in_scope ex snap \<Longrightarrow> \<not> ex (pod_namespace p) \<Longrightarrow> in_scope ex (add_bare_pod p snap)"
  by (cases "pod_owners p = []") (auto simp: add_bare_pod_def in_scope_def spoken_of_def list_all_iff)

lemma in_scope_issue: "in_scope ex snap \<Longrightarrow> \<not> ex (pod_namespace p) \<Longrightarrow> in_scope ex (add_pod_issue p snap)"
  by (auto simp: add_pod_issue_def in_scope_def spoken_of_def list_all_iff)

lemma in_scope_cong: "spoken_of s = spoken_of snap \<Longrightarrow> in_scope ex s = in_scope ex snap"
  by (simp add: in_scope_def)

lemma in_scope_scan:
  "in_scope ex (sc_snapshot st) \<Longrightarrow> in_scope ex (sc_snapshot (scan_pod ex rs p now st))"
  by (auto simp: scan_pod_def Let_def in_scope_cong[OF spoken_requests] in_scope_cong[OF spoken_counters(1)]
      in_scope_cong[OF spoken_counters(2)] intro!: in_scope_bare in_scope_issue)

lemma in_scope_deployments:
  "in_scope ex snap \<Longrightarrow> collectDeployments k ex pb snap = Inr s \<Longrightarrow> in_scope ex s"
  by (auto simp: collectDeployments_def and_then_Inr fold_skip in_scope_def spoken_of_def list_all_iff)

lemma in_scope_services: "in_scope ex snap \<Longrightarrow> collectServices k ex snap = Inr s \<Longrightarrow> in_scope ex s"
  by (auto simp: collectServices_def and_then_Inr fold_skip in_scope_def spoken_of_def list_all_iff)

lemma in_scope_ingresses: "in_scope ex snap \<Longrightarrow> in_scope ex (collectIngresses k ex snap)"
  by (auto simp: collectIngresses_def fold_skip in_scope_def spoken_of_def list_all_iff split: sum.split)

lemma in_scope_pvcs: "in_scope ex snap \<Longrightarrow> in_scope ex (collectPVCs k ex snap)"
  by (auto simp: collectPVCs_def fold_skip Let_def in_scope_def spoken_of_def list_all_iff
      split: sum.split prod.split cong del: if_weak_cong)

lemma in_scope_append: "in_scope ex snap \<Longrightarrow> \<forall>x. w_namespace (mk x) = ns x \<Longrightarrow>
    in_scope ex (append_workloads ns mk ex xs snap)"
  by (auto simp: append_workloads_eq in_scope_def spoken_of_def list_all_iff)

lemma in_scope_workloads: "in_scope ex snap \<Longrightarrow> collectWorkloads k ex nodes snap = Inr s \<Longrightarrow> in_scope ex s"
  by (auto simp: collectWorkloads_def and_then_Inr Let_def intro!: in_scope_append)

lemmas in_scope_lists = in_scope_deployments in_scope_services in_scope_workloads in_scope_ingresses in_scope_pvcs

lemma in_scope_folds:
  "in_scope ex snap \<Longrightarrow> collectPDBs k ex snap = Inr s \<Longrightarrow> in_scope ex s"
  "in_scope ex snap \<Longrightarrow> collectStatefulSets k ex pb snap = Inr s \<Longrightarrow> in_scope ex s"
  "in_scope ex snap \<Longrightarrow> collectDaemonSets k ex pb snap = Inr s \<Longrightarrow> in_scope ex s"
  by (auto simp: step_defs Let_def intro!: fold_inv[where P = "in_scope ex"])
    (auto simp: in_scope_def spoken_of_def list_all_iff)

lemma in_scope_jobs: "in_scope ex snap \<Longrightarrow> collectJobs k ex pb snap = Inr s \<Longrightarrow> in_scope ex s"
  by (auto simp: collectJobs_def and_then_Inr fold_skip_if Let_def in_scope_def spoken_of_def list_all_iff cong del: if_weak_cong)

lemma in_scope_frame:
  "in_scope ex (snap\<lparr>s_resources := r\<rparr>) = in_scope ex snap"
  "in_scope ex (collect_node nd snap) = in_scope ex snap"
  "in_scope ex (detectAddons k snap) = in_scope ex snap"
  "in_scope ex (detectDeprecatedAPIs k snap) = in_scope ex snap"
  by (simp_all only: in_scope_def spoken_base spoken_apis)

lemma in_scope_init: "in_scope ex (empty_snapshot\<lparr>s_cluster_version := v, s_namespace_count := n\<rparr>)"
  by (simp add: in_scope_def spoken_base)

interpretation scope: collect_law in_scope
  by unfold_locales (simp_all only: in_scope_frame, (erule (1) in_scope_lists in_scope_folds in_scope_jobs |
    rule in_scope_init | erule in_scope_scan in_scope_lists)+)

section \<open>Which failures are fatal\<close>

definition err :: "string + 'a \<Rightarrow> string option" where
  "err r = (case r of Inl e \<Rightarrow> Some e | Inr _ \<Rightarrow> None)"

fun first_error :: "string option list \<Rightarrow> string option" where
  "first_error [] = None"
| "first_error (None # es) = first_error es"
| "first_error (Some e # es) = Some e"

text \<open>The calls whose failure ends a collection, in order.\<close>

definition required_calls :: "cluster_api \<Rightarrow> string option list" where
  "required_calls k =
     [err (k_server_version k), err (k_namespaces k), err (k_replica_sets k), err (k_pods k),
      err (k_deployments k 0), err (k_deployments k 1), err (k_nodes k), err (k_pdbs k),
      err (k_stateful_sets k 0), err (k_daemon_sets k 0), err (k_jobs k 0), err (k_services k),
      err (k_deployments k 2), err (k_stateful_sets k 1), err (k_daemon_sets k 1), err (k_jobs k 1),
      err (k_cron_jobs k)]"

lemma err_Inr [simp]: "err (Inr x) = None" "err (Inl e) = Some e"
  by (simp_all add: err_def)

lemma err_and_then: "err (and_then r f) = first_error [err r, err (f (projr r))]"
  by (cases r) (auto simp: err_def split: sum.split)

lemma first_error_Cons: "first_error (x # es) = (case x of None \<Rightarrow> first_error es | Some e \<Rightarrow> Some e)"
  by (cases x) auto

lemma first_error_nest: "first_error [x, first_error es] = first_error (x # es)"
  by (cases x; cases "first_error es") (auto simp: first_error_Cons)

lemma err_steps:
  "err (buildRSToDeployMap k) = err (k_replica_sets k)"
  "err (DeploymentCollector_Collect k) = err (k_deployments k 0)"
  "err (collectDeployments k ex pb snap) = err (k_deployments k 1)"
  "err (collectNodes k snap) = err (k_nodes k)"
  "err (collectPDBs k ex snap) = err (k_pdbs k)"
  "err (collectStatefulSets k ex pb snap) = err (k_stateful_sets k 0)"
  "err (collectDaemonSets k ex pb snap) = err (k_daemon_sets k 0)"
  "err (collectJobs k ex pb snap) = err (k_jobs k 0)"
  "err (collectServices k ex snap) = err (k_services k)"
  by (simp_all add: buildRSToDeployMap_def DeploymentCollector_Collect_def collectDeployments_def collectNodes_def
      collectPDBs_def collectStatefulSets_def collectDaemonSets_def collectJobs_def collectServices_def
      err_and_then first_error_Cons split: option.split)

lemma err_workloads: "err (collectWorkloads k ex nodes snap) =
    first_error [err (k_deployments k 2), err (k_stateful_sets k 1), err (k_daemon_sets k 1), err (k_jobs k 1), err (k_cron_jobs k)]"
  unfolding collectWorkloads_def Let_def err_and_then first_error_nest
  by (simp add: first_error_Cons split: option.split)

lemma Collect_err: "err (Collect k sc) = first_error (required_calls k)"
  unfolding Collect_def Let_def err_and_then first_error_nest err_steps err_workloads required_calls_def
  by (simp add: first_error_Cons split: option.split)

text \<open>C35: a collection fails exactly when one of the seventeen required calls does, with the error of the first
  of them; ingresses, claims, storage classes, API discovery and add-on detection never fail it.\<close>

theorem Collect_errors:
  "(Collect k sc = Inl e \<longleftrightarrow> first_error (required_calls k) = Some e) \<and>
   ((\<exists>snap. Collect k sc = Inr snap) \<longleftrightarrow> first_error (required_calls k) = None)"
  unfolding Collect_err[symmetric, of k sc] by (cases "Collect k sc") auto

section \<open>What a collected snapshot guarantees\<close>

definition sample_template :: pod_template where
  "sample_template = \<lparr>pt_labels = [(''app'', ''api'')], pt_annotations = [],
     pt_spec = \<lparr>ps_node_name = [], ps_restart_policy = ''Always'',
       ps_containers = [\<lparr>ctr_image = ''shop/api:v1.4.0'', ctr_cpu_milli = Some 250, ctr_mem = None,
         ctr_env_from = [\<lparr>ef_config_map = None, ef_secret = Some ''key''\<rparr>],
         ctr_env = [None, Some \<lparr>es_config_map_key = Some ''app'', es_secret_key = Some ''key''\<rparr>]\<rparr>],
       ps_volumes = [\<lparr>vol_pvc = Some ''data'', vol_config_map = Some ''app'', vol_secret = None\<rparr>]\<rparr>\<rparr>"

definition sample_deploy :: "string \<Rightarrow> string \<Rightarrow> deployment" where
  "sample_deploy ns n = \<lparr>dep_namespace = ns, dep_name = n, dep_labels = [], dep_replicas = Some 2,
     dep_template = sample_template, dep_ready = 1\<rparr>"

definition sample_api :: cluster_api where
  "sample_api = \<lparr>k_server_version = Inr ''v1.30.2'', k_namespaces = Inr [''shop'', ''kube-system''],
     k_replica_sets = Inr [], k_pods = Inr [],
     k_deployments = (\<lambda>_. Inr [sample_deploy ''shop'' ''api'', sample_deploy ''kube-system'' ''istiod'']),
     k_nodes = Inr [], k_pdbs = Inr [], k_stateful_sets = (\<lambda>_. Inr []), k_daemon_sets = (\<lambda>_. Inr []),
     k_jobs = (\<lambda>_. Inr []), k_cron_jobs = Inr [], k_services = Inr [], k_ingresses = Inl ''forbidden'',
     k_pvcs = Inl ''forbidden'', k_storage_classes = Inl ''forbidden'',
     k_api_resources = (Some ''no discovery'', None), k_server_groups = Inr [''cert-manager.io''],
     k_now = (\<lambda>_. 0)\<rparr>"

definition application_scope :: scope where
  "application_scope = \<lparr>scope_mode = ''application'', scope_exclude = []\<rparr>"

lemma sample_collects: obtains snap where "Collect sample_api application_scope = Inr snap"
proof -
  have "err (Collect sample_api application_scope) = None"
    unfolding Collect_err by (simp add: required_calls_def sample_api_def)
  then show thesis using that by (cases "Collect sample_api application_scope") auto
qed

lemma sample_excluded: "excluded_set application_scope = (\<lambda>ns. ns \<in> set systemNamespaces)"
  by (auto simp: excluded_set_iff application_scope_def)

text \<open>The workload inventory is, kind by kind and in the order listed, one entry for every Deployment,
  StatefulSet, DaemonSet, Job and CronJob outside the excluded namespaces.\<close>

theorem Collect_inventory:
  assumes "Collect k sc = Inr snap"
  shows "map workload_key (s_workloads snap) = cluster_objects k (excluded_set sc)"
  by (rule Collect_workloads[OF assms]) (use collectWorkloads_keys in fastforce)

theorem Collect_inventory_witness:
  "\<exists>snap. Collect sample_api application_scope = Inr snap \<and>
     map workload_key (s_workloads snap) = [(''Deployment'', ''shop'', ''api'')]"
proof -
  obtain snap where snap: "Collect sample_api application_scope = Inr snap" by (rule sample_collects)
  have "cluster_objects sample_api (excluded_set application_scope) = [(''Deployment'', ''shop'', ''api'')]"
    by (simp add: cluster_objects_def objects_def items_def sample_api_def sample_deploy_def sample_excluded systemNamespaces_def)
  with Collect_inventory[OF snap] snap show ?thesis by auto
qed

text \<open>C37: nothing of an excluded namespace reaches the pod, workload, PDB, service, ingress or claim lists of a
  snapshot; application mode also excludes the three system namespaces.\<close>

theorem Collect_in_scope:
  assumes "Collect k sc = Inr snap"
    and "ns \<in> set (scope_exclude sc) \<or> scope_mode sc = ''application'' \<and> ns \<in> set systemNamespaces"
  shows "ns \<notin> set (spoken_of snap)"
  using scope.collected[OF assms(1)] assms(2) by (auto simp: in_scope_def list_all_iff excluded_set_iff)

theorem Collect_in_scope_witness:
  "\<exists>snap. Collect sample_api application_scope = Inr snap \<and> ''kube-system'' \<notin> set (spoken_of snap)"
proof -
  obtain snap where snap: "Collect sample_api application_scope = Inr snap" by (rule sample_collects)
  with Collect_in_scope[OF snap, of "''kube-system''"] show ?thesis
    by (auto simp: application_scope_def systemNamespaces_def)
qed

text \<open>C36: a collected snapshot carries consistent pod counters and only the workload and configuration kinds the
  graph builder knows, so its dependency graph has no cycle and risk propagation is exact on it.\<close>

theorem Collect_feeds_analysis:
  assumes "Collect k sc = Inr snap"
  shows "pod_counts snap \<and> snap_kinds snap \<and> acyclic (edge_rel (g_edges (BuildFromSnapshot snap))) \<and>
    rescored (effective (own_risk (BuildFromSnapshot snap) st) (g_edges (BuildFromSnapshot snap)))
      (g_nodes (BuildFromSnapshot snap)) (g_nodes (fst (ApplyRisk (BuildFromSnapshot snap) st)))"
proof -
  have "snap_kinds snap" by (rule kinds.collected[OF assms])
  then show ?thesis
    using counts.collected[OF assms] ranked_acyclic[OF build_ranked] ApplyRisk_exact_gen by blast
qed

theorem Collect_feeds_analysis_witness:
  "\<exists>snap. Collect sample_api application_scope = Inr snap \<and> pod_counts snap \<and>
     acyclic (edge_rel (g_edges (BuildFromSnapshot snap)))"
proof -
  obtain snap where "Collect sample_api application_scope = Inr snap" by (rule sample_collects)
  with Collect_feeds_analysis[OF this] show ?thesis by blast
qed

text \<open>the configuration references of a template are its ConfigMaps and Secrets from environments and
  volumes, each once and none unnamed.\<close>

theorem podSpecConfigRefs_exact:
  "set (podSpecConfigRefs spec) = template_names spec \<and> distinct (podSpecConfigRefs spec)"
  by (simp add: podSpecConfigRefs_set podSpecConfigRefs_distinct)

section \<open>Statuses and risks\<close>

lemma status_risk:
  "baseRisk (workload_component (newWorkload kd ns n t nodes s)) st =
     (if s = ''Down'' \<or> s = ''Failed'' then 70 else if has_prefix s ''Degraded'' then 40
      else if s = ''Scaled to zero'' then 10 else 0)"
  by (simp add: baseRisk_def workload_component_def)

text \<open>the status the inventory gives a workload decides its own risk: nothing desired is 10, everything ready
  0, nothing ready 70, a part ready 40; a failed job is 70 even while pods of it run, any other job 0.\<close>

theorem workload_status_risk:
  "baseRisk (workload_component (newWorkload kd ns n t nodes (replicaStatus ready desired))) st =
     (if desired = 0 then 10 else if desired \<le> ready then 0 else if ready = 0 then 70 else 40) \<and>
   baseRisk (workload_component (newWorkload ''Job'' ns n t nodes (jobStatus j))) st =
     (if \<exists>c\<in>set (job_conditions j). kc_type c = ''Failed'' \<and> kc_status c = ''True'' then 70 else 0)"
proof -
  have "jobFailedReason j \<noteq> None \<longleftrightarrow> (\<exists>c\<in>set (job_conditions j). kc_type c = ''Failed'' \<and> kc_status c = ''True'')"
    by (auto simp: jobFailedReason_def find_None_iff split: option.split)
      (auto simp: find_Some_iff)
  then show ?thesis
    unfolding status_risk
    by (simp add: replicaStatus_def jobStatus_def JobStatusFailed_def JobStatusActive_def JobStatusCompleted_def
        JobStatusPending_def has_prefix_def)
qed

section \<open>Add-ons\<close>

lemma fold_matches:
  "fold (\<lambda>s out. case f s of None \<Rightarrow> out | Some a \<Rightarrow> out @ [a]) xs out = out @ List.map_filter f xs"
  by (induction xs arbitrary: out) (auto simp: map_filter_simps split: option.split)

lemma matchAddon_name: "matchAddon s deps dsets gs = Some a \<Longrightarrow> ad_name a = sig_name s"
  by (auto simp: matchAddon_def split: option.splits if_splits)

lemma matchAddon_crd:
  "matchAddon s deps dsets gs = Some a \<Longrightarrow> ad_detected_via a = ''crd'' \<Longrightarrow> ad_version a = []"
  by (auto simp: matchAddon_def split: option.splits if_splits)

lemma map_filter_names:
  "(\<And>s a. f s = Some a \<Longrightarrow> ad_name a = sig_name s) \<Longrightarrow>
     map ad_name (List.map_filter f xs) = map sig_name (filter (\<lambda>s. f s \<noteq> None) xs)"
  by (induction xs) (auto simp: map_filter_simps split: option.split)

text \<open>A signature's traces in the cluster.\<close>

definition present :: "string list \<Rightarrow> string list \<Rightarrow> string set \<Rightarrow> addon_signature \<Rightarrow> bool" where
  "present deps dsets groups s \<longleftrightarrow>
     (\<exists>n\<in>set deps. \<exists>w\<in>set (sig_deployments s). str_contains n w) \<or>
     (\<exists>n\<in>set dsets. \<exists>w\<in>set (sig_daemonsets s). str_contains n w) \<or>
     set (sig_crd_groups s) \<inter> groups \<noteq> {}"

lemma matchAddon_present:
  "matchAddon s deps dsets gs \<noteq> None \<longleftrightarrow> present (map dep_name deps) (map dms_name dsets) {g. gs g} s"
  by (auto simp: matchAddon_def present_def list_ex_iff find_None_iff find_Some_iff split: option.split)

lemma signature_names_distinct: "distinct (map sig_name addonSignatures)"
  by (simp add: addonSignatures_def sig_def)

lemma group_set: "fold (\<lambda>g m. m(g := True)) gs m = (\<lambda>g. g \<in> set gs \<or> m g)"
  by (induction gs arbitrary: m) (auto simp: fun_eq_iff)

text \<open>Every catalogued add-on is reported at most once, in catalogue order, exactly when the name of a deployment
  or daemonset contains one of its names or one of its API groups is served; one known by its group alone has
  no version.\<close>

theorem detectAddons_exact:
  fixes k snap
  assumes "s_detected_addons snap = []"
  defines "found \<equiv> s_detected_addons (detectAddons k snap)"
  shows "map ad_name found = map sig_name (filter (present (map dep_name (items (k_deployments k 3)))
        (map dms_name (items (k_daemon_sets k 2))) (set (items (k_server_groups k)))) addonSignatures) \<and>
    distinct (map ad_name found) \<and> (\<forall>a\<in>set found. ad_detected_via a = ''crd'' \<longrightarrow> ad_version a = [])"
proof (intro conjI ballI impI)
  let ?f = "\<lambda>s. matchAddon s (items (k_deployments k 3)) (items (k_daemon_sets k 2)) (\<lambda>g. g \<in> set (items (k_server_groups k)))"
  have found: "found = List.map_filter ?f addonSignatures"
    using assms(1) by (simp add: found_def detectAddons_def Let_def fold_matches group_set)
  show names: "map ad_name found = map sig_name (filter (present (map dep_name (items (k_deployments k 3)))
        (map dms_name (items (k_daemon_sets k 2))) (set (items (k_server_groups k)))) addonSignatures)"
    unfolding found by (subst map_filter_names) (simp_all only: matchAddon_name matchAddon_present Collect_mem_eq)
  show "distinct (map ad_name found)"
    unfolding names by (rule distinct_map_filter[OF signature_names_distinct])
  show "ad_version a = []" if "a \<in> set found" "ad_detected_via a = ''crd''" for a
    using that matchAddon_crd by (auto simp: found map_filter_def)
qed

theorem detectAddons_exact_witness:
  "map ad_name (s_detected_addons (detectAddons sample_api empty_snapshot)) = [''istio'', ''cert-manager'']"
proof -
  have "s_detected_addons empty_snapshot = []" by (simp add: empty_snapshot_def)
  moreover have "filter (present [''api'', ''istiod''] [] {''cert-manager.io''}) addonSignatures =
      [sig ''istio'' [''networking.istio.io'', ''security.istio.io''] [''istiod''] [],
       sig ''cert-manager'' [''cert-manager.io''] [''cert-manager''] []]"
    by (simp add: addonSignatures_def present_def sig_def has_prefix_def)
  ultimately show ?thesis
    using detectAddons_exact[of empty_snapshot sample_api] by (simp add: sample_api_def sample_deploy_def items_def sig_def)
qed

lemma last_index_none: "c \<notin> set s \<Longrightarrow> last_index_from c i b s = b"
  by (induction s arbitrary: i b) auto

lemma last_index_append:
  "last_index_from c i b (s @ t) = last_index_from c (i + int (length s)) (last_index_from c i b s) t"
  by (induction s arbitrary: i b) (auto simp: algebra_simps)

lemma last_index_snoc: "c \<notin> set t \<Longrightarrow> last_index c (s @ c # t) = int (length s)"
  by (simp add: last_index_def last_index_append last_index_none)

lemma last_index_bound: "b < i \<Longrightarrow> last_index_from c i b s < i + int (length s)"
proof (induction s arbitrary: i b)
  case (Cons x s)
  have "last_index_from c (i + 1) (if x = c then i else b) s < (i + 1) + int (length s)"
    by (rule Cons.IH) (use Cons.prems in auto)
  then show ?case by (simp add: algebra_simps del: if_split)
qed simp

lemma last_index_ge: "b < i \<Longrightarrow> b \<le> last_index_from c i b s"
proof (induction s arbitrary: i b)
  case (Cons x s)
  have "(if x = c then i else b) \<le> last_index_from c (i + 1) (if x = c then i else b) s"
    by (rule Cons.IH) (use Cons.prems in auto)
  moreover have "b \<le> (if x = c then i else b)" using Cons.prems by auto
  ultimately show ?case by (simp only: last_index_from.simps)
qed simp

lemma before_plain: "c \<notin> set s \<Longrightarrow> digest = [] \<or> (\<exists>d. digest = c # d) \<Longrightarrow> before_byte c (s @ digest) = s"
  by (subst before_byte_def, subst takeWhile_append2) auto

lemma before_none: "c \<notin> set s \<Longrightarrow> before_byte c s = s"
  using before_plain[of c s "[]"] by simp

lemma imageTag_plain:
  "CHR ''@'' \<notin> set img \<Longrightarrow> digest = [] \<or> (\<exists>d. digest = CHR ''@'' # d) \<Longrightarrow> imageTag (img @ digest) = imageTag img"
  by (simp add: imageTag_def before_plain before_none)

lemma imageTag_tagged:
  assumes "CHR ''@'' \<notin> set (repo @ tag)" "CHR ''/'' \<notin> set tag" "CHR '':'' \<notin> set tag"
  shows "imageTag (repo @ CHR '':'' # tag) = tag"
proof -
  have "last_index CHR ''/'' (repo @ CHR '':'' # tag) < int (length repo)"
    using last_index_bound[of "- 1" 0 "CHR ''/''" repo] assms(2)
    by (simp add: last_index_def last_index_append last_index_none)
  moreover have "last_index CHR '':'' (repo @ CHR '':'' # tag) = int (length repo)"
    by (rule last_index_snoc[OF assms(3)])
  ultimately show ?thesis
    using assms(1) by (simp add: imageTag_def Let_def before_none nat_add_distrib)
qed

lemma imageTag_untagged:
  assumes "CHR ''@'' \<notin> set (repo @ path)" "CHR '':'' \<notin> set path"
  shows "imageTag (repo @ CHR ''/'' # path) = []"
proof -
  have "int (length repo) \<le> last_index CHR ''/'' (repo @ CHR ''/'' # path)"
    using last_index_ge[of "int (length repo)" "int (length repo) + 1" "CHR ''/''" path]
    by (simp add: last_index_def last_index_append)
  moreover have "last_index CHR '':'' (repo @ CHR ''/'' # path) < int (length repo)"
    using last_index_bound[of "- 1" 0 "CHR '':''" repo] assms(2)
    by (simp add: last_index_def last_index_append last_index_none)
  ultimately show ?thesis using assms(1) by (simp add: imageTag_def Let_def before_none)
qed

text \<open>the tag of an image reference is found behind registry ports and before digests: a reference that is a
  repository, a colon and a tag yields the tag, one without a tag yields none even when its registry has a port.\<close>

theorem imageTag_exact:
  assumes "CHR ''@'' \<notin> set (repo @ path @ tag)" "CHR ''/'' \<notin> set tag" "CHR '':'' \<notin> set tag"
    and "CHR '':'' \<notin> set path" and "digest = [] \<or> (\<exists>d. digest = CHR ''@'' # d)"
  shows "imageTag ((repo @ CHR '':'' # tag) @ digest) = tag \<and>
    imageTag ((repo @ CHR ''/'' # path) @ digest) = []"
proof
  have plain: "imageTag (img @ digest) = imageTag img" if "CHR ''@'' \<notin> set img" for img
    by (rule imageTag_plain[OF that assms(5)])
  show "imageTag ((repo @ CHR '':'' # tag) @ digest) = tag"
    using assms(1-3) by (subst plain) (auto intro: imageTag_tagged)
  show "imageTag ((repo @ CHR ''/'' # path) @ digest) = []"
    using assms(1,4) by (subst plain) (auto intro: imageTag_untagged)
qed

theorem imageTag_exact_witness:
  "imageTag ''localhost:5000/shop/api:v1.4@sha256:ab'' = ''v1.4'' \<and> imageTag ''localhost:5000/api'' = []"
  using imageTag_exact[of "''localhost:5000/shop/api''" "[]" "''v1.4''" "''@sha256:ab''"]
    imageTag_exact[of "''localhost:5000''" "''api''" "[]" "[]"] by simp

end
