(* ===== verification/Restart_Props.thy ===== *)
theory Restart_Props
  imports Restart
begin

text \<open>When a pod counts as restarting abnormally: the float64 rate against the integer inequality.\<close>

section \<open>The age of a pod\<close>

lemma age_hours:
  assumes "1 \<le> h" "h \<le> 2562047"
  shows "duration_hours (time_sub (t + h * hour_ns) t) = Fin (of_int h)"
proof -
  have d: "time_sub (t + h * hour_ns) t = h * hour_ns"
    using assms by (simp add: time_sub_def hour_ns_def)
  have "h * hour_ns sdiv hour_ns = h" "h * hour_ns smod hour_ns = 0"
    using assms by (simp_all add: signed_divide_int_def signed_modulo_int_def hour_ns_def sgn_if abs_mult)
  moreover have "f64_of_int h = Fin (of_int h)" "f64_of_int hour_ns = Fin (of_int hour_ns)" "f64_of_int 0 = Fin 0"
    using assms by (simp_all add: f64_of_int_small hour_ns_def)
  moreover have "fin (of_int h) = Fin (of_int h)"
    using assms by (simp add: f64_of_int_small[unfolded f64_of_int_def])
  moreover have "fin 0 = Fin 0" by (simp add: fin_small)
  ultimately show ?thesis
    by (simp add: duration_hours_def d[unfolded hour_ns_def] plus_f64_def divide_f64_def hour_ns_def)
qed

lemma age_young:
  assumes "0 \<le> d" "d < hour_ns"
  obtains x where "duration_hours (time_sub (t + d) t) = Fin x" "0 \<le> x" "x \<le> 1"
proof -
  have sub: "time_sub (t + d) t = d"
    using assms by (simp add: time_sub_def hour_ns_def)
  have "d sdiv hour_ns = 0" "d smod hour_ns = d"
    using assms by (simp_all add: signed_divide_int_def signed_modulo_int_def hour_ns_def sgn_if)
  moreover have "f64_of_int d = Fin (of_int d)" "f64_of_int hour_ns = Fin (of_int hour_ns)" "f64_of_int 0 = Fin 0"
    using assms by (simp_all add: f64_of_int_small hour_ns_def)
  moreover define q where "q = (of_int d / of_int hour_ns :: rat)"
  have q: "0 \<le> q" "q \<le> 1" using assms by (simp_all add: q_def hour_ns_def)
  have r1: "rnd 1 = 1" using rnd_int[of 1] by simp
  have x: "0 \<le> rnd q" "rnd q \<le> 1" "0 \<le> rnd (rnd q)" "rnd (rnd q) \<le> 1"
    using q r1 rnd_mono[of q 1] rnd_mono[of "rnd q" 1] by (auto simp: rnd_nonneg)
  have "fin q = Fin (rnd q)" "fin (rnd q) = Fin (rnd (rnd q))"
    using q x by (simp_all add: fin_small)
  ultimately have "duration_hours (time_sub (t + d) t) = Fin (rnd (rnd q))"
    by (simp add: duration_hours_def sub[unfolded hour_ns_def] plus_f64_def divide_f64_def hour_ns_def q_def)
  then show thesis using that x by blast
qed

text \<open>An age of an hour or more, in float64 hours: two roundings away from the exact quotient.\<close>

lemma rnd_relative:
  assumes "pow2 k \<le> x" "- 1000 \<le> k"
  shows "\<bar>rnd x - x\<bar> \<le> x / 2 ^ 53"
proof -
  have x: "0 < x" using assms(1) pow2_pos[of k] by linarith
  have b: "pow2 (flog2 x) \<le> x" "x < pow2 (flog2 x + 1)" using flog2_bounds[OF x] by simp_all
  then have "pow2 k < pow2 (flog2 x + 1)" using assms(1) by linarith
  then have f: "pow2 (flog2 x) \<le> x" "k \<le> flog2 x" using b by simp_all
  have "rexp x = flog2 x - 52" using f(2) assms(2) x by (simp add: rexp_def)
  moreover have "pow2 52 = 2 ^ 52" by (simp add: pow2_def)
  ultimately have "pow2 (rexp x) = pow2 (flog2 x) / 2 ^ 52" by (simp add: pow2_diff)
  then show ?thesis using rnd_error[of x] x f(1) by simp
qed

lemma age_grown:
  assumes "hour_ns \<le> d" "d < 2 ^ 63"
  defines "a \<equiv> of_int d / of_int hour_ns :: rat"
  obtains x where "duration_hours (time_sub (t + d) t) = Fin x" "1 \<le> x" "x \<le> 2 ^ 22"
    "\<bar>x - a\<bar> \<le> a * (3 / 2 ^ 53)"
proof -
  define h where "h = d div hour_ns"
  define f where "f = d mod hour_ns"
  have hf: "d = h * hour_ns + f" "0 \<le> f" "f < hour_ns" by (simp_all add: h_def f_def hour_ns_def)
  have h: "1 \<le> h" "h \<le> 2562047" using assms(1,2) by (simp_all add: h_def hour_ns_def)
  have sub: "time_sub (t + d) t = d" using assms by (simp add: time_sub_def hour_ns_def)
  have div: "d sdiv hour_ns = h" "d smod hour_ns = f"
    using assms(1) by (simp_all add: signed_divide_int_def signed_modulo_int_def h_def f_def hour_ns_def sgn_if)
  define q where "q = (of_int f / of_int hour_ns :: rat)"
  have q: "0 \<le> q" "q < 1" using hf(2,3) by (simp_all add: q_def hour_ns_def)
  have a: "a = of_int h + q" unfolding a_def q_def hf(1) by (simp add: hour_ns_def field_simps)
  have rq: "0 \<le> rnd q" "\<bar>rnd q - q\<bar> \<le> 1 / 2 ^ 54" "rnd q \<le> 1"
    using q rnd_error_frac[of q] rnd_mono[of q 1] rnd_int[of 1] by (simp_all add: rnd_nonneg)
  define s where "s = of_int h + rnd q"
  have hh: "1 \<le> (of_int h :: rat)" "(of_int h :: rat) \<le> 2562047" using h by simp_all
  then have s: "1 \<le> s" "s \<le> 2562048" using rq by (simp_all add: s_def)
  have rs: "\<bar>rnd s - s\<bar> \<le> s / 2 ^ 53" using rnd_relative[of 0 s] s by (simp add: pow2_def)
  have "1 \<le> rnd s" "rnd s \<le> 2562048" using rnd_mono[OF s(1)] rnd_mono[OF s(2)] rnd_int[of 1] rnd_int[of 2562048] by simp_all
  moreover have "\<bar>rnd s - a\<bar> \<le> a * (3 / 2 ^ 53)"
  proof -
    have "\<bar>rnd s - a\<bar> \<le> \<bar>rnd s - s\<bar> + \<bar>rnd q - q\<bar>" unfolding a s_def by linarith
    also have "\<dots> \<le> s / 2 ^ 53 + 1 / 2 ^ 54" using rs rq(2) by (rule add_mono)
    also have "\<dots> \<le> (of_int h + 1) / 2 ^ 53 + 1 / 2 ^ 54" using rq(3) unfolding s_def by (intro add_mono divide_right_mono) simp_all
    also have "\<dots> \<le> a * (3 / 2 ^ 53)" using hh(1) q(1) unfolding a by (simp add: field_simps)
    finally show ?thesis .
  qed
  moreover have "f64_of_int h = Fin (of_int h)" "f64_of_int f = Fin (of_int f)" "f64_of_int hour_ns = Fin (of_int hour_ns)"
    using h hf by (simp_all add: f64_of_int_small hour_ns_def)
  moreover have "fin q = Fin (rnd q)" "fin s = Fin (rnd s)" using q s by (simp_all add: fin_small)
  ultimately show thesis
    using that[of "rnd s"]
    by (simp add: duration_hours_def sub div[unfolded hour_ns_def] plus_f64_def divide_f64_def hour_ns_def q_def s_def)
qed

section \<open>The rate\<close>

lemma rate_value:
  assumes "0 \<le> r" "r < 2 ^ 31" "1 \<le> x"
  shows "f64_of_int r / Fin x * f64_of_int 24 = Fin (rnd (rnd (of_int r / x) * 24))"
proof -
  let ?q = "of_int r / x :: rat"
  have big: "rnd (of_int (2 ^ 31)) = 2 ^ 31" using rnd_int[of "2 ^ 31"] by simp
  have "(of_int r :: rat) \<le> of_int (2 ^ 31)" using assms(2) by (simp only: of_int_le_iff)
  then have "?q \<le> of_int (2 ^ 31) / 1" using assms by (intro frac_le) simp_all
  then have q: "0 \<le> ?q" "?q \<le> of_int (2 ^ 31)" using assms by simp_all
  then have rq: "0 \<le> rnd ?q" "rnd ?q \<le> 2 ^ 31"
    using rnd_mono[OF q(2)] big by (simp_all add: rnd_nonneg)
  have small: "fin ?q = Fin (rnd ?q)" "fin (rnd ?q * 24) = Fin (rnd (rnd ?q * 24))"
    using q rq by (simp_all add: fin_small)
  have "f64_of_int r = Fin (of_int r)" "f64_of_int 24 = Fin 24"
    using assms by (simp_all add: f64_of_int_small)
  with small assms show ?thesis by (simp add: divide_f64_def times_f64_def)
qed

lemma rate_threshold:
  assumes "0 \<le> r" "r < 2 ^ 31" "1 \<le> h" "h \<le> 2562047"
  shows "10 \<le> rnd (rnd (of_int r / of_int h) * 24) \<longleftrightarrow> 10 * h \<le> 24 * r"
proof
  have top: "rnd (rnd (5 / 12) * 24) = 10" by (simp add: float_eval)
  assume "10 * h \<le> 24 * r"
  then have "(of_int (10 * h) :: rat) \<le> of_int (24 * r)" by (simp only: of_int_le_iff)
  then have "(5 / 12 :: rat) \<le> of_int r / of_int h" using assms by (simp add: field_simps)
  then have "rnd (5 / 12) * 24 \<le> rnd (of_int r / of_int h) * 24" by (simp add: rnd_mono)
  from rnd_mono[OF this] top show "10 \<le> rnd (rnd (of_int r / of_int h) * 24)" by simp
next
  have below: "rnd (rnd (5 / 12 - 1 / 2 ^ 28) * 24) < 10" by (simp add: float_eval)
  assume "10 \<le> rnd (rnd (of_int r / of_int h) * 24)"
  show "10 * h \<le> 24 * r"
  proof (rule ccontr)
    assume "\<not> 10 * h \<le> 24 * r"
    then have "(of_int (24 * r + 1) :: rat) \<le> of_int (10 * h)" by (simp only: of_int_le_iff)
    then have "of_int r / of_int h \<le> (5 / 12 - 1 / (24 * of_int h) :: rat)" using assms by (simp add: field_simps)
    moreover have "1 / 2 ^ 28 \<le> (1 / (24 * of_int h) :: rat)"
      using assms by (intro divide_left_mono) simp_all
    ultimately have "of_int r / of_int h \<le> (5 / 12 - 1 / 2 ^ 28 :: rat)" by linarith
    then have "rnd (of_int r / of_int h) * 24 \<le> rnd (5 / 12 - 1 / 2 ^ 28) * 24" by (simp add: rnd_mono)
    from rnd_mono[OF this] below \<open>10 \<le> _\<close> show False by linarith
  qed
qed

text \<open>The rate of an age that is not a whole number of hours, away from the threshold by one part in \<open>2^50\<close>.\<close>

lemma rate_near:
  fixes a x :: rat
  assumes r: "1 \<le> r" and x: "1 \<le> x" "x \<le> 2 ^ 22" "\<bar>x - a\<bar> \<le> a * (3 / 2 ^ 53)"
  shows "10 * a * (2 ^ 50 + 1) \<le> 24 * of_int r * 2 ^ 50 \<Longrightarrow> 10 \<le> rnd (rnd (of_int r / x) * 24)"
    and "24 * of_int r * 2 ^ 50 \<le> 10 * a * (2 ^ 50 - 1) \<Longrightarrow> rnd (rnd (of_int r / x) * 24) < 10"
proof -
  define y where "y = of_int r / x"
  have r': "1 \<le> (of_int r :: rat)" using r by simp
  have "1 / 2 ^ 22 \<le> y" unfolding y_def using r' x by (intro frac_le) simp_all
  then have "pow2 (- 22) \<le> y" by (simp add: pow2_def)
  from rnd_relative[OF this] have "\<bar>rnd y - y\<bar> \<le> y / 2 ^ 53" by simp
  then have "y - y / 2 ^ 53 \<le> rnd y" "rnd y \<le> y + y / 2 ^ 53" by linarith+
  then have e: "(1 - 1 / 2 ^ 53) * y \<le> rnd y" "rnd y \<le> (1 + 1 / 2 ^ 53) * y" by (simp_all add: algebra_simps)
  have a: "0 \<le> a"
  proof (rule ccontr)
    assume "\<not> 0 \<le> a"
    then have "a * (3 / 2 ^ 53) < 0" by simp
    with x(3) show False by linarith
  qed
  have y: "y * x = of_int r" using x(1) by (simp add: y_def)
  have "x - a \<le> a * (3 / 2 ^ 53)" "a - x \<le> a * (3 / 2 ^ 53)" using x(3) by linarith+
  then have xa: "x \<le> a * (1 + 3 / 2 ^ 53)" "a * (1 - 3 / 2 ^ 53) \<le> x" by (simp_all add: algebra_simps)
  show "10 \<le> rnd (rnd (of_int r / x) * 24)" if "10 * a * (2 ^ 50 + 1) \<le> 24 * of_int r * 2 ^ 50"
  proof -
    have "10 * x \<le> 24 * of_int r * (1 - 1 / 2 ^ 53)" using that xa a by simp
    also have "\<dots> = 24 * (1 - 1 / 2 ^ 53) * y * x" by (simp add: y[symmetric])
    finally have "10 \<le> 24 * (1 - 1 / 2 ^ 53) * y" using x(1) by simp
    then have "10 \<le> rnd y * 24" using e(1) by simp
    from rnd_mono[OF this] show ?thesis using rnd_int[of 10] by (simp add: y_def)
  qed
  show "rnd (rnd (of_int r / x) * 24) < 10" if "24 * of_int r * 2 ^ 50 \<le> 10 * a * (2 ^ 50 - 1)"
  proof -
    have "24 * (1 + 1 / 2 ^ 53) * y * x = 24 * of_int r * (1 + 1 / 2 ^ 53)" by (simp add: y[symmetric])
    also have "\<dots> \<le> (10 - 1 / 2 ^ 49) * x" using that xa a by simp
    finally have "24 * (1 + 1 / 2 ^ 53) * y \<le> 10 - 1 / 2 ^ 49" using x(1) by simp
    then have "rnd y * 24 \<le> 10 - 1 / 2 ^ 49" using e(2) by simp
    moreover have "rnd (10 - 1 / 2 ^ 49) < 10" by (simp add: float_eval)
    ultimately show ?thesis using rnd_mono[of "rnd y * 24" "10 - 1 / 2 ^ 49"] by (simp add: y_def)
  qed
qed

section \<open>When a pod is restarting abnormally\<close>

lemma abnormal_rate:
  assumes "isCurrentlyCrashing p" "restart_sum p = r" "0 \<le> r" "r < 2 ^ 31" "1 \<le> x"
    and age: "(if duration_hours (time_sub now (pod_created p)) < 1 then 1
      else duration_hours (time_sub now (pod_created p))) = Fin x"
  shows "isRestartingAbnormally p now \<longleftrightarrow> r \<noteq> 0 \<and> 10 \<le> rnd (rnd (of_int r / x) * 24)"
proof -
  have ten: "f64_of_int AbnormalRestartRate24h = Fin 10"
    by (simp add: AbnormalRestartRate24h_def f64_of_int_small)
  show ?thesis
  proof (cases "r = 0")
    case True
    then show ?thesis using assms(1,2)
      by (simp add: isRestartingAbnormally_def podRestartRate24h_def ten less_eq_f64_def zero_f64_def f64_eq_def)
  next
    case False
    then have "podRestartRate24h p now = Fin (rnd (rnd (of_int r / x) * 24))"
      unfolding podRestartRate24h_def Let_def age using assms(1,2) rate_value[OF assms(3,4,5)] by simp
    then show ?thesis using False by (auto simp: isRestartingAbnormally_def ten less_eq_f64_def f64_eq_def)
  qed
qed

lemma abnormal_iff:
  assumes "isCurrentlyCrashing p" "restart_sum p = r" "0 \<le> r" "r < 2 ^ 31"
    and h: "1 \<le> h" "h \<le> 2562047"
    and age: "(if duration_hours (time_sub now (pod_created p)) < 1 then 1
      else duration_hours (time_sub now (pod_created p))) = Fin (of_int h)"
  shows "isRestartingAbnormally p now \<longleftrightarrow> 10 * h \<le> 24 * r"
  using abnormal_rate[OF assms(1-4) _ age] rate_threshold[OF assms(3,4) h] h by auto

lemma restart_sum_bound: "restart_sum p < 2 ^ 31"
proof -
  have "wrap32 n < 2 ^ 31" for n by (simp add: wrap32_def)
  then show ?thesis unfolding restart_sum_def by (intro fold_inv[where P = "\<lambda>n. n < 2 ^ 31"]) auto
qed

lemma abnormal_grown:
  assumes "isCurrentlyCrashing p" "restart_sum p = r" "0 \<le> r" "r < 2 ^ 31" "pod_created p = t"
    and d: "hour_ns \<le> d" "d < 2 ^ 63"
  shows "(10 * d * (2 ^ 50 + 1) \<le> 24 * r * hour_ns * 2 ^ 50 \<longrightarrow> isRestartingAbnormally p (t + d)) \<and>
    (24 * r * hour_ns * 2 ^ 50 \<le> 10 * d * (2 ^ 50 - 1) \<longrightarrow> \<not> isRestartingAbnormally p (t + d))"
proof -
  define a where "a = (of_int d / of_int hour_ns :: rat)"
  have d_pos: "0 < d" using d(1) by (simp add: hour_ns_def)
  obtain x where x: "duration_hours (time_sub (t + d) t) = Fin x" "1 \<le> x" "x \<le> 2 ^ 22" "\<bar>x - a\<bar> \<le> a * (3 / 2 ^ 53)"
    unfolding a_def by (rule age_grown[OF d])
  have age: "(if duration_hours (time_sub (t + d) (pod_created p)) < 1 then 1
      else duration_hours (time_sub (t + d) (pod_created p))) = Fin x"
    using x assms(5) by (auto simp: less_f64_def one_f64_def)
  note rate = abnormal_rate[OF assms(1-4) x(2) age]
  have da: "(of_int d :: rat) = a * of_int hour_ns" by (simp add: a_def hour_ns_def)
  have scale: "10 * a * (2 ^ 50 + 1) \<le> 24 * of_int r * 2 ^ 50" if "10 * d * (2 ^ 50 + 1) \<le> 24 * r * hour_ns * 2 ^ 50"
  proof -
    have "(of_int (10 * d * (2 ^ 50 + 1)) :: rat) \<le> of_int (24 * r * hour_ns * 2 ^ 50)" using that by (simp only: of_int_le_iff)
    then show ?thesis by (simp add: da hour_ns_def)
  qed
  have scale': "24 * of_int r * 2 ^ 50 \<le> 10 * a * (2 ^ 50 - 1)" if "24 * r * hour_ns * 2 ^ 50 \<le> 10 * d * (2 ^ 50 - 1)"
  proof -
    have "(of_int (24 * r * hour_ns * 2 ^ 50) :: rat) \<le> of_int (10 * d * (2 ^ 50 - 1))" using that by (simp only: of_int_le_iff)
    then show ?thesis by (simp add: da hour_ns_def)
  qed
  show ?thesis
  proof (cases "1 \<le> r")
    case True
    then show ?thesis using rate rate_near[OF True x(2-4)] scale scale' by force
  next
    case False
    then have "r = 0" using assms(3) by simp
    then show ?thesis using rate d_pos by simp
  qed
qed

text \<open>C38: a pod counts as restarting abnormally exactly when it is stuck in a crash loop now and has
  restarted at least 10 times per 24 hours of its age. In its first hour one restart is enough; at a whole number of
  hours the test is exact; at any other age, to the nanosecond, it is right up to one part in \<open>2^50\<close> of the threshold,
  which is what the roundings of the float64 rate may cost.\<close>

theorem abnormal_restart_exact:
  assumes "restart_sum p = r" "0 \<le> r" and "pod_created p = t"
  shows "(\<not> isCurrentlyCrashing p \<longrightarrow> \<not> isRestartingAbnormally p now) \<and>
    (isCurrentlyCrashing p \<and> 0 \<le> d \<and> d < hour_ns \<longrightarrow>
      (isRestartingAbnormally p (t + d) \<longleftrightarrow> 1 \<le> r)) \<and>
    (isCurrentlyCrashing p \<and> 1 \<le> h \<and> h \<le> 2562047 \<longrightarrow>
      (isRestartingAbnormally p (t + h * hour_ns) \<longleftrightarrow> 10 * h \<le> 24 * r)) \<and>
    (isCurrentlyCrashing p \<and> hour_ns \<le> d \<and> d < 2 ^ 63 \<longrightarrow>
      (10 * d * (2 ^ 50 + 1) \<le> 24 * r * hour_ns * 2 ^ 50 \<longrightarrow> isRestartingAbnormally p (t + d)) \<and>
      (24 * r * hour_ns * 2 ^ 50 \<le> 10 * d * (2 ^ 50 - 1) \<longrightarrow> \<not> isRestartingAbnormally p (t + d)))"
proof (intro conjI impI; (elim conjE)?)
  have r: "r < 2 ^ 31" using restart_sum_bound[of p] assms(1) by simp
  show "\<not> isCurrentlyCrashing p \<Longrightarrow> \<not> isRestartingAbnormally p now"
    by (simp add: isRestartingAbnormally_def podRestartRate24h_def AbnormalRestartRate24h_def f64_of_int_small
        less_eq_f64_def zero_f64_def f64_eq_def)
  show "isRestartingAbnormally p (t + d) \<longleftrightarrow> 1 \<le> r"
    if c: "isCurrentlyCrashing p" and d: "0 \<le> d" "d < hour_ns"
  proof -
    obtain x where x: "duration_hours (time_sub (t + d) t) = Fin x" "0 \<le> x" "x \<le> 1" by (rule age_young[OF d])
    then have age: "(if duration_hours (time_sub (t + d) (pod_created p)) < 1 then 1
      else duration_hours (time_sub (t + d) (pod_created p))) = Fin (of_int 1)"
      using assms(3) by (auto simp: less_f64_def one_f64_def)
    show ?thesis using abnormal_iff[OF c assms(1,2) r _ _ age] by auto
  qed
  show "isRestartingAbnormally p (t + h * hour_ns) \<longleftrightarrow> 10 * h \<le> 24 * r"
    if c: "isCurrentlyCrashing p" and h: "1 \<le> h" "h \<le> 2562047"
    by (rule abnormal_iff[OF c assms(1,2) r h]) (use h assms(3) in \<open>auto simp: age_hours less_f64_def one_f64_def\<close>)
  have grown: "(10 * d * (2 ^ 50 + 1) \<le> 24 * r * hour_ns * 2 ^ 50 \<longrightarrow> isRestartingAbnormally p (t + d)) \<and>
      (24 * r * hour_ns * 2 ^ 50 \<le> 10 * d * (2 ^ 50 - 1) \<longrightarrow> \<not> isRestartingAbnormally p (t + d))"
    if c: "isCurrentlyCrashing p" and d: "hour_ns \<le> d" "d < 2 ^ 63"
    by (rule abnormal_grown[OF c assms(1,2) r assms(3) d])
  show "isRestartingAbnormally p (t + d)" if "isCurrentlyCrashing p" "hour_ns \<le> d" "d < 2 ^ 63"
      "10 * d * (2 ^ 50 + 1) \<le> 24 * r * hour_ns * 2 ^ 50"
    using grown that by blast
  show "\<not> isRestartingAbnormally p (t + d)" if "isCurrentlyCrashing p" "hour_ns \<le> d" "d < 2 ^ 63"
      "24 * r * hour_ns * 2 ^ 50 \<le> 10 * d * (2 ^ 50 - 1)"
    using grown that by blast
qed

definition sample_crash_pod :: pod where
  "sample_crash_pod = \<lparr>pod_namespace = ''shop'', pod_name = ''api-0'', pod_owners = [], pod_created = 0,
     pod_spec = \<lparr>ps_node_name = ''n1'', ps_restart_policy = ''Always'', ps_containers = [], ps_volumes = []\<rparr>,
     pod_phase = ''Running'', pod_conditions = [],
     pod_statuses = [\<lparr>cst_restart_count = 4, cst_waiting = Some ''CrashLoopBackOff'', cst_terminated = None\<rparr>]\<rparr>"

lemma sample_crash:
  "isCurrentlyCrashing sample_crash_pod" "restart_sum sample_crash_pod = 4" "pod_created sample_crash_pod = 0"
  by (simp_all add: sample_crash_pod_def isCurrentlyCrashing_def crash_reasons_def restart_sum_def wrap32_def)

text \<open>With 4 restarts the bar is 9 hours and 36 minutes: a pod of 9 hours and 35 minutes is abnormal, one of 9 hours and 59 is not.\<close>

theorem abnormal_restart_exact_witness:
  "isRestartingAbnormally sample_crash_pod (9 * hour_ns) \<and> \<not> isRestartingAbnormally sample_crash_pod (10 * hour_ns) \<and>
   isRestartingAbnormally sample_crash_pod 5 \<and> isRestartingAbnormally sample_crash_pod (575 * (hour_ns div 60)) \<and>
   \<not> isRestartingAbnormally sample_crash_pod (599 * (hour_ns div 60))"
proof -
  have "5 < hour_ns" by (simp add: hour_ns_def)
  moreover have "isRestartingAbnormally sample_crash_pod (575 * (hour_ns div 60))"
    using abnormal_restart_exact[OF sample_crash(2) _ sample_crash(3), of _ "575 * (hour_ns div 60)" 9] sample_crash(1)
    by (simp add: hour_ns_def)
  moreover have "\<not> isRestartingAbnormally sample_crash_pod (599 * (hour_ns div 60))"
    using abnormal_restart_exact[OF sample_crash(2) _ sample_crash(3), of _ "599 * (hour_ns div 60)" 9] sample_crash(1)
    by (simp add: hour_ns_def)
  ultimately show ?thesis
    using abnormal_restart_exact[OF sample_crash(2) _ sample_crash(3), of _ 0 9]
      abnormal_restart_exact[OF sample_crash(2) _ sample_crash(3), of _ 5 10]
    by (simp add: sample_crash)
qed

end
