(* ===== verification/Io_Monad.thy ===== *)
theory Io_Monad
  imports Main "HOL-Library.State_Monad"
begin

text \<open>
  Computations that call the world outside the program: the state monad over the history of calls. An
  answer is a function of the calls issued before. \<open>calls_of\<close> and \<open>result_of\<close> are what a computation did and
  returned; \<open>only P m\<close> says that every call of \<open>m\<close> satisfies \<open>P\<close> whatever is answered, with one rule per
  construct of the monad.
\<close>

type_synonym ('c, 'a) calling = "('c list, 'a) state"

definition ask :: "('c list \<Rightarrow> 'a) \<Rightarrow> 'c \<Rightarrow> ('c, 'a) calling" where
  "ask answer c = State (\<lambda>h. (answer h, h @ [c]))"

lemma run_ask [simp]: "run_state (ask f c) h = (f h, h @ [c])"
  by (simp add: ask_def)

section \<open>Running a computation\<close>

text \<open>A computation only extends the history.\<close>

definition extends :: "('c, 'a) calling \<Rightarrow> bool" where
  "extends m \<longleftrightarrow> (\<forall>h. \<exists>t. snd (run_state m h) = h @ t)"

text \<open>What a computation did: its calls, after the history it started from.\<close>

definition calls_of :: "('c, 'a) calling \<Rightarrow> 'c list \<Rightarrow> 'c list" where
  "calls_of m h = drop (length h) (snd (run_state m h))"

abbreviation result_of :: "('c, 'a) calling \<Rightarrow> 'c list \<Rightarrow> 'a" where
  "result_of m h \<equiv> fst (run_state m h)"

lemma extends_ask [simp, intro]: "extends (ask f c)"
  by (simp add: extends_def)

lemma extends_return [simp, intro]: "extends (State_Monad.return x)"
  by (simp add: extends_def)

lemma extends_bind [simp, intro]:
  assumes "extends m" "\<And>x. extends (f x)"
  shows "extends (m \<bind> f)"
  unfolding extends_def
proof
  fix h
  obtain x h1 where m: "run_state m h = (x, h1)" by force
  with assms(1) obtain t1 where "h1 = h @ t1" by (metis extends_def snd_conv)
  moreover obtain t2 where "snd (run_state (f x) h1) = h1 @ t2" using assms(2) by (metis extends_def)
  ultimately show "\<exists>t. snd (run_state (m \<bind> f) h) = h @ t" by (auto simp: m)
qed

lemma extends_run: "extends m \<Longrightarrow> run_state m h = (result_of m h, h @ calls_of m h)"
  by (auto simp: extends_def calls_of_def) (metis append_eq_conv_conj prod.collapse)

lemma calls_of_bind:
  assumes "extends m" "\<And>x. extends (f x)"
  shows "calls_of (m \<bind> f) h = calls_of m h @ calls_of (f (result_of m h)) (h @ calls_of m h)"
    and "result_of (m \<bind> f) h = result_of (f (result_of m h)) (h @ calls_of m h)"
proof -
  obtain x c where m: "run_state m h = (x, h @ c)" and c: "c = calls_of m h" and x: "x = result_of m h"
    using extends_run[OF assms(1)] by blast
  obtain t where t: "snd (run_state (f x) (h @ c)) = (h @ c) @ t"
    using assms(2) by (metis extends_def)
  have "calls_of (m \<bind> f) h = c @ t" "calls_of (f x) (h @ c) = t"
    using t by (simp_all add: calls_of_def[of "m \<bind> f"] calls_of_def[of "f x"] m)
  then show "calls_of (m \<bind> f) h = calls_of m h @ calls_of (f (result_of m h)) (h @ calls_of m h)"
    by (simp only: c x)
  show "result_of (m \<bind> f) h = result_of (f (result_of m h)) (h @ calls_of m h)"
    by (simp add: m c[symmetric])
qed

lemma calls_of_ask [simp]: "calls_of (ask f c) h = [c]"
  by (simp add: calls_of_def)

lemma calls_of_return [simp]: "calls_of (State_Monad.return x) h = []"
  by (simp add: calls_of_def)

lemma extends_cases [intro]:
  "extends m \<Longrightarrow> (\<And>x. extends (f x)) \<Longrightarrow> extends (case r of None \<Rightarrow> m | Some x \<Rightarrow> f x)"
  "(\<And>x. extends (g x)) \<Longrightarrow> (\<And>y. extends (f y)) \<Longrightarrow> extends (case s of Inl x \<Rightarrow> g x | Inr y \<Rightarrow> f y)"
  "extends m \<Longrightarrow> extends n \<Longrightarrow> extends (if b then m else n)"
  by (auto split: option.split sum.split)


section \<open>Calls that satisfy a predicate\<close>

definition only :: "('c \<Rightarrow> bool) \<Rightarrow> ('c, 'a) calling \<Rightarrow> bool" where
  "only P m \<longleftrightarrow> extends m \<and> (\<forall>h. list_all P (calls_of m h))"

lemma onlyD: "only P m \<Longrightarrow> list_all P (calls_of m h)"
  by (simp add: only_def)

lemma only_extends: "only P m \<Longrightarrow> extends m"
  by (simp add: only_def)

lemma only_ask [intro]: "P c \<Longrightarrow> only P (ask f c)"
  by (simp add: only_def)

lemma only_return [intro]: "only P (State_Monad.return x)"
  by (simp add: only_def)

lemma only_bind [intro]: "only P m \<Longrightarrow> (\<And>x. only P (f x)) \<Longrightarrow> only P (m \<bind> f)"
  by (simp add: only_def calls_of_bind extends_bind)

lemma only_cases [intro]:
  "only P m \<Longrightarrow> (\<And>x. only P (f x)) \<Longrightarrow> only P (case r of None \<Rightarrow> m | Some x \<Rightarrow> f x)"
  "(\<And>x. only P (g x)) \<Longrightarrow> (\<And>y. only P (f y)) \<Longrightarrow> only P (case s of Inl x \<Rightarrow> g x | Inr y \<Rightarrow> f y)"
  "only P m \<Longrightarrow> only P n \<Longrightarrow> only P (if b then m else n)"
  "(\<And>x y. only P (q x y)) \<Longrightarrow> only P (case p of (x, y) \<Rightarrow> q x y)"
  by (auto split: option.split sum.split prod.split)

lemma only_mono: "only P m \<Longrightarrow> (\<And>c. P c \<Longrightarrow> Q c) \<Longrightarrow> only Q m"
  unfolding only_def list_all_iff by blast

end
