(* ===== verification/Api.thy ===== *)
theory Api
  imports Prelude
begin

text \<open>
  The custom resources, \<open>api/v1\<close>: one record per struct with the fields the operator reads or
  writes. An enumerated string type stays a string, because the code compares strings and objects
  created past admission may hold any value. \<open>metav1.Time\<close> and durations are nanoseconds. Of the
  object metadata the name, namespace, labels, annotations and generation are kept; \<open>conditions\<close>
  is never written.
\<close>

section \<open>Errors of the API server\<close>

text \<open>What \<open>client.IgnoreNotFound\<close> tells apart; the string is the error's text.\<close>

datatype api_error = Not_Found string | Api_Error string

fun err_text :: "api_error \<Rightarrow> string" where
  "err_text (Not_Found s) = s"
| "err_text (Api_Error s) = s"

text \<open>What a reconcile returns: finished, again after a delay, or an error the queue retries.\<close>

datatype outcome = Finished | Requeue_After int | Retry api_error

definition ignore_not_found :: "api_error \<Rightarrow> outcome" where
  "ignore_not_found e = (case e of Not_Found _ \<Rightarrow> Finished | Api_Error _ \<Rightarrow> Retry e)"

section \<open>RemediationPlan\<close>

definition ActionTypeRestartPod :: string where "ActionTypeRestartPod = ''restart-pod''"
definition ActionTypeScaleDeployment :: string where "ActionTypeScaleDeployment = ''scale-deployment''"
definition ActionTypeCordonNode :: string where "ActionTypeCordonNode = ''cordon-node''"
definition ActionTypeDeletePod :: string where "ActionTypeDeletePod = ''delete-pod''"

definition RiskLevelLow :: string where "RiskLevelLow = ''low''"
definition RiskLevelMedium :: string where "RiskLevelMedium = ''medium''"
definition RiskLevelHigh :: string where "RiskLevelHigh = ''high''"

definition RemediationPhasePendingApproval :: string where "RemediationPhasePendingApproval = ''pending-approval''"
definition RemediationPhaseRunning :: string where "RemediationPhaseRunning = ''running''"
definition RemediationPhaseCompleted :: string where "RemediationPhaseCompleted = ''completed''"
definition RemediationPhaseFailed :: string where "RemediationPhaseFailed = ''failed''"

lemmas action_type_defs = ActionTypeRestartPod_def ActionTypeScaleDeployment_def
  ActionTypeCordonNode_def ActionTypeDeletePod_def
lemmas risk_level_defs = RiskLevelLow_def RiskLevelMedium_def RiskLevelHigh_def
lemmas phase_defs = RemediationPhasePendingApproval_def RemediationPhaseRunning_def
  RemediationPhaseCompleted_def RemediationPhaseFailed_def

record remediation_action =
  ra_id :: string
  ra_type :: string
  ra_namespace :: string
  ra_name :: string
  ra_reason :: string
  ra_risk :: string
  ra_params :: strmap
  ra_skip :: bool

text \<open>Why an action failed; \<open>act_error\<close> holds this instead of its rendering as text.\<close>

datatype action_error = Call_Failed api_error | Unknown_Action string | Invalid_Replicas string

record action_result =
  act_id :: string
  act_status :: string
  act_error :: "action_error option"
  act_executed_at :: "int option"

record remediation_plan_spec =
  ps_analysis_ref :: string
  ps_approved :: bool
  ps_actions :: "remediation_action list"

record remediation_plan_status =
  pst_phase :: string
  pst_results :: "action_result list"
  pst_executed_at :: "int option"
  pst_completed_at :: "int option"

record remediation_plan =
  pl_namespace :: string
  pl_name :: string
  pl_generation :: int
  pl_labels :: strmap
  pl_spec :: remediation_plan_spec
  pl_status :: remediation_plan_status

definition empty_plan_status :: remediation_plan_status where
  "empty_plan_status = \<lparr>pst_phase = [], pst_results = [], pst_executed_at = None, pst_completed_at = None\<rparr>"

section \<open>UpgradeAnalysis\<close>

definition AIProviderAnthropic :: string where "AIProviderAnthropic = ''anthropic''"
definition AIProviderOpenAI :: string where "AIProviderOpenAI = ''openai''"

record remediation_config =
  rc_enabled :: bool
  rc_max_risk_level :: string
  rc_auto_approve :: bool

record ai_config =
  aic_enabled :: bool
  aic_provider :: string
  aic_model :: string
  aic_max_tokens :: int
  aic_credentials_secret :: string
  aic_remediation :: remediation_config

definition SourceTypeFile :: string where "SourceTypeFile = ''file''"
definition SourceTypeS3 :: string where "SourceTypeS3 = ''s3''"
definition SourceTypeBlob :: string where "SourceTypeBlob = ''blob''"
definition SourceTypePVC :: string where "SourceTypePVC = ''pvc''"

lemmas source_type_defs = SourceTypeFile_def SourceTypeS3_def SourceTypeBlob_def SourceTypePVC_def

record scope_config =
  sco_mode :: string
  sco_exclude_namespaces :: "string list"

record source_config =
  src_type :: string
  src_path :: string
  src_bucket :: string
  src_region :: string
  src_key :: string
  src_account_name :: string
  src_container_name :: string
  src_blob_name :: string
  src_credentials_secret :: string

record resync_config =
  rsc_interval :: int

record upgrade_analysis_spec =
  uas_target_version :: string
  uas_scoring_profile :: string
  uas_scope :: scope_config
  uas_source :: source_config
  uas_ai :: ai_config
  uas_resync :: resync_config

record upgrade_analysis_status =
  ust_decision :: string
  ust_total_score :: int
  ust_reason :: string
  ust_last_analysis_time :: "int option"
  ust_last_refresh :: string
  ust_observed_generation :: int
  ust_report_path :: string
  ust_report_state :: string
  ust_report_error :: string
  ust_report_location :: string
  ust_ai_score :: int
  ust_ai_reasoning :: string
  ust_ai_model :: string
  ust_ai_error :: string
  ust_addons_checked :: int
  ust_incompatible_addons :: int
  ust_last_total_pods :: int
  ust_last_total_restarts :: int

record upgrade_analysis =
  ua_name :: string
  ua_generation :: int
  ua_annotations :: strmap
  ua_spec :: upgrade_analysis_spec
  ua_status :: upgrade_analysis_status

section \<open>ClusterMirror\<close>

record refresh_config =
  rfc_mode :: string
  rfc_interval :: int

record cluster_mirror_spec =
  cms_scope :: scope_config
  cms_refresh :: refresh_config
  cms_source :: source_config

record namespace_mirror_status =
  nms_namespace :: string
  nms_max_risk :: int
  nms_at_risk :: int

record cluster_mirror_status =
  cmst_components :: int
  cmst_edges :: int
  cmst_at_risk :: int
  cmst_last_sync :: "int option"
  cmst_by_namespace :: "namespace_mirror_status list"
  cmst_sync_error :: string
  cmst_report_location :: string
  cmst_report_state :: string
  cmst_report_error :: string
  cmst_observed_generation :: int

record cluster_mirror =
  clm_name :: string
  clm_generation :: int
  clm_annotations :: strmap
  clm_spec :: cluster_mirror_spec
  clm_status :: cluster_mirror_status

end
