(* ===== verification/Exporter.thy ===== *)
theory Exporter
  imports Prelude
begin

text \<open>
  Report destinations, \<open>internal/exporter\<close>: the \<open>Exporter\<close> interface and its three
  implementations. A file destination works on a disk whose operations may fail, a failed write
  leaving any beginning of the data behind; the AWS and Azure clients are a parameter.
\<close>

section \<open>Paths\<close>

text \<open>\<open>filepath.Clean\<close>, \<open>Join\<close>, \<open>Base\<close> and \<open>Dir\<close> on Unix.\<close>

definition rooted :: "string \<Rightarrow> bool" where
  "rooted p = (p \<noteq> [] \<and> hd p = CHR ''/'')"

definition clean_step :: "bool \<Rightarrow> string \<Rightarrow> string list \<Rightarrow> string list" where
  "clean_step root e st =
     (if e = [] \<or> e = ''.'' then st
      else if e = ''..''
        then (if st \<noteq> [] \<and> last st \<noteq> ''..'' then butlast st else if root then st else st @ [e])
      else st @ [e])"

definition path_clean :: "string \<Rightarrow> string" where
  "path_clean p =
     (if p = [] then ''.''
      else let s = join_str ''/'' (fold (clean_step (rooted p)) (split_byte CHR ''/'' p) [])
           in if rooted p then CHR ''/'' # s else if s = [] then ''.'' else s)"

definition path_join :: "string list \<Rightarrow> string" where
  "path_join es =
     (let parts = dropWhile (\<lambda>e. e = []) es
      in if parts = [] then [] else path_clean (join_str ''/'' parts))"

definition path_base :: "string \<Rightarrow> string" where
  "path_base p =
     (if p = [] then ''.''
      else let s = rev (dropWhile (\<lambda>c. c = CHR ''/'') (rev p));
               b = rev (takeWhile (\<lambda>c. c \<noteq> CHR ''/'') (rev s))
           in if b = [] then ''/'' else b)"

definition path_dir :: "string \<Rightarrow> string" where
  "path_dir p = path_clean (rev (dropWhile (\<lambda>c. c \<noteq> CHR ''/'') (rev p)))"

section \<open>The disk\<close>

text \<open>
  The next operation either goes through or fails with an error text; a failing write has put the
  first \<open>n\<close> bytes in place, or nothing when the file could not be opened.
\<close>

datatype fault = Works | Fails "nat option" string

record disk =
  dk_files :: "string \<rightharpoonup> string"
  dk_faults :: "fault list"

definition next_fault :: "disk \<Rightarrow> fault \<times> disk" where
  "next_fault d = (case dk_faults d of [] \<Rightarrow> (Works, d) | f # fs \<Rightarrow> (f, d\<lparr>dk_faults := fs\<rparr>))"

definition os_mkdir_all :: "string \<Rightarrow> disk \<Rightarrow> string option \<times> disk" where
  "os_mkdir_all p d = (case next_fault d of (Works, d') \<Rightarrow> (None, d') | (Fails _ e, d') \<Rightarrow> (Some e, d'))"

definition os_write_file :: "string \<Rightarrow> string \<Rightarrow> disk \<Rightarrow> string option \<times> disk" where
  "os_write_file p bytes d = (case next_fault d of
      (Works, d') \<Rightarrow> (None, d'\<lparr>dk_files := (dk_files d')(p \<mapsto> bytes)\<rparr>)
    | (Fails None e, d') \<Rightarrow> (Some e, d')
    | (Fails (Some n) e, d') \<Rightarrow> (Some e, d'\<lparr>dk_files := (dk_files d')(p \<mapsto> take n bytes)\<rparr>))"

definition os_rename :: "string \<Rightarrow> string \<Rightarrow> disk \<Rightarrow> string option \<times> disk" where
  "os_rename p q d = (case next_fault d of
      (Works, d') \<Rightarrow> (case dk_files d' p of
          None \<Rightarrow> (Some ''no such file or directory'', d')
        | Some bytes \<Rightarrow> (None, d'\<lparr>dk_files := (dk_files d')(p := None, q \<mapsto> bytes)\<rparr>))
    | (Fails _ e, d') \<Rightarrow> (Some e, d'))"

section \<open>The Exporter interface\<close>

text \<open>\<open>Not_There\<close> wraps \<open>ErrNotFound\<close>; both carry the error's text.\<close>

datatype read_error = Not_There string | Read_Failed string

fun read_text :: "read_error \<Rightarrow> string" where
  "read_text (Not_There s) = s"
| "read_text (Read_Failed s) = s"

definition ErrNotFound :: string where "ErrNotFound = ''report not found at destination''"

subsection \<open>Files\<close>

definition NewFileExporter :: "string \<Rightarrow> string" where
  "NewFileExporter path = (if path = [] then ''/tmp/mirops-report.mirops'' else path)"

definition tmp_path :: "string \<Rightarrow> string" where
  "tmp_path path = path @ ''.tmp''"

definition File_Write :: "string \<Rightarrow> string \<Rightarrow> disk \<Rightarrow> string option \<times> disk" where
  "File_Write path bytes d =
     (case os_mkdir_all (path_dir path) d of
        (Some e, d1) \<Rightarrow> (Some (''creating report directory: '' @ e), d1)
      | (None, d1) \<Rightarrow>
         (case os_write_file (tmp_path path) bytes d1 of
            (Some e, d2) \<Rightarrow> (Some (''writing report file: '' @ e), d2)
          | (None, d2) \<Rightarrow>
             (case os_rename (tmp_path path) path d2 of
                (Some e, d3) \<Rightarrow> (Some (''publishing report file: '' @ e), d3)
              | (None, d3) \<Rightarrow> (None, d3))))"

text \<open>A read does not use up a fault: \<open>io\<close> is its own failure, if any.\<close>

definition File_Read :: "string \<Rightarrow> string option \<Rightarrow> disk \<Rightarrow> read_error + string" where
  "File_Read path io d =
     (case io of
        Some e \<Rightarrow> Inl (Read_Failed (''reading report file '' @ path @ '': '' @ e))
      | None \<Rightarrow> (case dk_files d path of
          None \<Rightarrow> Inl (Not_There (''report file '' @ path @ '' not written yet: '' @ ErrNotFound))
        | Some bytes \<Rightarrow> Inr bytes))"

definition File_Location :: "string \<Rightarrow> string" where
  "File_Location path = path"

subsection \<open>Object storage\<close>

record s3_exporter =
  s3_bucket :: string
  s3_region :: string
  s3_key :: string
  s3_access_key_id :: string
  s3_secret_access_key :: string

record blob_exporter =
  bl_account_name :: string
  bl_container_name :: string
  bl_blob_name :: string
  bl_client_id :: string
  bl_client_secret :: string
  bl_tenant_id :: string

text \<open>
  The SDKs: resolving a configuration from explicit credentials or, without any, the default chain;
  storing and fetching one object; and \<open>Some e\<close> for a failure, a missing object told apart. \<open>'c\<close>
  is the state of the service, \<open>'g\<close> what a configuration is.
\<close>

record ('c, 'g) sdk =
  sdk_aws_config :: "string \<Rightarrow> (string \<times> string) option \<Rightarrow> string + 'g"
  sdk_put :: "'g \<Rightarrow> string \<Rightarrow> string \<Rightarrow> string \<Rightarrow> 'c \<Rightarrow> string option \<times> 'c"
  sdk_get :: "'g \<Rightarrow> string \<Rightarrow> string \<Rightarrow> 'c \<Rightarrow> read_error + string"
  sdk_azure_sp :: "string \<Rightarrow> string \<Rightarrow> string \<Rightarrow> string option"
  sdk_azure_default :: "string option"
  sdk_azure_client :: "string \<Rightarrow> (string \<times> string \<times> string) option \<Rightarrow> string + 'g"
  sdk_upload :: "'g \<Rightarrow> string \<Rightarrow> string \<Rightarrow> string \<Rightarrow> 'c \<Rightarrow> string option \<times> 'c"
  sdk_download :: "'g \<Rightarrow> string \<Rightarrow> string \<Rightarrow> 'c \<Rightarrow> read_error + string"

definition s3_loadConfig :: "('c, 'g) sdk \<Rightarrow> s3_exporter \<Rightarrow> string + 'g" where
  "s3_loadConfig k e =
     (if s3_access_key_id e \<noteq> [] \<and> s3_secret_access_key e \<noteq> []
      then sdk_aws_config k (s3_region e) (Some (s3_access_key_id e, s3_secret_access_key e))
      else sdk_aws_config k (s3_region e) None)"

definition s3_url :: "s3_exporter \<Rightarrow> string" where
  "s3_url e = ''s3://'' @ s3_bucket e @ ''/'' @ s3_key e"

definition S3_Write :: "('c, 'g) sdk \<Rightarrow> s3_exporter \<Rightarrow> string \<Rightarrow> 'c \<Rightarrow> string option \<times> 'c" where
  "S3_Write k e bytes c =
     (case s3_loadConfig k e of
        Inl err \<Rightarrow> (Some (''loading AWS config: '' @ err), c)
      | Inr g \<Rightarrow> (case sdk_put k g (s3_bucket e) (s3_key e) bytes c of
          (Some err, c') \<Rightarrow> (Some (''uploading report to S3 '' @ s3_url e @ '': '' @ err), c')
        | (None, c') \<Rightarrow> (None, c')))"

definition S3_Read :: "('c, 'g) sdk \<Rightarrow> s3_exporter \<Rightarrow> 'c \<Rightarrow> read_error + string" where
  "S3_Read k e c =
     (case s3_loadConfig k e of
        Inl err \<Rightarrow> Inl (Read_Failed (''loading AWS config: '' @ err))
      | Inr g \<Rightarrow> (case sdk_get k g (s3_bucket e) (s3_key e) c of
          Inl (Not_There _) \<Rightarrow> Inl (Not_There (''report object '' @ s3_url e @ '' not written yet: '' @ ErrNotFound))
        | Inl (Read_Failed err) \<Rightarrow> Inl (Read_Failed (''reading report from S3 '' @ s3_url e @ '': '' @ err))
        | Inr bytes \<Rightarrow> Inr bytes))"

definition S3_Location :: "s3_exporter \<Rightarrow> string" where
  "S3_Location e = s3_url e"

definition blob_client :: "('c, 'g) sdk \<Rightarrow> blob_exporter \<Rightarrow> string + 'g" where
  "blob_client k e =
     (let url = ''https://'' @ bl_account_name e @ ''.blob.core.windows.net/'' in
      if bl_client_id e \<noteq> [] \<and> bl_client_secret e \<noteq> [] \<and> bl_tenant_id e \<noteq> []
      then (case sdk_azure_sp k (bl_tenant_id e) (bl_client_id e) (bl_client_secret e) of
              Some err \<Rightarrow> Inl (''creating Azure SP credential: '' @ err)
            | None \<Rightarrow> sdk_azure_client k url (Some (bl_tenant_id e, bl_client_id e, bl_client_secret e)))
      else (case sdk_azure_default k of
              Some err \<Rightarrow> Inl (''creating Azure default credential: '' @ err)
            | None \<Rightarrow> sdk_azure_client k url None))"

definition Blob_Write :: "('c, 'g) sdk \<Rightarrow> blob_exporter \<Rightarrow> string \<Rightarrow> 'c \<Rightarrow> string option \<times> 'c" where
  "Blob_Write k e bytes c =
     (case blob_client k e of
        Inl err \<Rightarrow> (Some err, c)
      | Inr g \<Rightarrow> (case sdk_upload k g (bl_container_name e) (bl_blob_name e) bytes c of
          (Some err, c') \<Rightarrow> (Some (''uploading report to blob '' @ bl_account_name e @ ''/'' @ bl_container_name e @ ''/''
             @ bl_blob_name e @ '': '' @ err), c')
        | (None, c') \<Rightarrow> (None, c')))"

definition Blob_Read :: "('c, 'g) sdk \<Rightarrow> blob_exporter \<Rightarrow> 'c \<Rightarrow> read_error + string" where
  "Blob_Read k e c =
     (case blob_client k e of
        Inl err \<Rightarrow> Inl (Read_Failed err)
      | Inr g \<Rightarrow> (case sdk_download k g (bl_container_name e) (bl_blob_name e) c of
          Inl (Not_There _) \<Rightarrow> Inl (Not_There (''report blob '' @ bl_container_name e @ ''/'' @ bl_blob_name e
             @ '' not written yet: '' @ ErrNotFound))
        | Inl (Read_Failed err) \<Rightarrow> Inl (Read_Failed (''reading report from blob '' @ bl_account_name e @ ''/''
             @ bl_container_name e @ ''/'' @ bl_blob_name e @ '': '' @ err))
        | Inr bytes \<Rightarrow> Inr bytes))"

definition Blob_Location :: "blob_exporter \<Rightarrow> string" where
  "Blob_Location e = ''https://'' @ bl_account_name e @ ''.blob.core.windows.net/'' @ bl_container_name e @ ''/'' @ bl_blob_name e"

subsection \<open>Any exporter\<close>

datatype exporter = File_Exporter string | S3_Exporter s3_exporter | Blob_Exporter blob_exporter

fun Location :: "exporter \<Rightarrow> string" where
  "Location (File_Exporter p) = File_Location p"
| "Location (S3_Exporter e) = S3_Location e"
| "Location (Blob_Exporter e) = Blob_Location e"

type_synonym 'c world = "disk \<times> 'c"

fun Write :: "('c, 'g) sdk \<Rightarrow> exporter \<Rightarrow> string \<Rightarrow> 'c world \<Rightarrow> string option \<times> 'c world" where
  "Write k (File_Exporter p) bytes (d, c) = (case File_Write p bytes d of (e, d') \<Rightarrow> (e, (d', c)))"
| "Write k (S3_Exporter x) bytes (d, c) = (case S3_Write k x bytes c of (e, c') \<Rightarrow> (e, (d, c')))"
| "Write k (Blob_Exporter x) bytes (d, c) = (case Blob_Write k x bytes c of (e, c') \<Rightarrow> (e, (d, c')))"

fun Read :: "('c, 'g) sdk \<Rightarrow> exporter \<Rightarrow> string option \<Rightarrow> 'c world \<Rightarrow> read_error + string" where
  "Read k (File_Exporter p) io (d, c) = File_Read p io d"
| "Read k (S3_Exporter x) io (d, c) = S3_Read k x c"
| "Read k (Blob_Exporter x) io (d, c) = Blob_Read k x c"

text \<open>\<open>Export\<close>: \<open>json\<close> is \<open>json.MarshalIndent\<close>, an error text or the bytes.\<close>

definition Export :: "('c, 'g) sdk \<Rightarrow> exporter \<Rightarrow> string + string \<Rightarrow> 'c world \<Rightarrow> string option \<times> 'c world" where
  "Export k e json w =
     (case json of
        Inl err \<Rightarrow> (Some (''marshaling report: '' @ err), w)
      | Inr bytes \<Rightarrow> Write k e bytes w)"

end
