(* ===== verification/Kube_Client.thy ===== *)
theory Kube_Client
  imports Io_Monad Api Exporter Collector Report
begin

text \<open>
  What the controllers do to the world outside the program: the calls they issue, in order. The
  API server, the clock and the other services are a parameter: \<open>kube\<close> gives the answer to a
  call as a function of the calls issued before it, so nothing is assumed about them; other
  clients may act in between. A controller is a computation in the state monad over that history.
\<close>

section \<open>Calls\<close>

record sched_node =
  sn_name :: string
  sn_unschedulable :: bool

datatype call =
  Now
| Get_Plan string string
| Update_Plan_Status remediation_plan
| Update_Plan remediation_plan
| Create_Plan remediation_plan
| Get_Pod string string
| Delete_Pod string string "int option"
| Get_Deployment string string
| Update_Deployment deployment
| Get_Node string
| Update_Node sched_node
| Get_Secret string string
| Get_Config_Map string string
| Get_Analysis string
| List_Analyses
| Update_Analysis_Status upgrade_analysis
| Get_Mirror string
| Update_Mirror_Status cluster_mirror
| Collect_Cluster scope
| Ask_Model string string string string int
| Export_Analysis exporter report
| Export_Mirror exporter mirror_report

type_synonym history = "call list"

type_synonym 'a io = "(call, 'a) calling"

text \<open>
  A failed model call: an error of the OpenAI client (status, type, message) or of the Anthropic
  client (status, type, body), each with its rendering as text, or any other error.
\<close>

datatype ai_error =
  OpenAI_Error int string string string
| Anthropic_Error int string string string
| Other_Error string

text \<open>
  A \<open>Get\<close> answers the object; a write answers its error, if any, and an export the error's text.
  \<open>kc_cluster\<close> is the cluster as the collector finds it, \<open>kc_config_map\<close> the \<open>data\<close> of a ConfigMap,
  \<open>kc_model\<close> the texts of a model's answer, one per content block or choice.
\<close>

record kube =
  kc_now :: "history \<Rightarrow> int"
  kc_get_plan :: "history \<Rightarrow> string \<Rightarrow> string \<Rightarrow> api_error + remediation_plan"
  kc_get_pod :: "history \<Rightarrow> string \<Rightarrow> string \<Rightarrow> api_error option"
  kc_get_deployment :: "history \<Rightarrow> string \<Rightarrow> string \<Rightarrow> api_error + deployment"
  kc_get_node :: "history \<Rightarrow> string \<Rightarrow> api_error + sched_node"
  kc_write :: "history \<Rightarrow> call \<Rightarrow> api_error option"
  kc_get_secret :: "history \<Rightarrow> string \<Rightarrow> string \<Rightarrow> api_error + strmap"
  kc_get_config_map :: "history \<Rightarrow> string \<Rightarrow> string \<Rightarrow> api_error + strmap"
  kc_get_analysis :: "history \<Rightarrow> string \<Rightarrow> api_error + upgrade_analysis"
  kc_list_analyses :: "history \<Rightarrow> api_error + upgrade_analysis list"
  kc_get_mirror :: "history \<Rightarrow> string \<Rightarrow> api_error + cluster_mirror"
  kc_cluster :: "history \<Rightarrow> cluster_api"
  kc_model :: "history \<Rightarrow> call \<Rightarrow> ai_error + string list"
  kc_export :: "history \<Rightarrow> call \<Rightarrow> string option"

definition now :: "kube \<Rightarrow> int io" where
  "now k = ask (kc_now k) Now"

definition get_plan :: "kube \<Rightarrow> string \<Rightarrow> string \<Rightarrow> (api_error + remediation_plan) io" where
  "get_plan k ns n = ask (\<lambda>h. kc_get_plan k h ns n) (Get_Plan ns n)"

definition get_pod :: "kube \<Rightarrow> string \<Rightarrow> string \<Rightarrow> api_error option io" where
  "get_pod k ns n = ask (\<lambda>h. kc_get_pod k h ns n) (Get_Pod ns n)"

definition get_deployment :: "kube \<Rightarrow> string \<Rightarrow> string \<Rightarrow> (api_error + deployment) io" where
  "get_deployment k ns n = ask (\<lambda>h. kc_get_deployment k h ns n) (Get_Deployment ns n)"

definition get_node :: "kube \<Rightarrow> string \<Rightarrow> (api_error + sched_node) io" where
  "get_node k n = ask (\<lambda>h. kc_get_node k h n) (Get_Node n)"

definition kwrite :: "kube \<Rightarrow> call \<Rightarrow> api_error option io" where
  "kwrite k c = ask (\<lambda>h. kc_write k h c) c"

definition get_secret :: "kube \<Rightarrow> string \<Rightarrow> string \<Rightarrow> (api_error + strmap) io" where
  "get_secret k ns n = ask (\<lambda>h. kc_get_secret k h ns n) (Get_Secret ns n)"

definition get_config_map :: "kube \<Rightarrow> string \<Rightarrow> string \<Rightarrow> (api_error + strmap) io" where
  "get_config_map k ns n = ask (\<lambda>h. kc_get_config_map k h ns n) (Get_Config_Map ns n)"

definition get_analysis :: "kube \<Rightarrow> string \<Rightarrow> (api_error + upgrade_analysis) io" where
  "get_analysis k n = ask (\<lambda>h. kc_get_analysis k h n) (Get_Analysis n)"

definition list_analyses :: "kube \<Rightarrow> (api_error + upgrade_analysis list) io" where
  "list_analyses k = ask (kc_list_analyses k) List_Analyses"

definition get_mirror :: "kube \<Rightarrow> string \<Rightarrow> (api_error + cluster_mirror) io" where
  "get_mirror k n = ask (\<lambda>h. kc_get_mirror k h n) (Get_Mirror n)"

definition collect_cluster :: "kube \<Rightarrow> scope \<Rightarrow> (string + cluster_snapshot) io" where
  "collect_cluster k sc = ask (\<lambda>h. Collect (kc_cluster k h) sc) (Collect_Cluster sc)"

definition ask_model :: "kube \<Rightarrow> call \<Rightarrow> (ai_error + string list) io" where
  "ask_model k c = ask (\<lambda>h. kc_model k h c) c"

definition export :: "kube \<Rightarrow> call \<Rightarrow> string option io" where
  "export k c = ask (\<lambda>h. kc_export k h c) c"

lemmas client_defs = now_def get_plan_def get_pod_def get_deployment_def get_node_def kwrite_def
  get_secret_def get_config_map_def get_analysis_def list_analyses_def get_mirror_def collect_cluster_def
  ask_model_def export_def

section \<open>Kinds of call\<close>

text \<open>A call that changes a workload, a pod or a node of the cluster.\<close>

fun acts :: "call \<Rightarrow> bool" where
  "acts (Delete_Pod ns n g) = True"
| "acts (Update_Deployment d) = True"
| "acts (Update_Node n) = True"
| "acts c = False"

end
