(* ===== verification/Remediation.thy ===== *)
theory Remediation
  imports Kube_Client
begin

text \<open>
  Remediation plans, \<open>internal/controller/remediationplan_controller.go\<close>: executing an approved
  plan, and creating a plan from the actions an AI proposes.
\<close>

section \<open>Executing one action\<close>

definition restartPod :: "kube \<Rightarrow> string \<Rightarrow> string \<Rightarrow> action_error option io" where
  "restartPod k ns n = do {
     r \<leftarrow> get_pod k ns n;
     case r of
       Some e \<Rightarrow> State_Monad.return (Some (Call_Failed e))
     | None \<Rightarrow> do { w \<leftarrow> kwrite k (Delete_Pod ns n None); State_Monad.return (map_option Call_Failed w) }
   }"

definition deletePod :: "kube \<Rightarrow> string \<Rightarrow> string \<Rightarrow> action_error option io" where
  "deletePod k ns n = do {
     r \<leftarrow> get_pod k ns n;
     case r of
       Some e \<Rightarrow> State_Monad.return (Some (Call_Failed e))
     | None \<Rightarrow> do { w \<leftarrow> kwrite k (Delete_Pod ns n (Some 0)); State_Monad.return (map_option Call_Failed w) }
   }"

text \<open>
  \<open>fmt.Sscanf(v, "%d", &replicas)\<close> into an \<open>int32\<close>, for ASCII text: leading blanks but no newline,
  an optional sign, at least one digit; what follows the digits is not looked at.
\<close>

definition newline_free_spaces :: "string \<Rightarrow> bool" where
  "newline_free_spaces s = (CHR 0x0A \<notin> set (takeWhile is_space s))"

definition scan_int32 :: "string \<Rightarrow> int option" where
  "scan_int32 v =
     (let s = dropWhile is_space v;
          neg = (s \<noteq> [] \<and> hd s = CHR ''-'');
          body = (if s \<noteq> [] \<and> hd s \<in> {CHR ''-'', CHR ''+''} then tl s else s)
      in if \<not> newline_free_spaces v then None
         else case atoi_digits (takeWhile is_digit body) of
           None \<Rightarrow> None
         | Some n \<Rightarrow> (let i = (if neg then - n else n)
                     in if - (2 ^ 31) \<le> i \<and> i < 2 ^ 31 then Some i else None))"

definition replicas_param :: "strmap \<Rightarrow> int option" where
  "replicas_param params = (case map_of params ''replicas'' of None \<Rightarrow> Some 1 | Some v \<Rightarrow> scan_int32 v)"

definition scaleDeployment :: "kube \<Rightarrow> string \<Rightarrow> string \<Rightarrow> strmap \<Rightarrow> action_error option io" where
  "scaleDeployment k ns n params = do {
     r \<leftarrow> get_deployment k ns n;
     case r of
       Inl e \<Rightarrow> State_Monad.return (Some (Call_Failed e))
     | Inr dep \<Rightarrow> (case replicas_param params of
           None \<Rightarrow> State_Monad.return (Some (Invalid_Replicas (lget params ''replicas'')))
         | Some replicas \<Rightarrow> do {
             w \<leftarrow> kwrite k (Update_Deployment (dep\<lparr>dep_replicas := Some replicas\<rparr>));
             State_Monad.return (map_option Call_Failed w) })
   }"

definition cordonNode :: "kube \<Rightarrow> string \<Rightarrow> action_error option io" where
  "cordonNode k n = do {
     r \<leftarrow> get_node k n;
     case r of
       Inl e \<Rightarrow> State_Monad.return (Some (Call_Failed e))
     | Inr nd \<Rightarrow> do {
         w \<leftarrow> kwrite k (Update_Node (nd\<lparr>sn_unschedulable := True\<rparr>));
         State_Monad.return (map_option Call_Failed w) }
   }"

definition dispatch :: "kube \<Rightarrow> string \<Rightarrow> remediation_action \<Rightarrow> action_error option io" where
  "dispatch k ns a =
     (if ra_type a = ActionTypeRestartPod then restartPod k ns (ra_name a)
      else if ra_type a = ActionTypeDeletePod then deletePod k ns (ra_name a)
      else if ra_type a = ActionTypeScaleDeployment then scaleDeployment k ns (ra_name a) (ra_params a)
      else if ra_type a = ActionTypeCordonNode then cordonNode k (ra_name a)
      else State_Monad.return (Some (Unknown_Action (ra_type a))))"

definition executeAction :: "kube \<Rightarrow> string \<Rightarrow> remediation_action \<Rightarrow> action_result io" where
  "executeAction k plan_ns a = do {
     t \<leftarrow> now k;
     err \<leftarrow> dispatch k (if ra_namespace a = [] then plan_ns else ra_namespace a) a;
     State_Monad.return \<lparr>act_id = ra_id a, act_status = (if err = None then ''success'' else ''failed''),
       act_error = err, act_executed_at = Some t\<rparr>
   }"

section \<open>Executing a plan\<close>

definition skipped_result :: "remediation_action \<Rightarrow> action_result" where
  "skipped_result a = \<lparr>act_id = ra_id a, act_status = ''skipped'', act_error = None, act_executed_at = None\<rparr>"

text \<open>The loop over the actions: \<open>results\<close> and \<open>allOK\<close>.\<close>

fun run_actions :: "kube \<Rightarrow> string \<Rightarrow> remediation_action list \<Rightarrow> action_result list \<Rightarrow> bool
    \<Rightarrow> (action_result list \<times> bool) io" where
  "run_actions k ns [] results allOK = State_Monad.return (results, allOK)"
| "run_actions k ns (a # as) results allOK =
     (if ra_skip a then run_actions k ns as (results @ [skipped_result a]) allOK
      else do {
        r \<leftarrow> executeAction k ns a;
        run_actions k ns as (results @ [r]) (if act_status r = ''failed'' then False else allOK)
      })"

definition with_status :: "remediation_plan \<Rightarrow> (remediation_plan_status \<Rightarrow> remediation_plan_status) \<Rightarrow> remediation_plan" where
  "with_status p f = p\<lparr>pl_status := f (pl_status p)\<rparr>"

definition terminal_or_running :: "string \<Rightarrow> bool" where
  "terminal_or_running phase =
     (phase = RemediationPhaseCompleted \<or> phase = RemediationPhaseFailed \<or> phase = RemediationPhaseRunning)"

definition RemediationPlan_Reconcile :: "kube \<Rightarrow> string \<Rightarrow> string \<Rightarrow> outcome io" where
  "RemediationPlan_Reconcile k ns n = do {
     got \<leftarrow> get_plan k ns n;
     case got of
       Inl e \<Rightarrow> State_Monad.return (ignore_not_found e)
     | Inr plan \<Rightarrow>
         if \<not> ps_approved (pl_spec plan) then State_Monad.return Finished
         else if terminal_or_running (pst_phase (pl_status plan)) then State_Monad.return Finished
         else do {
           t \<leftarrow> now k;
           let running = with_status plan (\<lambda>s. s\<lparr>pst_phase := RemediationPhaseRunning, pst_executed_at := Some t\<rparr>);
           w \<leftarrow> kwrite k (Update_Plan_Status running);
           case w of
             Some e \<Rightarrow> State_Monad.return (Retry e)
           | None \<Rightarrow> do {
               ra \<leftarrow> run_actions k (pl_namespace plan) (ps_actions (pl_spec plan)) [] True;
               t' \<leftarrow> now k;
               let done = with_status running (\<lambda>s. s\<lparr>pst_results := fst ra, pst_completed_at := Some t',
                 pst_phase := (if snd ra then RemediationPhaseCompleted else RemediationPhaseFailed)\<rparr>);
               w' \<leftarrow> kwrite k (Update_Plan_Status done);
               State_Monad.return (case w' of Some e \<Rightarrow> Retry e | None \<Rightarrow> Finished)
             }
         }
   }"

section \<open>Which writes wake the controller\<close>

text \<open>The event filter of \<open>SetupWithManager\<close>: an update from the first to the second value is queued.\<close>

definition plan_event :: "remediation_plan \<Rightarrow> remediation_plan \<Rightarrow> bool" where
  "plan_event old new \<longleftrightarrow> pl_generation old \<noteq> pl_generation new"

section \<open>Creating a plan\<close>

text \<open>\<open>aiActionEntry\<close> of \<open>ai_scorer.go\<close>: an action as the model proposes it.\<close>

record ai_action_entry =
  aa_type :: string
  aa_namespace :: string
  aa_name :: string
  aa_reason :: string
  aa_risk :: string
  aa_params :: strmap

definition risk_order :: "string \<Rightarrow> int" where
  "risk_order r = (case [RiskLevelLow \<mapsto> 1, RiskLevelMedium \<mapsto> 2, RiskLevelHigh \<mapsto> 3] r of None \<Rightarrow> 0 | Some n \<Rightarrow> n)"

definition riskWithin :: "string \<Rightarrow> string \<Rightarrow> bool" where
  "riskWithin risk mx = (risk_order risk \<le> risk_order mx)"

definition plan_action :: "nat \<Rightarrow> ai_action_entry \<Rightarrow> remediation_action" where
  "plan_action i a = \<lparr>ra_id = ''action-'' @ dec_nat (i + 1), ra_type = aa_type a, ra_namespace = aa_namespace a,
     ra_name = aa_name a, ra_reason = aa_reason a, ra_risk = aa_risk a, ra_params = aa_params a, ra_skip = False\<rparr>"

definition plan_actions :: "string \<Rightarrow> ai_action_entry list \<Rightarrow> remediation_action list" where
  "plan_actions maxRisk actions =
     fold (\<lambda>(i, a) out. if \<not> riskWithin (aa_risk a) maxRisk then out else out @ [plan_action i a])
       (enumerate 0 actions) []"

definition new_plan :: "upgrade_analysis \<Rightarrow> remediation_action list \<Rightarrow> remediation_plan" where
  "new_plan ua chosen = \<lparr>pl_namespace = [], pl_name = ua_name ua @ ''-remediation'', pl_generation = 0,
     pl_labels = [(''mirops.io/analysis'', ua_name ua)],
     pl_spec = \<lparr>ps_analysis_ref = ua_name ua,
       ps_approved = rc_auto_approve (aic_remediation (uas_ai (ua_spec ua))), ps_actions = chosen\<rparr>,
     pl_status = empty_plan_status\<rparr>"

definition replaceable :: "string \<Rightarrow> bool" where
  "replaceable phase = (phase = RemediationPhaseCompleted \<or> phase = RemediationPhaseFailed \<or> phase = [])"

definition createRemediationPlan :: "kube \<Rightarrow> upgrade_analysis \<Rightarrow> ai_action_entry list \<Rightarrow> api_error option io" where
  "createRemediationPlan k ua actions =
     (let cfg = rc_max_risk_level (aic_remediation (uas_ai (ua_spec ua)));
          chosen = plan_actions (if cfg = [] then RiskLevelLow else cfg) actions;
          plan = new_plan ua chosen
      in if chosen = [] then State_Monad.return None
         else do {
           got \<leftarrow> get_plan k (pl_namespace plan) (pl_name plan);
           case got of
             Inr existing \<Rightarrow>
               if replaceable (pst_phase (pl_status existing))
               then kwrite k (Update_Plan (existing\<lparr>pl_spec := (pl_spec plan)\<lparr>ps_approved := False\<rparr>,
                 pl_status := empty_plan_status\<rparr>))
               else State_Monad.return None
           | Inl e \<Rightarrow> kwrite k (Create_Plan (with_status plan (\<lambda>s. s\<lparr>pst_phase := RemediationPhasePendingApproval\<rparr>)))
         })"

end
