(* ===== verification/Samples.thy ===== *)
theory Samples
  imports Kube_Client
begin

text \<open>Concrete worlds for the witnesses: a cluster that answers nothing, and a server that knows no object.\<close>

definition unreachable :: cluster_api where
  "unreachable = \<lparr>k_server_version = Inl ''unreachable'', k_namespaces = Inl ''unreachable'',
     k_replica_sets = Inl ''unreachable'', k_pods = Inl ''unreachable'', k_deployments = (\<lambda>_. Inl ''unreachable''),
     k_nodes = Inl ''unreachable'', k_pdbs = Inl ''unreachable'', k_stateful_sets = (\<lambda>_. Inl ''unreachable''),
     k_daemon_sets = (\<lambda>_. Inl ''unreachable''), k_jobs = (\<lambda>_. Inl ''unreachable''), k_cron_jobs = Inl ''unreachable'',
     k_services = Inl ''unreachable'', k_ingresses = Inl ''unreachable'', k_pvcs = Inl ''unreachable'',
     k_storage_classes = Inl ''unreachable'', k_api_resources = (Some ''unreachable'', None),
     k_server_groups = Inl ''unreachable'', k_now = (\<lambda>_. 0)\<rparr>"

text \<open>Writes and exports succeed; the clock counts the calls.\<close>

definition silent :: kube where
  "silent = \<lparr>kc_now = (\<lambda>h. int (length h)), kc_get_plan = (\<lambda>h ns n. Inl (Not_Found ''no plan'')), kc_get_pod = (\<lambda>h ns n. None),
     kc_get_deployment = (\<lambda>h ns n. Inl (Not_Found ''no deployment'')), kc_get_node = (\<lambda>h n. Inl (Not_Found ''no node'')),
     kc_write = (\<lambda>h c. None), kc_get_secret = (\<lambda>h ns n. Inr []),
     kc_get_config_map = (\<lambda>h ns n. Inl (Not_Found ''no config map'')), kc_get_analysis = (\<lambda>h n. Inl (Not_Found ''no analysis'')),
     kc_list_analyses = (\<lambda>h. Inr []), kc_get_mirror = (\<lambda>h n. Inl (Not_Found ''no mirror'')),
     kc_cluster = (\<lambda>h. unreachable), kc_model = (\<lambda>h c. Inl (Other_Error ''no model'')),
     kc_export = (\<lambda>h c. None)\<rparr>"

definition no_source :: source_config where
  "no_source = \<lparr>src_type = ''file'', src_path = [], src_bucket = [], src_region = [], src_key = [],
     src_account_name = [], src_container_name = [], src_blob_name = [], src_credentials_secret = []\<rparr>"

definition sample_analysis :: upgrade_analysis where
  "sample_analysis = \<lparr>ua_name = ''prod'', ua_generation = 1, ua_annotations = [],
     ua_spec = \<lparr>uas_target_version = ''1.31'', uas_scoring_profile = ''production'',
       uas_scope = \<lparr>sco_mode = ''application'', sco_exclude_namespaces = []\<rparr>,
       uas_source = no_source,
       uas_ai = \<lparr>aic_enabled = True, aic_provider = ''anthropic'', aic_model = [], aic_max_tokens = 2048,
         aic_credentials_secret = ''ai'',
         aic_remediation = \<lparr>rc_enabled = True, rc_max_risk_level = ''medium'', rc_auto_approve = False\<rparr>\<rparr>,
       uas_resync = \<lparr>rsc_interval = 0\<rparr>\<rparr>,
     ua_status = \<lparr>ust_decision = [], ust_total_score = 0, ust_reason = [], ust_last_analysis_time = None,
       ust_last_refresh = [], ust_observed_generation = 0, ust_report_path = [], ust_report_state = [],
       ust_report_error = [], ust_report_location = [], ust_ai_score = 0, ust_ai_reasoning = [], ust_ai_model = [],
       ust_ai_error = [], ust_addons_checked = 0, ust_incompatible_addons = 0, ust_last_total_pods = 0,
       ust_last_total_restarts = 0\<rparr>\<rparr>"

text \<open>Object storage that keeps what it is given.\<close>

type_synonym bucket = "string \<times> string \<rightharpoonup> string"

definition memory_put :: "unit \<Rightarrow> string \<Rightarrow> string \<Rightarrow> string \<Rightarrow> bucket \<Rightarrow> string option \<times> bucket" where
  "memory_put g b n bytes c = (None, c((b, n) \<mapsto> bytes))"

definition memory_get :: "unit \<Rightarrow> string \<Rightarrow> string \<Rightarrow> bucket \<Rightarrow> read_error + string" where
  "memory_get g b n c = (case c (b, n) of None \<Rightarrow> Inl (Not_There ''NoSuchKey'') | Some bytes \<Rightarrow> Inr bytes)"

definition memory :: "(bucket, unit) sdk" where
  "memory = \<lparr>sdk_aws_config = (\<lambda>_ _. Inr ()), sdk_put = memory_put, sdk_get = memory_get,
     sdk_azure_sp = (\<lambda>_ _ _. None), sdk_azure_default = None, sdk_azure_client = (\<lambda>_ _. Inr ()),
     sdk_upload = memory_put, sdk_download = memory_get\<rparr>"

end
