(* ===== verification/Remediation_Props.thy ===== *)
theory Remediation_Props
  imports Remediation Samples "HOL-Library.Sublist"
begin

text \<open>
  What remediation may do to a cluster: which calls one reconcile issues, in which order and with which targets, and
  what it records of their outcome.
\<close>

section \<open>One action\<close>

definition target_ns :: "string \<Rightarrow> remediation_action \<Rightarrow> string" where
  "target_ns ns a = (if ra_namespace a = [] then ns else ra_namespace a)"

text \<open>
  The two calls of an action: a read of its own target, then its own operation on it. A deployment or a node is
  written back as it was read, but for the number of replicas or the mark against scheduling. The namespace is
  the action's, or \<open>ns\<close> where it has none.
\<close>

definition operates :: "kube \<Rightarrow> history \<Rightarrow> string \<Rightarrow> remediation_action \<Rightarrow> call \<Rightarrow> call \<Rightarrow> bool" where
  "operates k h ns a r w \<longleftrightarrow>
     r = Get_Pod (target_ns ns a) (ra_name a) \<and>
       (ra_type a = ''restart-pod'' \<and> w = Delete_Pod (target_ns ns a) (ra_name a) None \<or>
        ra_type a = ''delete-pod'' \<and> w = Delete_Pod (target_ns ns a) (ra_name a) (Some 0)) \<or>
     ra_type a = ''scale-deployment'' \<and> r = Get_Deployment (target_ns ns a) (ra_name a) \<and>
       (\<exists>d m. kc_get_deployment k h (target_ns ns a) (ra_name a) = Inr d \<and> replicas_param (ra_params a) = Some m \<and>
          w = Update_Deployment (d\<lparr>dep_replicas := Some m\<rparr>)) \<or>
     ra_type a = ''cordon-node'' \<and> r = Get_Node (ra_name a) \<and>
       (\<exists>nd. kc_get_node k h (ra_name a) = Inr nd \<and> w = Update_Node (nd\<lparr>sn_unschedulable := True\<rparr>))"

text \<open>The read of the target, and the error of a read.\<close>

definition target_read :: "string \<Rightarrow> remediation_action \<Rightarrow> call" where
  "target_read ns a =
     (if ra_type a = ''scale-deployment'' then Get_Deployment (target_ns ns a) (ra_name a)
      else if ra_type a = ''cordon-node'' then Get_Node (ra_name a) else Get_Pod (target_ns ns a) (ra_name a))"

fun read_error :: "kube \<Rightarrow> history \<Rightarrow> call \<Rightarrow> api_error option" where
  "read_error k h (Get_Pod ns n) = kc_get_pod k h ns n"
| "read_error k h (Get_Deployment ns n) = (case kc_get_deployment k h ns n of Inl e \<Rightarrow> Some e | Inr d \<Rightarrow> None)"
| "read_error k h (Get_Node n) = (case kc_get_node k h n of Inl e \<Rightarrow> Some e | Inr nd \<Rightarrow> None)"
| "read_error k h c = None"

fun plan_write :: "call \<Rightarrow> bool" where
  "plan_write (Update_Plan_Status p) = True"
| "plan_write (Update_Plan p) = True"
| "plan_write (Create_Plan p) = True"
| "plan_write c = False"

lemmas action_ops = restartPod_def deletePod_def scaleDeployment_def cordonNode_def dispatch_def

lemma extends_ops [intro]:
  "extends (restartPod k ns n)" "extends (deletePod k ns n)" "extends (scaleDeployment k ns n ps)" "extends (cordonNode k n)"
  unfolding action_ops client_defs by (intro extends_bind extends_ask extends_cases extends_return)+

lemma extends_dispatch [simp, intro]: "extends (dispatch k ns a)"
  unfolding dispatch_def by auto

lemma extends_execute [simp, intro]: "extends (executeAction k ns a)"
  unfolding executeAction_def now_def by auto

text \<open>
  What became of an action and what is told of it: it was carried out, and the error is the API server's answer to
  its operation; or its target could not be read, and the error is that of the read; or its parameter or its type
  makes no sense.
\<close>

definition carried_out :: "kube \<Rightarrow> history \<Rightarrow> string \<Rightarrow> remediation_action \<Rightarrow> call list \<Rightarrow> action_error option \<Rightarrow> bool" where
  "carried_out k h ns a cs e \<longleftrightarrow> (\<exists>r w. cs = [r, w] \<and> operates k h ns a r w \<and>
     e = map_option Call_Failed (kc_write k (h @ [r]) w))"

definition not_carried_out :: "kube \<Rightarrow> history \<Rightarrow> string \<Rightarrow> remediation_action \<Rightarrow> call list \<Rightarrow> action_error option \<Rightarrow> bool" where
  "not_carried_out k h ns a cs e \<longleftrightarrow>
     (\<exists>e'. cs = [target_read ns a] \<and> read_error k h (target_read ns a) = Some e' \<and> e = Some (Call_Failed e') \<and>
        ra_type a \<in> {''restart-pod'', ''delete-pod'', ''scale-deployment'', ''cordon-node''}) \<or>
     cs = [Get_Deployment (target_ns ns a) (ra_name a)] \<and> ra_type a = ''scale-deployment'' \<and>
        replicas_param (ra_params a) = None \<and> e = Some (Invalid_Replicas (lget (ra_params a) ''replicas'')) \<or>
     cs = [] \<and> ra_type a \<notin> {''restart-pod'', ''delete-pod'', ''scale-deployment'', ''cordon-node''} \<and>
        e = Some (Unknown_Action (ra_type a))"

lemma dispatch_effect:
  fixes k ns a h
  defines "d \<equiv> dispatch k (target_ns ns a) a"
  shows "carried_out k h ns a (calls_of d h) (result_of d h) \<or> not_carried_out k h ns a (calls_of d h) (result_of d h)"
proof -
  consider "ra_type a = ''restart-pod''" | "ra_type a = ''delete-pod''" | "ra_type a = ''scale-deployment''"
    | "ra_type a = ''cordon-node''" | "ra_type a \<notin> {''restart-pod'', ''delete-pod'', ''scale-deployment'', ''cordon-node''}" by blast
  then show ?thesis
    by cases (auto simp: d_def action_ops action_type_defs client_defs calls_of_def carried_out_def
        not_carried_out_def operates_def target_read_def
        split: option.splits sum.splits)
qed

lemma executeAction_split:
  fixes k ns a h
  defines "d \<equiv> dispatch k (target_ns ns a) a"
  shows "calls_of (executeAction k ns a) h = Now # calls_of d (h @ [Now])"
    and "result_of (executeAction k ns a) h = \<lparr>act_id = ra_id a,
      act_status = (if result_of d (h @ [Now]) = None then ''success'' else ''failed''),
      act_error = result_of d (h @ [Now]), act_executed_at = Some (kc_now k h)\<rparr>"
  unfolding executeAction_def now_def d_def target_ns_def
  by (simp add: calls_of_bind, simp split: prod.split)

text \<open>The calls and the result of one action of a plan, from its place in the history.\<close>

definition accounts :: "kube \<Rightarrow> history \<Rightarrow> string \<Rightarrow> remediation_action \<Rightarrow> call list \<Rightarrow> action_result \<Rightarrow> bool" where
  "accounts k h ns a cs r \<longleftrightarrow> act_id r = ra_id a \<and>
     (if ra_skip a then cs = [] \<and> act_status r = ''skipped'' \<and> act_error r = None
      else (\<exists>cs'. cs = Now # cs' \<and>
          (carried_out k (h @ [Now]) ns a cs' (act_error r) \<or> not_carried_out k (h @ [Now]) ns a cs' (act_error r))) \<and>
        act_status r = (if act_error r = None then ''success'' else ''failed''))"

lemma accounts_execute: "\<not> ra_skip a \<Longrightarrow> accounts k h ns a (calls_of (executeAction k ns a) h) (result_of (executeAction k ns a) h)"
  using dispatch_effect[of k "h @ [Now]" ns a] by (auto simp: accounts_def executeAction_split)

lemma accounts_skipped: "ra_skip a \<Longrightarrow> accounts k h ns a [] (skipped_result a)"
  by (simp add: accounts_def skipped_result_def)

section \<open>One plan\<close>

text \<open>The actions in their order: one group of calls and one result each.\<close>

fun pass :: "kube \<Rightarrow> string \<Rightarrow> history \<Rightarrow> remediation_action list \<Rightarrow> call list list \<Rightarrow> action_result list \<Rightarrow> bool" where
  "pass k ns h [] [] [] = True"
| "pass k ns h (a # as) (cs # css) (r # rs) = (accounts k h ns a cs r \<and> pass k ns (h @ cs) as css rs)"
| "pass k ns h as css rs = False"

lemma extends_run_actions [simp, intro]: "extends (run_actions k ns as rs ok)"
  by (induction as arbitrary: rs ok) auto

lemma run_actions_pass:
  "\<exists>css new. calls_of (run_actions k ns as rs ok) h = concat css \<and> pass k ns h as css new \<and>
     fst (result_of (run_actions k ns as rs ok) h) = rs @ new \<and>
     snd (result_of (run_actions k ns as rs ok) h) = (ok \<and> (\<forall>r\<in>set new. act_status r \<noteq> ''failed''))"
proof (induction as arbitrary: rs ok h)
  case Nil
  show ?case by (intro exI[of _ "[]"]) simp
next
  case (Cons a as)
  show ?case
  proof (cases "ra_skip a")
    case True
    let ?m = "run_actions k ns as (rs @ [skipped_result a]) ok"
    obtain css new where "calls_of ?m h = concat css" "pass k ns h as css new"
      "fst (result_of ?m h) = (rs @ [skipped_result a]) @ new"
      "snd (result_of ?m h) = (ok \<and> (\<forall>r\<in>set new. act_status r \<noteq> ''failed''))"
      using Cons by blast
    with True show ?thesis
      by (intro exI[of _ "[] # css"] exI[of _ "skipped_result a # new"]) (simp add: accounts_skipped, simp add: skipped_result_def)
  next
    case False
    let ?x = "executeAction k ns a"
    let ?r = "result_of ?x h" and ?h = "h @ calls_of ?x h"
    let ?rest = "run_actions k ns as (rs @ [?r]) (if act_status ?r = ''failed'' then False else ok)"
    have run: "calls_of (run_actions k ns (a # as) rs ok) h = calls_of ?x h @ calls_of ?rest ?h"
      "result_of (run_actions k ns (a # as) rs ok) h = result_of ?rest ?h"
      using False by (simp_all add: calls_of_bind del: run_state_bind)
    obtain css new where "calls_of ?rest ?h = concat css" "pass k ns ?h as css new"
      "fst (result_of ?rest ?h) = (rs @ [?r]) @ new"
      "snd (result_of ?rest ?h) = ((if act_status ?r = ''failed'' then False else ok) \<and> (\<forall>r\<in>set new. act_status r \<noteq> ''failed''))"
      using Cons by blast
    then show ?thesis
      unfolding run using accounts_execute[OF False, of k h ns]
      by (intro exI[of _ "calls_of ?x h # css"] exI[of _ "?r # new"]) auto
  qed
qed

text \<open>
  A pass without the history: the API server's part is that a read by name answers an object of that name.
\<close>

fun performs :: "string \<Rightarrow> remediation_action \<Rightarrow> call \<Rightarrow> bool" where
  "performs ns a (Delete_Pod ns' n g) = (ns' = target_ns ns a \<and> n = ra_name a \<and>
      (ra_type a = ''restart-pod'' \<and> g = None \<or> ra_type a = ''delete-pod'' \<and> g = Some 0))"
| "performs ns a (Update_Deployment d) = (dep_namespace d = target_ns ns a \<and> dep_name d = ra_name a \<and>
      ra_type a = ''scale-deployment'' \<and> (\<exists>m. replicas_param (ra_params a) = Some m \<and> dep_replicas d = Some m))"
| "performs ns a (Update_Node nd) = (sn_name nd = ra_name a \<and> ra_type a = ''cordon-node'' \<and> sn_unschedulable nd)"
| "performs ns a c = False"

definition answers_by_name :: "kube \<Rightarrow> bool" where
  "answers_by_name k \<longleftrightarrow>
     (\<forall>h ns n d. kc_get_deployment k h ns n = Inr d \<longrightarrow> dep_namespace d = ns \<and> dep_name d = n) \<and>
     (\<forall>h n nd. kc_get_node k h n = Inr nd \<longrightarrow> sn_name nd = n)"

lemma operates_performs: "operates k h ns a r w \<Longrightarrow> answers_by_name k \<Longrightarrow> performs ns a w"
  by (fastforce simp: operates_def answers_by_name_def)

lemma operates_kinds: "operates k h ns a r w \<Longrightarrow> \<not> acts r \<and> acts w \<and> \<not> plan_write r \<and> \<not> plan_write w"
  by (auto simp: operates_def)

lemma accounts_acts:
  assumes "accounts k h ns a cs r"
  shows "list_all (\<lambda>c. \<not> plan_write c) cs"
    "filter acts cs = [] \<or> (\<exists>c. filter acts cs = [c] \<and> \<not> ra_skip a \<and> (answers_by_name k \<longrightarrow> performs ns a c))"
  using assms operates_kinds operates_performs
  by (auto simp: accounts_def carried_out_def not_carried_out_def target_read_def split: if_splits)

lemma pass_acts:
  "pass k ns h as css rs \<Longrightarrow> list_all (\<lambda>c. \<not> plan_write c) (concat css) \<and>
     (\<exists>as'. subseq as' (filter (\<lambda>a. \<not> ra_skip a) as) \<and> length as' = length (filter acts (concat css)) \<and>
        (answers_by_name k \<longrightarrow> list_all2 (performs ns) as' (filter acts (concat css))))"
proof (induction k ns h as css rs rule: pass.induct)
  case (2 k ns h a as cs css r rs)
  then obtain as' where as': "subseq as' (filter (\<lambda>a. \<not> ra_skip a) as)" "length as' = length (filter acts (concat css))"
    "answers_by_name k \<longrightarrow> list_all2 (performs ns) as' (filter acts (concat css))" and q: "list_all (\<lambda>c. \<not> plan_write c) (concat css)"
    by auto
  have acc: "accounts k h ns a cs r" using 2 by simp
  from accounts_acts(2)[OF acc] show ?case
  proof
    assume "filter acts cs = []"
    then show ?thesis using as' q accounts_acts(1)[OF acc] by (auto intro!: exI[of _ as'])
  next
    assume "\<exists>c. filter acts cs = [c] \<and> \<not> ra_skip a \<and> (answers_by_name k \<longrightarrow> performs ns a c)"
    then show ?thesis using as' q accounts_acts(1)[OF acc] by (auto intro!: exI[of _ "a # as'"])
  qed
qed auto

lemma run_actions_calls:
  "list_all (\<lambda>c. \<not> plan_write c) (calls_of (run_actions k ns as rs ok) h) \<and>
   (answers_by_name k \<longrightarrow> (\<exists>as'. subseq as' (filter (\<lambda>a. \<not> ra_skip a) as) \<and>
      list_all2 (performs ns) as' (filter acts (calls_of (run_actions k ns as rs ok) h))))"
  using run_actions_pass[of k ns as rs ok h] pass_acts by metis

definition started :: "remediation_plan \<Rightarrow> int \<Rightarrow> remediation_plan" where
  "started p t = with_status p (\<lambda>s. s\<lparr>pst_phase := RemediationPhaseRunning, pst_executed_at := Some t\<rparr>)"

definition finished :: "remediation_plan \<Rightarrow> action_result list \<times> bool \<Rightarrow> int \<Rightarrow> remediation_plan" where
  "finished p rs t = with_status p (\<lambda>s. s\<lparr>pst_results := fst rs, pst_completed_at := Some t,
     pst_phase := (if snd rs then RemediationPhaseCompleted else RemediationPhaseFailed)\<rparr>)"

lemma reconcile_calls:
  fixes k ns n h
  defines "p \<equiv> projr (kc_get_plan k h ns n)" and "h1 \<equiv> h @ [Get_Plan ns n]"
  defines "p' \<equiv> started p (kc_now k h1)"
  defines "h2 \<equiv> h1 @ [Now, Update_Plan_Status p']"
  defines "m \<equiv> run_actions k (pl_namespace p) (ps_actions (pl_spec p)) [] True"
  defines "h3 \<equiv> h2 @ calls_of m h2"
  shows "calls_of (RemediationPlan_Reconcile k ns n) h =
    Get_Plan ns n #
      (if isl (kc_get_plan k h ns n) \<or> \<not> ps_approved (pl_spec p) \<or> terminal_or_running (pst_phase (pl_status p)) then []
       else Now # Update_Plan_Status p' #
         (if kc_write k (h1 @ [Now]) (Update_Plan_Status p') \<noteq> None then []
          else calls_of m h2 @ [Now, Update_Plan_Status (finished p' (result_of m h2) (kc_now k h3))]))"
proof (cases "kc_get_plan k h ns n")
  case (Inl e)
  then show ?thesis by (simp add: RemediationPlan_Reconcile_def get_plan_def calls_of_def)
next
  case (Inr q)
  then have q: "p = q" by (simp add: p_def)
  obtain r c where run: "run_state m h2 = (r, h2 @ c)" "calls_of m h2 = c" "result_of m h2 = r"
    using extends_run[of m h2] by (auto simp: m_def)
  show ?thesis
    using Inr run unfolding calls_of_def[of "RemediationPlan_Reconcile k ns n"]
    by (auto simp: RemediationPlan_Reconcile_def client_defs Let_def q p'_def h1_def h2_def h3_def m_def started_def finished_def
        split: option.split)
qed

lemma acts_plan_write: "acts c \<Longrightarrow> \<not> plan_write c"
  by (cases c) auto

text \<open>C2: whatever the API server answers, one reconcile touches the cluster only for a plan it has just read as
  approved and neither running nor finished, and only after the Running status was stored. What it then does is one
  group of calls for each action, in their order: none for a skipped one, and for another a read of the action's own
  target followed by at most one call, the action's own operation on that target, which writes back a deployment or a
  node as it was read but for the replicas or the mark against scheduling. Nothing else in the reconcile touches the
  cluster.\<close>

theorem reconcile_safe:
  assumes "filter acts (calls_of (RemediationPlan_Reconcile k ns n) h) \<noteq> []"
  shows "\<exists>p p' css rs post. kc_get_plan k h ns n = Inr p \<and> ps_approved (pl_spec p) \<and>
     pst_phase (pl_status p) \<notin> {''running'', ''completed'', ''failed''} \<and>
     calls_of (RemediationPlan_Reconcile k ns n) h = [Get_Plan ns n, Now, Update_Plan_Status p'] @ concat css @ post \<and>
     pst_phase (pl_status p') = ''running'' \<and>
     kc_write k (h @ [Get_Plan ns n, Now]) (Update_Plan_Status p') = None \<and>
     pass k (pl_namespace p) (h @ [Get_Plan ns n, Now, Update_Plan_Status p']) (ps_actions (pl_spec p)) css rs \<and>
     filter acts post = []"
proof -
  define p where "p = projr (kc_get_plan k h ns n)"
  define h1 where "h1 = h @ [Get_Plan ns n]"
  define p' where "p' = started p (kc_now k h1)"
  define h2 where "h2 = h1 @ [Now, Update_Plan_Status p']"
  define m where "m = run_actions k (pl_namespace p) (ps_actions (pl_spec p)) [] True"
  note calls = reconcile_calls[of k ns n h, folded p_def h1_def p'_def h2_def m_def, unfolded p_def[symmetric] p'_def[symmetric]]
  have go: "\<not> isl (kc_get_plan k h ns n)" "ps_approved (pl_spec p)" "\<not> terminal_or_running (pst_phase (pl_status p))"
    "kc_write k (h1 @ [Now]) (Update_Plan_Status p') = None"
    using assms unfolding calls by (auto split: if_splits)
  obtain css rs where "calls_of m h2 = concat css" "pass k (pl_namespace p) h2 (ps_actions (pl_spec p)) css rs"
    using run_actions_pass unfolding m_def by blast
  moreover have "kc_get_plan k h ns n = Inr p" using go(1) by (simp add: p_def)
  moreover have "pst_phase (pl_status p') = ''running''" by (simp add: p'_def started_def with_status_def phase_defs)
  moreover have "pst_phase (pl_status p) \<notin> {''running'', ''completed'', ''failed''}"
    using go(3) by (simp add: terminal_or_running_def phase_defs)
  moreover define post where "post = [Now, Update_Plan_Status (finished p' (result_of m h2) (kc_now k (h2 @ calls_of m h2)))]"
  moreover have "calls_of (RemediationPlan_Reconcile k ns n) h =
      [Get_Plan ns n, Now, Update_Plan_Status p'] @ calls_of m h2 @ post"
    using go unfolding calls post_def h2_def by simp
  ultimately show ?thesis using go(2,4) unfolding h2_def h1_def
    by (intro exI[of _ p] exI[of _ p'] exI[of _ css] exI[of _ rs] exI[of _ post]) simp
qed

text \<open>A server where everything succeeds and one plan is stored.\<close>

definition friendly :: "remediation_plan \<Rightarrow> kube" where
  "friendly p = silent\<lparr>kc_get_plan := (\<lambda>h ns n. Inr p)\<rparr>"

definition sample_action :: "string \<Rightarrow> string \<Rightarrow> bool \<Rightarrow> remediation_action" where
  "sample_action i ty skip = \<lparr>ra_id = i, ra_type = ty, ra_namespace = ''shop'', ra_name = ''api-0'', ra_reason = [],
     ra_risk = ''low'', ra_params = [], ra_skip = skip\<rparr>"

definition sample_plan :: remediation_plan where
  "sample_plan = \<lparr>pl_namespace = [], pl_name = ''prod-remediation'', pl_generation = 0, pl_labels = [(''mirops.io/analysis'', ''prod'')],
     pl_spec = \<lparr>ps_analysis_ref = ''prod'', ps_approved = True,
       ps_actions = [sample_action ''action-1'' ''restart-pod'' False, sample_action ''action-2'' ''delete-pod'' True,
         sample_action ''action-3'' ''scale-deployment'' False]\<rparr>,
     pl_status = empty_plan_status\<rparr>"

lemma friendly_ops:
  "calls_of (restartPod (friendly p) ns n) h = [Get_Pod ns n, Delete_Pod ns n None]"
  "calls_of (scaleDeployment (friendly p) ns n ps) h = [Get_Deployment ns n]"
  by (simp_all add: restartPod_def scaleDeployment_def client_defs friendly_def silent_def calls_of_def)

lemma friendly_answers:
  "kc_get_plan (friendly p) h ns n = Inr p" "kc_write (friendly p) h c = None"
  by (simp_all add: friendly_def silent_def)

lemma sample_actions: "pl_namespace sample_plan = []" "ps_approved (pl_spec sample_plan)"
  "\<not> terminal_or_running (pst_phase (pl_status sample_plan))"
  "ps_actions (pl_spec sample_plan) = [sample_action ''action-1'' ''restart-pod'' False,
     sample_action ''action-2'' ''delete-pod'' True, sample_action ''action-3'' ''scale-deployment'' False]"
  by (simp_all add: sample_plan_def terminal_or_running_def phase_defs empty_plan_status_def)

lemma sample_run:
  "filter acts (calls_of (RemediationPlan_Reconcile (friendly sample_plan) [] ''prod-remediation'') []) =
     [Delete_Pod ''shop'' ''api-0'' None]"
  unfolding reconcile_calls
  by (simp add: friendly_answers sample_actions calls_of_bind executeAction_split dispatch_def action_type_defs
      friendly_ops sample_action_def target_ns_def)

theorem reconcile_safe_witness:
  "\<exists>p' css rs post. calls_of (RemediationPlan_Reconcile (friendly sample_plan) [] ''prod-remediation'') [] =
       [Get_Plan [] ''prod-remediation'', Now, Update_Plan_Status p'] @ concat css @ post \<and>
     length css = 3 \<and> filter acts (concat css) = [Delete_Pod ''shop'' ''api-0'' None]"
proof -
  have len: "length css = length as" if "pass k ns h as css rs" for k ns h as css rs
    using that by (induction k ns h as css rs rule: pass.induct) auto
  note run = sample_run
  have "filter acts (calls_of (RemediationPlan_Reconcile (friendly sample_plan) [] ''prod-remediation'') []) \<noteq> []"
    by (simp add: run)
  from reconcile_safe[OF this] obtain p p' css rs post where *: "kc_get_plan (friendly sample_plan) [] [] ''prod-remediation'' = Inr p"
    "calls_of (RemediationPlan_Reconcile (friendly sample_plan) [] ''prod-remediation'') [] =
       [Get_Plan [] ''prod-remediation'', Now, Update_Plan_Status p'] @ concat css @ post"
    "pass (friendly sample_plan) (pl_namespace p) ([] @ [Get_Plan [] ''prod-remediation'', Now, Update_Plan_Status p'])
       (ps_actions (pl_spec p)) css rs" "filter acts post = []"
    by blast
  have "p = sample_plan" using *(1) by (simp add: friendly_answers)
  then have "length css = 3" using len[OF *(3)] by (simp add: sample_actions)
  moreover have "filter acts (concat css) = [Delete_Pod ''shop'' ''api-0'' None]" using run *(4) unfolding *(2) by simp
  ultimately show ?thesis using *(2) by blast
qed

text \<open>C23: a run that gets through to the end stores one result per action, in the action's place and with its id, and
  each tells what the API server answered: a skipped action is skipped and had no call; any other succeeded exactly when
  its operation was carried out and accepted, and otherwise it failed with the error of that operation, with that of the
  read of its target, or because its type or its parameter makes no sense. The plan ends Completed exactly when nothing
  failed, and its spec is kept.\<close>

theorem reconcile_reports:
  assumes "kc_get_plan k h ns n = Inr p" "ps_approved (pl_spec p)" "\<not> terminal_or_running (pst_phase (pl_status p))"
    and "\<And>h c. plan_write c \<Longrightarrow> kc_write k h c = None"
  shows "\<exists>p' p'' css. calls_of (RemediationPlan_Reconcile k ns n) h =
       [Get_Plan ns n, Now, Update_Plan_Status p''] @ concat css @ [Now, Update_Plan_Status p'] \<and>
     pass k (pl_namespace p) (h @ [Get_Plan ns n, Now, Update_Plan_Status p'']) (ps_actions (pl_spec p)) css (pst_results (pl_status p')) \<and>
     pst_phase (pl_status p') = (if \<exists>r\<in>set (pst_results (pl_status p')). act_status r = ''failed'' then ''failed'' else ''completed'') \<and>
     pl_spec p' = pl_spec p"
proof -
  define m where "m = run_actions k (pl_namespace p) (ps_actions (pl_spec p)) [] True"
  define p' where "p' = started p (kc_now k (h @ [Get_Plan ns n]))"
  define h2 where "h2 = (h @ [Get_Plan ns n]) @ [Now, Update_Plan_Status p']"
  define p2 where "p2 = finished p' (result_of m h2) (kc_now k (h2 @ calls_of m h2))"
  obtain css new where new: "calls_of m h2 = concat css" "pass k (pl_namespace p) h2 (ps_actions (pl_spec p)) css new"
    "fst (result_of m h2) = new" "snd (result_of m h2) = (\<forall>r\<in>set new. act_status r \<noteq> ''failed'')"
    using run_actions_pass[of k "pl_namespace p" "ps_actions (pl_spec p)" "[]" True h2] unfolding m_def by auto
  have calls: "calls_of (RemediationPlan_Reconcile k ns n) h = [Get_Plan ns n, Now, Update_Plan_Status p'] @
      concat css @ [Now, Update_Plan_Status p2]"
    unfolding reconcile_calls using assms new(1) by (simp add: m_def h2_def p'_def p2_def)
  have "pst_results (pl_status p2) = new" "pl_spec p2 = pl_spec p"
    "pst_phase (pl_status p2) = (if \<exists>r\<in>set new. act_status r = ''failed'' then ''failed'' else ''completed'')"
    using new by (auto simp: p2_def finished_def p'_def started_def with_status_def phase_defs)
  then show ?thesis
    using calls new(2) by (intro exI[of _ p2] exI[of _ p'] exI[of _ css]) (simp add: h2_def)
qed

lemma pass_ids: "pass k ns h as css rs \<Longrightarrow> map act_id rs = map ra_id as"
  by (induction k ns h as css rs rule: pass.induct) (auto simp: accounts_def)

theorem reconcile_reports_witness:
  "\<exists>p'. last (calls_of (RemediationPlan_Reconcile (friendly sample_plan) [] ''prod-remediation'') []) = Update_Plan_Status p' \<and>
     map act_id (pst_results (pl_status p')) = [''action-1'', ''action-2'', ''action-3'']"
proof -
  have go: "kc_get_plan (friendly sample_plan) [] [] ''prod-remediation'' = Inr sample_plan" by (simp add: friendly_answers)
  have ok: "kc_write (friendly sample_plan) h c = None" for h c by (simp add: friendly_answers)
  obtain p' p'' css where *: "calls_of (RemediationPlan_Reconcile (friendly sample_plan) [] ''prod-remediation'') [] =
      [Get_Plan [] ''prod-remediation'', Now, Update_Plan_Status p''] @ concat css @ [Now, Update_Plan_Status p']"
    "pass (friendly sample_plan) (pl_namespace sample_plan) ([] @ [Get_Plan [] ''prod-remediation'', Now, Update_Plan_Status p''])
       (ps_actions (pl_spec sample_plan)) css (pst_results (pl_status p'))"
    using reconcile_reports[OF go sample_actions(2,3) ok] by metis
  then show ?thesis using pass_ids[OF *(2)] by (simp add: sample_actions sample_action_def)
qed

end
