(* ===== verification/Remediation_Life.thy ===== *)
theory Remediation_Life
  imports Remediation_Props
begin

text \<open>
  The life of a remediation plan: what the operator proposes, and the stored object over any
  sequence of reconciles, proposals and edits, each of them possibly cut short by a crash. The API
  server's documented part is that a write of the spec leaves the status alone and the other way
  round (the CRD has the status subresource), and that creating clears the status.
\<close>

section \<open>Proposing a plan\<close>

lemma plan_actions_eq:
  "plan_actions mx as = map (\<lambda>(i, a). plan_action i a) (filter (\<lambda>(i, a). riskWithin (aa_risk a) mx) (enumerate 0 as))"
proof -
  have "fold (\<lambda>(i, a) out. if \<not> riskWithin (aa_risk a) mx then out else out @ [plan_action i a]) xs out =
      out @ map (\<lambda>(i, a). plan_action i a) (filter (\<lambda>(i, a). riskWithin (aa_risk a) mx) xs)" for xs out
    by (induction xs arbitrary: out) auto
  then show ?thesis by (simp add: plan_actions_def)
qed

lemma createRemediationPlan_calls:
  "calls_of (createRemediationPlan k ua actions) h =
     (let mx = rc_max_risk_level (aic_remediation (uas_ai (ua_spec ua)));
          chosen = plan_actions (if mx = [] then ''low'' else mx) actions;
          name = ua_name ua @ ''-remediation''
      in if chosen = [] then []
         else Get_Plan [] name # (case kc_get_plan k h [] name of
             Inl e \<Rightarrow> [Create_Plan (with_status (new_plan ua chosen) (\<lambda>s. s\<lparr>pst_phase := ''pending-approval''\<rparr>))]
           | Inr q \<Rightarrow> if replaceable (pst_phase (pl_status q))
                then [Update_Plan (q\<lparr>pl_spec := (pl_spec (new_plan ua chosen))\<lparr>ps_approved := False\<rparr>,
                        pl_status := empty_plan_status\<rparr>)] else []))"
  by (simp add: createRemediationPlan_def get_plan_def kwrite_def Let_def calls_of_def new_plan_def risk_level_defs
      phase_defs split: sum.split)

definition remediation_of :: "upgrade_analysis \<Rightarrow> remediation_config" where
  "remediation_of ua = aic_remediation (uas_ai (ua_spec ua))"

text \<open>The risk levels in order, and the limit an analysis sets.\<close>

definition risk_levels :: "string list" where
  "risk_levels = [''low'', ''medium'', ''high'']"

definition risk_limit :: "upgrade_analysis \<Rightarrow> string" where
  "risk_limit ua = (if rc_max_risk_level (remediation_of ua) = [] then ''low'' else rc_max_risk_level (remediation_of ua))"

definition allowed_risk :: "string \<Rightarrow> string \<Rightarrow> bool" where
  "allowed_risk limit r = (r \<notin> set risk_levels \<or> r \<in> set (takeWhile (\<lambda>l. l \<noteq> limit) risk_levels) \<or> r = limit)"

lemma riskWithin_allowed: "limit \<in> set risk_levels \<Longrightarrow> riskWithin r limit = allowed_risk limit r"
  by (auto simp: riskWithin_def allowed_risk_def risk_order_def risk_levels_def risk_level_defs)

lemma plan_actions_allowed:
  "limit \<in> set risk_levels \<Longrightarrow> a \<in> set (plan_actions limit as) \<Longrightarrow> allowed_risk limit (ra_risk a)"
  by (auto simp: plan_actions_eq plan_action_def riskWithin_allowed)

text \<open>C40: proposing writes at most one plan: a new one, approved only when the analysis auto-approves, or a new spec
  for an existing plan that is not pending or running, which is never approved. An action of a known risk
  level is proposed only within the configured limit, low by default.\<close>

theorem proposals_bounded:
  assumes "c \<in> set (calls_of (createRemediationPlan k ua actions) h)" "plan_write c"
    and "risk_limit ua \<in> set risk_levels"
  shows "length (filter plan_write (calls_of (createRemediationPlan k ua actions) h)) = 1 \<and>
    (\<exists>p. list_all (\<lambda>a. allowed_risk (risk_limit ua) (ra_risk a)) (ps_actions (pl_spec p)) \<and>
      (c = Create_Plan p \<and> ps_approved (pl_spec p) = rc_auto_approve (remediation_of ua) \<or>
       c = Update_Plan p \<and> \<not> ps_approved (pl_spec p) \<and>
         (\<exists>q. kc_get_plan k h [] (ua_name ua @ ''-remediation'') = Inr q \<and>
            pst_phase (pl_status q) \<notin> {''running'', ''pending-approval''})))"
proof -
  let ?chosen = "plan_actions (risk_limit ua) actions"
  have chosen: "list_all (\<lambda>a. allowed_risk (risk_limit ua) (ra_risk a)) ?chosen"
    using plan_actions_allowed[OF assms(3)] by (simp add: list_all_iff)
  note calls = createRemediationPlan_calls[of k ua actions h, folded remediation_of_def, unfolded Let_def, folded risk_limit_def]
  show ?thesis
    using assms(1,2) chosen unfolding calls
    by (auto simp: new_plan_def with_status_def remediation_of_def replaceable_def phase_defs split: if_splits sum.splits)
qed

definition proposal :: "string \<Rightarrow> ai_action_entry" where
  "proposal risk = \<lparr>aa_type = ''restart-pod'', aa_namespace = ''shop'', aa_name = ''api-0'', aa_reason = [],
     aa_risk = risk, aa_params = []\<rparr>"

lemma sample_limit: "risk_limit sample_analysis = ''medium''"
  by (simp add: risk_limit_def remediation_of_def sample_analysis_def)

lemma sample_proposal:
  "calls_of (createRemediationPlan (friendly sample_plan) sample_analysis [proposal ''high'', proposal ''low'']) [] =
     [Get_Plan [] ''prod-remediation'', Update_Plan (sample_plan\<lparr>pl_spec := \<lparr>ps_analysis_ref = ''prod'',
       ps_approved = False, ps_actions = [plan_action 1 (proposal ''low'')]\<rparr>, pl_status := empty_plan_status\<rparr>)]"
  by (simp add: createRemediationPlan_calls plan_actions_eq riskWithin_def risk_order_def risk_level_defs proposal_def
      sample_analysis_def friendly_answers new_plan_def sample_plan_def replaceable_def phase_defs empty_plan_status_def Let_def)

theorem proposals_bounded_witness:
  "\<exists>c \<in> set (calls_of (createRemediationPlan (friendly sample_plan) sample_analysis [proposal ''high'', proposal ''low'']) []).
     \<exists>p. c = Update_Plan p \<and> \<not> ps_approved (pl_spec p)"
proof -
  obtain c q where c: "c \<in> set (calls_of (createRemediationPlan (friendly sample_plan) sample_analysis
      [proposal ''high'', proposal ''low'']) [])" "c = Update_Plan q"
    unfolding sample_proposal list.set by blast
  then have "plan_write c" "risk_limit sample_analysis \<in> set risk_levels"
    by (simp_all add: sample_limit risk_levels_def)
  from proposals_bounded[OF c(1) this] c(2) have "\<exists>p. c = Update_Plan p \<and> \<not> ps_approved (pl_spec p)"
    by (elim conjE exE disjE) simp_all
  then show ?thesis using c(1) by (rule bexI)
qed

text \<open>the limit does not hold for an action whose risk is no known level: it is proposed whatever the limit,
  although the model's answer is not checked against the known levels.\<close>

theorem unknown_risk_proposed:
  assumes "aa_risk a \<notin> {''low'', ''medium'', ''high''}" "a \<in> set actions"
  shows "\<exists>i. plan_action i a \<in> set (plan_actions limit actions)"
proof -
  have "riskWithin (aa_risk a) limit"
    using assms(1) by (auto simp: riskWithin_def risk_order_def risk_level_defs)
  moreover obtain i where "i < length actions" "actions ! i = a"
    using assms(2) by (auto simp: in_set_conv_nth)
  then have "(i, a) \<in> set (enumerate 0 actions)" by (simp add: in_set_enumerate_eq)
  ultimately have "plan_action i a \<in> set (plan_actions limit actions)"
    unfolding plan_actions_eq set_map set_filter by (intro image_eqI[of _ _ "(i, a)"]) simp_all
  then show ?thesis ..
qed

theorem unknown_risk_proposed_witness:
  "\<exists>i. plan_action i (proposal ''critical'') \<in> set (plan_actions ''low'' [proposal ''critical''])"
  by (rule unknown_risk_proposed) (simp_all add: proposal_def)

section \<open>The stored plan over time\<close>

text \<open>What a successful call does to the stored object.\<close>

fun store :: "call \<Rightarrow> remediation_plan option \<Rightarrow> remediation_plan option" where
  "store (Update_Plan_Status p) (Some q) = Some (q\<lparr>pl_status := pl_status p\<rparr>)"
| "store (Update_Plan p) (Some q) = Some (q\<lparr>pl_spec := pl_spec p\<rparr>)"
| "store (Create_Plan p) None = Some (p\<lparr>pl_status := empty_plan_status\<rparr>)"
| "store c o' = o'"

fun stored :: "kube \<Rightarrow> history \<Rightarrow> call list \<Rightarrow> remediation_plan option \<Rightarrow> remediation_plan option" where
  "stored k h [] o' = o'"
| "stored k h (c # cs) o' = stored k (h @ [c]) cs (if kc_write k h c = None then store c o' else o')"

record plan_world =
  pw_plan :: "remediation_plan option"
  pw_acts :: "call list"

text \<open>\<open>Get\<close> reads the stored object.\<close>

definition reads :: "kube \<Rightarrow> history \<Rightarrow> string \<Rightarrow> string \<Rightarrow> remediation_plan option \<Rightarrow> bool" where
  "reads k h ns n o' \<longleftrightarrow> (case o' of None \<Rightarrow> isl (kc_get_plan k h ns n) | Some p \<Rightarrow> kc_get_plan k h ns n = Inr p)"

text \<open>The steps: any beginning of a reconcile or of a proposal, and an edit of the spec by a user.\<close>

inductive plan_step :: "plan_world \<Rightarrow> plan_world \<Rightarrow> bool" where
  reconciled: "reads k h ns n (pw_plan w) \<Longrightarrow> prefix t (calls_of (RemediationPlan_Reconcile k ns n) h) \<Longrightarrow>
    plan_step w \<lparr>pw_plan = stored k h t (pw_plan w), pw_acts = pw_acts w @ filter acts t\<rparr>"
| proposed: "reads k h [] (ua_name ua @ ''-remediation'') (pw_plan w) \<Longrightarrow>
    prefix t (calls_of (createRemediationPlan k ua actions) h) \<Longrightarrow>
    plan_step w \<lparr>pw_plan = stored k h t (pw_plan w), pw_acts = pw_acts w @ filter acts t\<rparr>"
| edited: "pw_plan w = Some p \<Longrightarrow> plan_step w (w\<lparr>pw_plan := Some (p\<lparr>pl_spec := s\<rparr>)\<rparr>)"

inductive_cases plan_stepE: "plan_step w w'"

definition plan_phase :: "plan_world \<Rightarrow> string option" where
  "plan_phase w = map_option (\<lambda>p. pst_phase (pl_status p)) (pw_plan w)"

lemma stored_append: "stored k h (s @ t) o' = stored k (h @ s) t (stored k h s o')"
  by (induction s arbitrary: h o') auto

lemma stored_quiet: "list_all (\<lambda>c. \<not> plan_write c) t \<Longrightarrow> stored k h t o' = o'"
proof (induction t arbitrary: h o')
  case (Cons c t)
  moreover have "store c o' = o'" if "\<not> plan_write c" using that by (cases c; cases o') auto
  ultimately show ?case by simp
qed simp

lemma prefix_Cons_cases: "prefix t (c # cs) \<longleftrightarrow> t = [] \<or> (\<exists>t'. t = c # t' \<and> prefix t' cs)"
  by (cases t) auto

text \<open>A proposal never acts and never changes a stored status.\<close>

lemma proposal_step:
  assumes "prefix t (calls_of (createRemediationPlan k ua actions) h)"
  shows "filter acts t = [] \<and> (\<forall>p. o' = Some p \<longrightarrow> (\<exists>s. stored k h t o' = Some (p\<lparr>pl_spec := s\<rparr>))) \<and>
    (reads k h [] (ua_name ua @ ''-remediation'') None \<longrightarrow> o' = None \<longrightarrow>
       (\<forall>p. stored k h t o' = Some p \<longrightarrow> pl_status p = empty_plan_status))"
proof -
  have same: "\<exists>s. p = p\<lparr>pl_spec := s\<rparr>" for p :: remediation_plan by (intro exI[of _ "pl_spec p"]) simp
  show ?thesis
    using assms unfolding createRemediationPlan_calls
    by (auto simp: Let_def prefix_Cons_cases reads_def with_status_def intro: same split: if_splits sum.splits)
qed

text \<open>A pass over the actions of an approved spec, possibly cut short.\<close>

definition one_pass :: "remediation_plan_spec \<Rightarrow> string \<Rightarrow> call list \<Rightarrow> bool" where
  "one_pass spec ns cs \<longleftrightarrow> ps_approved spec \<and>
     (\<exists>as'. subseq as' (filter (\<lambda>a. \<not> ra_skip a) (ps_actions spec)) \<and> list_all2 (performs ns) as' cs)"

lemma one_pass_prefix: "one_pass spec ns cs \<Longrightarrow> prefix cs' cs \<Longrightarrow> one_pass spec ns cs'"
proof -
  assume "one_pass spec ns cs" and pre: "prefix cs' cs"
  then obtain as' where a: "ps_approved spec" "subseq as' (filter (\<lambda>a. \<not> ra_skip a) (ps_actions spec))"
    "list_all2 (performs ns) as' cs"
    by (auto simp: one_pass_def)
  have "cs' = take (length cs') cs" using pre by (metis append_eq_conv_conj prefix_def)
  then have "list_all2 (performs ns) (take (length cs') as') cs'" using a(3) by (metis list_all2_takeI)
  moreover have "subseq (take (length cs') as') as'"
    by (metis append_take_drop_id list_emb_append2 subseq_append_iff subseq_order.order_refl subseq_rev_drop_many prefix_imp_subseq take_is_prefix)
  ultimately show ?thesis
    unfolding one_pass_def using a(1,2) subseq_order.order_trans by blast
qed

lemma reconcile_step:
  assumes reads: "reads k h ns n o'" and pre: "prefix t (calls_of (RemediationPlan_Reconcile k ns n) h)"
  shows "filter acts t = [] \<and> stored k h t o' = o' \<or>
    (\<exists>p q. o' = Some p \<and> \<not> terminal_or_running (pst_phase (pl_status p)) \<and> stored k h t o' = Some q \<and>
       terminal_or_running (pst_phase (pl_status q)) \<and>
       (answers_by_name k \<longrightarrow> one_pass (pl_spec p) (pl_namespace p) (filter acts t)))"
proof (cases o')
  case None
  then show ?thesis using reads pre
    by (auto simp: reads_def reconcile_calls prefix_Cons_cases)
next
  case (Some p)
  then have got: "kc_get_plan k h ns n = Inr p" using reads by (simp add: reads_def)
  define p' where "p' = started p (kc_now k (h @ [Get_Plan ns n]))"
  define m where "m = run_actions k (pl_namespace p) (ps_actions (pl_spec p)) [] True"
  define h2 where "h2 = (h @ [Get_Plan ns n]) @ [Now, Update_Plan_Status p']"
  define f where "f = finished p' (result_of m h2) (kc_now k (h2 @ calls_of m h2))"
  have calls: "calls_of (RemediationPlan_Reconcile k ns n) h = Get_Plan ns n #
      (if \<not> ps_approved (pl_spec p) \<or> terminal_or_running (pst_phase (pl_status p)) then []
       else Now # Update_Plan_Status p' #
         (if kc_write k (h @ [Get_Plan ns n, Now]) (Update_Plan_Status p') \<noteq> None then []
          else calls_of m h2 @ [Now, Update_Plan_Status f]))"
    unfolding reconcile_calls got by (simp add: p'_def m_def h2_def f_def)
  show ?thesis
  proof (cases "ps_approved (pl_spec p) \<and> \<not> terminal_or_running (pst_phase (pl_status p)) \<and>
      kc_write k (h @ [Get_Plan ns n, Now]) (Update_Plan_Status p') = None \<and> 3 \<le> length t")
    case False
    then show ?thesis using pre Some unfolding calls
      by (auto simp: prefix_Cons_cases split: if_splits)
  next
    case True
    with pre obtain t' where t: "t = [Get_Plan ns n, Now, Update_Plan_Status p'] @ t'"
      and t': "prefix t' (calls_of m h2 @ [Now, Update_Plan_Status f])"
      unfolding calls by (auto simp: prefix_Cons_cases)
    let ?q = "p\<lparr>pl_status := pl_status p'\<rparr>"
    have st: "stored k h t o' = stored k h2 t' (Some ?q)" using True Some by (simp add: t h2_def)
    have phases: "terminal_or_running (pst_phase (pl_status p'))" "terminal_or_running (pst_phase (pl_status f))"
      by (simp_all add: terminal_or_running_def p'_def f_def started_def finished_def with_status_def)
    have body: "list_all (\<lambda>c. \<not> plan_write c) (calls_of m h2)" "answers_by_name k \<Longrightarrow> one_pass (pl_spec p) (pl_namespace p) (filter acts (calls_of m h2))"
      using run_actions_calls[of k "pl_namespace p" "ps_actions (pl_spec p)" "[]" True h2] True
      by (auto simp: m_def one_pass_def)
    consider "prefix t' (calls_of m h2)" | t'' where "t' = calls_of m h2 @ t''" "prefix t'' [Now, Update_Plan_Status f]"
      using t' by (auto simp: prefix_append)
    then have "(\<exists>q. stored k h2 t' (Some ?q) = Some q \<and> terminal_or_running (pst_phase (pl_status q))) \<and>
        prefix (filter acts t') (filter acts (calls_of m h2))"
    proof cases
      case 1
      then obtain u where u: "calls_of m h2 = t' @ u" by (auto simp: prefix_def)
      then show ?thesis using body(1) phases by (simp add: stored_quiet)
    next
      case 2
      then show ?thesis using body(1) phases
        by (auto simp: stored_append stored_quiet prefix_Cons_cases)
    qed
    then show ?thesis
      using True Some st one_pass_prefix[OF body(2)] by (auto simp: t)
  qed
qed

lemma quiet_step:
  assumes "plan_step v u" "plan_phase v = Some ph" "terminal_or_running ph"
  shows "pw_acts u = pw_acts v \<and> plan_phase u = Some ph"
proof -
  obtain p where p: "pw_plan v = Some p" "pst_phase (pl_status p) = ph" using assms(2) by (auto simp: plan_phase_def)
  from assms(1) show ?thesis
  proof cases
    case (reconciled k h ns n t)
    with reconcile_step[OF reconciled(2,3)] p assms(3) show ?thesis by (auto simp: plan_phase_def)
  next
    case (proposed k h ua t actions)
    with proposal_step[OF proposed(3), of "pw_plan v"] p show ?thesis by (auto simp: plan_phase_def)
  next
    case (edited q s)
    with p show ?thesis by (auto simp: plan_phase_def)
  qed
qed

text \<open>C5: over any sequence of reconciles, proposals, edits and crashes, a plan that has once been running or finished
  never acts again and keeps its phase: it executes at most once. This includes the plan interrupted while
  running, and the plan that a later proposal replaced: the write of the new actions leaves the old phase.\<close>

theorem plan_never_reruns:
  assumes "plan_step\<^sup>*\<^sup>* w w'" and "plan_phase w = Some ph" "terminal_or_running ph"
  shows "pw_acts w' = pw_acts w \<and> plan_phase w' = Some ph"
  using assms(1)
proof (induction rule: rtranclp_induct)
  case (step v u)
  then show ?case using quiet_step[of v u ph] assms(3) by simp
qed (use assms(2) in simp)

definition completed_plan :: remediation_plan where
  "completed_plan = with_status sample_plan (\<lambda>s. s\<lparr>pst_phase := ''completed''\<rparr>)"

text \<open>The operator replaces the actions of a completed plan, the user approves them: it stays completed.\<close>

theorem plan_never_reruns_witness:
  "\<exists>w'. plan_step\<^sup>*\<^sup>* \<lparr>pw_plan = Some completed_plan, pw_acts = []\<rparr> w' \<and>
     map_option (\<lambda>p. length (ps_actions (pl_spec p))) (pw_plan w') = Some 1 \<and>
     map_option (\<lambda>p. ps_approved (pl_spec p)) (pw_plan w') = Some True \<and>
     plan_phase w' = Some ''completed''"
proof -
  let ?k = "friendly completed_plan" and ?w = "\<lparr>pw_plan = Some completed_plan, pw_acts = []\<rparr>"
  let ?as = "[proposal ''high'', proposal ''low'']"
  let ?spec = "\<lparr>ps_analysis_ref = ''prod'', ps_approved = True, ps_actions = [plan_action 1 (proposal ''low'')]\<rparr>"
  have calls: "calls_of (createRemediationPlan ?k sample_analysis ?as) [] = [Get_Plan [] ''prod-remediation'',
      Update_Plan (completed_plan\<lparr>pl_spec := ?spec\<lparr>ps_approved := False\<rparr>, pl_status := empty_plan_status\<rparr>)]"
    by (simp add: createRemediationPlan_calls plan_actions_eq riskWithin_def risk_order_def risk_level_defs proposal_def
        sample_analysis_def friendly_answers new_plan_def completed_plan_def with_status_def replaceable_def phase_defs Let_def)
  let ?v = "\<lparr>pw_plan = Some (completed_plan\<lparr>pl_spec := ?spec\<lparr>ps_approved := False\<rparr>\<rparr>), pw_acts = []\<rparr>"
  have "plan_step ?w ?v"
    using plan_step.proposed[of ?k "[]" sample_analysis ?w _ ?as, OF _ prefix_order.order_refl]
    by (simp add: calls reads_def friendly_answers)
  moreover have "plan_step ?v (?v\<lparr>pw_plan := Some (completed_plan\<lparr>pl_spec := ?spec\<rparr>)\<rparr>)"
    using plan_step.edited[of ?v _ ?spec] by simp
  ultimately have steps: "plan_step\<^sup>*\<^sup>* ?w (?v\<lparr>pw_plan := Some (completed_plan\<lparr>pl_spec := ?spec\<rparr>)\<rparr>)"
    by (meson rtranclp.rtrancl_into_rtrancl rtranclp.rtrancl_refl)
  have "plan_phase ?w = Some ''completed''" "terminal_or_running ''completed''"
    by (simp_all add: plan_phase_def completed_plan_def with_status_def terminal_or_running_def phase_defs)
  from plan_never_reruns[OF steps this] steps show ?thesis
    by (intro exI[of _ "?v\<lparr>pw_plan := Some (completed_plan\<lparr>pl_spec := ?spec\<rparr>)\<rparr>"])
      simp
qed

end
