(* ===== verification/AI_Prompt.thy ===== *)
theory AI_Prompt
  imports Kube_Client
begin

text \<open>
  The text a model is asked, \<open>buildAIPrompt\<close> and \<open>writeGraphContext\<close> of
  \<open>internal/controller/ai_scorer.go\<close>. A section is its title, its rows and an empty line, and is left
  out when it has no row. \<open>sort.Slice\<close> is not stable, so the sorted slice of components of equal risk
  is a parameter, \<open>srt\<close>; what it is relied on for is \<open>slice_sort\<close>.
\<close>

definition nl :: string where "nl = [CHR 0x0A]"

definition rows_of :: "string list \<Rightarrow> string" where
  "rows_of rows = concat (map (\<lambda>r. r @ nl) rows)"

definition section_of :: "string \<Rightarrow> string list \<Rightarrow> string" where
  "section_of title rows = (if rows = [] then [] else title @ nl @ rows_of rows @ nl)"

text \<open>Text with its double quotes written as tildes.\<close>

definition dq :: "string \<Rightarrow> string" where
  "dq s = map (\<lambda>c. if c = CHR ''~'' then CHR 0x22 else c) s"

section \<open>The dependency graph\<close>

fun type_name :: "component_type \<Rightarrow> string" where
  "type_name TypeWorkload = ''workload''"
| "type_name TypeNetwork = ''network''"
| "type_name TypeAddon = ''addon''"
| "type_name TypeConfig = ''config''"
| "type_name TypeStorage = ''storage''"
| "type_name TypeInfra = ''infra''"

type_synonym sorter = "(component \<Rightarrow> component \<Rightarrow> bool) \<Rightarrow> component list \<Rightarrow> component list"

definition maxComponents :: nat where "maxComponents = 30"

definition riskier_first :: "component \<Rightarrow> component \<Rightarrow> bool" where
  "riskier_first a b = (c_risk a > c_risk b)"

definition risk_row :: "component \<Rightarrow> string" where
  "risk_row n = ''- '' @ c_id n @ '' ('' @ type_name (c_type n) @ '', status '' @
     (if c_status n = [] then ''-'' else c_status n) @ ''): risk '' @ dec_int (c_risk n)"

definition at_risk_rows :: "component list \<Rightarrow> string list" where
  "at_risk_rows atRisk = map risk_row (take maxComponents atRisk) @
     (if length atRisk > maxComponents
      then [''- ...and '' @ dec_int (int (length atRisk) - int maxComponents) @ '' more''] else [])"

definition dependency_row :: "edge \<Rightarrow> string" where
  "dependency_row e = ''- '' @ e_from e @ '' '' @ e_type e @ '' '' @ e_to e"

definition key_dependencies :: "component list \<Rightarrow> edge list \<Rightarrow> edge list" where
  "key_dependencies atRisk es =
     (let risky = c_id ` {n \<in> set atRisk. c_risk n \<ge> 50}
      in take 20 (filter (\<lambda>e. e_from e \<in> risky \<or> e_to e \<in> risky) es))"

definition writeGraphContext :: "sorter \<Rightarrow> graph option \<Rightarrow> string" where
  "writeGraphContext srt g0 = (case g0 of
      None \<Rightarrow> []
    | Some g \<Rightarrow>
        (let atRisk = srt riskier_first (filter (\<lambda>n. c_risk n > 0) (g_nodes g)) in
         section_of ''COMPONENTS AT RISK (0-100, propagated through dependencies):'' (at_risk_rows atRisk)
         @ section_of ''KEY DEPENDENCIES (edges touching an at-risk component):''
             (map dependency_row (key_dependencies atRisk (g_edges g)))))"

section \<open>The sections of the report\<close>

definition prompt_head :: string where
  "prompt_head = rows_of
    [''You are a Kubernetes upgrade risk assessor. Analyze the cluster state and return an upgrade readiness score from 0 to 100.'',
     [],
     ''100 = completely safe, 0 = critical risk. Focus on semantic risks that numeric metrics miss:'',
     ''- Workload criticality from names (postgres, kafka, payment suggest production data)'',
     ''- Data loss risk during node drain for stateful workloads'',
     ''- Active jobs or migrations that would be interrupted'',
     ''- Correlated failures across workloads'',
     ''- Add-on incompatibility with the target version and what depends on those add-ons (see ADD-ON COMPATIBILITY and KEY DEPENDENCIES). Treat the rule-based compatibility as a hint: confirm it and flag add-ons or dependency chains the rules may have missed.'',
     []]"

definition cluster_section :: "report \<Rightarrow> string" where
  "cluster_section r = rows_of
    [''CLUSTER:'',
     ''Current version: '' @ r_cluster_version r @ '' | Target: '' @ r_target_version r,
     ''Base score: '' @ dec_int (bs_score (sc_base (r_scores r))) @ ''/100 | Decision: '' @ dc_level (r_decision r),
     ''Reason: '' @ r_reason r,
     []]"

definition issue_row :: "string \<Rightarrow> string" where
  "issue_row issue = ''- '' @ issue"

definition node_row :: "node_report \<Rightarrow> string" where
  "node_row n = ''- '' @ nrp_name n @ '': '' @ nrp_status n"

definition ready_row :: "string \<Rightarrow> string \<Rightarrow> int \<Rightarrow> int \<Rightarrow> string" where
  "ready_row ns n ready desired = ''- '' @ ns @ ''/'' @ n @ '': '' @ dec_int ready @ ''/'' @ dec_int desired @ '' ready''"

definition job_row :: "job_report \<Rightarrow> string" where
  "job_row j = (if jr_status j = ''Failed''
     then ''- '' @ jr_namespace j @ ''/'' @ jr_name j @ '': failed ('' @ jr_reason j @ '')''
     else ''- '' @ jr_namespace j @ ''/'' @ jr_name j @ '': '' @ dec_int (jr_active j) @ '' active pods'')"

definition api_row :: "deprecated_api_report \<Rightarrow> string" where
  "api_row a = ''- '' @ dar_resource a @ '' ('' @ dar_version a @ '') removed in k8s '' @ dar_removed_in a"

definition addon_row :: "addon_compatibility \<Rightarrow> string" where
  "addon_row a = ''- '' @ ac_name a @ '' '' @ ac_version a @ '': '' @ ac_status a @
     (if ac_required_version a \<noteq> [] then '' (supported on k8s '' @ ac_required_version a @ '')'' else [])"

definition namespace_row :: "namespace_risk \<Rightarrow> string" where
  "namespace_row ns = ''- '' @ nr_namespace ns @ '': risk '' @ dec_int (nr_risk ns) @ '' ('' @ dec_int (nr_at_risk ns)
     @ ''/'' @ dec_int (nr_components ns) @ '' components at risk)''"

definition workload_sections :: "report_workloads \<Rightarrow> string" where
  "workload_sections w =
     section_of ''NODES (not Ready):'' (map node_row (filter (\<lambda>n. nrp_status n \<noteq> ''Ready'') (rw_nodes w)))
     @ section_of ''DEPLOYMENTS (not ready):''
         (map (\<lambda>d. ready_row (dr_namespace d) (dr_name d) (dr_ready_replicas d) (dr_desired_replicas d))
           (filter (\<lambda>d. dr_ready_replicas d < dr_desired_replicas d) (rw_deployments w)))
     @ section_of ''STATEFULSETS (issues):''
         (map (\<lambda>s. ready_row (sr_namespace s) (sr_name s) (sr_ready_replicas s) (sr_desired_replicas s)) (rw_statefulsets w))
     @ section_of ''JOBS WITH ISSUES:'' (map job_row (rw_jobs w))
     @ section_of ''DEPRECATED APIS:'' (map api_row (rw_deprecated_apis w))"

definition risk_section :: "risk_breakdown option \<Rightarrow> string" where
  "risk_section rk = (case rk of None \<Rightarrow> []
    | Some rb \<Rightarrow> section_of ''RISK BY NAMESPACE (0-100, higher = riskier):''
        (let risky = filter (\<lambda>ns. nr_risk ns > 0) (rb_by_namespace rb)
         in if risky = [] then [] else map namespace_row (filter (\<lambda>ns. nr_risk ns \<noteq> 0) (rb_by_namespace rb))))"

definition answer_format :: "bool \<Rightarrow> string" where
  "answer_format withRemediation = (if withRemediation then
     rows_of [''Also propose remediation actions for the detected issues.'',
       ''Valid action types: restart-pod, scale-deployment, cordon-node, delete-pod'',
       ''Valid risk levels: low, medium, high'', [],
       ''Respond ONLY with JSON, no markdown:'']
     @ dq ''{~score~: <integer 0-100>, ~reasoning~: ~<one concise paragraph>~, ~actions~: [{~type~: ~<type>~, ~namespace~: ~<ns>~, ~name~: ~<name>~, ~reason~: ~<why>~, ~risk~: ~<low|medium|high>~}]}''
   else rows_of [''Respond ONLY with JSON, no markdown:'']
     @ dq ''{~score~: <integer 0-100>, ~reasoning~: ~<one concise paragraph>~}'')"

definition buildAIPrompt :: "sorter \<Rightarrow> report \<Rightarrow> bool \<Rightarrow> string" where
  "buildAIPrompt srt r withRemediation =
     prompt_head @ cluster_section r
     @ section_of ''ISSUES:'' (map issue_row (r_issues r))
     @ workload_sections (r_workloads r)
     @ section_of ''ADD-ON COMPATIBILITY (rule-based, verify and add semantic judgement):'' (map addon_row (r_addons r))
     @ risk_section (r_risk r)
     @ writeGraphContext srt (r_graph r)
     @ answer_format withRemediation"

end
