(* ===== verification/Exporter_Props.thy ===== *)
theory Exporter_Props
  imports Exporter
begin

text \<open>
  What a destination promises: a write that succeeds is what the next read returns, a write that
  fails leaves the published report as it was. The interface is the locale \<open>report_store\<close>; the
  file exporter provides it on a disk whose operations may fail at any point. Of object storage only what its
  services document is assumed: a read that answers after a successful put answers what was put.
\<close>

locale report_store =
  fixes wr :: "'d \<Rightarrow> 's \<Rightarrow> 'e option \<times> 's" and rd :: "'s \<Rightarrow> 'r + 'd"
  assumes written: "wr d s = (None, s') \<Longrightarrow> rd s' = Inr d"
    and unchanged: "wr d s = (Some e, s') \<Longrightarrow> rd s' = rd s"
begin

text \<open>After any writes a read returns the last one that went through, or what was there before.\<close>

fun publish :: "'d list \<Rightarrow> 's \<Rightarrow> 's" where
  "publish [] s = s"
| "publish (d # ds) s = publish ds (snd (wr d s))"

fun last_published :: "'d list \<Rightarrow> 's \<Rightarrow> 'd option \<Rightarrow> 'd option" where
  "last_published [] s acc = acc"
| "last_published (d # ds) s acc = last_published ds (snd (wr d s)) (if fst (wr d s) = None then Some d else acc)"

lemma rd_write: "rd (snd (wr d s)) = (if fst (wr d s) = None then Inr d else rd s)"
  by (cases "wr d s") (auto intro: written unchanged)

lemma last_published_Some: "\<exists>y. last_published ds s (Some x) = Some y"
  by (induction ds arbitrary: s x) auto

lemma rd_published_gen:
  "(case acc of None \<Rightarrow> True | Some d \<Rightarrow> rd s = Inr d) \<Longrightarrow>
     rd (publish ds s) = (case last_published ds s acc of None \<Rightarrow> rd s | Some d \<Rightarrow> Inr d)"
proof (induction ds arbitrary: s acc)
  case (Cons d ds)
  show ?case
  proof (cases "fst (wr d s)")
    case None
    then show ?thesis
      using Cons.IH[of "snd (wr d s)" "Some d"] last_published_Some[of ds "snd (wr d s)" d] by (auto simp: rd_write)
  next
    case (Some e)
    then have same: "rd (snd (wr d s)) = rd s" using rd_write[of d s] by simp
    show ?thesis
      using Cons.IH[of "snd (wr d s)" acc] Cons.prems Some unfolding same publish.simps last_published.simps by simp
  qed
qed (simp split: option.splits)

lemma rd_published: "rd (publish ds s) = (case last_published ds s None of None \<Rightarrow> rd s | Some d \<Rightarrow> Inr d)"
  by (rule rd_published_gen) simp

end

section \<open>Files\<close>

lemma next_fault_files [simp]: "next_fault d = (f, d') \<Longrightarrow> dk_files d' = dk_files d"
  by (auto simp: next_fault_def split: list.splits)

lemma tmp_path_other [simp]: "tmp_path p \<noteq> p" "p \<noteq> tmp_path p"
  by (simp_all add: tmp_path_def)

text \<open>Only the temporary file and, on success, the published one change.\<close>

lemma File_Write_files:
  assumes "File_Write p bytes d = (r, d')"
  shows "r = None \<Longrightarrow> dk_files d' = (dk_files d)(p \<mapsto> bytes, tmp_path p := None)"
    and "r \<noteq> None \<Longrightarrow> q \<noteq> tmp_path p \<Longrightarrow> dk_files d' q = dk_files d q"
  using assms
  by (auto simp: File_Write_def os_mkdir_all_def os_write_file_def os_rename_def fun_eq_iff split: prod.splits fault.splits option.splits)

interpretation file_store: report_store "File_Write p" "File_Read p None"
proof
  show "File_Write p bytes d = (None, d') \<Longrightarrow> File_Read p None d' = Inr bytes" for bytes d d'
    using File_Write_files(1)[of p bytes d None d'] by (simp add: File_Read_def)
  show "File_Write p bytes d = (Some e, d') \<Longrightarrow> File_Read p None d' = File_Read p None d" for bytes d e d'
    using File_Write_files(2)[of p bytes d "Some e" d' p] by (simp add: File_Read_def)
qed

text \<open>C34: the file exporter publishes a report whole or not at all: whichever operation fails, and wherever in
  the data a write breaks off, a reader finds the last report whose write succeeded, or what was there before.\<close>

theorem file_reports_whole:
  "File_Read p None (file_store.publish p reports d) =
     (case file_store.last_published p reports d None of None \<Rightarrow> File_Read p None d | Some r \<Rightarrow> Inr r)"
  by (rule file_store.rd_published)

section \<open>Any destination\<close>

text \<open>
  What the storage services document, strong consistency of a read after a write: a read that follows a
  successful store and succeeds returns what was stored, and it does not find the object missing. The read may
  still fail, and nothing is said of a store that failed.
\<close>

fun agrees :: "read_error + string \<Rightarrow> string \<Rightarrow> bool" where
  "agrees (Inr d) bytes = (d = bytes)"
| "agrees (Inl (Read_Failed e)) bytes = True"
| "agrees (Inl (Not_There e)) bytes = False"

definition reads_its_writes :: "('c, 'g) sdk \<Rightarrow> bool" where
  "reads_its_writes k \<longleftrightarrow>
     (\<forall>g b n d c c'. sdk_put k g b n d c = (None, c') \<longrightarrow> agrees (sdk_get k g b n c') d) \<and>
     (\<forall>g b n d c c'. sdk_upload k g b n d c = (None, c') \<longrightarrow> agrees (sdk_download k g b n c') d)"

lemma S3_agrees: "reads_its_writes k \<Longrightarrow> S3_Write k e d s = (None, s') \<Longrightarrow> agrees (S3_Read k e s') d"
  by (fastforce simp: reads_its_writes_def S3_Write_def S3_Read_def split: sum.splits prod.splits option.splits read_error.splits)

lemma Blob_agrees: "reads_its_writes k \<Longrightarrow> Blob_Write k e d s = (None, s') \<Longrightarrow> agrees (Blob_Read k e s') d"
  by (fastforce simp: reads_its_writes_def Blob_Write_def Blob_Read_def split: sum.splits prod.splits option.splits read_error.splits)

text \<open>What was written is read back; only a store over the network may fail to answer.\<close>

lemma written_back:
  assumes "reads_its_writes k" "Write k ex bytes w = (None, w')"
  shows "Read k ex None w' = Inr bytes \<or> (\<forall>p. ex \<noteq> File_Exporter p) \<and> (\<exists>e. Read k ex None w' = Inl (Read_Failed e))"
proof -
  have cases: "r = Inr bytes \<or> (\<exists>e. r = Inl (Read_Failed e))" if "agrees r bytes" for r
    using that by (cases "(r, bytes)" rule: agrees.cases) auto
  obtain d c where w: "w = (d, c)" by (cases w)
  show ?thesis
  proof (cases ex)
    case (File_Exporter p)
    then show ?thesis using assms(2) by (auto simp: w dest: file_store.written split: prod.splits)
  next
    case (S3_Exporter x)
    then show ?thesis using assms cases[OF S3_agrees[of k x bytes c]] by (auto simp: w split: prod.splits)
  next
    case (Blob_Exporter x)
    then show ?thesis using assms cases[OF Blob_agrees[of k x bytes c]] by (auto simp: w split: prod.splits)
  qed
qed

end
