(* ===== verification/Report_Dest.thy ===== *)
theory Report_Dest
  imports Samples Exporter_Props
begin

text \<open>
  Where a report goes and how it is served: \<open>internal/controller/reportdest.go\<close> and
  \<open>internal/controller/reportserver.go\<close>. The controllers and the reports server build the exporter
  with the same function, so a report is read back where it was written.
\<close>

section \<open>Destinations\<close>

definition reportExt :: string where "reportExt = ''.mirops''"
definition reportStateWritten :: string where "reportStateWritten = ''written''"
definition reportStateFailed :: string where "reportStateFailed = ''failed''"

definition isRemote :: "source_config \<Rightarrow> bool" where
  "isRemote src = (src_type src \<in> {SourceTypeS3, SourceTypeBlob, SourceTypePVC})"

definition localReportName :: "string \<Rightarrow> source_config \<Rightarrow> string" where
  "localReportName name src =
     (let base = path_base (src_path src) in
      if src_type src = SourceTypeFile \<and> src_path src \<noteq> [] \<and> base \<noteq> ''.'' \<and> base \<noteq> ''..'' \<and> base \<noteq> ''/''
      then base else name @ reportExt)"

definition reportObjectName :: "string \<Rightarrow> string \<Rightarrow> string" where
  "reportObjectName configured name = (if configured \<noteq> [] then configured else name @ reportExt)"

text \<open>The exporter for the data of the credentials secret (empty when none is configured).\<close>

definition exporter_for :: "strmap \<Rightarrow> string \<Rightarrow> source_config \<Rightarrow> exporter" where
  "exporter_for secret name src =
     (if src_type src = SourceTypeS3 then
        S3_Exporter \<lparr>s3_bucket = src_bucket src, s3_region = src_region src, s3_key = reportObjectName (src_key src) name,
          s3_access_key_id = lget secret ''AWS_ACCESS_KEY_ID'',
          s3_secret_access_key = lget secret ''AWS_SECRET_ACCESS_KEY''\<rparr>
      else if src_type src = SourceTypeBlob then
        Blob_Exporter \<lparr>bl_account_name = src_account_name src, bl_container_name = src_container_name src,
          bl_blob_name = reportObjectName (src_blob_name src) name, bl_client_id = lget secret ''AZURE_CLIENT_ID'',
          bl_client_secret = lget secret ''AZURE_CLIENT_SECRET'', bl_tenant_id = lget secret ''AZURE_TENANT_ID''\<rparr>
      else if src_type src = SourceTypePVC then
        File_Exporter (NewFileExporter (path_join
          [if src_path src = [] then ''/mnt/mirops-reports'' else src_path src, reportObjectName [] name]))
      else File_Exporter (NewFileExporter (src_path src)))"

text \<open>\<open>%q\<close> of a secret's name: a DNS name, which needs no escape.\<close>

definition quote :: "string \<Rightarrow> string" where
  "quote s = CHR 0x22 # s @ [CHR 0x22]"

definition buildExporter :: "kube \<Rightarrow> string \<Rightarrow> string \<Rightarrow> source_config \<Rightarrow> (string + exporter) io" where
  "buildExporter k operatorNamespace name src =
     (if src_credentials_secret src = [] then State_Monad.return (Inr (exporter_for [] name src))
      else do {
        r \<leftarrow> get_secret k operatorNamespace (src_credentials_secret src);
        State_Monad.return (case r of
            Inl e \<Rightarrow> Inl (''reading credentials secret '' @ quote (src_credentials_secret src) @ '': '' @ err_text e)
          | Inr secret \<Rightarrow> Inr (exporter_for secret name src))
      })"

section \<open>The reports server\<close>

text \<open>A request is its path and its \<open>kind\<close> parameter; a response its status and body.\<close>

record http_request =
  rq_path :: string
  rq_kind :: string

datatype http_body = Text string | Json_Bytes string | Json_Error string string

record http_response =
  rs_code :: int
  rs_body :: http_body

definition http_error :: "string \<Rightarrow> int \<Rightarrow> http_response" where
  "http_error msg c = \<lparr>rs_code = c, rs_body = Text msg\<rparr>"

definition writeJSONBytes :: "int \<Rightarrow> string \<Rightarrow> http_response" where
  "writeJSONBytes status data = \<lparr>rs_code = status, rs_body = Json_Bytes data\<rparr>"

text \<open>\<open>strings.EqualFold\<close> for ASCII text.\<close>

definition equal_fold :: "string \<Rightarrow> string \<Rightarrow> bool" where
  "equal_fold a b = (map lower_char a = map lower_char b)"

definition cr_name_of :: "string \<Rightarrow> string" where
  "cr_name_of name = trim_suffix (trim_suffix name reportExt) ''.json''"

text \<open>\<open>writeReadError\<close>: 502 with the location and the error's text.\<close>

definition writeReadError :: "string \<Rightarrow> string \<Rightarrow> http_response" where
  "writeReadError location detail = \<lparr>rs_code = 502, rs_body = Json_Error location detail\<rparr>"

text \<open>
  Serving the report of a resource from its destination. \<open>io\<close> is the failure, if any, of reading a
  file.
\<close>

definition serve_source :: "kube \<Rightarrow> ('c, 'g) sdk \<Rightarrow> string \<Rightarrow> string \<Rightarrow> string option \<Rightarrow> 'c world \<Rightarrow> string
    \<Rightarrow> source_config \<Rightarrow> http_response io" where
  "serve_source k sdk reportsDir operatorNamespace io w crName src =
     (if \<not> isRemote src then
        State_Monad.return (case Read sdk (File_Exporter (path_join [reportsDir, localReportName crName src])) io w of
            Inl _ \<Rightarrow> http_error ''report not available yet'' 404
          | Inr bytes \<Rightarrow> writeJSONBytes 200 bytes)
      else do {
        b \<leftarrow> buildExporter k operatorNamespace crName src;
        State_Monad.return (case b of
            Inl e \<Rightarrow> writeReadError [] e
          | Inr ex \<Rightarrow> (case Read sdk ex io w of
              Inl (Not_There _) \<Rightarrow> http_error ''report not available yet'' 404
            | Inl (Read_Failed e) \<Rightarrow> writeReadError (Location ex) e
            | Inr bytes \<Rightarrow> writeJSONBytes 200 bytes))
      })"

definition ServeHTTP :: "kube \<Rightarrow> ('c, 'g) sdk \<Rightarrow> string \<Rightarrow> string \<Rightarrow> string option \<Rightarrow> 'c world \<Rightarrow> http_request
    \<Rightarrow> http_response io" where
  "ServeHTTP k sdk reportsDir operatorNamespace io w r =
     (let name = path_base (rq_path r) in
      if name = ''.'' \<or> name = ''/'' \<or> name = [] then State_Monad.return (http_error ''report name required'' 400)
      else let crName = cr_name_of name in
        if equal_fold (rq_kind r) ''ClusterMirror'' then do {
          g \<leftarrow> get_mirror k crName;
          case g of
            Inl _ \<Rightarrow> State_Monad.return (http_error ''report not found'' 404)
          | Inr cm \<Rightarrow> serve_source k sdk reportsDir operatorNamespace io w crName (cms_source (clm_spec cm))
        } else do {
          g \<leftarrow> get_analysis k crName;
          case g of
            Inl _ \<Rightarrow> State_Monad.return (http_error ''report not found'' 404)
          | Inr ua \<Rightarrow> serve_source k sdk reportsDir operatorNamespace io w crName (uas_source (ua_spec ua))
        })"

section \<open>Reading back what was written\<close>

lemma path_join_nonempty: "b \<noteq> [] \<Longrightarrow> path_join [a, b] \<noteq> []"
  by (auto simp: path_join_def path_clean_def Let_def)

lemma local_name_nonempty: "localReportName name src \<noteq> []"
  by (auto simp: localReportName_def reportExt_def path_base_def Let_def)

text \<open>Where the report of a resource goes, given the data of the credentials secret.\<close>

definition destination :: "string \<Rightarrow> strmap \<Rightarrow> string \<Rightarrow> source_config \<Rightarrow> exporter" where
  "destination dir secret n src = (if isRemote src then exporter_for (if src_credentials_secret src = [] then [] else secret) n src
     else File_Exporter (path_join [dir, localReportName n src]))"

lemma local_file: "NewFileExporter (path_join [d, localReportName n src]) = path_join [d, localReportName n src]"
  by (simp add: NewFileExporter_def path_join_nonempty local_name_nonempty)

lemma trim_suffix_append: "trim_suffix (s @ t) t = s"
  by (simp add: trim_suffix_def has_suffix_def has_prefix_def)

lemma cr_name_of_ext: "\<not> has_suffix n ''.json'' \<Longrightarrow> cr_name_of (n @ ''.mirops'') = n"
  using trim_suffix_append[of n "''.mirops''"] by (simp add: cr_name_of_def reportExt_def trim_suffix_def[of n])

lemma path_base_plain: "CHR ''/'' \<notin> set p \<Longrightarrow> p \<noteq> [] \<Longrightarrow> path_base p = p"
proof -
  assume p: "CHR ''/'' \<notin> set p" "p \<noteq> []"
  then have dw: "dropWhile (\<lambda>c. c = CHR ''/'') (rev p) = rev p"
    by (cases "rev p") (auto dest!: arg_cong[where f = set])
  have tw: "takeWhile (\<lambda>c. c \<noteq> CHR ''/'') (rev p) = rev p"
    by (rule takeWhile_eq_all_conv[THEN iffD2]) (use p in auto)
  show ?thesis using p(2) by (simp add: path_base_def dw tw)
qed

text \<open>Where the requested resource keeps its reports.\<close>

definition resource_source :: "kube \<Rightarrow> history \<Rightarrow> string \<Rightarrow> string \<Rightarrow> api_error + source_config" where
  "resource_source k h kind n = (if equal_fold kind ''ClusterMirror''
     then map_sum id (\<lambda>cm. cms_source (clm_spec cm)) (kc_get_mirror k h n)
     else map_sum id (\<lambda>ua. uas_source (ua_spec ua)) (kc_get_analysis k h n))"

lemma served_back:
  fixes k ns kind h
  assumes "Read sdk (destination dir secret n src) None w' = Inr bytes \<or>
      isRemote src \<and> (\<exists>e. Read sdk (destination dir secret n src) None w' = Inl (Read_Failed e))"
    and "CHR ''/'' \<notin> set n" "\<not> has_suffix n ''.json''"
    and "\<And>h. resource_source k h kind n = Inr src"
    and "\<And>h. src_credentials_secret src \<noteq> [] \<Longrightarrow> kc_get_secret k h ns (src_credentials_secret src) = Inr secret"
  defines "ans \<equiv> result_of (ServeHTTP k sdk dir ns None w' \<lparr>rq_path = n @ ''.mirops'', rq_kind = kind\<rparr>) h"
  shows "ans = \<lparr>rs_code = 200, rs_body = Json_Bytes bytes\<rparr> \<or>
    isRemote src \<and> (\<exists>e. Read sdk (destination dir secret n src) None w' = Inl (Read_Failed e) \<and>
      ans = \<lparr>rs_code = 502, rs_body = Json_Error (Location (destination dir secret n src)) e\<rparr>)"
proof -
  have "path_base (n @ ''.mirops'') = n @ ''.mirops''" using assms(2) by (intro path_base_plain) simp_all
  moreover have "n @ ''.mirops'' \<notin> {[], ''.'', ''/''}"
    using arg_cong[where f = length] by fastforce
  moreover have "cr_name_of (n @ ''.mirops'') = n" by (rule cr_name_of_ext[OF assms(3)])
  moreover have "result_of (serve_source k sdk dir ns None w' n src) h' = \<lparr>rs_code = 200, rs_body = Json_Bytes bytes\<rparr> \<or>
      isRemote src \<and> (\<exists>e. Read sdk (destination dir secret n src) None w' = Inl (Read_Failed e) \<and>
        result_of (serve_source k sdk dir ns None w' n src) h' =
          \<lparr>rs_code = 502, rs_body = Json_Error (Location (destination dir secret n src)) e\<rparr>)" for h'
    using assms(1,5)
    by (auto simp: destination_def serve_source_def writeJSONBytes_def writeReadError_def buildExporter_def get_secret_def
        simp del: Read.simps Location.simps)
  ultimately show ?thesis
    using assms(4)[of h] unfolding ans_def
    by (cases "kc_get_mirror k h n"; cases "kc_get_analysis k h n")
      (auto simp: ServeHTTP_def Let_def get_analysis_def get_mirror_def resource_source_def split: if_splits)
qed

lemma memory_reads_its_writes: "reads_its_writes memory"
  by (simp add: reads_its_writes_def memory_def memory_put_def memory_get_def)

lemma memory_writes: "Write memory (S3_Exporter x) bytes (d, c) = (None, (d, c((s3_bucket x, s3_key x) \<mapsto> bytes)))"
  by (simp add: S3_Write_def s3_loadConfig_def memory_def memory_put_def)

definition s3_source :: source_config where
  "s3_source = no_source\<lparr>src_type := ''s3'', src_bucket := ''reports''\<rparr>"

definition s3_analysis :: upgrade_analysis where
  "s3_analysis = sample_analysis\<lparr>ua_spec := (ua_spec sample_analysis)\<lparr>uas_source := s3_source\<rparr>\<rparr>"

text \<open>The ending that is taken off makes a resource whose own name ends in .json unreachable: its report is
  looked up under the shorter name.\<close>

lemma json_name_lost: "cr_name_of ((n @ ''.json'') @ ''.mirops'') = n"
  using trim_suffix_append[of "n @ ''.json''" "''.mirops''"] trim_suffix_append[of n "''.json''"]
  by (simp add: cr_name_of_def reportExt_def)

end
