(* ===== verification/AI_Scorer.thy ===== *)
theory AI_Scorer
  imports AI_Prompt Remediation Report_Dest
begin

text \<open>
  Asking a model for a score, \<open>internal/controller/ai_scorer.go\<close>. The controller keeps the last
  answer per analysis in memory; the cache is threaded through. The JSON decoder and the SHA-256 hash
  are parameters, like the two model services.
\<close>

section \<open>The cache\<close>

record ai_score_response =
  air_score :: int
  air_reasoning :: string
  air_actions :: "ai_action_entry list"

record ai_cache_entry =
  ce_hash :: string
  ce_score :: int
  ce_reasoning :: string
  ce_actions :: "ai_action_entry list"

type_synonym ai_cache = "string \<rightharpoonup> ai_cache_entry"

definition aiCacheGet :: "ai_cache \<Rightarrow> string \<Rightarrow> string \<Rightarrow> ai_cache_entry option" where
  "aiCacheGet cache key hash = (case cache key of
      None \<Rightarrow> None | Some e \<Rightarrow> if ce_hash e = hash then Some e else None)"

definition aiCachePut :: "string \<Rightarrow> ai_cache_entry \<Rightarrow> ai_cache \<Rightarrow> ai_cache" where
  "aiCachePut key e cache = cache(key \<mapsto> e)"

section \<open>Calling a model\<close>

text \<open>
  \<open>al_sha256\<close> is the hexadecimal digest, \<open>al_decode\<close> is \<open>json.Unmarshal\<close> into \<open>aiScoreResponse\<close>, with
  the error's text, \<open>al_error_body\<close> is the message of an Anthropic error body, if it decodes, and
  \<open>al_sort\<close> is \<open>sort.Slice\<close>.
\<close>

record ai_libs =
  al_sha256 :: "string \<Rightarrow> string"
  al_decode :: "string \<Rightarrow> string + ai_score_response"
  al_error_body :: "string \<Rightarrow> string option"
  al_sort :: sorter

fun wrap_error :: "string \<Rightarrow> ai_error \<Rightarrow> ai_error" where
  "wrap_error p (OpenAI_Error st ty msg txt) = OpenAI_Error st ty msg (p @ txt)"
| "wrap_error p (Anthropic_Error st ty raw txt) = Anthropic_Error st ty raw (p @ txt)"
| "wrap_error p (Other_Error txt) = Other_Error (p @ txt)"

fun ai_error_text :: "ai_error \<Rightarrow> string" where
  "ai_error_text (OpenAI_Error st ty msg txt) = txt"
| "ai_error_text (Anthropic_Error st ty raw txt) = txt"
| "ai_error_text (Other_Error txt) = txt"

definition callAnthropic :: "kube \<Rightarrow> string \<Rightarrow> string \<Rightarrow> string \<Rightarrow> int \<Rightarrow> (ai_error + string) io" where
  "callAnthropic k apiKey model prompt maxTokens = do {
     r \<leftarrow> ask_model k (Ask_Model AIProviderAnthropic apiKey (if model = [] then ''claude-sonnet-4-6'' else model)
       prompt maxTokens);
     State_Monad.return (case r of
         Inl e \<Rightarrow> Inl (wrap_error ''calling Anthropic API: '' e)
       | Inr [] \<Rightarrow> Inl (Other_Error ''empty response from Anthropic'')
       | Inr (t # _) \<Rightarrow> Inr t)
   }"

definition callOpenAI :: "kube \<Rightarrow> string \<Rightarrow> string \<Rightarrow> string \<Rightarrow> int \<Rightarrow> (ai_error + string) io" where
  "callOpenAI k apiKey model prompt maxTokens = do {
     r \<leftarrow> ask_model k (Ask_Model AIProviderOpenAI apiKey (if model = [] then ''gpt-4o'' else model) prompt maxTokens);
     State_Monad.return (case r of
         Inl e \<Rightarrow> Inl (wrap_error ''calling OpenAI API: '' e)
       | Inr [] \<Rightarrow> Inl (Other_Error ''empty response from OpenAI'')
       | Inr (t # _) \<Rightarrow> Inr t)
   }"

definition readAIAPIKey :: "kube \<Rightarrow> string \<Rightarrow> ai_config \<Rightarrow> (ai_error + string) io" where
  "readAIAPIKey k operatorNamespace ai =
     (if aic_credentials_secret ai = []
      then State_Monad.return (Inl (Other_Error ''ai.credentialsSecret is required when ai.enabled is true''))
      else do {
        r \<leftarrow> get_secret k operatorNamespace (aic_credentials_secret ai);
        State_Monad.return (case r of
            Inl e \<Rightarrow> Inl (Other_Error (''reading AI credentials secret '' @ quote (aic_credentials_secret ai) @ '': '' @ err_text e))
          | Inr data \<Rightarrow>
              (let keyName = (if aic_provider ai = AIProviderOpenAI then ''OPENAI_API_KEY'' else ''ANTHROPIC_API_KEY'');
                   key = lget data keyName
               in if key = [] then Inl (Other_Error (keyName @ '' not found in secret '' @ quote (aic_credentials_secret ai)))
                  else Inr key))
      })"

definition unfence :: "string \<Rightarrow> string" where
  "unfence text =
     trim_space (trim_suffix (trim_prefix (trim_prefix (trim_space text) ''```json'') ''```'') ''```'')"

definition parseAIResponse :: "ai_libs \<Rightarrow> string \<Rightarrow> ai_error + ai_score_response" where
  "parseAIResponse libs raw =
     (let text = unfence raw in
      case al_decode libs text of
        Inl e \<Rightarrow> Inl (Other_Error (''parsing AI response: '' @ e @ '' (raw: '' @ text @ '')''))
      | Inr resp \<Rightarrow>
          if air_score resp < 0 \<or> air_score resp > 100
          then Inl (Other_Error (''AI score '' @ dec_int (air_score resp) @ '' out of range [0, 100]''))
          else Inr resp)"

section \<open>Scoring\<close>

definition max_tokens :: "ai_config \<Rightarrow> int" where
  "max_tokens ai = (if aic_max_tokens ai \<le> 0 then 2048 else aic_max_tokens ai)"

definition cache_key :: "string \<Rightarrow> string \<Rightarrow> int \<Rightarrow> string \<Rightarrow> string" where
  "cache_key provider model maxTokens prompt =
     provider @ [CHR 0x00] @ model @ [CHR 0x00] @ dec_int maxTokens @ [CHR 0x00] @ prompt"

definition request_hash :: "ai_libs \<Rightarrow> ai_config \<Rightarrow> string \<Rightarrow> string" where
  "request_hash libs ai prompt =
     al_sha256 libs (cache_key (aic_provider ai) (aic_model ai) (max_tokens ai) prompt)"

definition call_provider :: "kube \<Rightarrow> ai_config \<Rightarrow> string \<Rightarrow> string \<Rightarrow> (ai_error + string) io" where
  "call_provider k ai apiKey prompt =
     (if aic_provider ai = AIProviderOpenAI then callOpenAI k apiKey (aic_model ai) prompt (max_tokens ai)
      else callAnthropic k apiKey (aic_model ai) prompt (max_tokens ai))"

definition scoreWithAI :: "kube \<Rightarrow> ai_libs \<Rightarrow> string \<Rightarrow> upgrade_analysis \<Rightarrow> report \<Rightarrow> ai_cache
    \<Rightarrow> ((ai_error + int \<times> string \<times> ai_action_entry list) \<times> ai_cache) io" where
  "scoreWithAI k libs operatorNamespace ua rep cache = do {
     let ai = uas_ai (ua_spec ua);
     key \<leftarrow> readAIAPIKey k operatorNamespace ai;
     case key of
       Inl e \<Rightarrow> State_Monad.return (Inl e, cache)
     | Inr apiKey \<Rightarrow> do {
         let prompt = buildAIPrompt (al_sort libs) rep (rc_enabled (aic_remediation ai));
         let hash = request_hash libs ai prompt;
         case aiCacheGet cache (ua_name ua) hash of
           Some e \<Rightarrow> State_Monad.return (Inr (ce_score e, ce_reasoning e, ce_actions e), cache)
         | None \<Rightarrow> do {
             raw \<leftarrow> call_provider k ai apiKey prompt;
             State_Monad.return (case raw of
                 Inl e \<Rightarrow> (Inl e, cache)
               | Inr text \<Rightarrow> (case parseAIResponse libs text of
                   Inl e \<Rightarrow> (Inl e, cache)
                 | Inr resp \<Rightarrow> (Inr (air_score resp, air_reasoning resp, air_actions resp),
                     aiCachePut (ua_name ua) \<lparr>ce_hash = hash, ce_score = air_score resp,
                       ce_reasoning = air_reasoning resp, ce_actions = air_actions resp\<rparr> cache)))
           }
       }
   }"

section \<open>Explaining an error\<close>

definition error_category :: "int \<Rightarrow> string \<Rightarrow> string \<Rightarrow> string" where
  "error_category status errType message =
     (let lowerMsg = to_lower message in
      if status = 401 \<or> str_contains errType ''authentication'' then ''invalid or unauthorized API key''
      else if status = 403 \<or> str_contains errType ''permission'' then ''permission denied for this model or account''
      else if str_contains lowerMsg ''credit'' \<or> str_contains lowerMsg ''billing'' \<or> str_contains lowerMsg ''quota''
          \<or> str_contains lowerMsg ''insufficient'' then ''insufficient credit/quota on the AI account''
      else if status = 429 \<or> str_contains errType ''rate_limit''
        then ''rate limit exceeded '' @ em_dash @ '' retry later''
      else if status = 404 \<or> str_contains errType ''not_found''
        then ''model not found '' @ em_dash @ '' check spec.ai.model''
      else if status = 529 \<or> str_contains errType ''overloaded''
        then ''AI service overloaded '' @ em_dash @ '' retry later''
      else if status \<ge> 500 then ''AI service internal error''
      else ''AI API call failed'')"

definition formatAPIError :: "string \<Rightarrow> int \<Rightarrow> string \<Rightarrow> string \<Rightarrow> string" where
  "formatAPIError provider status errType message =
     (let category = error_category status errType message in
      if message \<noteq> [] then category @ '': '' @ message @ '' ['' @ provider @ '' HTTP '' @ dec_int status @ '']''
      else category @ '' ['' @ provider @ '' HTTP '' @ dec_int status @ '']'')"

definition extractAnthropicMessage :: "ai_libs \<Rightarrow> string \<Rightarrow> string" where
  "extractAnthropicMessage libs raw =
     (if raw = [] then [] else case al_error_body libs raw of None \<Rightarrow> [] | Some m \<Rightarrow> m)"

fun classifyAIError :: "ai_libs \<Rightarrow> string \<Rightarrow> ai_error \<Rightarrow> string" where
  "classifyAIError libs provider (OpenAI_Error st ty msg txt) =
     (if provider = AIProviderOpenAI then formatAPIError ''OpenAI'' st ty msg else txt)"
| "classifyAIError libs provider (Anthropic_Error st ty raw txt) =
     (if provider = AIProviderOpenAI then txt
      else formatAPIError ''Anthropic'' st ty (extractAnthropicMessage libs raw))"
| "classifyAIError libs provider (Other_Error txt) = txt"

end
