(* ===== verification/Upgrade_Controller.thy ===== *)
theory Upgrade_Controller
  imports AI_Scorer Score
begin

text \<open>
  The upgrade analysis controller, \<open>internal/controller/upgradeanalysis_controller.go\<close>: from one
  read of an \<open>UpgradeAnalysis\<close> to the write of its status. The semver package, the YAML decoder, the
  embedded compatibility matrix and the RFC 3339 rendering of a time are parameters.
\<close>

record 'v analysis_libs =
  an_semver :: "'v semver_lib"
  an_yaml :: "string \<Rightarrow> string + (string \<times> compat_rule list) list"
  an_matrix :: matrix
  an_rfc3339 :: "int \<Rightarrow> string"
  an_ai :: ai_libs

record operator =
  op_reports_dir :: string
  op_namespace :: string

section \<open>Versions\<close>

definition majorMinor :: "string \<Rightarrow> int \<times> int" where
  "majorMinor version =
     (let parts = split_byte CHR ''.'' (trim_prefix version ''v'') in
      if length parts < 2 then (0, 0) else (atoi_value (parts ! 0), atoi_value (parts ! 1)))"

definition versionIsHigher :: "string \<Rightarrow> string \<Rightarrow> bool" where
  "versionIsHigher target current =
     (let (tMaj, tMin) = majorMinor target; (cMaj, cMin) = majorMinor current in
      if tMaj \<noteq> cMaj then tMaj > cMaj else tMin > cMin)"

section \<open>The stages of a reconcile\<close>

definition with_ust :: "upgrade_analysis \<Rightarrow> (upgrade_analysis_status \<Rightarrow> upgrade_analysis_status) \<Rightarrow> upgrade_analysis" where
  "with_ust ua f = ua\<lparr>ua_status := f (ua_status ua)\<rparr>"

definition refreshAnnotation :: string where "refreshAnnotation = ''mirops.io/refresh''"

definition spec_changed :: "upgrade_analysis \<Rightarrow> bool" where
  "spec_changed ua = (ua_generation ua \<noteq> ust_observed_generation (ua_status ua))"

definition refresh_requested :: "upgrade_analysis \<Rightarrow> bool" where
  "refresh_requested ua = (lget (ua_annotations ua) refreshAnnotation \<noteq> ust_last_refresh (ua_status ua))"

abbreviation resync_interval :: "upgrade_analysis \<Rightarrow> int" where
  "resync_interval ua \<equiv> rsc_interval (uas_resync (ua_spec ua))"

text \<open>\<open>Some\<close> is an early return. The clock is read once for the test and again for the delay.\<close>

definition resync_wait :: "kube \<Rightarrow> upgrade_analysis \<Rightarrow> outcome option io" where
  "resync_wait k ua = (case ust_last_analysis_time (ua_status ua) of
      None \<Rightarrow> State_Monad.return None
    | Some last_time \<Rightarrow>
        if resync_interval ua > 0 \<and> \<not> spec_changed ua \<and> \<not> refresh_requested ua then do {
          t \<leftarrow> now k;
          if t < last_time + resync_interval ua then do {
            t' \<leftarrow> now k;
            State_Monad.return (Some (Requeue_After (last_time + resync_interval ua - t')))
          } else State_Monad.return None
        } else State_Monad.return None)"

definition scope_of :: "scope_config \<Rightarrow> scope" where
  "scope_of s = \<lparr>scope_mode = (if sco_mode s = [] then ''all'' else sco_mode s), scope_exclude = sco_exclude_namespaces s\<rparr>"

definition with_previous :: "upgrade_analysis \<Rightarrow> cluster_snapshot \<Rightarrow> cluster_snapshot" where
  "with_previous ua snap = snap\<lparr>s_previous_total_pods := ust_last_total_pods (ua_status ua),
     s_previous_restarts := ust_last_total_restarts (ua_status ua)\<rparr>"

definition reject_reason :: "string \<Rightarrow> string \<Rightarrow> string" where
  "reject_reason target current =
     (if majorMinor target = majorMinor current
      then ''cluster is already running version '' @ current @ '' '' @ em_dash @ '' targetVersion must be higher than the current version''
      else ''targetVersion '' @ target @ '' is lower than current cluster version '' @ current @ '' '' @ em_dash
        @ '' downgrades are not supported'')"

definition reject_version :: "kube \<Rightarrow> upgrade_analysis \<Rightarrow> cluster_snapshot \<Rightarrow> outcome io" where
  "reject_version k ua snap = do {
     t \<leftarrow> now k;
     w \<leftarrow> kwrite k (Update_Analysis_Status (with_ust ua (\<lambda>s. s\<lparr>ust_decision := ''ERROR'',
       ust_reason := reject_reason (uas_target_version (ua_spec ua)) (s_cluster_version snap),
       ust_last_analysis_time := Some t\<rparr>)));
     State_Monad.return (case w of Some e \<Rightarrow> Retry e | None \<Rightarrow> Finished)
   }"

definition compatMatrixConfigMap :: string where "compatMatrixConfigMap = ''mirops-compatibility-matrix''"

text \<open>The matrix and the error, if any, of decoding the override.\<close>

definition loadCompatMatrix :: "kube \<Rightarrow> 'v analysis_libs \<Rightarrow> string \<Rightarrow> (matrix \<times> string option) io" where
  "loadCompatMatrix k libs ns = do {
     r \<leftarrow> get_config_map k ns compatMatrixConfigMap;
     State_Monad.return (case r of
         Inl e \<Rightarrow> (DefaultMatrix (an_matrix libs), None)
       | Inr data \<Rightarrow> LoadMatrix (an_yaml libs) (an_matrix libs) (lget data ''matrix.yaml''))
   }"

definition matrix_or_default :: "'v analysis_libs \<Rightarrow> matrix \<times> string option \<Rightarrow> matrix" where
  "matrix_or_default libs r = (case snd r of Some e \<Rightarrow> DefaultMatrix (an_matrix libs) | None \<Rightarrow> fst r)"

definition upgradeImpact :: "addon_compatibility list \<Rightarrow> graph \<Rightarrow> addon_impact list" where
  "upgradeImpact addons g = map (\<lambda>a. \<lparr>im_addon = ac_name a, im_version = ac_version a,
       im_required_version = ac_required_version a, im_affected = Dependents g (AddonID (ac_name a))\<rparr>)
     (filter (\<lambda>a. \<not> ac_status a \<noteq> ''incompatible'') addons)"

definition addon_statuses :: "addon_compatibility list \<Rightarrow> (string \<rightharpoonup> string)" where
  "addon_statuses addons = fold (\<lambda>a m. m(ac_name a \<mapsto> ac_status a)) addons Map.empty"

text \<open>Evaluating, scoring and mirroring a snapshot; the result is the report and the count of incompatible add-ons.\<close>

definition assess :: "'v analysis_libs \<Rightarrow> upgrade_analysis \<Rightarrow> cluster_snapshot \<Rightarrow> matrix \<Rightarrow> int \<Rightarrow> report \<times> int" where
  "assess libs ua snap m t =
     (let (addonResults, incompatible) = Evaluate (an_semver libs) (s_detected_addons snap) (uas_target_version (ua_spec ua)) m;
          snapshot = snap\<lparr>s_addon_issues := incompatible\<rparr>;
          rep = Calculate snapshot (uas_target_version (ua_spec ua)) (uas_scoring_profile (ua_spec ua));
          (g, nsRisk) = ApplyRisk (BuildFromSnapshot snapshot) (addon_statuses addonResults)
      in (rep\<lparr>r_generated_at := an_rfc3339 libs t, r_cluster := ua_name ua, r_addons := addonResults, r_graph := Some g,
            r_risk := Some \<lparr>rb_by_namespace = nsRisk\<rparr>, r_upgrade_impact := upgradeImpact addonResults g\<rparr>,
          incompatible))"

definition model_name :: "ai_config \<Rightarrow> string" where
  "model_name ai = (if aic_model ai = []
     then (if aic_provider ai = AIProviderOpenAI then ''gpt-4o'' else ''claude-sonnet-4-6'') else aic_model ai)"

definition apply_ai :: "kube \<Rightarrow> ai_libs \<Rightarrow> string \<Rightarrow> upgrade_analysis \<Rightarrow> report \<Rightarrow> ai_cache
    \<Rightarrow> (upgrade_analysis \<times> report \<times> ai_cache) io" where
  "apply_ai k libs ns ua rep cache =
     (let ai = uas_ai (ua_spec ua) in
      if \<not> aic_enabled ai then State_Monad.return (ua, rep, cache)
      else do {
        r \<leftarrow> scoreWithAI k libs ns ua rep cache;
        case fst r of
          Inl e \<Rightarrow> State_Monad.return
            (with_ust ua (\<lambda>s. s\<lparr>ust_ai_error := classifyAIError libs (aic_provider ai) e\<rparr>), rep, snd r)
        | Inr ans \<Rightarrow>
            let ua' = with_ust ua (\<lambda>s. s\<lparr>ust_ai_error := [], ust_ai_model := model_name ai\<rparr>);
                rep' = ApplyAIScore rep (fst ans) (fst (snd ans)) (model_name ai) (uas_scoring_profile (ua_spec ua))
            in if rc_enabled (aic_remediation ai) \<and> snd (snd ans) \<noteq> [] then do {
                 _ \<leftarrow> createRemediationPlan k ua' (snd (snd ans));
                 State_Monad.return (ua', rep', snd r)
               } else State_Monad.return (ua', rep', snd r)
      })"

text \<open>Writing the report: the local path, the location and the error, if any.\<close>

definition write_report :: "kube \<Rightarrow> operator \<Rightarrow> upgrade_analysis \<Rightarrow> report \<Rightarrow> (string \<times> string \<times> string option) io" where
  "write_report k op ua rep =
     (if src_type (uas_source (ua_spec ua)) \<in> {SourceTypeS3, SourceTypeBlob, SourceTypePVC} then do {
        b \<leftarrow> buildExporter k (op_namespace op) (ua_name ua) (uas_source (ua_spec ua));
        case b of
          Inl e \<Rightarrow> State_Monad.return ([], [], Some e)
        | Inr ex \<Rightarrow> do {
            w \<leftarrow> export k (Export_Analysis ex rep);
            State_Monad.return ([], Location ex, w)
          }
      } else do {
        let localPath = path_join [op_reports_dir op, localReportName (ua_name ua) (uas_source (ua_spec ua))];
        w \<leftarrow> export k (Export_Analysis (File_Exporter (NewFileExporter localPath)) rep);
        State_Monad.return (localPath, localPath, w)
      })"

definition record_report :: "upgrade_analysis \<Rightarrow> string \<times> string \<times> string option \<Rightarrow> upgrade_analysis" where
  "record_report ua r = (case r of (path, location, failure) \<Rightarrow>
     with_ust ua (\<lambda>s. s\<lparr>ust_report_path := path, ust_report_location := location,
       ust_report_state := (if failure = None then reportStateWritten else reportStateFailed),
       ust_report_error := (case failure of None \<Rightarrow> [] | Some e \<Rightarrow> e)\<rparr>))"

definition persist_report :: "kube \<Rightarrow> operator \<Rightarrow> upgrade_analysis \<Rightarrow> report \<Rightarrow> upgrade_analysis io" where
  "persist_report k op ua rep = do {
     r \<leftarrow> write_report k op ua rep;
     State_Monad.return (record_report ua r)
   }"

definition final_status :: "upgrade_analysis \<Rightarrow> cluster_snapshot \<Rightarrow> report \<Rightarrow> int \<Rightarrow> upgrade_analysis" where
  "final_status ua snap rep t = with_ust ua (\<lambda>s. s\<lparr>
     ust_decision := dc_level (r_decision rep), ust_total_score := sc_total (r_scores rep),
     ust_ai_score := as_score (sc_ai (r_scores rep)), ust_ai_reasoning := r_ai_reasoning rep, ust_reason := r_reason rep,
     ust_last_analysis_time := Some t, ust_last_refresh := lget (ua_annotations ua) refreshAnnotation,
     ust_observed_generation := ua_generation ua, ust_last_total_pods := s_total_pods snap,
     ust_last_total_restarts := s_total_restarts snap\<rparr>)"

section \<open>Which writes wake the controller\<close>

text \<open>
  The event filter: an update of the object from the first to the second value is queued. The
  predicates of controller-runtime compare the generations and the annotations.
\<close>

definition analysis_event :: "upgrade_analysis \<Rightarrow> upgrade_analysis \<Rightarrow> bool" where
  "analysis_event old new \<longleftrightarrow> ua_generation old \<noteq> ua_generation new \<or> ua_annotations old \<noteq> ua_annotations new"

section \<open>Reconcile\<close>

definition analyse :: "kube \<Rightarrow> 'v analysis_libs \<Rightarrow> operator \<Rightarrow> upgrade_analysis \<Rightarrow> cluster_snapshot \<Rightarrow> ai_cache
    \<Rightarrow> (outcome \<times> ai_cache) io" where
  "analyse k libs op ua snap cache = do {
     m \<leftarrow> loadCompatMatrix k libs (op_namespace op);
     t \<leftarrow> now k;
     let rep = fst (assess libs ua snap (matrix_or_default libs m) t);
     let incompatible = snd (assess libs ua snap (matrix_or_default libs m) t);
     let ua1 = with_ust ua (\<lambda>s. s\<lparr>ust_addons_checked := int (length (r_addons rep)), ust_incompatible_addons := incompatible\<rparr>);
     r \<leftarrow> apply_ai k (an_ai libs) (op_namespace op) ua1 rep cache;
     let final = ApplyGraphDecision (fst (snd r));
     ua2 \<leftarrow> persist_report k op (fst r) final;
     w \<leftarrow> kwrite k (Update_Analysis_Status (final_status ua2 snap final t));
     State_Monad.return
       (case w of Some e \<Rightarrow> Retry e
          | None \<Rightarrow> if resync_interval ua > 0 then Requeue_After (resync_interval ua) else Finished,
        snd (snd r))
   }"

definition UpgradeAnalysis_Reconcile :: "kube \<Rightarrow> 'v analysis_libs \<Rightarrow> operator \<Rightarrow> string \<Rightarrow> ai_cache
    \<Rightarrow> (outcome \<times> ai_cache) io" where
  "UpgradeAnalysis_Reconcile k libs op n cache = do {
     got \<leftarrow> get_analysis k n;
     case got of
       Inl e \<Rightarrow> State_Monad.return (ignore_not_found e, cache)
     | Inr ua \<Rightarrow> do {
         wait \<leftarrow> resync_wait k ua;
         case wait of
           Some out \<Rightarrow> State_Monad.return (out, cache)
         | None \<Rightarrow> do {
             c \<leftarrow> collect_cluster k (scope_of (uas_scope (ua_spec ua)));
             case c of
               Inl e \<Rightarrow> State_Monad.return (Retry (Api_Error e), cache)
             | Inr collected \<Rightarrow>
                 let snap = with_previous ua collected in
                 if \<not> versionIsHigher (uas_target_version (ua_spec ua)) (s_cluster_version snap)
                 then do { out \<leftarrow> reject_version k ua snap; State_Monad.return (out, cache) }
                 else analyse k libs op ua snap cache
           }
       }
   }"

end
