(* ===== verification/Mirror_Controller.thy ===== *)
theory Mirror_Controller
  imports Upgrade_Controller
begin

text \<open>
  The cluster mirror controller, \<open>internal/controller/clustermirror_controller.go\<close>: rebuild the graph,
  publish the mirror report, record both on the status and come back after the interval. The names of
  listed analyses are distinct, so the slice sorted by name does not depend on \<open>sort.Slice\<close> being
  stable. \<open>fmt_time\<close> is the RFC 3339 rendering of a time.
\<close>

definition defaultMirrorInterval :: int where "defaultMirrorInterval = 5 * 60 * 10 ^ 9"

definition mirror_interval :: "cluster_mirror \<Rightarrow> int" where
  "mirror_interval cm = (let interval = rfc_interval (cms_refresh (clm_spec cm)) in
     if interval \<le> 0 then defaultMirrorInterval else interval)"

definition with_cmst :: "cluster_mirror \<Rightarrow> (cluster_mirror_status \<Rightarrow> cluster_mirror_status) \<Rightarrow> cluster_mirror" where
  "with_cmst cm f = cm\<lparr>clm_status := f (clm_status cm)\<rparr>"

section \<open>The upgrade summary\<close>

definition analysis_summary :: "(int \<Rightarrow> string) \<Rightarrow> upgrade_analysis \<Rightarrow> upgrade_analysis_summary" where
  "analysis_summary fmt_time ua =
     \<lparr>us_name = ua_name ua, us_target_version = uas_target_version (ua_spec ua), us_decision = ust_decision (ua_status ua),
      us_score = ust_total_score (ua_status ua),
      us_last_analysis_time = (case ust_last_analysis_time (ua_status ua) of None \<Rightarrow> [] | Some t \<Rightarrow> fmt_time t),
      us_report = localReportName (ua_name ua) (uas_source (ua_spec ua)),
      us_location = (let t = src_type (uas_source (ua_spec ua)) in
        if t = SourceTypeS3 \<or> t = SourceTypeBlob then ust_report_location (ua_status ua) else [])\<rparr>"

definition name_less :: "upgrade_analysis \<Rightarrow> upgrade_analysis \<Rightarrow> bool" where
  "name_less a b = (ua_name a < ua_name b)"

definition upgradeSummary :: "kube \<Rightarrow> (int \<Rightarrow> string) \<Rightarrow> bool \<Rightarrow> mirror_upgrade io" where
  "upgradeSummary k fmt_time upgradeEnabled =
     (if \<not> upgradeEnabled then State_Monad.return \<lparr>mu_enabled = False, mu_analyses = [], mu_error = []\<rparr>
      else do {
        r \<leftarrow> list_analyses k;
        State_Monad.return (case r of
            Inl e \<Rightarrow> \<lparr>mu_enabled = True, mu_analyses = [], mu_error = ''could not list upgrade analyses: '' @ err_text e\<rparr>
          | Inr uas \<Rightarrow> \<lparr>mu_enabled = True, mu_analyses = map (analysis_summary fmt_time) (go_sort name_less uas), mu_error = []\<rparr>)
      })"

section \<open>Publishing\<close>

text \<open>The location and the error, if any.\<close>

definition publishReport :: "kube \<Rightarrow> operator \<Rightarrow> cluster_mirror \<Rightarrow> mirror_report \<Rightarrow> (string \<times> string option) io" where
  "publishReport k op cm rep = do {
     b \<leftarrow> (if isRemote (cms_source (clm_spec cm))
          then buildExporter k (op_namespace op) (clm_name cm) (cms_source (clm_spec cm))
          else State_Monad.return (Inr (File_Exporter (NewFileExporter
            (path_join [op_reports_dir op, localReportName (clm_name cm) (cms_source (clm_spec cm))])))));
     case b of
       Inl e \<Rightarrow> State_Monad.return ([], Some e)
     | Inr ex \<Rightarrow> do {
         w \<leftarrow> export k (Export_Mirror ex rep);
         State_Monad.return (Location ex, w)
       }
   }"

section \<open>Which writes wake the controller\<close>

definition mirror_event :: "cluster_mirror \<Rightarrow> cluster_mirror \<Rightarrow> bool" where
  "mirror_event old new \<longleftrightarrow> clm_generation old \<noteq> clm_generation new \<or> clm_annotations old \<noteq> clm_annotations new"

section \<open>Reconcile\<close>

definition mirror_graph :: "cluster_snapshot \<Rightarrow> graph \<times> namespace_risk list" where
  "mirror_graph snap = ApplyRisk (BuildFromSnapshot snap) Map.empty"

definition namespace_status :: "namespace_risk \<Rightarrow> namespace_mirror_status" where
  "namespace_status nr = \<lparr>nms_namespace = nr_namespace nr, nms_max_risk = nr_risk nr, nms_at_risk = nr_at_risk nr\<rparr>"

text \<open>The status after a rebuild, before the report is published.\<close>

definition rebuilt_status :: "cluster_mirror \<Rightarrow> mirror_report \<Rightarrow> namespace_risk list \<Rightarrow> int \<Rightarrow> cluster_mirror" where
  "rebuilt_status cm rep nsRisk t = with_cmst cm (\<lambda>s. s\<lparr>
     cmst_components := ms_components (mr_summary rep), cmst_edges := ms_edges (mr_summary rep),
     cmst_at_risk := ms_at_risk (mr_summary rep), cmst_by_namespace := map namespace_status nsRisk,
     cmst_last_sync := Some t, cmst_sync_error := [], cmst_observed_generation := clm_generation cm\<rparr>)"

definition published_status :: "cluster_mirror \<Rightarrow> string \<times> string option \<Rightarrow> cluster_mirror" where
  "published_status cm r = with_cmst cm (\<lambda>s. (case snd r of
       Some e \<Rightarrow> s\<lparr>cmst_report_location := fst r, cmst_report_state := reportStateFailed, cmst_report_error := e,
         cmst_sync_error := ''mirror rebuilt but its report could not be written: '' @ e\<rparr>
     | None \<Rightarrow> s\<lparr>cmst_report_location := fst r, cmst_report_state := reportStateWritten, cmst_report_error := []\<rparr>))"

definition rebuild :: "kube \<Rightarrow> (int \<Rightarrow> string) \<Rightarrow> operator \<Rightarrow> bool \<Rightarrow> cluster_mirror \<Rightarrow> cluster_snapshot \<Rightarrow> outcome io" where
  "rebuild k fmt_time op upgradeEnabled cm snap = do {
     let g = fst (mirror_graph snap);
     let nsRisk = snd (mirror_graph snap);
     t \<leftarrow> now k;
     up \<leftarrow> upgradeSummary k fmt_time upgradeEnabled;
     let rep = (BuildMirrorReport snap g nsRisk)\<lparr>mr_generated_at := fmt_time t, mr_mirror := clm_name cm, mr_upgrade := up\<rparr>;
     p \<leftarrow> publishReport k op cm rep;
     w \<leftarrow> kwrite k (Update_Mirror_Status (published_status (rebuilt_status cm rep nsRisk t) p));
     State_Monad.return (case w of Some e \<Rightarrow> Retry e | None \<Rightarrow> Requeue_After (mirror_interval cm))
   }"

definition ClusterMirror_Reconcile :: "kube \<Rightarrow> (int \<Rightarrow> string) \<Rightarrow> operator \<Rightarrow> bool \<Rightarrow> string \<Rightarrow> outcome io" where
  "ClusterMirror_Reconcile k fmt_time op upgradeEnabled n = do {
     got \<leftarrow> get_mirror k n;
     case got of
       Inl e \<Rightarrow> State_Monad.return (ignore_not_found e)
     | Inr cm \<Rightarrow> do {
         c \<leftarrow> collect_cluster k (scope_of (cms_scope (clm_spec cm)));
         case c of
           Inl e \<Rightarrow> do {
             _ \<leftarrow> kwrite k (Update_Mirror_Status (with_cmst cm (\<lambda>s. s\<lparr>cmst_sync_error := e\<rparr>)));
             State_Monad.return (Requeue_After (mirror_interval cm))
           }
         | Inr snap \<Rightarrow> rebuild k fmt_time op upgradeEnabled cm snap
       }
   }"

end
