(* ===== verification/AI_Props.thy ===== *)
theory AI_Props
  imports AI_Scorer Score
begin

text \<open>
  What is asked of a model and what is done with its answer: what the prompt leaves out, when an
  answer is reused, and that every score comes from an answer a model gave to the same request.
\<close>

section \<open>Sorting a slice\<close>

text \<open>The contract of \<open>sort.Slice\<close>: a sorted permutation for any comparison that is a strict weak order.\<close>

locale slice_sort =
  fixes srt :: "('a \<Rightarrow> 'a \<Rightarrow> bool) \<Rightarrow> 'a list \<Rightarrow> 'a list"
  assumes permutes: "mset (srt lt xs) = mset xs"
    and sorts: "sort_less lt \<Longrightarrow> sorted_wrt (\<lambda>a b. \<not> lt b a) (srt lt xs)"
begin

lemma first_are_greatest:
  assumes "sort_less lt"
  shows "mset (take n (srt lt xs)) + mset (drop n (srt lt xs)) = mset xs"
    and "x \<in> set (take n (srt lt xs)) \<Longrightarrow> y \<in> set (drop n (srt lt xs)) \<Longrightarrow> \<not> lt y x"
proof -
  have "mset (take n (srt lt xs) @ drop n (srt lt xs)) = mset xs"
    by (simp only: append_take_drop_id permutes)
  then show "mset (take n (srt lt xs)) + mset (drop n (srt lt xs)) = mset xs" by (simp only: mset_append)
  have "sorted_wrt (\<lambda>a b. \<not> lt b a) (take n (srt lt xs) @ drop n (srt lt xs))"
    by (simp only: append_take_drop_id sorts[OF assms])
  then show "x \<in> set (take n (srt lt xs)) \<Longrightarrow> y \<in> set (drop n (srt lt xs)) \<Longrightarrow> \<not> lt y x"
    unfolding sorted_wrt_append by blast
qed

end

interpretation stable_sort: slice_sort go_sort
  by unfold_locales (auto intro: sort_less.sort_sorted)

lemma riskier_first_order: "sort_less riskier_first"
  by unfold_locales (auto simp: riskier_first_def)

section \<open>The prompt\<close>

definition touches_risky :: "component list \<Rightarrow> edge \<Rightarrow> bool" where
  "touches_risky ns e = (\<exists>n\<in>set ns. c_risk n \<ge> 50 \<and> c_id n \<in> {e_from e, e_to e})"

text \<open>
  What the model is told of a report: the versions, the score, the level and the reason, the issues, the nodes and
  deployments that are not ready, the stateful sets and jobs with issues, the removed APIs, the add-ons, the
  namespaces at risk, and of the mirror the components that carry risk and the edges that touch a risky one.
\<close>

record told =
  t_cluster :: "string \<times> string \<times> int \<times> string \<times> string"
  t_issues :: "string list"
  t_nodes :: "(string \<times> string) list"
  t_deployments :: "(string \<times> string \<times> int \<times> int) list"
  t_statefulsets :: "(string \<times> string \<times> int \<times> int) list"
  t_jobs :: "(string \<times> string \<times> string \<times> string \<times> int) list"
  t_apis :: "(string \<times> string \<times> string) list"
  t_addons :: "(string \<times> string \<times> string \<times> string) list"
  t_namespaces :: "(string \<times> int \<times> int \<times> int) list"
  t_graph :: "(component list \<times> edge list) option"

definition what_is_told :: "report \<Rightarrow> told" where
  "what_is_told r = (let w = r_workloads r in \<lparr>
     t_cluster = (r_cluster_version r, r_target_version r, bs_score (sc_base (r_scores r)), dc_level (r_decision r), r_reason r),
     t_issues = r_issues r,
     t_nodes = map (\<lambda>n. (nrp_name n, nrp_status n)) (filter (\<lambda>n. nrp_status n \<noteq> ''Ready'') (rw_nodes w)),
     t_deployments = map (\<lambda>d. (dr_namespace d, dr_name d, dr_ready_replicas d, dr_desired_replicas d))
       (filter (\<lambda>d. dr_ready_replicas d < dr_desired_replicas d) (rw_deployments w)),
     t_statefulsets = map (\<lambda>s. (sr_namespace s, sr_name s, sr_ready_replicas s, sr_desired_replicas s)) (rw_statefulsets w),
     t_jobs = map (\<lambda>j. (jr_namespace j, jr_name j, jr_status j, jr_reason j, jr_active j)) (rw_jobs w),
     t_apis = map (\<lambda>a. (dar_resource a, dar_version a, dar_removed_in a)) (rw_deprecated_apis w),
     t_addons = map (\<lambda>a. (ac_name a, ac_version a, ac_status a, ac_required_version a)) (r_addons r),
     t_namespaces = (case r_risk r of None \<Rightarrow> [] | Some rb \<Rightarrow>
       map (\<lambda>ns. (nr_namespace ns, nr_risk ns, nr_at_risk ns, nr_components ns))
         (filter (\<lambda>ns. nr_risk ns \<noteq> 0) (rb_by_namespace rb))),
     t_graph = map_option (\<lambda>g. (filter (\<lambda>n. c_risk n > 0) (g_nodes g), filter (touches_risky (g_nodes g)) (g_edges g)))
       (r_graph r)\<rparr>)"

lemma key_dependencies_filter:
  assumes "mset atRisk = mset (filter (\<lambda>n. c_risk n > 0) ns)"
  shows "key_dependencies atRisk (filter (touches_risky ns) es) =
    key_dependencies atRisk es"
proof -
  have "set atRisk = {n \<in> set ns. c_risk n > 0}" using assms by (metis set_filter set_mset_mset)
  then have "filter (\<lambda>e. e_from e \<in> c_id ` {n \<in> set atRisk. 50 \<le> c_risk n} \<or> e_to e \<in> c_id ` {n \<in> set atRisk. 50 \<le> c_risk n})
      (filter (touches_risky ns) es) =
    filter (\<lambda>e. e_from e \<in> c_id ` {n \<in> set atRisk. 50 \<le> c_risk n} \<or> e_to e \<in> c_id ` {n \<in> set atRisk. 50 \<le> c_risk n}) es"
    unfolding filter_filter by (intro filter_cong refl) (auto simp: touches_risky_def)
  then show ?thesis by (simp add: key_dependencies_def Let_def)
qed

lemma writeGraphContext_told:
  assumes "slice_sort srt"
  shows "writeGraphContext srt (r_graph r) = (case t_graph (what_is_told r) of None \<Rightarrow> []
    | Some (ns, es) \<Rightarrow>
        section_of ''COMPONENTS AT RISK (0-100, propagated through dependencies):'' (at_risk_rows (srt riskier_first ns))
        @ section_of ''KEY DEPENDENCIES (edges touching an at-risk component):''
            (map dependency_row (key_dependencies (srt riskier_first ns) es)))"
  using key_dependencies_filter[OF slice_sort.permutes[OF assms]]
  by (cases "r_graph r") (simp_all add: writeGraphContext_def what_is_told_def Let_def)

lemma workloads_told: "workload_sections (r_workloads r) =
     section_of ''NODES (not Ready):'' (map (\<lambda>(n, s). ''- '' @ n @ '': '' @ s) (t_nodes (what_is_told r)))
     @ section_of ''DEPLOYMENTS (not ready):'' (map (\<lambda>(ns, n, a, b). ready_row ns n a b) (t_deployments (what_is_told r)))
     @ section_of ''STATEFULSETS (issues):'' (map (\<lambda>(ns, n, a, b). ready_row ns n a b) (t_statefulsets (what_is_told r)))
     @ section_of ''JOBS WITH ISSUES:'' (map (\<lambda>(ns, n, st, why, k). if st = ''Failed''
          then ''- '' @ ns @ ''/'' @ n @ '': failed ('' @ why @ '')'' else ''- '' @ ns @ ''/'' @ n @ '': '' @ dec_int k @ '' active pods'')
         (t_jobs (what_is_told r)))
     @ section_of ''DEPRECATED APIS:'' (map (\<lambda>(n, v, q). ''- '' @ n @ '' ('' @ v @ '') removed in k8s '' @ q) (t_apis (what_is_told r)))"
  by (simp add: workload_sections_def what_is_told_def Let_def comp_def node_row_def[abs_def] job_row_def[abs_def]
      api_row_def[abs_def])

lemma risk_told: "risk_section (r_risk r) = (case t_namespaces (what_is_told r) of rows \<Rightarrow>
    if filter (\<lambda>(ns, k, a, c). k > 0) rows = [] then risk_section (Some \<lparr>rb_by_namespace = []\<rparr>)
    else section_of ''RISK BY NAMESPACE (0-100, higher = riskier):'' (map (\<lambda>(ns, k, a, c).
      ''- '' @ ns @ '': risk '' @ dec_int k @ '' ('' @ dec_int a @ ''/'' @ dec_int c @ '' components at risk)'') rows))"
proof -
  have "filter (\<lambda>ns. nr_risk ns \<noteq> 0 \<and> 0 < nr_risk ns) xs = filter (\<lambda>ns. 0 < nr_risk ns) xs" for xs :: "namespace_risk list"
    by (intro filter_cong refl) auto
  then show ?thesis
    by (simp add: risk_section_def what_is_told_def Let_def comp_def namespace_row_def[abs_def] filter_map section_of_def
        split: option.split)
qed

text \<open>Reports that tell the model the same have the same prompt, whatever else differs.\<close>

lemma prompt_told:
  assumes "slice_sort srt" "what_is_told r' = what_is_told r"
  shows "buildAIPrompt srt r' w = buildAIPrompt srt r w"
proof -
  have "cluster_section r = rows_of (case t_cluster (what_is_told r) of (v, tv, b, l, why) \<Rightarrow>
     [''CLUSTER:'', ''Current version: '' @ v @ '' | Target: '' @ tv,
      ''Base score: '' @ dec_int b @ ''/100 | Decision: '' @ l, ''Reason: '' @ why, []])" for r
    by (simp add: cluster_section_def what_is_told_def Let_def)
  moreover have "map addon_row (r_addons r) = map (\<lambda>(n, v, st, q). ''- '' @ n @ '' '' @ v @ '': '' @ st @
     (if q \<noteq> [] then '' (supported on k8s '' @ q @ '')'' else [])) (t_addons (what_is_told r))" for r
    by (simp add: what_is_told_def Let_def comp_def addon_row_def[abs_def])
  moreover have "r_issues r = t_issues (what_is_told r)" for r by (simp add: what_is_told_def Let_def)
  ultimately show ?thesis
    unfolding buildAIPrompt_def workloads_told writeGraphContext_told[OF assms(1)] risk_told by (simp only: assms(2))
qed

text \<open>The dependency context is bounded whatever the size of the cluster: at most 30 components, none of which has a
  lower risk than one left out, a line that says how many were left out, and at most 20 edges, each touching
  a component of risk 50 or more.\<close>

theorem graph_context_bounded:
  assumes "slice_sort srt"
  shows "\<exists>shown hidden deps.
    mset shown + mset hidden = mset (filter (\<lambda>n. c_risk n > 0) (g_nodes g)) \<and>
    length shown \<le> 30 \<and> (hidden \<noteq> [] \<longrightarrow> length shown = 30) \<and>
    (\<forall>n\<in>set shown. \<forall>m\<in>set hidden. c_risk m \<le> c_risk n) \<and>
    length deps \<le> 20 \<and>
    set deps \<subseteq> {e \<in> set (g_edges g). \<exists>n\<in>set (g_nodes g). c_risk n \<ge> 50 \<and> c_id n \<in> {e_from e, e_to e}} \<and>
    writeGraphContext srt (Some g) =
      section_of ''COMPONENTS AT RISK (0-100, propagated through dependencies):''
        (map risk_row shown @ (if hidden = [] then [] else [''- ...and '' @ dec_int (int (length hidden)) @ '' more'']))
      @ section_of ''KEY DEPENDENCIES (edges touching an at-risk component):'' (map dependency_row deps)"
proof -
  let ?ns = "filter (\<lambda>n. c_risk n > 0) (g_nodes g)"
  let ?a = "srt riskier_first ?ns"
  note first = slice_sort.first_are_greatest[OF assms riskier_first_order, where xs = ?ns and n = 30]
  have "set ?a = set ?ns" using slice_sort.permutes[OF assms, of riskier_first ?ns] by (metis set_mset_mset)
  then have deps: "set (key_dependencies ?a (g_edges g)) \<subseteq>
      {e \<in> set (g_edges g). \<exists>n\<in>set (g_nodes g). c_risk n \<ge> 50 \<and> c_id n \<in> {e_from e, e_to e}}"
    by (fastforce simp: key_dependencies_def Let_def dest!: in_set_takeD)
  show ?thesis
    using first(1) first(2) deps
    by (intro exI[of _ "take 30 ?a"] exI[of _ "drop 30 ?a"] exI[of _ "key_dependencies ?a (g_edges g)"])
      (auto simp: riskier_first_def writeGraphContext_def at_risk_rows_def maxComponents_def key_dependencies_def Let_def
        of_nat_diff not_less)
qed

definition risky_node :: component where
  "risky_node = \<lparr>c_id = ''Deployment/shop/api'', c_kind = ''Deployment'', c_name = ''api'', c_namespace = ''shop'',
     c_type = TypeWorkload, c_version = [], c_status = ''Down'', c_risk = 90\<rparr>"

theorem graph_context_bounded_witness:
  "\<exists>shown deps. length shown = 30 \<and>
    writeGraphContext go_sort (Some \<lparr>g_nodes = replicate 31 risky_node, g_edges = []\<rparr>) =
      section_of ''COMPONENTS AT RISK (0-100, propagated through dependencies):''
        (map risk_row shown @ [''- ...and '' @ dec_int 1 @ '' more''])
      @ section_of ''KEY DEPENDENCIES (edges touching an at-risk component):'' (map dependency_row deps)"
proof -
  let ?g = "\<lparr>g_nodes = replicate 31 risky_node, g_edges = []\<rparr>"
  have f: "filter (\<lambda>n. c_risk n > 0) (g_nodes ?g) = replicate 31 risky_node"
    by (simp add: risky_node_def)
  obtain shown hidden deps where *: "mset shown + mset hidden = mset (replicate 31 risky_node)" "length shown \<le> 30"
    "hidden \<noteq> [] \<longrightarrow> length shown = 30"
    "writeGraphContext go_sort (Some ?g) =
      section_of ''COMPONENTS AT RISK (0-100, propagated through dependencies):''
        (map risk_row shown @ (if hidden = [] then [] else [''- ...and '' @ dec_int (int (length hidden)) @ '' more'']))
      @ section_of ''KEY DEPENDENCIES (edges touching an at-risk component):'' (map dependency_row deps)"
    using graph_context_bounded[OF stable_sort.slice_sort_axioms, of ?g] unfolding f by blast
  have "length shown + length hidden = 31"
    using arg_cong[OF *(1), of size] by simp
  with *(2,3) have "length shown = 30" "length hidden = 1" by (cases hidden; auto)+
  with *(4) show ?thesis by (intro exI[of _ shown] exI[of _ deps]) auto
qed

section \<open>Reading the answer\<close>

lemma trim_space_ends:
  assumes "trim_space s = s" "s \<noteq> []"
  shows "\<not> is_space (hd s)" "\<not> is_space (last s)"
proof -
  let ?d = "dropWhile is_space s" and ?r = "\<lambda>d. dropWhile is_space (rev d)"
  have s: "s = rev (?r ?d)" using assms(1) by (simp add: trim_space_def)
  then have r: "?r ?d \<noteq> []" using assms(2) by force
  have "\<not> is_space (hd (?r ?d))" by (rule hd_dropWhile[OF r])
  moreover have "last s = hd (?r ?d)" using s r by (metis last_rev)
  ultimately show "\<not> is_space (last s)" by simp
  have "rev (takeWhile is_space (rev ?d) @ ?r ?d) = ?d" by (simp only: takeWhile_dropWhile_id rev_rev_ident)
  then have "?d = s @ rev (takeWhile is_space (rev ?d))" unfolding rev_append by (simp only: s[symmetric])
  then have "hd ?d = hd s" "?d \<noteq> []" using assms(2) by (metis hd_append2, metis append_is_Nil_conv)
  then show "\<not> is_space (hd s)" by (metis hd_dropWhile)
qed

lemma trim_space_around:
  assumes "trim_space t = t" "t \<noteq> []" "is_space c" "is_space d"
  shows "trim_space (c # t @ [d]) = t"
proof -
  note ends = trim_space_ends[OF assms(1,2)]
  have "dropWhile is_space (t @ u) = t @ u" for u using ends(1) assms(2) by (cases t) simp_all
  moreover have "dropWhile is_space (rev t) = rev t" using ends(2) assms(2) by (cases t rule: rev_cases) simp_all
  ultimately show ?thesis using assms(3,4) by (simp add: trim_space_def)
qed

lemma unfence_fenced:
  assumes "trim_space t = t" and "t \<noteq> []" and "\<not> has_prefix t ''```''" "\<not> has_suffix t ''```''"
  shows "unfence (''```json'' @ nl @ t @ nl @ ''```'') = t" "unfence (''```'' @ nl @ t @ nl @ ''```'') = t" "unfence t = t"
proof -
  have nl: "is_space CHR 0x0A" by (simp add: is_space_def)
  have outer: "trim_space (''```'' @ u @ ''```'') = ''```'' @ u @ ''```''" for u
    by (rule trim_space_id) (simp_all add: is_space_def)
  have inner: "trim_space (trim_suffix (nl @ t @ nl @ ''```'') ''```'') = t"
    using trim_space_around[OF assms(1,2) nl nl]
    by (simp add: trim_suffix_def has_suffix_def has_prefix_def nl_def)
  show "unfence (''```json'' @ nl @ t @ nl @ ''```'') = t"
    using outer[of "''json'' @ nl @ t @ nl"] inner
    by (simp add: unfence_def trim_prefix_def has_prefix_def nl_def)
  show "unfence (''```'' @ nl @ t @ nl @ ''```'') = t"
    using outer[of "nl @ t @ nl"] inner
    by (simp add: unfence_def trim_prefix_def has_prefix_def nl_def)
  have "\<not> has_prefix t ''```json''"
  proof
    assume "has_prefix t ''```json''"
    then have "t = ''```json'' @ drop (length ''```json'') t" unfolding has_prefix_def by (metis append_take_drop_id)
    then obtain u where "t = ''```json'' @ u" by blast
    with assms(3) show False by (simp add: has_prefix_def)
  qed
  then show "unfence t = t"
    using assms by (simp add: unfence_def trim_prefix_def trim_suffix_def)
qed

text \<open>the Markdown fence a model puts around its answer makes no difference, and a score outside 0 to 100 is an
  error, never a value.\<close>

theorem answer_fences:
  assumes "trim_space t = t" and "t \<noteq> []" and "\<not> has_prefix t ''```''" "\<not> has_suffix t ''```''"
  shows "parseAIResponse libs (''```json'' @ nl @ t @ nl @ ''```'') = parseAIResponse libs t \<and>
    parseAIResponse libs (''```'' @ nl @ t @ nl @ ''```'') = parseAIResponse libs t \<and>
    parseAIResponse libs t = (case al_decode libs t of
      Inl e \<Rightarrow> Inl (Other_Error (''parsing AI response: '' @ e @ '' (raw: '' @ t @ '')''))
    | Inr resp \<Rightarrow> if 0 \<le> air_score resp \<and> air_score resp \<le> 100 then Inr resp
        else Inl (Other_Error (''AI score '' @ dec_int (air_score resp) @ '' out of range [0, 100]'')))"
  unfolding parseAIResponse_def unfence_fenced[OF assms] Let_def by (auto split: sum.split)

definition sample_libs :: ai_libs where
  "sample_libs = \<lparr>al_sha256 = (\<lambda>s. s),
     al_decode = (\<lambda>t. if t = ''90'' then Inr \<lparr>air_score = 90, air_reasoning = ''fine'', air_actions = []\<rparr>
       else Inl ''unexpected end of JSON input''),
     al_error_body = (\<lambda>_. None), al_sort = go_sort\<rparr>"

theorem answer_fences_witness:
  "parseAIResponse sample_libs (''```json'' @ nl @ ''90'' @ nl @ ''```'') =
     Inr \<lparr>air_score = 90, air_reasoning = ''fine'', air_actions = []\<rparr>"
proof -
  have "trim_space ''90'' = ''90''" "\<not> has_prefix ''90'' ''```''" "\<not> has_suffix ''90'' ''```''" by code_simp+
  from answer_fences[OF this(1) _ this(2,3), of sample_libs] show ?thesis by (simp add: sample_libs_def)
qed

section \<open>Where a score comes from\<close>

text \<open>The request for an answer, and an answer in the history to a request with a given hash.\<close>

definition request_call :: "ai_config \<Rightarrow> string \<Rightarrow> string \<Rightarrow> call" where
  "request_call ai apiKey prompt =
     (if aic_provider ai = AIProviderOpenAI
      then Ask_Model AIProviderOpenAI apiKey (if aic_model ai = [] then ''gpt-4o'' else aic_model ai) prompt (max_tokens ai)
      else Ask_Model AIProviderAnthropic apiKey (if aic_model ai = [] then ''claude-sonnet-4-6'' else aic_model ai) prompt (max_tokens ai))"

definition answered :: "kube \<Rightarrow> ai_libs \<Rightarrow> history \<Rightarrow> string \<Rightarrow> int \<times> string \<times> ai_action_entry list \<Rightarrow> bool" where
  "answered k libs h hash ans \<longleftrightarrow> (\<exists>pre post ai apiKey prompt text more resp.
     h = pre @ request_call ai apiKey prompt # post \<and>
     kc_model k pre (request_call ai apiKey prompt) = Inr (text # more) \<and>
     parseAIResponse libs text = Inr resp \<and> hash = request_hash libs ai prompt \<and>
     ans = (air_score resp, air_reasoning resp, air_actions resp))"

definition entry_answer :: "ai_cache_entry \<Rightarrow> int \<times> string \<times> ai_action_entry list" where
  "entry_answer e = (ce_score e, ce_reasoning e, ce_actions e)"

definition cache_inv :: "kube \<Rightarrow> ai_libs \<Rightarrow> history \<Rightarrow> ai_cache \<Rightarrow> bool" where
  "cache_inv k libs h cache \<longleftrightarrow> (\<forall>n e. cache n = Some e \<longrightarrow> answered k libs h (ce_hash e) (entry_answer e))"

lemma answered_append: "answered k libs h hash ans \<Longrightarrow> answered k libs (h @ t) hash ans"
  unfolding answered_def by (metis append.assoc append_Cons)

lemma cache_inv_append: "cache_inv k libs h cache \<Longrightarrow> cache_inv k libs (h @ t) cache"
  by (auto simp: cache_inv_def intro: answered_append)

lemma cache_inv_empty [simp]: "cache_inv k libs h Map.empty"
  by (simp add: cache_inv_def)

lemma parse_range: "parseAIResponse libs t = Inr resp \<Longrightarrow> 0 \<le> air_score resp \<and> air_score resp \<le> 100"
  by (auto simp: parseAIResponse_def Let_def split: sum.splits if_splits)

lemma answered_range: "answered k libs h hash (s, w, as) \<Longrightarrow> 0 \<le> s \<and> s \<le> 100"
  unfolding answered_def using parse_range by blast

lemma extends_key [simp, intro]: "extends (readAIAPIKey k ns ai)"
  unfolding readAIAPIKey_def get_secret_def by (intro extends_cases extends_bind extends_ask extends_return)

lemma extends_provider [simp, intro]: "extends (call_provider k ai key prompt)"
  unfolding call_provider_def callOpenAI_def callAnthropic_def ask_model_def
  by (intro extends_cases extends_bind extends_ask extends_return)

lemma extends_score [simp, intro]: "extends (scoreWithAI k libs ns ua rep cache)"
  unfolding scoreWithAI_def Let_def by (intro extends_bind extends_cases extends_return extends_key extends_provider)

fun model_call :: "call \<Rightarrow> bool" where
  "model_call (Ask_Model a b c d e) = True"
| "model_call c = False"

lemma key_calls: "filter model_call (calls_of (readAIAPIKey k ns ai) h) = []"
  by (auto simp: readAIAPIKey_def get_secret_def calls_of_bind)

lemma provider_run:
  "calls_of (call_provider k ai key prompt) h = [request_call ai key prompt]"
  "result_of (call_provider k ai key prompt) h = Inr text \<Longrightarrow>
     \<exists>more. kc_model k h (request_call ai key prompt) = Inr (text # more)"
  by (auto simp: call_provider_def callOpenAI_def callAnthropic_def request_call_def ask_model_def calls_of_bind
      split: sum.splits list.splits if_splits)

abbreviation prompt_for :: "ai_libs \<Rightarrow> upgrade_analysis \<Rightarrow> report \<Rightarrow> string" where
  "prompt_for libs ua rep \<equiv> buildAIPrompt (al_sort libs) rep (rc_enabled (aic_remediation (uas_ai (ua_spec ua))))"

abbreviation hash_for :: "ai_libs \<Rightarrow> upgrade_analysis \<Rightarrow> report \<Rightarrow> string" where
  "hash_for libs ua rep \<equiv> request_hash libs (uas_ai (ua_spec ua)) (prompt_for libs ua rep)"

lemma scoreWithAI_run:
  fixes k libs ns ua rep cache h
  defines "ai \<equiv> uas_ai (ua_spec ua)" and "prompt \<equiv> prompt_for libs ua rep" and "hash \<equiv> hash_for libs ua rep"
  defines "r \<equiv> result_of (readAIAPIKey k ns ai) h" and "t \<equiv> calls_of (readAIAPIKey k ns ai) h"
  defines "req \<equiv> request_call ai (projr r) prompt"
  defines "raw \<equiv> result_of (call_provider k ai (projr r) prompt) (h @ t)"
  shows "calls_of (scoreWithAI k libs ns ua rep cache) h =
      t @ (if isl r \<or> aiCacheGet cache (ua_name ua) hash \<noteq> None then [] else [req])"
    and "result_of (scoreWithAI k libs ns ua rep cache) h =
      (case r of Inl e \<Rightarrow> (Inl e, cache)
       | Inr _ \<Rightarrow> (case aiCacheGet cache (ua_name ua) hash of
           Some e \<Rightarrow> (Inr (entry_answer e), cache)
         | None \<Rightarrow> (case raw of Inl e \<Rightarrow> (Inl e, cache)
           | Inr text \<Rightarrow> (case parseAIResponse libs text of Inl e \<Rightarrow> (Inl e, cache)
             | Inr resp \<Rightarrow> (Inr (air_score resp, air_reasoning resp, air_actions resp),
                 aiCachePut (ua_name ua) \<lparr>ce_hash = hash, ce_score = air_score resp,
                   ce_reasoning = air_reasoning resp, ce_actions = air_actions resp\<rparr> cache)))))"
proof -
  let ?body = "\<lambda>key. case key of
       Inl e \<Rightarrow> State_Monad.return (Inl e, cache)
     | Inr apiKey \<Rightarrow> (case aiCacheGet cache (ua_name ua) hash of
           Some e \<Rightarrow> State_Monad.return (Inr (entry_answer e), cache)
         | None \<Rightarrow> call_provider k ai apiKey prompt \<bind> (\<lambda>raw. State_Monad.return (case raw of
                 Inl e \<Rightarrow> (Inl e, cache)
               | Inr text \<Rightarrow> (case parseAIResponse libs text of
                   Inl e \<Rightarrow> (Inl e, cache)
                 | Inr resp \<Rightarrow> (Inr (air_score resp, air_reasoning resp, air_actions resp),
                     aiCachePut (ua_name ua) \<lparr>ce_hash = hash, ce_score = air_score resp,
                       ce_reasoning = air_reasoning resp, ce_actions = air_actions resp\<rparr> cache)))))"
  have body: "scoreWithAI k libs ns ua rep cache = readAIAPIKey k ns ai \<bind> ?body"
    unfolding scoreWithAI_def Let_def ai_def prompt_def hash_def entry_answer_def by (rule refl)
  have ex: "extends (?body x)" for x by (intro extends_cases extends_bind extends_return extends_provider)
  note run = calls_of_bind[where m = "readAIAPIKey k ns ai" and f = ?body and h = h, OF extends_key ex, folded body r_def t_def]
  show "calls_of (scoreWithAI k libs ns ua rep cache) h =
      t @ (if isl r \<or> aiCacheGet cache (ua_name ua) hash \<noteq> None then [] else [req])"
    unfolding run(1) by (auto simp: calls_of_bind provider_run(1) req_def simp del: run_state_bind split: sum.split option.split)
  show "result_of (scoreWithAI k libs ns ua rep cache) h =
      (case r of Inl e \<Rightarrow> (Inl e, cache)
       | Inr _ \<Rightarrow> (case aiCacheGet cache (ua_name ua) hash of
           Some e \<Rightarrow> (Inr (entry_answer e), cache)
         | None \<Rightarrow> (case raw of Inl e \<Rightarrow> (Inl e, cache)
           | Inr text \<Rightarrow> (case parseAIResponse libs text of Inl e \<Rightarrow> (Inl e, cache)
             | Inr resp \<Rightarrow> (Inr (air_score resp, air_reasoning resp, air_actions resp),
                 aiCachePut (ua_name ua) \<lparr>ce_hash = hash, ce_score = air_score resp,
                   ce_reasoning = air_reasoning resp, ce_actions = air_actions resp\<rparr> cache)))))"
    unfolding run(2) by (auto simp: calls_of_bind raw_def simp del: run_state_bind split: sum.split option.split)
qed

lemma cache_hit: "aiCacheGet cache n hash = Some e \<Longrightarrow> cache n = Some e \<and> ce_hash e = hash"
  by (simp add: aiCacheGet_def split: option.splits if_splits)

lemma answered_now:
  assumes "kc_model k (h @ t) (request_call ai key prompt) = Inr (reply # others)" "parseAIResponse libs reply = Inr resp"
  shows "answered k libs (h @ t @ [request_call ai key prompt]) (request_hash libs ai prompt)
    (air_score resp, air_reasoning resp, air_actions resp)"
  unfolding answered_def using assms
  by (intro exI[of _ "h @ t"] exI[of _ "[]"] exI[of _ ai] exI[of _ key] exI[of _ prompt] exI[of _ reply] exI[of _ others]
      exI[of _ resp]) simp

lemma score_sound:
  assumes "cache_inv k libs h cache"
    and run: "run_state (scoreWithAI k libs ns ua rep cache) h = ((r, cache'), h')"
  shows "cache_inv k libs h' cache' \<and>
    (\<forall>s w as. r = Inr (s, w, as) \<longrightarrow> 0 \<le> s \<and> s \<le> 100 \<and> answered k libs h' (hash_for libs ua rep) (s, w, as)) \<and>
    (isl r \<longrightarrow> cache' = cache) \<and> (\<forall>n. n \<noteq> ua_name ua \<longrightarrow> cache' n = cache n) \<and>
    length (filter model_call (drop (length h) h')) \<le> 1"
proof -
  let ?ai = "uas_ai (ua_spec ua)" and ?prompt = "prompt_for libs ua rep" and ?hash = "hash_for libs ua rep"
  define key where "key = result_of (readAIAPIKey k ns ?ai) h"
  define t where "t = calls_of (readAIAPIKey k ns ?ai) h"
  let ?req = "request_call ?ai (projr key) ?prompt"
  note calls = scoreWithAI_run(1)[of k libs ns ua rep cache h, folded key_def t_def]
  note res = scoreWithAI_run(2)[of k libs ns ua rep cache h, folded key_def t_def]
  have h': "h' = h @ calls_of (scoreWithAI k libs ns ua rep cache) h" and r: "(r, cache') = result_of (scoreWithAI k libs ns ua rep cache) h"
    using extends_run[OF extends_score] run by (metis snd_conv, metis fst_conv)
  have inv: "cache_inv k libs h' cache" using assms(1) unfolding h' by (rule cache_inv_append)
  have once: "length (filter model_call (drop (length h) h')) \<le> 1"
    using key_calls[of k ns ?ai h] by (auto simp: h' calls t_def request_call_def)
  have "cache_inv k libs h' cache' \<and> (\<forall>a. r = Inr a \<longrightarrow> answered k libs h' ?hash a) \<and>
      (isl r \<longrightarrow> cache' = cache) \<and> (\<forall>n. n \<noteq> ua_name ua \<longrightarrow> cache' n = cache n)"
  proof (cases "isl key")
    case True
    then show ?thesis using inv r res by (auto simp: isl_def)
  next
    case False
    then obtain apiKey where key: "key = Inr apiKey" by (cases key) auto
    show ?thesis
    proof (cases "aiCacheGet cache (ua_name ua) ?hash")
      case (Some e)
      with inv have "answered k libs h' ?hash (entry_answer e)" unfolding cache_inv_def by (metis cache_hit)
      with inv r res Some key show ?thesis by auto
    next
      case None
      let ?call = "call_provider k ?ai apiKey ?prompt"
      have r: "(r, cache') = (case result_of ?call (h @ t) of Inl e \<Rightarrow> (Inl e, cache)
          | Inr reply \<Rightarrow> (case parseAIResponse libs reply of Inl e \<Rightarrow> (Inl e, cache)
            | Inr resp \<Rightarrow> (Inr (air_score resp, air_reasoning resp, air_actions resp),
                aiCachePut (ua_name ua) \<lparr>ce_hash = ?hash, ce_score = air_score resp,
                  ce_reasoning = air_reasoning resp, ce_actions = air_actions resp\<rparr> cache)))"
        using r res None key by simp
      show ?thesis
      proof (cases "\<exists>reply resp. result_of ?call (h @ t) = Inr reply \<and> parseAIResponse libs reply = Inr resp")
        case False
        then show ?thesis using inv r by (auto split: sum.splits)
      next
        case True
        then obtain reply resp where ok: "result_of ?call (h @ t) = Inr reply" "parseAIResponse libs reply = Inr resp" by blast
        then obtain others where "kc_model k (h @ t) (request_call ?ai apiKey ?prompt) = Inr (reply # others)"
          using provider_run(2) by blast
        from answered_now[OF this ok(2)] have "answered k libs h' ?hash (air_score resp, air_reasoning resp, air_actions resp)"
          using None key by (simp add: h' calls)
        then show ?thesis using inv r ok by (auto simp: cache_inv_def aiCachePut_def entry_answer_def)
      qed
    qed
  qed
  with once answered_range show ?thesis by blast
qed

text \<open>C10: every score the controller uses is one that a model has given, in this run or an earlier one, to a request with
  the same hash, and is between 0 and 100; the cache keeps this for what it holds, a failed call or an
  unreadable answer is not cached, and one scoring calls a model at most once.\<close>

theorem ai_answer_sound:
  assumes "cache_inv k libs h cache"
    and run: "run_state (scoreWithAI k libs ns ua rep cache) h = ((r, cache'), h')"
  shows "cache_inv k libs h' cache' \<and>
    (\<forall>s w as. r = Inr (s, w, as) \<longrightarrow> 0 \<le> s \<and> s \<le> 100 \<and> answered k libs h' (hash_for libs ua rep) (s, w, as)) \<and>
    (isl r \<longrightarrow> cache' = cache) \<and> (\<forall>n. n \<noteq> ua_name ua \<longrightarrow> cache' n = cache n) \<and>
    length (filter model_call (drop (length h) h')) \<le> 1"
  by (rule score_sound[OF assms])

definition scoring_kube :: kube where
  "scoring_kube = silent\<lparr>kc_get_secret := \<lambda>h ns n. Inr [(''ANTHROPIC_API_KEY'', ''k'')], kc_model := \<lambda>h c. Inr [''90'']\<rparr>"

definition unscored_report :: report where
  "unscored_report = Calculate empty_snapshot ''1.31'' ''production''"

lemma scoring_key: "result_of (readAIAPIKey scoring_kube ns (uas_ai (ua_spec sample_analysis))) h = Inr ''k''"
  by (simp add: readAIAPIKey_def get_secret_def scoring_kube_def sample_analysis_def lget_def zget_def
      source_type_defs AIProviderOpenAI_def)

lemma scoring_answer:
  "result_of (call_provider scoring_kube (uas_ai (ua_spec sample_analysis)) key prompt) h = Inr ''90''"
  "parseAIResponse sample_libs ''90'' = Inr \<lparr>air_score = 90, air_reasoning = ''fine'', air_actions = []\<rparr>"
proof -
  show "result_of (call_provider scoring_kube (uas_ai (ua_spec sample_analysis)) key prompt) h = Inr ''90''"
    by (simp add: call_provider_def callAnthropic_def callOpenAI_def ask_model_def scoring_kube_def)
  have "unfence ''90'' = ''90''" by code_simp
  then show "parseAIResponse sample_libs ''90'' = Inr \<lparr>air_score = 90, air_reasoning = ''fine'', air_actions = []\<rparr>"
    by (simp add: parseAIResponse_def sample_libs_def)
qed

lemma sample_name: "ua_name sample_analysis = ''prod''"
  by (simp add: sample_analysis_def)

lemma scoring_run:
  "\<exists>cache'. result_of (scoreWithAI scoring_kube sample_libs ns sample_analysis rep Map.empty) h = (Inr (90, ''fine'', []), cache')"
  unfolding scoreWithAI_run by (simp add: scoring_key scoring_answer aiCacheGet_def)

theorem ai_answer_sound_witness:
  "\<exists>cache' h'. run_state (scoreWithAI scoring_kube sample_libs [] sample_analysis unscored_report Map.empty) [] =
       ((Inr (90, ''fine'', []), cache'), h') \<and>
     cache_inv scoring_kube sample_libs h' cache' \<and> length (filter model_call h') \<le> 1"
proof -
  obtain cache' where "result_of (scoreWithAI scoring_kube sample_libs [] sample_analysis unscored_report Map.empty) [] =
      (Inr (90, ''fine'', []), cache')"
    using scoring_run by blast
  then obtain h' where run: "run_state (scoreWithAI scoring_kube sample_libs [] sample_analysis unscored_report Map.empty) [] =
      ((Inr (90, ''fine'', []), cache'), h')"
    by (metis prod.collapse)
  from ai_answer_sound[OF cache_inv_empty run] run show ?thesis by auto
qed

text \<open>C21: a later scoring with the same settings, of a report that tells the model the same, returns the same answer
  without calling a model, whatever else the two reports differ in: the time, the healthy nodes and deployments,
  the pods, the components without risk.\<close>

theorem resync_reuses_answer:
  assumes "result_of (scoreWithAI k libs ns ua rep cache) h = (Inr ans, cache')"
    and "ua_name ua' = ua_name ua" "uas_ai (ua_spec ua') = uas_ai (ua_spec ua)"
    and "slice_sort (al_sort libs)" "what_is_told rep' = what_is_told rep"
    and "\<not> isl (result_of (readAIAPIKey k ns (uas_ai (ua_spec ua'))) h')"
  shows "result_of (scoreWithAI k libs ns ua' rep' cache') h' = (Inr ans, cache') \<and>
    filter model_call (calls_of (scoreWithAI k libs ns ua' rep' cache') h') = []"
proof -
  have same: "hash_for libs ua' rep' = hash_for libs ua rep"
    using prompt_told[OF assms(4,5)] assms(3) by metis
  have hit: "\<exists>e. aiCacheGet cache' (ua_name ua) (hash_for libs ua rep) = Some e \<and> entry_answer e = ans"
    using assms(1) unfolding scoreWithAI_run(2)
    by (auto simp: aiCacheGet_def aiCachePut_def entry_answer_def split: sum.splits option.splits if_splits)
  then obtain e where e: "aiCacheGet cache' (ua_name ua') (hash_for libs ua' rep') = Some e" "entry_answer e = ans"
    using same assms(2) by metis
  obtain key where key: "result_of (readAIAPIKey k ns (uas_ai (ua_spec ua'))) h' = Inr key"
    using assms(6) by (cases "result_of (readAIAPIKey k ns (uas_ai (ua_spec ua'))) h'") auto
  show ?thesis
    unfolding scoreWithAI_run using e key key_calls[of k ns "uas_ai (ua_spec ua')" h'] by simp
qed

text \<open>The report of a later time, with one more healthy node.\<close>

definition later_report :: report where
  "later_report = unscored_report\<lparr>r_generated_at := ''later'', r_workloads := (r_workloads unscored_report)\<lparr>
     rw_nodes := \<lparr>nrp_name = ''node-1'', nrp_status = ''Ready'', nrp_conditions = []\<rparr> # rw_nodes (r_workloads unscored_report)\<rparr>\<rparr>"

theorem resync_reuses_answer_witness:
  "\<exists>cache'. cache' ''prod'' \<noteq> None \<and>
     result_of (scoreWithAI scoring_kube sample_libs [] sample_analysis later_report cache') [Now] =
       (Inr (90, ''fine'', []), cache') \<and>
     filter model_call (calls_of (scoreWithAI scoring_kube sample_libs [] sample_analysis later_report cache') [Now]) = []"
proof -
  obtain cache' where run: "result_of (scoreWithAI scoring_kube sample_libs [] sample_analysis unscored_report Map.empty) [] =
      (Inr (90, ''fine'', []), cache')"
    using scoring_run by blast
  then have "cache' ''prod'' \<noteq> None"
    unfolding scoreWithAI_run by (auto simp: scoring_key scoring_answer aiCacheGet_def aiCachePut_def sample_name)
  moreover have "slice_sort (al_sort sample_libs)" by (simp add: sample_libs_def stable_sort.slice_sort_axioms)
  moreover have "what_is_told later_report = what_is_told unscored_report" by (simp add: what_is_told_def later_report_def Let_def)
  moreover have "\<not> isl (result_of (readAIAPIKey scoring_kube [] (uas_ai (ua_spec sample_analysis))) [Now])"
    by (simp add: scoring_key)
  ultimately show ?thesis using resync_reuses_answer[OF run refl refl] by blast
qed

end
