(* ===== verification/Call_Logic.thy ===== *)
theory Call_Logic
  imports Kube_Client
begin

text \<open>
  The kinds of call that the stages of a controller issue, for the logic of \<open>Io_Monad\<close>.
\<close>

fun reads_api :: "call \<Rightarrow> bool" where
  "reads_api (Get_Secret ns n) = True"
| "reads_api (Get_Config_Map ns n) = True"
| "reads_api Now = True"
| "reads_api (Ask_Model a b c d e) = True"
| "reads_api c = False"

fun plan_call :: "call \<Rightarrow> bool" where
  "plan_call (Get_Plan ns n) = True"
| "plan_call (Update_Plan p) = True"
| "plan_call (Create_Plan p) = True"
| "plan_call c = False"

fun export_call :: "call \<Rightarrow> bool" where
  "export_call (Export_Analysis e r) = True"
| "export_call (Export_Mirror e r) = True"
| "export_call c = False"

end
