(* ===== verification/Upgrade_Props.thy ===== *)
theory Upgrade_Props
  imports Upgrade_Controller AI_Props Call_Logic Remediation_Life Score_Props Graph_Props "HOL-Library.Product_Lexorder"
begin

text \<open>
  What one reconcile of an upgrade analysis does: which calls it issues, which verdict it stores, and
  when it comes back.
\<close>

section \<open>Versions\<close>

lemma versionIsHigher_less: "versionIsHigher t c \<longleftrightarrow> majorMinor c < majorMinor t"
  by (auto simp: versionIsHigher_def Let_def split: prod.splits)

interpretation version_order: sort_less versionIsHigher
  by unfold_locales (auto simp: versionIsHigher_less)

section \<open>The calls of each stage\<close>

lemma only_wait [intro]: "only reads_api (resync_wait k ua)"
  unfolding resync_wait_def now_def by (intro only_cases only_bind only_ask only_return) simp_all

lemma only_matrix [intro]: "only reads_api (loadCompatMatrix k libs ns)"
  unfolding loadCompatMatrix_def get_config_map_def by (intro only_bind only_ask only_return) simp_all

lemma only_score [intro]: "only reads_api (scoreWithAI k libs ns ua rep cache)"
  unfolding scoreWithAI_def readAIAPIKey_def get_secret_def Let_def call_provider_def callOpenAI_def callAnthropic_def ask_model_def
  by (intro only_cases only_bind only_ask only_return) simp_all

lemma only_create [intro]: "only plan_call (createRemediationPlan k ua actions)"
  unfolding createRemediationPlan_def get_plan_def kwrite_def Let_def
  by (intro only_cases only_bind only_ask only_return) simp_all

text \<open>The calls on the plan of an analysis: it is found by its name, and an update keeps the object that was read.\<close>

fun own_plan :: "kube \<Rightarrow> upgrade_analysis \<Rightarrow> call \<Rightarrow> bool" where
  "own_plan k ua (Get_Plan ns n) = (ns = [] \<and> n = ua_name ua @ ''-remediation'')"
| "own_plan k ua (Create_Plan p) = (pl_namespace p = [] \<and> pl_name p = ua_name ua @ ''-remediation'')"
| "own_plan k ua (Update_Plan p) = (\<exists>h q. kc_get_plan k h [] (ua_name ua @ ''-remediation'') = Inr q \<and>
     p = q\<lparr>pl_spec := pl_spec p, pl_status := pl_status p\<rparr>)"
| "own_plan k ua c = False"

lemma own_plan_call: "own_plan k ua c \<Longrightarrow> plan_call c"
  by (cases c) simp_all

lemma own_plan_with [simp]: "own_plan k (ua\<lparr>ua_status := s\<rparr>) c = own_plan k ua c"
  by (cases c) simp_all

lemma only_create_own: "only (own_plan k ua) (createRemediationPlan k ua actions)"
proof -
  have "own_plan k ua c" if "c \<in> set (calls_of (createRemediationPlan k ua actions) h)" for c h
    using that unfolding createRemediationPlan_calls Let_def
    by (auto simp: with_status_def new_plan_def split: if_splits sum.splits) blast+
  then show ?thesis using only_extends[OF only_create] unfolding only_def list_all_iff by blast
qed

lemma only_ai_own: "only (\<lambda>c. reads_api c \<or> own_plan k ua c) (apply_ai k libs ns ua rep cache)"
  unfolding apply_ai_def Let_def with_ust_def
  by (intro only_cases only_bind only_return only_create_own[THEN only_mono] only_score[THEN only_mono]) simp_all

lemma only_ai: "only (\<lambda>c. reads_api c \<or> plan_call c) (apply_ai k libs ns ua rep cache)"
  unfolding apply_ai_def Let_def
  by (intro only_cases only_bind only_return only_create[THEN only_mono] only_score[THEN only_mono]) simp_all

lemma only_exporter [intro]: "only reads_api (buildExporter k ns n src)"
  unfolding buildExporter_def get_secret_def by (intro only_cases only_bind only_ask only_return) simp_all

lemma only_write_own: "only (\<lambda>c. reads_api c \<or> (\<exists>ex. c = Export_Analysis ex rep)) (write_report k op ua rep)"
  unfolding write_report_def export_def Let_def
  by (intro only_cases only_bind only_ask only_return only_exporter[THEN only_mono]) simp_all

lemma only_write: "only (\<lambda>c. reads_api c \<or> export_call c) (write_report k op ua rep)"
  unfolding write_report_def export_def Let_def
  by (intro only_cases only_bind only_ask only_return only_exporter[THEN only_mono]) simp_all

lemma only_persist: "only (\<lambda>c. reads_api c \<or> export_call c) (persist_report k op ua rep)"
  unfolding persist_report_def by (intro only_bind only_return only_write)

lemmas stage_extends [simp, intro] = only_wait[THEN only_extends] only_matrix[THEN only_extends] only_create[THEN only_extends]
  only_ai[THEN only_extends] only_persist[THEN only_extends] only_exporter[THEN only_extends] only_write[THEN only_extends]

section \<open>What each stage returns\<close>

text \<open>Only the status of an object changes.\<close>

definition same_object :: "upgrade_analysis \<Rightarrow> upgrade_analysis \<Rightarrow> bool" where
  "same_object ua ua' \<longleftrightarrow> ua' = ua\<lparr>ua_status := ua_status ua'\<rparr>"

lemma same_object_fields:
  "same_object ua ua' \<Longrightarrow> ua_name ua' = ua_name ua \<and> ua_spec ua' = ua_spec ua \<and> ua_generation ua' = ua_generation ua
     \<and> ua_annotations ua' = ua_annotations ua"
  by (metis same_object_def upgrade_analysis.select_convs upgrade_analysis.surjective upgrade_analysis.update_convs(5))

lemma same_object_with [simp]: "same_object ua (with_ust ua f)"
  by (simp add: same_object_def with_ust_def)

lemma same_object_trans: "same_object a b \<Longrightarrow> same_object b c \<Longrightarrow> same_object a c"
  by (cases a; cases b; cases c) (simp add: same_object_def)

lemma apply_ai_result:
  fixes k libs ns ua rep cache h
  defines "r \<equiv> result_of (apply_ai k libs ns ua rep cache) h"
  shows "same_object ua (fst r) \<and>
    ust_addons_checked (ua_status (fst r)) = ust_addons_checked (ua_status ua) \<and>
    ust_incompatible_addons (ua_status (fst r)) = ust_incompatible_addons (ua_status ua) \<and>
    (fst (snd r) = rep \<or> (\<exists>s w model. fst (snd r) = ApplyAIScore rep s w model (uas_scoring_profile (ua_spec ua))))"
  unfolding r_def apply_ai_def Let_def
  by (auto simp: calls_of_bind with_ust_def same_object_def split: sum.split simp del: run_state_bind)

lemma persist_run:
  "calls_of (persist_report k op ua rep) h = calls_of (write_report k op ua rep) h"
  "result_of (persist_report k op ua rep) h = record_report ua (result_of (write_report k op ua rep) h)"
  by (simp_all add: persist_report_def calls_of_bind del: run_state_bind)

lemma record_report_frame: "same_object ua (record_report ua r)"
  "ust_addons_checked (ua_status (record_report ua r)) = ust_addons_checked (ua_status ua)"
  "ust_incompatible_addons (ua_status (record_report ua r)) = ust_incompatible_addons (ua_status ua)"
  by (simp_all add: record_report_def with_ust_def same_object_def split: prod.split)

lemma final_status_frame: "same_object ua (final_status ua snap rep t)"
  "ust_addons_checked (ua_status (final_status ua snap rep t)) = ust_addons_checked (ua_status ua)"
  "ust_incompatible_addons (ua_status (final_status ua snap rep t)) = ust_incompatible_addons (ua_status ua)"
  "ust_decision (ua_status (final_status ua snap rep t)) = dc_level (r_decision rep)"
  by (simp_all add: final_status_def with_ust_def same_object_def)

section \<open>The analysis as a whole\<close>

text \<open>What the stages do, one after the other.\<close>

record analysis_run =
  ar_matrix :: matrix
  ar_time :: int
  ar_report :: report
  ar_incompatible :: int
  ar_ai :: "upgrade_analysis \<times> report \<times> ai_cache"
  ar_final :: report
  ar_written :: "string \<times> string \<times> string option"
  ar_status :: upgrade_analysis

definition analysis_stages :: "kube \<Rightarrow> 'v analysis_libs \<Rightarrow> operator \<Rightarrow> upgrade_analysis \<Rightarrow> cluster_snapshot \<Rightarrow> ai_cache
    \<Rightarrow> history \<Rightarrow> call list \<times> analysis_run" where
  "analysis_stages k libs op ua snap cache h =
     (let load = loadCompatMatrix k libs (op_namespace op);
          m = matrix_or_default libs (result_of load h);
          h1 = h @ calls_of load h;
          t = kc_now k h1;
          (rep, n) = assess libs ua snap m t;
          ua1 = with_ust ua (\<lambda>s. s\<lparr>ust_addons_checked := int (length (r_addons rep)), ust_incompatible_addons := n\<rparr>);
          score = apply_ai k (an_ai libs) (op_namespace op) ua1 rep cache;
          h2 = h1 @ [Now];
          r = result_of score h2;
          final = ApplyGraphDecision (fst (snd r));
          wr = write_report k op (fst r) final;
          h3 = h2 @ calls_of score h2;
          out = result_of wr h3
      in (calls_of load h @ [Now] @ calls_of score h2 @ calls_of wr h3,
          \<lparr>ar_matrix = m, ar_time = t, ar_report = rep, ar_incompatible = n, ar_ai = r, ar_final = final, ar_written = out,
            ar_status = final_status (record_report (fst r) out) snap final t\<rparr>))"

lemma analyse_run:
  assumes "analysis_stages k libs op ua snap cache h = (cs, ar)"
  shows "calls_of (analyse k libs op ua snap cache) h = cs @ [Update_Analysis_Status (ar_status ar)]"
    and "result_of (analyse k libs op ua snap cache) h =
      (case kc_write k (h @ cs) (Update_Analysis_Status (ar_status ar)) of Some e \<Rightarrow> Retry e
         | None \<Rightarrow> if resync_interval ua > 0 then Requeue_After (resync_interval ua) else Finished,
       snd (snd (ar_ai ar)))"
  using assms unfolding analyse_def now_def kwrite_def analysis_stages_def Let_def
  by (auto simp: calls_of_bind persist_run split_def simp del: run_state_bind)

fun status_write :: "call \<Rightarrow> bool" where
  "status_write (Update_Analysis_Status u) = True"
| "status_write c = False"

lemma only_analyse: "only (\<lambda>c. reads_api c \<or> plan_call c \<or> export_call c \<or> status_write c) (analyse k libs op ua snap cache)"
  unfolding analyse_def now_def kwrite_def Let_def
  by (intro only_bind only_ask only_return only_matrix[THEN only_mono] only_ai[THEN only_mono] only_persist[THEN only_mono])
    (auto split: option.split)

lemma only_reject: "only (\<lambda>c. reads_api c \<or> status_write c) (reject_version k ua snap)"
  unfolding reject_version_def now_def kwrite_def by (intro only_bind only_ask only_return) simp_all

lemma reject_calls:
  "calls_of (reject_version k ua snap) h = [Now, Update_Analysis_Status (with_ust ua (\<lambda>s. s\<lparr>ust_decision := ''ERROR'',
     ust_reason := reject_reason (uas_target_version (ua_spec ua)) (s_cluster_version snap),
     ust_last_analysis_time := Some (kc_now k h)\<rparr>))]"
  "result_of (reject_version k ua snap) h \<in> {Finished} \<union> range Retry"
  by (auto simp: reject_version_def now_def kwrite_def calls_of_bind split: option.split)

lemmas reconcile_extends [simp, intro] = only_analyse[THEN only_extends] only_reject[THEN only_extends]

definition after_wait :: "kube \<Rightarrow> 'v analysis_libs \<Rightarrow> operator \<Rightarrow> upgrade_analysis \<Rightarrow> ai_cache \<Rightarrow> (outcome \<times> ai_cache) io" where
  "after_wait k libs op ua cache = do {
     c \<leftarrow> collect_cluster k (scope_of (uas_scope (ua_spec ua)));
     case c of
       Inl e \<Rightarrow> State_Monad.return (Retry (Api_Error e), cache)
     | Inr collected \<Rightarrow>
         let snap = with_previous ua collected in
         if \<not> versionIsHigher (uas_target_version (ua_spec ua)) (s_cluster_version snap)
         then do { out \<leftarrow> reject_version k ua snap; State_Monad.return (out, cache) }
         else analyse k libs op ua snap cache
   }"

lemma only_after_wait:
  "only (\<lambda>c. reads_api c \<or> plan_call c \<or> export_call c \<or> status_write c \<or> (\<exists>sc. c = Collect_Cluster sc))
     (after_wait k libs op ua cache)"
  unfolding after_wait_def collect_cluster_def Let_def
  by (intro only_bind only_ask only_cases only_return only_analyse[THEN only_mono] only_reject[THEN only_mono]) auto

lemmas after_wait_extends [simp, intro] = only_after_wait[THEN only_extends]

lemma after_wait_run:
  fixes k libs op ua cache h
  defines "sc \<equiv> scope_of (uas_scope (ua_spec ua))" and "target \<equiv> uas_target_version (ua_spec ua)"
  defines "h' \<equiv> h @ [Collect_Cluster sc]" and "snap \<equiv> with_previous ua (projr (Collect (kc_cluster k h) sc))"
  shows "calls_of (after_wait k libs op ua cache) h = Collect_Cluster sc #
      (if isl (Collect (kc_cluster k h) sc) then []
       else if \<not> versionIsHigher target (s_cluster_version snap) then calls_of (reject_version k ua snap) h'
       else calls_of (analyse k libs op ua snap cache) h')"
    and "result_of (after_wait k libs op ua cache) h =
      (case Collect (kc_cluster k h) sc of Inl e \<Rightarrow> (Retry (Api_Error e), cache)
       | Inr _ \<Rightarrow> if \<not> versionIsHigher target (s_cluster_version snap) then (result_of (reject_version k ua snap) h', cache)
           else result_of (analyse k libs op ua snap cache) h')"
  unfolding after_wait_def collect_cluster_def Let_def assms
  by (auto simp: calls_of_bind simp del: run_state_bind split: sum.split)

lemma reconcile_run:
  fixes k libs op n cache h
  defines "m \<equiv> UpgradeAnalysis_Reconcile k libs op n cache" and "h1 \<equiv> h @ [Get_Analysis n]"
  shows "kc_get_analysis k h n = Inl e \<Longrightarrow> calls_of m h = [Get_Analysis n] \<and> result_of m h = (ignore_not_found e, cache)"
    and "kc_get_analysis k h n = Inr ua \<Longrightarrow> result_of (resync_wait k ua) h1 = Some out \<Longrightarrow>
      calls_of m h = Get_Analysis n # calls_of (resync_wait k ua) h1 \<and> result_of m h = (out, cache)"
    and "kc_get_analysis k h n = Inr ua \<Longrightarrow> result_of (resync_wait k ua) h1 = None \<Longrightarrow>
      calls_of m h = Get_Analysis n # calls_of (resync_wait k ua) h1
        @ calls_of (after_wait k libs op ua cache) (h1 @ calls_of (resync_wait k ua) h1) \<and>
      result_of m h = result_of (after_wait k libs op ua cache) (h1 @ calls_of (resync_wait k ua) h1)"
proof -
  let ?body = "\<lambda>got. case got of
       Inl e \<Rightarrow> State_Monad.return (ignore_not_found e, cache)
     | Inr ua \<Rightarrow> resync_wait k ua \<bind> (\<lambda>wait. case wait of
           Some out \<Rightarrow> State_Monad.return (out, cache)
         | None \<Rightarrow> after_wait k libs op ua cache)"
  have m: "m = ask (\<lambda>h. kc_get_analysis k h n) (Get_Analysis n) \<bind> ?body"
    unfolding m_def UpgradeAnalysis_Reconcile_def get_analysis_def after_wait_def ..
  have ex: "extends (?body x)" for x by (intro extends_cases extends_bind extends_return stage_extends after_wait_extends)
  have run: "calls_of m h = Get_Analysis n # calls_of (?body (kc_get_analysis k h n)) h1"
    "result_of m h = result_of (?body (kc_get_analysis k h n)) h1"
    unfolding m h1_def using calls_of_bind[OF extends_ask ex] by simp_all
  show "kc_get_analysis k h n = Inl e \<Longrightarrow> calls_of m h = [Get_Analysis n] \<and> result_of m h = (ignore_not_found e, cache)"
    by (simp add: run)
  show "kc_get_analysis k h n = Inr ua \<Longrightarrow> result_of (resync_wait k ua) h1 = Some out \<Longrightarrow>
      calls_of m h = Get_Analysis n # calls_of (resync_wait k ua) h1 \<and> result_of m h = (out, cache)"
    by (simp add: run calls_of_bind only_wait[THEN only_extends] extends_cases del: run_state_bind)
  show "kc_get_analysis k h n = Inr ua \<Longrightarrow> result_of (resync_wait k ua) h1 = None \<Longrightarrow>
      calls_of m h = Get_Analysis n # calls_of (resync_wait k ua) h1
        @ calls_of (after_wait k libs op ua cache) (h1 @ calls_of (resync_wait k ua) h1) \<and>
      result_of m h = result_of (after_wait k libs op ua cache) (h1 @ calls_of (resync_wait k ua) h1)"
    by (simp add: run calls_of_bind only_wait[THEN only_extends] extends_cases del: run_state_bind)
qed

definition refusal :: "upgrade_analysis \<Rightarrow> cluster_snapshot \<Rightarrow> int \<Rightarrow> upgrade_analysis" where
  "refusal ua snap t = with_ust ua (\<lambda>s. s\<lparr>ust_decision := ''ERROR'',
     ust_reason := reject_reason (uas_target_version (ua_spec ua)) (s_cluster_version snap),
     ust_last_analysis_time := Some t\<rparr>)"

lemma stages_same_object:
  assumes "analysis_stages k libs op ua snap cache h = (cs, ar)"
  shows "same_object ua (ar_status ar)"
proof -
  obtain f where "same_object (with_ust ua f) (fst (ar_ai ar))"
    and st: "ar_status ar = final_status (record_report (fst (ar_ai ar)) (ar_written ar)) snap (ar_final ar) (ar_time ar)"
    using assms apply_ai_result unfolding analysis_stages_def by (fastforce simp: Let_def split_def)
  then show ?thesis
    unfolding st by (metis same_object_with same_object_trans record_report_frame(1) final_status_frame(1))
qed

lemma reject_result:
  "result_of (reject_version k ua snap) h =
     (case kc_write k (h @ [Now]) (Update_Analysis_Status (refusal ua snap (kc_now k h))) of Some e \<Rightarrow> Retry e | None \<Rightarrow> Finished)"
  by (simp add: reject_version_def now_def kwrite_def calls_of_bind refusal_def)

section \<open>When an analysis runs\<close>

text \<open>
  The last analysis ran, for this generation of the spec and this value of the refresh annotation, and a
  resync interval is set.
\<close>

definition up_to_date :: "upgrade_analysis \<Rightarrow> bool" where
  "up_to_date ua \<longleftrightarrow> ust_last_analysis_time (ua_status ua) \<noteq> None \<and> 0 < rsc_interval (uas_resync (ua_spec ua)) \<and>
     ua_generation ua = ust_observed_generation (ua_status ua) \<and>
     lget (ua_annotations ua) ''mirops.io/refresh'' = ust_last_refresh (ua_status ua)"

abbreviation next_due :: "upgrade_analysis \<Rightarrow> int" where
  "next_due ua \<equiv> the (ust_last_analysis_time (ua_status ua)) + resync_interval ua"

lemma resync_wait_run:
  "calls_of (resync_wait k ua) h =
     (if up_to_date ua then if kc_now k h < next_due ua then [Now, Now] else [Now] else [])"
  "result_of (resync_wait k ua) h =
     (if up_to_date ua \<and> kc_now k h < next_due ua then Some (Requeue_After (next_due ua - kc_now k (h @ [Now]))) else None)"
  by (auto simp: resync_wait_def up_to_date_def spec_changed_def refresh_requested_def refreshAnnotation_def now_def calls_of_bind
      split: option.split)

text \<open>C17: within the resync interval, with the spec and the refresh annotation as the last analysis saw them, a
  reconcile only reads the analysis and the clock and asks to come back; a changed generation, a changed
  annotation, a first run or an elapsed interval always reaches the collection.\<close>

theorem resync_skips:
  assumes "kc_get_analysis k h n = Inr ua"
  shows "let h1 = h @ [Get_Analysis n]; m = UpgradeAnalysis_Reconcile k libs op n cache in
    (up_to_date ua \<and> kc_now k h1 < next_due ua \<longrightarrow>
       calls_of m h = [Get_Analysis n, Now, Now] \<and>
       result_of m h = (Requeue_After (next_due ua - kc_now k (h1 @ [Now])), cache)) \<and>
    (\<not> (up_to_date ua \<and> kc_now k h1 < next_due ua) \<longrightarrow>
       Collect_Cluster (scope_of (uas_scope (ua_spec ua))) \<in> set (calls_of m h))"
proof (cases "up_to_date ua \<and> kc_now k (h @ [Get_Analysis n]) < next_due ua")
  case True
  then show ?thesis using reconcile_run(2)[OF assms, of _ libs op cache] by (simp add: resync_wait_run Let_def)
next
  case False
  then have "result_of (resync_wait k ua) (h @ [Get_Analysis n]) = None" by (auto simp: resync_wait_run)
  then have "Collect_Cluster (scope_of (uas_scope (ua_spec ua))) \<in> set (calls_of (UpgradeAnalysis_Reconcile k libs op n cache) h)"
    using reconcile_run(3)[OF assms, of libs op cache] by (simp add: after_wait_run(1))
  with False show ?thesis unfolding Let_def by blast
qed

text \<open>
  The delay is computed from a second reading of the clock. When the due time falls between the two
  readings it is not positive, which the queue takes for no delay: nothing brings the analysis back.
\<close>

lemma resync_lost_between_readings:
  assumes "kc_get_analysis k h n = Inr ua" "up_to_date ua"
    and "kc_now k (h @ [Get_Analysis n]) < next_due ua" "next_due ua \<le> kc_now k (h @ [Get_Analysis n, Now])"
  shows "\<exists>d. result_of (UpgradeAnalysis_Reconcile k libs op n cache) h = (Requeue_After d, cache) \<and> d \<le> 0"
  using assms reconcile_run(2)[OF assms(1), of _ libs op cache] by (auto simp: resync_wait_run)

text \<open>C16: an analysis with a resync interval is never dropped: a reconcile that neither fails nor has just stored that
  the target version is refused asks to come back after a positive delay, the interval after a run and the time
  that remains while it waits. This is so as long as the due time does not fall between the two readings of the
  clock.\<close>

theorem analysis_requeued:
  fixes k libs op n cache h
  defines "m \<equiv> UpgradeAnalysis_Reconcile k libs op n cache"
  assumes "kc_get_analysis k h n = Inr ua" "resync_interval ua > 0"
    and "up_to_date ua \<Longrightarrow> kc_now k (h @ [Get_Analysis n]) < next_due ua \<Longrightarrow>
      kc_now k (h @ [Get_Analysis n, Now]) < next_due ua"
  shows "case fst (result_of m h) of
      Retry e \<Rightarrow> True
    | Requeue_After d \<Rightarrow> 0 < d \<and>
        (if up_to_date ua \<and> kc_now k (h @ [Get_Analysis n]) < next_due ua
         then d = next_due ua - kc_now k (h @ [Get_Analysis n, Now])
         else d = resync_interval ua \<and> (\<exists>pre u. calls_of m h = pre @ [Update_Analysis_Status u] \<and>
           kc_write k (h @ pre) (Update_Analysis_Status u) = None \<and> same_object ua u))
    | Finished \<Rightarrow> (\<exists>pre u. calls_of m h = pre @ [Update_Analysis_Status u] \<and>
        kc_write k (h @ pre) (Update_Analysis_Status u) = None \<and>
        ust_decision (ua_status u) = ''ERROR'' \<and> same_object ua u)"
proof (cases "result_of (resync_wait k ua) (h @ [Get_Analysis n])")
  case (Some out)
  then have out: "up_to_date ua" "kc_now k (h @ [Get_Analysis n]) < next_due ua"
    "out = Requeue_After (next_due ua - kc_now k (h @ [Get_Analysis n, Now]))"
    by (auto simp: resync_wait_run split: if_splits)
  then show ?thesis using reconcile_run(2)[OF assms(2) Some, of libs op cache] assms(4) by (simp add: m_def)
next
  case None
  let ?h1 = "h @ [Get_Analysis n]"
  note run = reconcile_run(3)[OF assms(2) None, of libs op cache, folded m_def]
  have due: "\<not> (up_to_date ua \<and> kc_now k ?h1 < next_due ua)" using None by (auto simp: resync_wait_run)
  let ?h2 = "?h1 @ calls_of (resync_wait k ua) ?h1" and ?sc = "scope_of (uas_scope (ua_spec ua))"
  let ?h3 = "?h2 @ [Collect_Cluster ?sc]"
  let ?pre = "Get_Analysis n # calls_of (resync_wait k ua) ?h1 @ [Collect_Cluster ?sc]"
  show ?thesis
  proof (cases "Collect (kc_cluster k ?h2) ?sc")
    case (Inl e)
    then show ?thesis using run by (simp add: after_wait_run)
  next
    case (Inr collected)
    let ?snap = "with_previous ua collected"
    show ?thesis
    proof (cases "versionIsHigher (uas_target_version (ua_spec ua)) (s_cluster_version ?snap)")
      case False
      let ?u = "refusal ua ?snap (kc_now k ?h3)"
      have calls: "calls_of m h = (?pre @ [Now]) @ [Update_Analysis_Status ?u]"
        using run Inr False by (simp add: after_wait_run(1) reject_calls refusal_def)
      have result: "fst (result_of m h) = (case kc_write k (?h3 @ [Now]) (Update_Analysis_Status ?u) of Some e \<Rightarrow> Retry e | None \<Rightarrow> Finished)"
        using run Inr False by (simp add: after_wait_run(2) reject_result refusal_def)
      show ?thesis
      proof (cases "kc_write k (?h3 @ [Now]) (Update_Analysis_Status ?u)")
        case None
        then have "calls_of m h = (?pre @ [Now]) @ [Update_Analysis_Status ?u] \<and>
            kc_write k (h @ ?pre @ [Now]) (Update_Analysis_Status ?u) = None \<and>
            ust_decision (ua_status ?u) = ''ERROR'' \<and> same_object ua ?u"
          using calls by (simp add: refusal_def) (simp add: with_ust_def)
        then show ?thesis unfolding result None by simp
      qed (simp add: result)
    next
      case True
      obtain cs ar where st: "analysis_stages k libs op ua ?snap cache ?h3 = (cs, ar)" by fastforce
      have calls: "calls_of m h = (?pre @ cs) @ [Update_Analysis_Status (ar_status ar)]"
        using run Inr True analyse_run(1)[OF st] by (simp add: after_wait_run(1))
      have result: "fst (result_of m h) = (case kc_write k (?h3 @ cs) (Update_Analysis_Status (ar_status ar)) of Some e \<Rightarrow> Retry e
          | None \<Rightarrow> Requeue_After (resync_interval ua))"
        using run Inr True analyse_run(2)[OF st] assms(3) by (simp add: after_wait_run(2) split: option.split)
      show ?thesis
      proof (cases "kc_write k (?h3 @ cs) (Update_Analysis_Status (ar_status ar))")
        case None
        then have "calls_of m h = (?pre @ cs) @ [Update_Analysis_Status (ar_status ar)] \<and>
            kc_write k (h @ ?pre @ cs) (Update_Analysis_Status (ar_status ar)) = None \<and> same_object ua (ar_status ar)"
          using calls stages_same_object[OF st] by simp
        then show ?thesis unfolding result None using due assms(3) by auto
      qed (simp add: result)
    qed
  qed
qed

section \<open>What an analysis may do\<close>

lemma only_ai_off:
  assumes "\<not> (aic_enabled (uas_ai (ua_spec ua)) \<and> rc_enabled (aic_remediation (uas_ai (ua_spec ua))))"
  shows "only reads_api (apply_ai k libs ns ua rep cache)"
proof (cases "aic_enabled (uas_ai (ua_spec ua))")
  case True
  with assms have off: "rc_enabled (aic_remediation (uas_ai (ua_spec ua))) = False" by simp
  show ?thesis
    unfolding apply_ai_def Let_def off simp_thms if_False by (intro only_bind only_cases only_return only_score)
qed (simp add: apply_ai_def only_return)

lemma calls_only: "only P m \<Longrightarrow> c \<in> set (calls_of m h) \<Longrightarrow> P c"
  using onlyD[of P m h] by (simp add: list_all_iff)

text \<open>
  What an analysis may call: reads, the collection within its scope, its own plan when it may propose one,
  its own report, and the write of its own status.
\<close>

fun own_call :: "kube \<Rightarrow> upgrade_analysis \<Rightarrow> call \<Rightarrow> bool" where
  "own_call k ua Now = True"
| "own_call k ua (Get_Secret ns n) = True"
| "own_call k ua (Get_Config_Map ns n) = True"
| "own_call k ua (Ask_Model p key model prompt tokens) = aic_enabled (uas_ai (ua_spec ua))"
| "own_call k ua (Get_Analysis n) = True"
| "own_call k ua (Collect_Cluster sc) = (sc = scope_of (uas_scope (ua_spec ua)))"
| "own_call k ua (Export_Analysis ex rep) = (r_cluster rep = ua_name ua)"
| "own_call k ua (Update_Analysis_Status u) = same_object ua u"
| "own_call k ua c = (aic_enabled (uas_ai (ua_spec ua)) \<and> rc_enabled (aic_remediation (uas_ai (ua_spec ua))) \<and> own_plan k ua c)"

lemma own_call_plan: "aic_enabled (uas_ai (ua_spec ua)) \<Longrightarrow> rc_enabled (aic_remediation (uas_ai (ua_spec ua))) \<Longrightarrow>
    own_plan k ua c \<Longrightarrow> own_call k ua c"
  by (cases c) simp_all

lemma own_call_with [simp]: "own_call k (ua\<lparr>ua_status := s\<rparr>) c = own_call k ua c"
  by (cases c) (simp_all add: same_object_def)

fun asks_model :: "call \<Rightarrow> bool" where
  "asks_model (Ask_Model p key model prompt tokens) = True"
| "asks_model c = False"

lemma own_call_reads: "reads_api c \<Longrightarrow> \<not> asks_model c \<Longrightarrow> own_call k ua c"
  "reads_api c \<Longrightarrow> aic_enabled (uas_ai (ua_spec ua)) \<Longrightarrow> own_call k ua c"
  by (cases c; simp)+

lemma only_own_stages:
  "only (own_call k ua) (resync_wait k ua)" "only (own_call k ua) (loadCompatMatrix k libs ns)"
  "only (own_call k ua) (apply_ai k l ns ua rep cache)"
  "r_cluster rep = ua_name ua \<Longrightarrow> only (own_call k ua) (write_report k op ua rep)"
  "only (own_call k ua) (reject_version k ua snap)"
proof -
  show "only (own_call k ua) (resync_wait k ua)"
    unfolding resync_wait_def now_def by (intro only_cases only_bind only_ask only_return) simp_all
  show "only (own_call k ua) (loadCompatMatrix k libs ns)"
    unfolding loadCompatMatrix_def get_config_map_def by (intro only_bind only_ask only_return) simp_all
  have "only (own_call k ua) (buildExporter k ns n src)" for ns n src
    unfolding buildExporter_def get_secret_def by (intro only_cases only_bind only_ask only_return) simp_all
  then show "r_cluster rep = ua_name ua \<Longrightarrow> only (own_call k ua) (write_report k op ua rep)"
    unfolding write_report_def export_def Let_def by (intro only_cases only_bind only_ask only_return) simp_all
  show "only (own_call k ua) (reject_version k ua snap)"
    unfolding reject_version_def now_def kwrite_def by (intro only_bind only_ask only_return) simp_all
  consider "\<not> aic_enabled (uas_ai (ua_spec ua))"
    | "aic_enabled (uas_ai (ua_spec ua))" "\<not> rc_enabled (aic_remediation (uas_ai (ua_spec ua)))"
    | "aic_enabled (uas_ai (ua_spec ua))" "rc_enabled (aic_remediation (uas_ai (ua_spec ua)))" by blast
  then show "only (own_call k ua) (apply_ai k l ns ua rep cache)"
  proof cases
    case 1
    then show ?thesis by (simp add: apply_ai_def only_return)
  next
    case 2
    then have "only reads_api (apply_ai k l ns ua rep cache)" by (intro only_ai_off) simp
    then show ?thesis by (rule only_mono) (rule own_call_reads(2)[OF _ 2(1)])
  next
    case 3
    show ?thesis by (rule only_mono[OF only_ai_own[where ua = ua]]) (auto intro: own_call_reads(2) own_call_plan 3)
  qed
qed

lemma assess_cluster: "r_cluster (fst (assess libs ua snap m t)) = ua_name ua"
  by (simp add: assess_def Let_def split_def)

lemma ApplyAIScore_cluster: "r_cluster (ApplyAIScore r a w model pn) = r_cluster r"
  by (simp add: ApplyAIScore_def Let_def split_def)

lemma ApplyGraphDecision_cluster: "r_cluster (ApplyGraphDecision r) = r_cluster r"
  by (simp add: ApplyGraphDecision_def Let_def)

text \<open>Any call but the last of an analysis.\<close>

lemma analyse_calls:
  assumes "analysis_stages k libs op ua snap cache h = (cs, ar)" "c \<in> set cs"
  shows "own_call k ua c \<and> (\<forall>u. c \<noteq> Update_Analysis_Status u)"
proof -
  define ua' where "ua' = fst (ar_ai ar)"
  have same: "same_object ua ua'" and cluster: "r_cluster (ar_final ar) = ua_name ua"
  proof -
    obtain f ns h' where ai: "ar_ai ar = result_of (apply_ai k (an_ai libs) ns (with_ust ua f) (ar_report ar) cache) h'"
      using assms(1) unfolding analysis_stages_def by (auto simp: Let_def split_def)
    have rep: "ar_report ar = fst (assess libs ua snap (ar_matrix ar) (ar_time ar))" and fin: "ar_final ar = ApplyGraphDecision (fst (snd (ar_ai ar)))"
      using assms(1) unfolding analysis_stages_def by (auto simp: Let_def split_def)
    note res = apply_ai_result[of "with_ust ua f" k "an_ai libs" ns "ar_report ar" cache h', folded ai]
    from res show "same_object ua ua'" unfolding ua'_def by (blast intro: same_object_trans[OF same_object_with])
    have "r_cluster (ar_report ar) = ua_name ua" using rep assess_cluster by metis
    then have "r_cluster (fst (snd (ar_ai ar))) = ua_name ua" using res ApplyAIScore_cluster by metis
    then show "r_cluster (ar_final ar) = ua_name ua" by (simp add: fin ApplyGraphDecision_cluster)
  qed
  then have own: "own_call k ua' c = own_call k ua c" "r_cluster (ar_final ar) = ua_name ua'"
    using same_object_fields[OF same] own_call_with unfolding same_object_def by metis+
  have "c \<in> set (calls_of (loadCompatMatrix k libs (op_namespace op)) h) \<or> c = Now \<or>
      (\<exists>f l ns h'. c \<in> set (calls_of (apply_ai k l ns (with_ust ua f) (ar_report ar) cache) h')) \<or>
      (\<exists>h'. c \<in> set (calls_of (write_report k op ua' (ar_final ar)) h'))"
    using assms unfolding analysis_stages_def ua'_def by (auto simp: Let_def split_def)
  then consider "c \<in> set (calls_of (loadCompatMatrix k libs (op_namespace op)) h)" | "c = Now"
    | f l ns h' where "c \<in> set (calls_of (apply_ai k l ns (with_ust ua f) (ar_report ar) cache) h')"
    | h' where "c \<in> set (calls_of (write_report k op ua' (ar_final ar)) h')" by blast
  then show ?thesis
  proof cases
    case 1
    from calls_only[OF only_own_stages(2) this] calls_only[OF only_matrix this] show ?thesis by auto
  next
    case (3 f l ns h')
    from calls_only[OF only_own_stages(3) this] calls_only[OF only_ai this] show ?thesis by (auto simp: with_ust_def)
  next
    case (4 h')
    from calls_only[OF only_own_stages(4)[OF own(2)] this] calls_only[OF only_write_own this] own(1) show ?thesis by auto
  qed simp
qed

lemma stages_no_status:
  assumes "analysis_stages k libs op ua snap cache h = (cs, ar)"
  shows "Update_Analysis_Status u \<notin> set cs"
  using analyse_calls[OF assms, of "Update_Analysis_Status u"] by blast

lemma reconcile_writes:
  fixes k libs op n cache h
  defines "calls \<equiv> calls_of (UpgradeAnalysis_Reconcile k libs op n cache) h"
  assumes "Update_Analysis_Status u \<in> set calls"
  obtains (refused) ua pre collected t where "kc_get_analysis k h n = Inr ua"
      "calls = pre @ [Update_Analysis_Status u]" "u = refusal ua collected t"
      "\<not> versionIsHigher (uas_target_version (ua_spec ua)) (s_cluster_version collected)"
      "list_all (\<lambda>c. \<not> export_call c) pre"
  | (analysed) ua w collected pre cs ar where "kc_get_analysis k h n = Inr ua"
      "Collect (kc_cluster k (h @ w)) (scope_of (uas_scope (ua_spec ua))) = Inr collected"
      "versionIsHigher (uas_target_version (ua_spec ua)) (s_cluster_version collected)"
      "analysis_stages k libs op ua (with_previous ua collected) cache (h @ pre) = (cs, ar)"
      "calls = pre @ cs @ [Update_Analysis_Status u]" "u = ar_status ar"
      "list_all (\<lambda>c. \<not> export_call c) pre" "pre = w @ [Collect_Cluster (scope_of (uas_scope (ua_spec ua)))]"
proof (cases "kc_get_analysis k h n")
  case (Inl e)
  then show ?thesis using assms reconcile_run(1)[OF Inl, of libs op cache] by simp
next
  case (Inr ua)
  let ?h1 = "h @ [Get_Analysis n]"
  let ?w = "calls_of (resync_wait k ua) ?h1"
  have wait: "list_all (\<lambda>c. \<not> export_call c) ?w" "Update_Analysis_Status u \<notin> set ?w"
    by (auto simp: resync_wait_run)
  show ?thesis
  proof (cases "result_of (resync_wait k ua) ?h1")
    case (Some out)
    then show ?thesis using assms wait reconcile_run(2)[OF Inr Some, of libs op cache] by simp
  next
    case None
    let ?h2 = "?h1 @ ?w" and ?sc = "scope_of (uas_scope (ua_spec ua))"
    let ?pre = "Get_Analysis n # ?w @ [Collect_Cluster ?sc]"
    have pre: "list_all (\<lambda>c. \<not> export_call c) ?pre" "Update_Analysis_Status u \<notin> set ?pre" using wait by simp_all
    have calls: "calls = Get_Analysis n # ?w @ calls_of (after_wait k libs op ua cache) ?h2"
      using reconcile_run(3)[OF Inr None, of libs op cache] by (simp add: calls_def)
    obtain snap where snap: "Collect (kc_cluster k ?h2) ?sc = Inr snap"
      using assms(2) pre by (cases "Collect (kc_cluster k ?h2) ?sc") (auto simp: calls after_wait_run(1))
    show ?thesis
    proof (cases "versionIsHigher (uas_target_version (ua_spec ua)) (s_cluster_version snap)")
      case False
      have "calls = ?pre @ calls_of (reject_version k ua (with_previous ua snap)) (h @ ?pre)"
        using False snap by (simp add: calls after_wait_run(1) with_previous_def)
      then have "calls = (?pre @ [Now]) @ [Update_Analysis_Status (refusal ua (with_previous ua snap) (kc_now k (h @ ?pre)))]"
        by (simp add: reject_calls refusal_def)
      moreover from this have "u = refusal ua (with_previous ua snap) (kc_now k (h @ ?pre))"
        using assms(2) pre(2) by auto
      moreover have "s_cluster_version (with_previous ua snap) = s_cluster_version snap" by (simp add: with_previous_def)
      ultimately show ?thesis using refused[OF Inr, of "?pre @ [Now]" "with_previous ua snap"] pre(1) False by auto
    next
      case True
      obtain cs ar where st: "analysis_stages k libs op ua (with_previous ua snap) cache (h @ ?pre) = (cs, ar)" by fastforce
      have c: "calls = ?pre @ cs @ [Update_Analysis_Status (ar_status ar)]"
        using True snap analyse_run(1)[OF st] by (simp add: calls after_wait_run(1) with_previous_def)
      then have "u = ar_status ar" using assms(2) pre(2) stages_no_status[OF st] by auto
      moreover have "Collect (kc_cluster k (h @ Get_Analysis n # ?w)) ?sc = Inr snap" using snap by simp
      ultimately show ?thesis using analysed[OF Inr _ True st] c pre(1) by simp
    qed
  qed
qed

lemma own_status_write:
  assumes "Update_Analysis_Status u \<in> set (calls_of (UpgradeAnalysis_Reconcile k libs op n cache) h)"
  shows "last (calls_of (UpgradeAnalysis_Reconcile k libs op n cache) h) = Update_Analysis_Status u \<and>
    (\<exists>ua. kc_get_analysis k h n = Inr ua \<and> same_object ua u)"
  using assms
proof (cases rule: reconcile_writes)
  case (refused ua pre collected t)
  then show ?thesis by (simp add: refusal_def)
next
  case (analysed ua w collected pre cs ar)
  then show ?thesis using stages_same_object[OF analysed(4)] by simp
qed

lemma same_object_quiet: "same_object ua u \<Longrightarrow> \<not> analysis_event ua u"
  using same_object_fields by (simp add: analysis_event_def)

lemma reconcile_own_calls:
  assumes "kc_get_analysis k h n = Inr ua" "c \<in> set (calls_of (UpgradeAnalysis_Reconcile k libs op n cache) h)"
  shows "own_call k ua c"
proof (cases "result_of (resync_wait k ua) (h @ [Get_Analysis n])")
  case None
  let ?h1 = "h @ [Get_Analysis n]"
  let ?h2 = "?h1 @ calls_of (resync_wait k ua) ?h1" and ?sc = "scope_of (uas_scope (ua_spec ua))"
  let ?snap = "with_previous ua (projr (Collect (kc_cluster k ?h2) ?sc))"
  obtain cs ar where st: "analysis_stages k libs op ua ?snap cache (?h2 @ [Collect_Cluster ?sc]) = (cs, ar)"
    by fastforce
  show ?thesis
    using assms(2) reconcile_run(3)[OF assms(1) None, of libs op cache] calls_only[OF only_own_stages(1), of c k ua ?h1]
      analyse_run(1)[OF st] analyse_calls[OF st, of c] stages_same_object[OF st] calls_only[OF only_own_stages(5), of c k ua]
    by (auto simp: after_wait_run(1) split: if_splits)
next
  case (Some out)
  then show ?thesis
    using assms reconcile_run(2)[OF assms(1) Some, of libs op cache] calls_only[OF only_own_stages(1), of c k ua] by auto
qed

text \<open>C14: an analysis only observes: whatever it is answered, every call of a reconcile is a read, the collection within
  the analysis' scope, the export of the analysis' own report, the write of its own status, which leaves its name,
  spec, generation and annotations alone, or, only for an analysis that has both AI scoring and remediation enabled, a
  call on its own plan. So it never touches a pod, a deployment, a node, a mirror or another plan. The status is written
  last, and the write does not wake the controller again, so a reconcile is not the cause of the next.\<close>

theorem analysis_only_observes:
  assumes "c \<in> set (calls_of (UpgradeAnalysis_Reconcile k libs op n cache) h)"
  shows "\<not> acts c \<and> (c = Get_Analysis n \<or> (\<exists>ua. kc_get_analysis k h n = Inr ua \<and> own_call k ua c)) \<and>
    (\<forall>u. c = Update_Analysis_Status u \<longrightarrow> last (calls_of (UpgradeAnalysis_Reconcile k libs op n cache) h) = c \<and>
       (\<exists>ua. kc_get_analysis k h n = Inr ua \<and> same_object ua u \<and> \<not> analysis_event ua u))"
proof -
  have "last (calls_of (UpgradeAnalysis_Reconcile k libs op n cache) h) = c \<and>
      (\<exists>ua. kc_get_analysis k h n = Inr ua \<and> same_object ua u \<and> \<not> analysis_event ua u)" if "c = Update_Analysis_Status u" for u
    using own_status_write assms that same_object_quiet by metis
  moreover have own: "c = Get_Analysis n \<or> (\<exists>ua. kc_get_analysis k h n = Inr ua \<and> own_call k ua c)"
    using assms reconcile_own_calls[of k h n _ c libs op cache] reconcile_run(1)[of k h n _ libs op cache]
    by (cases "kc_get_analysis k h n") auto
  moreover have "\<not> acts c" using own by (cases c) auto
  ultimately show ?thesis by blast
qed

section \<open>The verdict\<close>

lemma apply_ai_report:
  "fst (snd (result_of (apply_ai k l ns (with_ust ua f) rep cache) h)) = rep \<or>
   (\<exists>s w model. fst (snd (result_of (apply_ai k l ns (with_ust ua f) rep cache) h)) =
      ApplyAIScore rep s w model (uas_scoring_profile (ua_spec ua)))"
  using apply_ai_result[where ua = "with_ust ua f" and k = k and libs = l and ns = ns and rep = rep and cache = cache and h = h]
  by (simp add: with_ust_def)

lemma stages_report:
  assumes "analysis_stages k libs op ua snap cache h = (cs, ar)"
  shows "ar_final ar = ApplyGraphDecision (fst (snd (ar_ai ar)))"
    and "(ar_report ar, ar_incompatible ar) = assess libs ua snap (ar_matrix ar) (ar_time ar)"
    and "ar_matrix ar = matrix_or_default libs (result_of (loadCompatMatrix k libs (op_namespace op)) h)"
  using assms unfolding analysis_stages_def by (auto simp: Let_def split_def)

lemma stages_ai:
  assumes "analysis_stages k libs op ua snap cache h = (cs, ar)"
  shows "fst (snd (ar_ai ar)) = ar_report ar \<or>
      (\<exists>s w model. fst (snd (ar_ai ar)) = ApplyAIScore (ar_report ar) s w model (uas_scoring_profile (ua_spec ua)))"
proof -
  obtain f ns cache' h' where "ar_ai ar = result_of (apply_ai k (an_ai libs) ns (with_ust ua f) (ar_report ar) cache') h'"
    using assms unfolding analysis_stages_def by (auto simp: Let_def split_def)
  then show ?thesis using apply_ai_report by metis
qed

lemma stages_blockers:
  assumes "analysis_stages k libs op ua snap cache h = (cs, ar)"
  shows "collectBlockers (fst (snd (ar_ai ar))) = collectBlockers (ar_report ar)"
  using stages_ai[OF assms] ApplyAIScore_blockers by metis

lemma uncritical: "dc_level (r_decision (ApplyGraphDecision r)) \<noteq> ''CRITICAL'' \<Longrightarrow> collectBlockers r = []"
  by (auto simp: ApplyGraphDecision_def Let_def level_defs split: if_splits)

lemma assess_fields:
  assumes "assess libs ua snap m t = (rep, n)"
  defines "ev \<equiv> Evaluate (an_semver libs) (s_detected_addons snap) (uas_target_version (ua_spec ua)) m"
  shows "r_addons rep = fst ev" "n = snd ev" "r_conditions rep = r_conditions (Calculate (snap\<lparr>s_addon_issues := n\<rparr>)
      (uas_target_version (ua_spec ua)) (uas_scoring_profile (ua_spec ua)))"
    and "r_graph rep = Some (fst (ApplyRisk (BuildFromSnapshot (snap\<lparr>s_addon_issues := n\<rparr>)) (addon_statuses (fst ev))))"
  using assms unfolding assess_def by (auto simp: Let_def split_def)

lemma assess_scores:
  "r_scores (fst (assess libs ua snap m t)) = r_scores (Calculate (snap\<lparr>s_addon_issues := snd (assess libs ua snap m t)\<rparr>)
      (uas_target_version (ua_spec ua)) (uas_scoring_profile (ua_spec ua)))"
  "r_decision (fst (assess libs ua snap m t)) = r_decision (Calculate (snap\<lparr>s_addon_issues := snd (assess libs ua snap m t)\<rparr>)
      (uas_target_version (ua_spec ua)) (uas_scoring_profile (ua_spec ua)))"
  by (simp_all add: assess_def Let_def split_def)

section \<open>What the model may change\<close>

lemma apply_ai_scored:
  fixes k libs ns ua rep cache h
  defines "r \<equiv> fst (snd (result_of (apply_ai k libs ns ua rep cache) h))"
  shows "r = rep \<or> (\<exists>ans. fst (result_of (scoreWithAI k libs ns ua rep cache) h) = Inr ans \<and>
    r = ApplyAIScore rep (fst ans) (fst (snd ans)) (model_name (uas_ai (ua_spec ua))) (uas_scoring_profile (ua_spec ua)))"
  unfolding r_def apply_ai_def Let_def
  by (auto simp: calls_of_bind with_ust_def split: sum.split simp del: run_state_bind)

lemma decided_level:
  assumes "dc_level (r_decision r) = fst (decide n (r_conditions r) (profileFor pn))"
    and "dc_allow (r_decision r) = snd (decide n (r_conditions r) (profileFor pn))"
  defines "d \<equiv> r_decision (ApplyGraphDecision r)"
  shows "dc_blockers d = collectBlockers r" "dc_allow d = (collectBlockers r = [])"
    "dc_level d = (if collectBlockers r \<noteq> [] then ''CRITICAL''
       else if cd_unstable (r_conditions r) \<or> n < (if pn = ''non-production'' then 85 else 90) then ''WARNING'' else ''SAFE'')"
  using assms(1,2) collectBlockers_empty[of r]
  by (auto simp: d_def ApplyGraphDecision_def Let_def decide_def level_defs profileFor_cases)


section \<open>Lost storage\<close>

lemma rescored_views: "rescored P ns ns' \<Longrightarrow> map (\<lambda>n. (c_type n, c_status n)) ns' = map (\<lambda>n. (c_type n, c_status n)) ns"
  unfolding rescored_def
  by (induction rule: list_all2_induct) (auto, (metis component.select_convs(5,7) component.surjective component.update_convs(8))+)

definition lost_storage :: "graph \<Rightarrow> bool" where
  "lost_storage g \<longleftrightarrow> (TypeStorage, ''Lost'') \<in> set (map (\<lambda>n. (c_type n, c_status n)) (g_nodes g))"

lemma lost_storage_risk [simp]: "lost_storage (fst (ApplyRisk g st)) = lost_storage g"
  unfolding lost_storage_def ApplyRisk_def Let_def by (simp add: rescored_views[OF compute_all_sound] del: set_map)

lemma build_nodes_cong [simp]:
  "BuildFromSnapshot (s\<lparr>s_addon_issues := x\<rparr>) = BuildFromSnapshot s"
  "BuildFromSnapshot (s\<lparr>s_previous_total_pods := p, s_previous_restarts := r\<rparr>) = BuildFromSnapshot s"
  unfolding BuildFromSnapshot_def build_all_def build_nodes_def add_addons_def add_infra_def add_workloads_def
    add_bare_pods_def add_network_def add_storage_def link_ingresses_def link_services_def by simp_all

text \<open>C1: the stored verdict is never a false all-clear: a SAFE or WARNING decision is stored only after a collection in
  this reconcile whose version is below the target and in which no disruption budget blocks, no add-on is
  incompatible with the target under the matrix that was loaded, and no persistent volume claim of the mirror
  is Lost, whatever the model answered.\<close>

theorem no_false_safe:
  fixes k libs op n cache h
  defines "calls \<equiv> calls_of (UpgradeAnalysis_Reconcile k libs op n cache) h"
  assumes "Update_Analysis_Status u \<in> set calls" and "ust_decision (ua_status u) \<in> {''SAFE'', ''WARNING''}"
  shows "\<exists>ua sc before after snap m. kc_get_analysis k h n = Inr ua \<and> sc = scope_of (uas_scope (ua_spec ua)) \<and>
    calls = before @ Collect_Cluster sc # after \<and> Collect (kc_cluster k (h @ before)) sc = Inr snap \<and>
    versionIsHigher (uas_target_version (ua_spec ua)) (s_cluster_version snap) \<and>
    \<not> s_pdb_blocking snap \<and> \<not> lost_storage (BuildFromSnapshot snap) \<and>
    m = matrix_or_default libs (result_of (loadCompatMatrix k libs (op_namespace op)) (h @ before @ [Collect_Cluster sc])) \<and>
    ''incompatible'' \<notin> ac_status ` set (fst (Evaluate (an_semver libs) (s_detected_addons snap) (uas_target_version (ua_spec ua)) m))"
  using assms(2)[unfolded calls_def]
proof (cases rule: reconcile_writes)
  case (refused ua pre collected t)
  then have "ust_decision (ua_status u) = ''ERROR''" by (simp add: refusal_def with_ust_def)
  with assms(3) show ?thesis by simp
next
  case (analysed ua w collected pre cs ar)
  let ?rep = "ar_report ar"
  have "dc_level (r_decision (ar_final ar)) \<in> {''SAFE'', ''WARNING''}"
    using assms(3) analysed(4,6) by (auto simp: analysis_stages_def Let_def split_def final_status_frame)
  then have "collectBlockers (fst (snd (ar_ai ar))) = []"
    using stages_report(1)[OF analysed(4)] uncritical by auto
  then have clear: "collectBlockers ?rep = []" using stages_blockers[OF analysed(4)] by simp
  note fields = assess_fields[OF stages_report(2)[OF analysed(4), symmetric]]
  have "\<not> s_pdb_blocking collected"
    using clear unfolding collectBlockers_empty fields(3)
    by (simp add: Calculate_def Let_def buildConditions_def with_previous_def split_def)
  moreover have "\<not> lost_storage (BuildFromSnapshot collected)"
  proof -
    have "\<not> lost_storage (the (r_graph ?rep))"
      using clear fields(4) unfolding collectBlockers_empty lost_storage_def by auto
    then show ?thesis by (simp add: fields(4) with_previous_def)
  qed
  moreover have "''incompatible'' \<notin> ac_status ` set (r_addons ?rep)" using clear unfolding collectBlockers_empty by auto
  moreover have "calls = w @ Collect_Cluster (scope_of (uas_scope (ua_spec ua))) # cs @ [Update_Analysis_Status u]"
    unfolding calls_def analysed(5,8) by simp
  ultimately show ?thesis
    using analysed(1-3) stages_report(3)[OF analysed(4)] fields(1) analysed(8)
    by (intro exI[of _ ua] exI[of _ w] exI[of _ collected]) (auto simp: with_previous_def)
qed

section \<open>The status and the report\<close>

lemma exporter_calls: "filter export_call (calls_of (buildExporter k ns n src) h) = []"
  by (auto simp: buildExporter_def get_secret_def calls_of_bind)

lemma write_report_run:
  obtains (unbuilt) e where "filter export_call (calls_of (write_report k op ua rep) h) = []"
      "result_of (write_report k op ua rep) h = ([], [], Some e)"
  | (exported) pre ex p where "calls_of (write_report k op ua rep) h = pre @ [Export_Analysis ex rep]"
      "filter export_call pre = []"
      "result_of (write_report k op ua rep) h = (p, Location ex, kc_export k (h @ pre) (Export_Analysis ex rep))"
proof (cases "src_type (uas_source (ua_spec ua)) \<in> {SourceTypeS3, SourceTypeBlob, SourceTypePVC}")
  case True
  let ?b = "buildExporter k (op_namespace op) (ua_name ua) (uas_source (ua_spec ua))"
  define go :: "string + exporter \<Rightarrow> (string \<times> string \<times> string option) io" where
    "go b = (case b of Inl e \<Rightarrow> State_Monad.return ([], [], Some e)
      | Inr ex \<Rightarrow> export k (Export_Analysis ex rep) \<bind> (\<lambda>w. State_Monad.return ([], Location ex, w)))" for b
  have m: "write_report k op ua rep = ?b \<bind> go" using True by (simp add: write_report_def go_def[abs_def])
  have ex: "extends (go x)" for x
    unfolding go_def export_def by (intro extends_cases extends_bind extends_ask extends_return)
  have run: "calls_of (write_report k op ua rep) h = calls_of ?b h @ calls_of (go (result_of ?b h)) (h @ calls_of ?b h)"
    "result_of (write_report k op ua rep) h = result_of (go (result_of ?b h)) (h @ calls_of ?b h)"
    unfolding m by (rule calls_of_bind[OF only_exporter[THEN only_extends] ex])+
  show ?thesis
  proof (cases "result_of ?b h")
    case (Inl e)
    then show ?thesis using unbuilt[of e] run exporter_calls by (simp add: go_def)
  next
    case (Inr x)
    then have "calls_of (write_report k op ua rep) h = calls_of ?b h @ [Export_Analysis x rep]"
      "result_of (write_report k op ua rep) h = ([], Location x, kc_export k (h @ calls_of ?b h) (Export_Analysis x rep))"
      using run by (simp_all add: go_def export_def calls_of_bind)
    then show ?thesis using exported[of "calls_of ?b h" x "[]"] exporter_calls by simp
  qed
next
  case False
  let ?p = "path_join [op_reports_dir op, localReportName (ua_name ua) (uas_source (ua_spec ua))]"
  have "Location (File_Exporter (NewFileExporter ?p)) = ?p"
    by (simp add: NewFileExporter_def File_Location_def path_join_nonempty local_name_nonempty)
  with False exported[of "[]" "File_Exporter (NewFileExporter ?p)" ?p] show ?thesis
    by (simp add: write_report_def export_def calls_of_bind Let_def)
qed

lemma write_local:
  "src_type (uas_source (ua_spec ua)) \<notin> {SourceTypeS3, SourceTypeBlob, SourceTypePVC} \<Longrightarrow>
     \<exists>ex. calls_of (write_report k op ua rep) h = [Export_Analysis ex rep]"
  by (simp add: write_report_def export_def calls_of_bind Let_def)

lemma stages_written:
  assumes "analysis_stages k libs op ua snap cache h = (cs, ar)"
  obtains pre r where "cs = pre @ calls_of (write_report k op r (ar_final ar)) (h @ pre)"
    "list_all (\<lambda>c. \<not> export_call c) pre" "ar_written ar = result_of (write_report k op r (ar_final ar)) (h @ pre)"
    "ar_status ar = final_status (record_report r (ar_written ar)) snap (ar_final ar) (ar_time ar)" "ua_spec r = ua_spec ua"
proof -
  define ua1 where "ua1 = with_ust ua (\<lambda>s. s\<lparr>ust_addons_checked := int (length (r_addons (ar_report ar))),
    ust_incompatible_addons := ar_incompatible ar\<rparr>)"
  define load where "load = calls_of (loadCompatMatrix k libs (op_namespace op)) h"
  define score where "score = apply_ai k (an_ai libs) (op_namespace op) ua1 (ar_report ar) cache"
  define pre where "pre = load @ [Now] @ calls_of score (h @ load @ [Now])"
  have "list_all (\<lambda>c. \<not> export_call c) load" "list_all (\<lambda>c. \<not> export_call c) (calls_of score h')" for h'
    unfolding load_def score_def
    by (rule onlyD[OF only_matrix[THEN only_mono]], case_tac c, simp_all)
      (rule onlyD[OF only_ai[THEN only_mono]], case_tac c, simp_all)
  then have quiet: "list_all (\<lambda>c. \<not> export_call c) pre" by (simp add: pre_def)
  have stages: "cs = pre @ calls_of (write_report k op (fst (ar_ai ar)) (ar_final ar)) (h @ pre)"
    "ar_written ar = result_of (write_report k op (fst (ar_ai ar)) (ar_final ar)) (h @ pre)"
    "ar_status ar = final_status (record_report (fst (ar_ai ar)) (ar_written ar)) snap (ar_final ar) (ar_time ar)"
    "ar_ai ar = result_of score (h @ load @ [Now])"
    using assms unfolding analysis_stages_def pre_def load_def score_def ua1_def
    by (auto simp: Let_def split_def)
  have "same_object ua1 (fst (ar_ai ar))" unfolding stages(4) score_def using apply_ai_result by blast
  then have "ua_spec (fst (ar_ai ar)) = ua_spec ua1" using same_object_fields by blast
  then have "ua_spec (fst (ar_ai ar)) = ua_spec ua" by (simp add: ua1_def with_ust_def)
  from that[OF stages(1) quiet stages(2,3) this] show ?thesis .
qed

text \<open>C8: the status that an analysis stores and the report it publishes never disagree: at most one report is exported in a
  reconcile; the stored decision, score, AI score and reason are those of that report, its location is where it
  was exported to, and the state is written exactly when the export succeeded.\<close>

theorem status_matches_report:
  fixes k libs op n cache h
  defines "calls \<equiv> calls_of (UpgradeAnalysis_Reconcile k libs op n cache) h"
  assumes "Update_Analysis_Status u \<in> set calls" "Export_Analysis ex rep \<in> set calls"
  shows "filter export_call calls = [Export_Analysis ex rep] \<and>
    (let s = ua_status u in
     ust_decision s = dc_level (r_decision rep) \<and> ust_total_score s = sc_total (r_scores rep) \<and>
     ust_ai_score s = as_score (sc_ai (r_scores rep)) \<and> ust_reason s = r_reason rep \<and>
     ust_report_location s = Location ex \<and>
     (\<exists>pre post. calls = pre @ Export_Analysis ex rep # post \<and>
        ust_report_state s = (if kc_export k (h @ pre) (Export_Analysis ex rep) = None then ''written'' else ''failed'') \<and>
        (kc_export k (h @ pre) (Export_Analysis ex rep) = None \<longrightarrow> ust_report_error s = [])))"
  using assms(2)[unfolded calls_def]
proof (cases rule: reconcile_writes)
  case (refused ua pre collected t)
  then show ?thesis using assms(3) by (auto simp: calls_def list_all_iff)
next
  case (analysed ua h' collected pre cs ar)
  obtain pre' r where w: "cs = pre' @ calls_of (write_report k op r (ar_final ar)) ((h @ pre) @ pre')"
    "list_all (\<lambda>c. \<not> export_call c) pre'" "ar_written ar = result_of (write_report k op r (ar_final ar)) ((h @ pre) @ pre')"
    "ar_status ar = final_status (record_report r (ar_written ar)) (with_previous ua collected) (ar_final ar) (ar_time ar)"
    by (rule stages_written[OF analysed(4)])
  show ?thesis
  proof (cases rule: write_report_run[of k op r "ar_final ar" "(h @ pre) @ pre'"])
    case (unbuilt e)
    have "Export_Analysis ex rep \<in> set (filter export_call calls)" using assms(3) by simp
    then have False using unbuilt(1) analysed(5,7) w(1,2) by (auto simp: calls_def filter_empty_conv list_all_iff)
    then show ?thesis ..
  next
    case (exported pre'' ex' p)
    have calls: "calls = (pre @ pre' @ pre'') @ Export_Analysis ex' (ar_final ar) # [Update_Analysis_Status u]"
      using analysed(5) w(1) exported(1) by (simp add: calls_def)
    have exports: "filter export_call calls = [Export_Analysis ex' (ar_final ar)]"
      using analysed(7) w(2) exported(2) by (simp add: calls filter_empty_conv list_all_iff)
    moreover have "Export_Analysis ex rep \<in> set (filter export_call calls)" using assms(3) by simp
    ultimately have same: "ex' = ex" "ar_final ar = rep" by simp_all
    have s: "ua_status u = ua_status (final_status (record_report r (p, Location ex, kc_export k (h @ pre @ pre' @ pre'') (Export_Analysis ex rep)))
        (with_previous ua collected) rep (ar_time ar))"
      using analysed(6) w(3,4) exported(3) same by simp
    show ?thesis
      unfolding Let_def s using exports calls same
      by (intro conjI exI[of _ "pre @ pre' @ pre''"] exI[of _ "[Update_Analysis_Status u]"])
        (simp_all add: final_status_def record_report_def with_ust_def reportStateWritten_def reportStateFailed_def)
  qed
qed

end
