(* ===== verification/Upgrade_Samples.thy ===== *)
theory Upgrade_Samples
  imports Upgrade_Props
begin

text \<open>
  A cluster without workloads that answers every call, and an analysis of it: the concrete run that
  the properties of the upgrade controller are applied to.
\<close>

definition quiet_cluster :: cluster_api where
  "quiet_cluster = \<lparr>k_server_version = Inr ''v1.30.2'', k_namespaces = Inr [],
     k_replica_sets = Inr [], k_pods = Inr [], k_deployments = (\<lambda>_. Inr []),
     k_nodes = Inr [], k_pdbs = Inr [], k_stateful_sets = (\<lambda>_. Inr []), k_daemon_sets = (\<lambda>_. Inr []),
     k_jobs = (\<lambda>_. Inr []), k_cron_jobs = Inr [], k_services = Inr [], k_ingresses = Inr [],
     k_pvcs = Inr [], k_storage_classes = Inr [], k_api_resources = (None, None),
     k_server_groups = Inr [], k_now = (\<lambda>_. 0)\<rparr>"

definition quiet_snapshot :: cluster_snapshot where
  "quiet_snapshot = empty_snapshot\<lparr>s_cluster_version := ''v1.30.2''\<rparr>"

lemma no_addon: "matchAddon s [] [] (\<lambda>_. False) = None"
  by (simp add: matchAddon_def list_ex_iff)

lemma quiet_steps:
  "buildRSToDeployMap quiet_cluster = Inr Map.empty" "DeploymentCollector_Collect quiet_cluster = Inr []"
  "sc_snapshot (scan_pods quiet_cluster ex rs [] s) = s"
  "collectDeployments quiet_cluster ex pb s = Inr s" "collectNodes quiet_cluster s = Inr s" "collectPDBs quiet_cluster ex s = Inr s"
  "collectStatefulSets quiet_cluster ex pb s = Inr s" "collectDaemonSets quiet_cluster ex pb s = Inr s"
  "collectJobs quiet_cluster ex pb s = Inr s" "collectServices quiet_cluster ex s = Inr s"
  "collectIngresses quiet_cluster ex s = s" "collectWorkloads quiet_cluster ex ns s = Inr s"
  "collectPVCs quiet_cluster ex s = s" "detectDeprecatedAPIs quiet_cluster s = s" "detectAddons quiet_cluster s = s"
proof -
  have "fold (\<lambda>s out. case matchAddon s [] [] (\<lambda>_. False) of None \<Rightarrow> out | Some a \<Rightarrow> out @ [a]) sigs as = as" for sigs as
    by (induction sigs) (simp_all add: no_addon)
  then show "detectAddons quiet_cluster s = s" by (simp add: detectAddons_def quiet_cluster_def items_def)
qed (simp_all add: buildRSToDeployMap_def DeploymentCollector_Collect_def scan_pods_def collectDeployments_def collectNodes_def
    collectPDBs_def collectStatefulSets_def collectDaemonSets_def collectJobs_def collectServices_def collectIngresses_def
    collectWorkloads_def collectPVCs_def detectDeprecatedAPIs_def quiet_cluster_def append_workloads_def Let_def split_def)

lemma quiet_collect: "Collect quiet_cluster sc = Inr quiet_snapshot"
proof -
  have "k_server_version quiet_cluster = Inr ''v1.30.2''" "k_namespaces quiet_cluster = Inr []" "k_pods quiet_cluster = Inr []"
    by (simp_all add: quiet_cluster_def)
  then show ?thesis by (simp add: Collect_def Let_def quiet_steps quiet_snapshot_def empty_snapshot_def)
qed

definition quiet_analysis :: upgrade_analysis where
  "quiet_analysis = sample_analysis\<lparr>ua_spec := (ua_spec sample_analysis)\<lparr>uas_ai := (uas_ai (ua_spec sample_analysis))\<lparr>aic_enabled := False\<rparr>\<rparr>\<rparr>"

definition quiet_kube :: kube where
  "quiet_kube = silent\<lparr>kc_get_analysis := \<lambda>h n. Inr quiet_analysis, kc_cluster := \<lambda>h. quiet_cluster\<rparr>"

definition quiet_libs :: "(int \<times> int \<times> int) analysis_libs" where
  "quiet_libs = \<lparr>an_semver = sample_semver, an_yaml = (\<lambda>_. Inr []), an_matrix = Map.empty, an_rfc3339 = (\<lambda>_. []),
     an_ai = sample_libs\<rparr>"

definition sample_operator :: operator where
  "sample_operator = \<lparr>op_reports_dir = ''/reports'', op_namespace = ''mirops''\<rparr>"

lemma quiet_graph: "BuildFromSnapshot quiet_snapshot = \<lparr>g_nodes = [], g_edges = []\<rparr>"
  by (simp add: BuildFromSnapshot_def build_all_def build_nodes_def add_addons_def add_infra_def add_workloads_def
    add_bare_pods_def add_network_def add_storage_def link_ingresses_def link_services_def link_workloads_def new_builder_def
    quiet_snapshot_def empty_snapshot_def Let_def)

lemma quiet_same:
  "with_previous quiet_analysis quiet_snapshot = quiet_snapshot" "quiet_snapshot\<lparr>s_addon_issues := 0\<rparr> = quiet_snapshot"
  by (simp_all add: with_previous_def quiet_analysis_def sample_analysis_def quiet_snapshot_def empty_snapshot_def)

lemma quiet_report:
  "r_conditions (Calculate quiet_snapshot ''1.31'' ''production'') = r_conditions sample_report"
  "sc_total (r_scores (Calculate quiet_snapshot ''1.31'' ''production'')) = 100"
  "fst (decide 100 (r_conditions sample_report) (profileFor ''production'')) = ''SAFE''"
proof -
  have m: "buildMetrics quiet_snapshot = buildMetrics empty_snapshot"
    by (simp add: buildMetrics_def quiet_snapshot_def podDropRatio_def Let_def)
  then show "r_conditions (Calculate quiet_snapshot ''1.31'' ''production'') = r_conditions sample_report"
    by (simp add: sample_report_def Calculate_def Let_def buildConditions_def quiet_snapshot_def split_def)
  have "sc_total (r_scores (Calculate quiet_snapshot ''1.31'' ''production'')) = bs_score (sc_base (r_scores sample_report))"
    by (simp add: sample_report_def Calculate_def Let_def m split_def)
  then show "sc_total (r_scores (Calculate quiet_snapshot ''1.31'' ''production'')) = 100"
    by (simp add: sample_report_score)
  show "fst (decide 100 (r_conditions sample_report) (profileFor ''production'')) = ''SAFE''"
    by (simp add: sample_report_conditions decide_def profileFor_def scoringProfiles_def ProfileProduction_def
        ProfileNonProduction_def level_defs)
qed

lemma quiet_spec: "uas_target_version (ua_spec quiet_analysis) = ''1.31''" "uas_scoring_profile (ua_spec quiet_analysis) = ''production''"
  "\<not> aic_enabled (uas_ai (ua_spec quiet_analysis))" "src_type (uas_source (ua_spec quiet_analysis)) = ''file''"
  "ust_last_analysis_time (ua_status quiet_analysis) = None" "rsc_interval (uas_resync (ua_spec quiet_analysis)) = 0"
  by (simp_all add: quiet_analysis_def sample_analysis_def no_source_def)

lemma quiet_assessed:
  fixes m t
  defines "rep \<equiv> fst (assess quiet_libs quiet_analysis (with_previous quiet_analysis quiet_snapshot) m t)"
  shows "collectBlockers rep = []" "dc_level (r_decision rep) = ''SAFE''"
proof -
  have ev: "Evaluate l (s_detected_addons quiet_snapshot) v m = ([], 0)" for l :: "(int \<times> int \<times> int) semver_lib" and v
    by (simp add: Evaluate_def quiet_snapshot_def empty_snapshot_def)
  obtain n where rep: "assess quiet_libs quiet_analysis quiet_snapshot m t = (rep, n)"
    by (metis prod.collapse quiet_same(1) rep_def)
  note fields = assess_fields[OF rep, unfolded ev fst_conv snd_conv quiet_spec]
  have c: "r_conditions rep = r_conditions sample_report"
    using fields(2,3) quiet_same(2) quiet_report(1) by simp
  have no_storage: "\<not> lost_storage \<lparr>g_nodes = [], g_edges = []\<rparr>" by (simp add: lost_storage_def)
  have "\<not> lost_storage (the (r_graph rep))"
    using fields(2,4) quiet_same(2) quiet_graph no_storage by simp
  then have "\<not> (\<exists>g. r_graph rep = Some g \<and> (\<exists>n\<in>set (g_nodes g). c_type n = TypeStorage \<and> c_status n = ''Lost''))"
    by (force simp: lost_storage_def)
  then show "collectBlockers rep = []"
    unfolding collectBlockers_empty using c fields(1) by (simp add: sample_report_conditions)
  have "r_decision rep = r_decision (Calculate quiet_snapshot ''1.31'' ''production'')"
    using quiet_same by (simp add: rep_def assess_def ev quiet_spec split_def Let_def)
  then show "dc_level (r_decision rep) = ''SAFE''"
    using quiet_report by (simp add: Calculate_decision)
qed

text \<open>One reconcile of the quiet cluster: a report is exported, and a SAFE status is stored.\<close>

lemma stages_ai_off:
  assumes "analysis_stages k libs op ua snap cache h = (cs, ar)" "\<not> aic_enabled (uas_ai (ua_spec ua))"
  shows "fst (snd (ar_ai ar)) = ar_report ar"
  using assms unfolding analysis_stages_def by (auto simp: Let_def split_def apply_ai_def with_ust_def)

lemma quiet_run:
  obtains u ex rep where
    "Update_Analysis_Status u \<in> set (calls_of (UpgradeAnalysis_Reconcile quiet_kube quiet_libs sample_operator n Map.empty) h)"
    "Export_Analysis ex rep \<in> set (calls_of (UpgradeAnalysis_Reconcile quiet_kube quiet_libs sample_operator n Map.empty) h)"
    "ust_decision (ua_status u) = ''SAFE''"
proof -
  let ?k = quiet_kube and ?ua = quiet_analysis and ?h1 = "h @ [Get_Analysis n]"
  let ?sc = "scope_of (uas_scope (ua_spec ?ua))"
  have got: "kc_get_analysis ?k h n = Inr ?ua" "kc_cluster ?k h' = quiet_cluster" for h'
    by (simp_all add: quiet_kube_def)
  have wait: "result_of (resync_wait ?k ?ua) ?h1 = None" "calls_of (resync_wait ?k ?ua) ?h1 = []"
    by (simp_all add: resync_wait_run up_to_date_def quiet_spec)
  have higher: "versionIsHigher ''1.31'' ''v1.30.2''" by code_simp
  have version: "s_cluster_version quiet_snapshot = ''v1.30.2''" by (simp add: quiet_snapshot_def)
  obtain cs ar where st: "analysis_stages ?k quiet_libs sample_operator ?ua quiet_snapshot Map.empty (?h1 @ [Collect_Cluster ?sc]) = (cs, ar)"
    by fastforce
  have calls: "calls_of (UpgradeAnalysis_Reconcile ?k quiet_libs sample_operator n Map.empty) h =
      Get_Analysis n # Collect_Cluster ?sc # cs @ [Update_Analysis_Status (ar_status ar)]"
    using reconcile_run(3)[OF got(1) wait(1), of quiet_libs sample_operator Map.empty] wait(2) analyse_run(1)[OF st]
    by (simp add: after_wait_run(1) got quiet_collect quiet_same quiet_spec version higher)
  obtain pre r where w: "cs = pre @ calls_of (write_report ?k sample_operator r (ar_final ar)) ((?h1 @ [Collect_Cluster ?sc]) @ pre)"
    "ar_status ar = final_status (record_report r (ar_written ar)) quiet_snapshot (ar_final ar) (ar_time ar)"
    "ua_spec r = ua_spec ?ua"
    using stages_written[OF st] by metis
  have rep: "collectBlockers (ar_report ar) = []" "dc_level (r_decision (ar_report ar)) = ''SAFE''"
    using quiet_assessed stages_report(2)[OF st] quiet_same(1) by (metis fst_conv)+
  have "dc_level (r_decision (ar_final ar)) = ''SAFE''"
    using rep stages_report(1)[OF st] stages_ai_off[OF st] quiet_spec(3) by (simp add: ApplyGraphDecision_def)
  then have "ust_decision (ua_status (ar_status ar)) = ''SAFE''" by (simp add: w(2) final_status_frame)
  moreover have "\<exists>ex. Export_Analysis ex (ar_final ar) \<in> set cs"
  proof -
    have "src_type (uas_source (ua_spec r)) \<notin> {SourceTypeS3, SourceTypeBlob, SourceTypePVC}"
      using w(3) quiet_spec(4) by (simp add: source_type_defs)
    from write_local[OF this] w(1) show ?thesis by (metis Un_iff list.set_intros(1) set_append)
  qed
  ultimately show ?thesis using that[of "ar_status ar" _ "ar_final ar"] calls by auto
qed

abbreviation quiet_reconcile :: "(outcome \<times> ai_cache) io" where
  "quiet_reconcile \<equiv> UpgradeAnalysis_Reconcile quiet_kube quiet_libs sample_operator ''prod'' Map.empty"

theorem analysis_only_observes_witness:
  "\<exists>u. Update_Analysis_Status u \<in> set (calls_of quiet_reconcile []) \<and> last (calls_of quiet_reconcile []) = Update_Analysis_Status u \<and>
     same_object quiet_analysis u"
proof -
  obtain u ex rep where "Update_Analysis_Status u \<in> set (calls_of quiet_reconcile [])" by (rule quiet_run)
  moreover have "kc_get_analysis quiet_kube [] ''prod'' = Inr quiet_analysis" by (simp add: quiet_kube_def)
  ultimately show ?thesis using analysis_only_observes[of "Update_Analysis_Status u" quiet_kube quiet_libs sample_operator "''prod''" Map.empty "[]"]
    by auto
qed

theorem no_false_safe_witness:
  "\<exists>u. Update_Analysis_Status u \<in> set (calls_of quiet_reconcile []) \<and> ust_decision (ua_status u) = ''SAFE'' \<and>
     (\<exists>h' snap. Collect (kc_cluster quiet_kube h') (scope_of (uas_scope (ua_spec quiet_analysis))) = Inr snap \<and>
        versionIsHigher ''1.31'' (s_cluster_version snap) \<and> \<not> lost_storage (BuildFromSnapshot snap))"
proof -
  obtain u ex rep where u: "Update_Analysis_Status u \<in> set (calls_of quiet_reconcile [])" "ust_decision (ua_status u) = ''SAFE''"
    by (rule quiet_run)
  have "kc_get_analysis quiet_kube [] ''prod'' = Inr quiet_analysis" by (simp add: quiet_kube_def)
  with no_false_safe[OF u(1)] u show ?thesis by (auto simp: quiet_spec)
qed

theorem status_matches_report_witness:
  "\<exists>u ex rep. Update_Analysis_Status u \<in> set (calls_of quiet_reconcile []) \<and>
     filter export_call (calls_of quiet_reconcile []) = [Export_Analysis ex rep] \<and>
     ust_decision (ua_status u) = dc_level (r_decision rep) \<and> ust_report_location (ua_status u) = Location ex"
proof -
  obtain u ex rep where u: "Update_Analysis_Status u \<in> set (calls_of quiet_reconcile [])"
    "Export_Analysis ex rep \<in> set (calls_of quiet_reconcile [])"
    by (rule quiet_run)
  from status_matches_report[OF u] u(1) show ?thesis unfolding Let_def by blast
qed

definition hourly_analysis :: upgrade_analysis where
  "hourly_analysis = quiet_analysis\<lparr>ua_spec := (ua_spec quiet_analysis)\<lparr>uas_target_version := ''1.29'', uas_resync := \<lparr>rsc_interval = 60\<rparr>\<rparr>\<rparr>"

definition fresh_analysis :: upgrade_analysis where
  "fresh_analysis = with_ust hourly_analysis (\<lambda>s. s\<lparr>ust_last_analysis_time := Some 0, ust_observed_generation := 1\<rparr>)"

theorem resync_skips_witness:
  "calls_of (UpgradeAnalysis_Reconcile (quiet_kube\<lparr>kc_get_analysis := \<lambda>h n. Inr fresh_analysis\<rparr>) quiet_libs sample_operator ''prod'' Map.empty) []
     = [Get_Analysis ''prod'', Now, Now]"
proof -
  let ?k = "quiet_kube\<lparr>kc_get_analysis := \<lambda>h n. Inr fresh_analysis\<rparr>"
  have "up_to_date fresh_analysis" "next_due fresh_analysis = 60"
    by (simp_all add: up_to_date_def fresh_analysis_def hourly_analysis_def quiet_analysis_def sample_analysis_def with_ust_def
        spec_changed_def refresh_requested_def lget_def zget_def)
  moreover have "kc_now ?k [Get_Analysis ''prod''] = 1" by (simp add: quiet_kube_def silent_def)
  moreover have "kc_get_analysis ?k [] ''prod'' = Inr fresh_analysis" by simp
  ultimately show ?thesis
    using resync_skips[of ?k "[]" "''prod''" fresh_analysis quiet_libs sample_operator Map.empty] by (simp add: Let_def)
qed

text \<open>A refused target is the one that is not looked at again; a fresh analysis comes back for what remains of the interval.\<close>

theorem analysis_requeued_witness:
  "(\<exists>pre u. calls_of (UpgradeAnalysis_Reconcile (quiet_kube\<lparr>kc_get_analysis := \<lambda>h n. Inr hourly_analysis\<rparr>) quiet_libs sample_operator
     ''prod'' Map.empty) [] = pre @ [Update_Analysis_Status u] \<and> ust_decision (ua_status u) = ''ERROR'') \<and>
   fst (result_of (UpgradeAnalysis_Reconcile (quiet_kube\<lparr>kc_get_analysis := \<lambda>h n. Inr fresh_analysis\<rparr>) quiet_libs sample_operator
     ''prod'' Map.empty) []) = Requeue_After 58"
proof
  let ?k = "quiet_kube\<lparr>kc_get_analysis := \<lambda>h n. Inr hourly_analysis\<rparr>" and ?h1 = "[Get_Analysis ''prod'']"
  have got: "kc_get_analysis ?k [] ''prod'' = Inr hourly_analysis" "kc_cluster quiet_kube h = quiet_cluster" "kc_write quiet_kube h c = None" for h c
    by (simp_all add: quiet_kube_def silent_def)
  have spec: "ust_last_analysis_time (ua_status hourly_analysis) = None" "resync_interval hourly_analysis > 0"
    "uas_target_version (ua_spec hourly_analysis) = ''1.29''"
    by (simp_all add: hourly_analysis_def quiet_spec)
  have lower: "\<not> versionIsHigher ''1.29'' ''v1.30.2''" by code_simp
  have first: "\<not> up_to_date hourly_analysis" by (simp add: up_to_date_def spec)
  then have wait: "result_of (resync_wait ?k hourly_analysis) ?h1 = None" by (simp add: resync_wait_run)
  have "fst (result_of (UpgradeAnalysis_Reconcile ?k quiet_libs sample_operator ''prod'' Map.empty) []) = Finished"
    using reconcile_run(3)[OF got(1), of quiet_libs sample_operator Map.empty] wait lower
    by (simp add: after_wait_run(2) got(2) quiet_collect spec with_previous_def quiet_snapshot_def reject_version_def
        now_def kwrite_def got(3) split: option.split)
  with analysis_requeued[OF got(1) spec(2), of quiet_libs sample_operator Map.empty] first
  show "\<exists>pre u. calls_of (UpgradeAnalysis_Reconcile ?k quiet_libs sample_operator ''prod'' Map.empty) [] =
      pre @ [Update_Analysis_Status u] \<and> ust_decision (ua_status u) = ''ERROR''" by auto
  let ?k' = "quiet_kube\<lparr>kc_get_analysis := \<lambda>h n. Inr fresh_analysis\<rparr>"
  have fresh: "up_to_date fresh_analysis" "next_due fresh_analysis = 60" "resync_interval fresh_analysis > 0"
    by (simp_all add: up_to_date_def fresh_analysis_def hourly_analysis_def quiet_analysis_def sample_analysis_def with_ust_def
        lget_def zget_def)
  have clock: "kc_now ?k' [Get_Analysis ''prod''] = 1" "kc_now ?k' [Get_Analysis ''prod'', Now] = 2"
    by (simp_all add: quiet_kube_def silent_def)
  have "kc_get_analysis ?k' [] ''prod'' = Inr fresh_analysis" by simp
  with reconcile_run(2)[OF this, of "Requeue_After 58" quiet_libs sample_operator Map.empty] fresh clock
  show "fst (result_of (UpgradeAnalysis_Reconcile ?k' quiet_libs sample_operator ''prod'' Map.empty) []) = Requeue_After 58"
    by (simp add: resync_wait_run)
qed

section \<open>A model that disagrees\<close>

definition harsh_libs :: ai_libs where
  "harsh_libs = sample_libs\<lparr>al_decode := \<lambda>t. Inr \<lparr>air_score = 10, air_reasoning = ''risky'', air_actions = []\<rparr>\<rparr>"

lemma harsh_scored:
  "fst (snd (result_of (apply_ai scoring_kube harsh_libs ns sample_analysis rep Map.empty) h)) =
     ApplyAIScore rep 10 ''risky'' ''claude-sonnet-4-6'' ''production''"
proof -
  have "parseAIResponse harsh_libs t = Inr \<lparr>air_score = 10, air_reasoning = ''risky'', air_actions = []\<rparr>" for t
    by (simp add: parseAIResponse_def harsh_libs_def Let_def)
  then have "\<exists>cache'. result_of (scoreWithAI scoring_kube harsh_libs ns sample_analysis rep Map.empty) h = (Inr (10, ''risky'', []), cache')"
    unfolding scoreWithAI_run by (simp add: scoring_key scoring_answer aiCacheGet_def)
  then obtain cache' h' where
    "run_state (scoreWithAI scoring_kube harsh_libs ns sample_analysis rep Map.empty) h = ((Inr (10, ''risky'', []), cache'), h')"
    by (metis prod.collapse)
  moreover have "aic_enabled (uas_ai (ua_spec sample_analysis))" "uas_scoring_profile (ua_spec sample_analysis) = ''production''"
    "model_name (uas_ai (ua_spec sample_analysis)) = ''claude-sonnet-4-6''"
    by (simp_all add: sample_analysis_def model_name_def AIProviderOpenAI_def)
  ultimately show ?thesis
    by (simp add: apply_ai_def Let_def)
qed


end
