(* ===== verification/Mirror_Props.thy ===== *)
theory Mirror_Props
  imports Mirror_Controller Upgrade_Samples
begin

text \<open>
  What one reconcile of a cluster mirror does: it always comes back, it only observes, and the status
  it stores agrees with the report it publishes.
\<close>

section \<open>The stages\<close>

fun observes :: "call \<Rightarrow> bool" where
  "observes (Get_Mirror n) = True"
| "observes (Collect_Cluster sc) = True"
| "observes List_Analyses = True"
| "observes (Get_Secret ns n) = True"
| "observes Now = True"
| "observes c = False"

fun mirror_write :: "call \<Rightarrow> bool" where
  "mirror_write (Update_Mirror_Status u) = True"
| "mirror_write c = False"

lemma only_summary: "only observes (upgradeSummary k f up)"
  unfolding upgradeSummary_def list_analyses_def by (intro only_cases only_bind only_ask only_return) simp_all

lemma exporter_observes: "only observes (buildExporter k ns n src)"
  unfolding buildExporter_def get_secret_def by (intro only_cases only_bind only_ask only_return) simp_all

lemma only_publish: "only (\<lambda>c. observes c \<or> export_call c) (publishReport k op cm rep)"
  unfolding publishReport_def export_def
  by (intro only_cases only_bind only_ask only_return exporter_observes[THEN only_mono]) simp_all

text \<open>A write of the mirror's own status that does not wake the controller.\<close>

definition own_write :: "cluster_mirror \<Rightarrow> call \<Rightarrow> bool" where
  "own_write cm c \<longleftrightarrow> (\<exists>u. c = Update_Mirror_Status u \<and> clm_name u = clm_name cm \<and> \<not> mirror_event cm u)"

lemma own_write_status: "own_write cm (Update_Mirror_Status (with_cmst cm g))"
  "own_write cm (Update_Mirror_Status (published_status (rebuilt_status cm rep nsRisk t) p))"
  by (auto simp: own_write_def with_cmst_def published_status_def rebuilt_status_def mirror_event_def)

lemma only_rebuild: "only (\<lambda>c. observes c \<or> export_call c \<or> own_write cm c) (rebuild k f op up cm snap)"
  unfolding rebuild_def now_def kwrite_def Let_def
  by (intro only_bind only_ask only_return only_summary[THEN only_mono] only_publish[THEN only_mono])
    (auto simp: own_write_status)

lemmas mirror_extends [simp, intro] = only_summary[THEN only_extends] only_publish[THEN only_extends] only_rebuild[THEN only_extends]

lemma publish_run:
  obtains (unbuilt) e where "filter export_call (calls_of (publishReport k op cm rep) h) = []"
      "result_of (publishReport k op cm rep) h = ([], Some e)"
  | (exported) pre ex where "calls_of (publishReport k op cm rep) h = pre @ [Export_Mirror ex rep]"
      "filter export_call pre = []"
      "result_of (publishReport k op cm rep) h = (Location ex, kc_export k (h @ pre) (Export_Mirror ex rep))"
proof -
  define b :: "(string + exporter) io" where "b = (if isRemote (cms_source (clm_spec cm))
          then buildExporter k (op_namespace op) (clm_name cm) (cms_source (clm_spec cm))
          else State_Monad.return (Inr (File_Exporter (NewFileExporter
            (path_join [op_reports_dir op, localReportName (clm_name cm) (cms_source (clm_spec cm))])))))"
  define go :: "string + exporter \<Rightarrow> (string \<times> string option) io" where
    "go r = (case r of Inl e \<Rightarrow> State_Monad.return ([], Some e)
      | Inr ex \<Rightarrow> export k (Export_Mirror ex rep) \<bind> (\<lambda>w. State_Monad.return (Location ex, w)))" for r
  have m: "publishReport k op cm rep = b \<bind> go" by (simp add: publishReport_def b_def go_def[abs_def])
  have ex: "extends (go x)" for x
    unfolding go_def export_def by (intro extends_cases extends_bind extends_ask extends_return)
  have b: "extends b" "filter export_call (calls_of b h) = []" by (auto simp: b_def exporter_calls)
  have run: "calls_of (publishReport k op cm rep) h = calls_of b h @ calls_of (go (result_of b h)) (h @ calls_of b h)"
    "result_of (publishReport k op cm rep) h = result_of (go (result_of b h)) (h @ calls_of b h)"
    unfolding m by (rule calls_of_bind[OF b(1) ex])+
  show ?thesis
  proof (cases "result_of b h")
    case (Inl e)
    then show ?thesis using unbuilt[of e] run b(2) by (simp add: go_def)
  next
    case (Inr x)
    then show ?thesis using exported[of "calls_of b h" x] run b(2) by (simp add: go_def export_def calls_of_bind)
  qed
qed

text \<open>The report of a rebuild and what surrounds its publication.\<close>

definition rebuild_report :: "kube \<Rightarrow> (int \<Rightarrow> string) \<Rightarrow> bool \<Rightarrow> cluster_mirror \<Rightarrow> cluster_snapshot \<Rightarrow> history \<Rightarrow> mirror_report" where
  "rebuild_report k f up cm snap h = (BuildMirrorReport snap (fst (mirror_graph snap)) (snd (mirror_graph snap)))
     \<lparr>mr_generated_at := f (kc_now k h), mr_mirror := clm_name cm, mr_upgrade := result_of (upgradeSummary k f up) (h @ [Now])\<rparr>"

lemma rebuild_run:
  fixes k f op up cm snap h
  defines "rep \<equiv> rebuild_report k f up cm snap h"
  defines "h2 \<equiv> h @ Now # calls_of (upgradeSummary k f up) (h @ [Now])"
  defines "p \<equiv> publishReport k op cm rep"
  defines "u \<equiv> published_status (rebuilt_status cm rep (snd (mirror_graph snap)) (kc_now k h)) (result_of p h2)"
  shows "calls_of (rebuild k f op up cm snap) h =
      (Now # calls_of (upgradeSummary k f up) (h @ [Now])) @ calls_of p h2 @ [Update_Mirror_Status u]"
    and "result_of (rebuild k f op up cm snap) h =
      (case kc_write k (h2 @ calls_of p h2) (Update_Mirror_Status u) of Some e \<Rightarrow> Retry e | None \<Rightarrow> Requeue_After (mirror_interval cm))"
  unfolding rebuild_def now_def kwrite_def Let_def assms rebuild_report_def
  by (simp_all add: calls_of_bind del: run_state_bind)

lemma mirror_run:
  fixes k f op up n h
  defines "m \<equiv> ClusterMirror_Reconcile k f op up n" and "h1 \<equiv> h @ [Get_Mirror n]"
  shows "kc_get_mirror k h n = Inl e \<Longrightarrow> calls_of m h = [Get_Mirror n] \<and> result_of m h = ignore_not_found e"
    and "kc_get_mirror k h n = Inr cm \<Longrightarrow> Collect (kc_cluster k h1) (scope_of (cms_scope (clm_spec cm))) = Inl e' \<Longrightarrow>
      calls_of m h = [Get_Mirror n, Collect_Cluster (scope_of (cms_scope (clm_spec cm))),
        Update_Mirror_Status (with_cmst cm (\<lambda>s. s\<lparr>cmst_sync_error := e'\<rparr>))] \<and>
      result_of m h = Requeue_After (mirror_interval cm)"
    and "kc_get_mirror k h n = Inr cm \<Longrightarrow> Collect (kc_cluster k h1) (scope_of (cms_scope (clm_spec cm))) = Inr snap \<Longrightarrow>
      calls_of m h = [Get_Mirror n, Collect_Cluster (scope_of (cms_scope (clm_spec cm)))]
        @ calls_of (rebuild k f op up cm snap) (h1 @ [Collect_Cluster (scope_of (cms_scope (clm_spec cm)))]) \<and>
      result_of m h = result_of (rebuild k f op up cm snap) (h1 @ [Collect_Cluster (scope_of (cms_scope (clm_spec cm)))])"
proof -
  define go where "go cm c = (case c of
      Inl e \<Rightarrow> kwrite k (Update_Mirror_Status (with_cmst cm (\<lambda>s. s\<lparr>cmst_sync_error := e\<rparr>)))
        \<bind> (\<lambda>_. State_Monad.return (Requeue_After (mirror_interval cm)))
    | Inr snap \<Rightarrow> rebuild k f op up cm snap)" for cm c
  define body where "body got = (case got of
      Inl e \<Rightarrow> State_Monad.return (ignore_not_found e)
    | Inr cm \<Rightarrow> collect_cluster k (scope_of (cms_scope (clm_spec cm))) \<bind> go cm)" for got
  have m: "m = ask (\<lambda>h. kc_get_mirror k h n) (Get_Mirror n) \<bind> body"
    unfolding m_def ClusterMirror_Reconcile_def get_mirror_def body_def[abs_def] go_def[abs_def] ..
  have go: "extends (go cm c)" for cm c
    unfolding go_def kwrite_def by (intro extends_cases extends_bind extends_ask extends_return mirror_extends)
  have ex: "extends (body x)" for x
    unfolding body_def collect_cluster_def by (intro extends_cases extends_bind extends_ask extends_return go)
  have run: "calls_of m h = Get_Mirror n # calls_of (body (kc_get_mirror k h n)) h1"
    "result_of m h = result_of (body (kc_get_mirror k h n)) h1"
    unfolding m h1_def using calls_of_bind[OF extends_ask ex] by simp_all
  show "kc_get_mirror k h n = Inl e \<Longrightarrow> calls_of m h = [Get_Mirror n] \<and> result_of m h = ignore_not_found e"
    by (simp add: run body_def)
  show "kc_get_mirror k h n = Inr cm \<Longrightarrow> Collect (kc_cluster k h1) (scope_of (cms_scope (clm_spec cm))) = Inl e' \<Longrightarrow>
      calls_of m h = [Get_Mirror n, Collect_Cluster (scope_of (cms_scope (clm_spec cm))),
        Update_Mirror_Status (with_cmst cm (\<lambda>s. s\<lparr>cmst_sync_error := e'\<rparr>))] \<and>
      result_of m h = Requeue_After (mirror_interval cm)"
    using go by (simp add: run body_def collect_cluster_def calls_of_bind del: run_state_bind)
      (simp add: go_def kwrite_def calls_of_bind)
  show "kc_get_mirror k h n = Inr cm \<Longrightarrow> Collect (kc_cluster k h1) (scope_of (cms_scope (clm_spec cm))) = Inr snap \<Longrightarrow>
      calls_of m h = [Get_Mirror n, Collect_Cluster (scope_of (cms_scope (clm_spec cm)))]
        @ calls_of (rebuild k f op up cm snap) (h1 @ [Collect_Cluster (scope_of (cms_scope (clm_spec cm)))]) \<and>
      result_of m h = result_of (rebuild k f op up cm snap) (h1 @ [Collect_Cluster (scope_of (cms_scope (clm_spec cm)))])"
    using go by (simp add: run body_def collect_cluster_def calls_of_bind del: run_state_bind)
      (simp add: go_def)
qed

text \<open>C12: a mirror never stops by itself: as long as its object exists, every reconcile ends in a rebuild after the interval,
  which is positive, or in an error the queue retries, whether the collection, the publication or the
  listing of analyses failed.\<close>

theorem mirror_keeps_going:
  "case kc_get_mirror k h n of
     Inl e \<Rightarrow> result_of (ClusterMirror_Reconcile k f op up n) h = ignore_not_found e
   | Inr cm \<Rightarrow> 0 < mirror_interval cm \<and>
       result_of (ClusterMirror_Reconcile k f op up n) h \<in> insert (Requeue_After (mirror_interval cm)) (range Retry)"
proof (cases "kc_get_mirror k h n")
  case (Inl e)
  then show ?thesis using mirror_run(1)[OF Inl] by simp
next
  case (Inr cm)
  have "0 < mirror_interval cm" by (simp add: mirror_interval_def defaultMirrorInterval_def Let_def)
  then show ?thesis
    using Inr mirror_run(2,3)[OF Inr, of _ f op up]
    by (cases "Collect (kc_cluster k (h @ [Get_Mirror n])) (scope_of (cms_scope (clm_spec cm)))")
      (auto simp: rebuild_run(2) split: option.splits)
qed

text \<open>A mirror only observes: whatever it is answered, a reconcile touches no pod, deployment or node and no plan; it
  exports reports and writes only its own status, and that write does not wake the controller again, so a
  reconcile is not the cause of the next.\<close>

theorem mirror_only_observes:
  "list_all (\<lambda>c. observes c \<or> export_call c \<or> (\<exists>cm. kc_get_mirror k h n = Inr cm \<and> own_write cm c))
     (calls_of (ClusterMirror_Reconcile k f op up n) h)"
proof (cases "kc_get_mirror k h n")
  case (Inl e)
  then show ?thesis using mirror_run(1)[OF Inl] by simp
next
  case (Inr cm)
  show ?thesis
  proof (cases "Collect (kc_cluster k (h @ [Get_Mirror n])) (scope_of (cms_scope (clm_spec cm)))")
    case (Inl e)
    then show ?thesis using mirror_run(2)[OF Inr Inl] by (simp add: Inr own_write_status)
  next
    case snap: (Inr snap)
    show ?thesis using mirror_run(3)[OF Inr snap, of f op up] onlyD[OF only_rebuild] by (simp add: Inr)
  qed
qed

text \<open>A status of a reconcile that published a report is that of a rebuild.\<close>

lemma mirror_writes:
  fixes k f op up n h
  defines "calls \<equiv> calls_of (ClusterMirror_Reconcile k f op up n) h"
  assumes "Export_Mirror ex rep \<in> set calls" "Update_Mirror_Status u \<in> set calls"
  obtains cm snap pre p h' where "rep = rebuild_report k f up cm snap h'"
    "calls = pre @ [Export_Mirror ex rep, Update_Mirror_Status u]" "list_all (\<lambda>c. \<not> export_call c) pre"
    "p = (Location ex, kc_export k (h @ pre) (Export_Mirror ex rep))"
    "u = published_status (rebuilt_status cm rep (snd (mirror_graph snap)) (kc_now k h')) p"
proof (cases "kc_get_mirror k h n")
  case (Inl e)
  then show ?thesis using assms mirror_run(1)[OF Inl] by simp
next
  case (Inr cm)
  let ?sc = "scope_of (cms_scope (clm_spec cm))"
  show ?thesis
  proof (cases "Collect (kc_cluster k (h @ [Get_Mirror n])) ?sc")
    case (Inl e)
    then show ?thesis using assms mirror_run(2)[OF Inr Inl] by simp
  next
    case snap: (Inr snap)
    let ?h1 = "h @ [Get_Mirror n, Collect_Cluster ?sc]"
    let ?sum = "calls_of (upgradeSummary k f up) (?h1 @ [Now])" and ?rep = "rebuild_report k f up cm snap ?h1"
    let ?p = "publishReport k op cm ?rep" and ?h2 = "?h1 @ Now # calls_of (upgradeSummary k f up) (?h1 @ [Now])"
    let ?pre = "Get_Mirror n # Collect_Cluster ?sc # Now # ?sum"
    have calls: "calls = ?pre @ calls_of ?p ?h2 @ [Update_Mirror_Status (published_status
        (rebuilt_status cm ?rep (snd (mirror_graph snap)) (kc_now k ?h1)) (result_of ?p ?h2))]"
      using mirror_run(3)[OF Inr snap, of f op up] by (simp add: calls_def rebuild_run(1))
    have "list_all observes ?sum" by (rule onlyD[OF only_summary])
    then have sum: "list_all (\<lambda>c. \<not> export_call c) ?sum" "list_all (\<lambda>c. \<not> mirror_write c) ?sum"
      by (auto simp: list_all_iff) (metis observes.simps export_call.elims(2) mirror_write.elims(2))+
    show ?thesis
    proof (cases rule: publish_run[of k op cm ?rep ?h2])
      case (unbuilt e)
      have "Export_Mirror ex rep \<in> set (filter export_call calls)" using assms(2) by simp
      then have False using unbuilt(1) sum(1) by (auto simp: calls filter_empty_conv list_all_iff)
      then show ?thesis ..
    next
      case (exported pre' ex')
      let ?u = "published_status (rebuilt_status cm ?rep (snd (mirror_graph snap)) (kc_now k ?h1)) (result_of ?p ?h2)"
      have c: "calls = (?pre @ pre') @ [Export_Mirror ex' ?rep, Update_Mirror_Status ?u]" unfolding calls exported(1) by simp
      have quiet: "list_all (\<lambda>c. \<not> export_call c) (?pre @ pre')"
        using sum(1) exported(2) by (auto simp: list_all_iff filter_empty_conv)
      have "list_all (\<lambda>c. observes c \<or> export_call c) (pre' @ [Export_Mirror ex' ?rep])"
        unfolding exported(1)[symmetric] by (rule onlyD[OF only_publish])
      then have "Update_Mirror_Status u \<notin> set (?pre @ pre')"
        using sum(2) by (auto simp: list_all_iff)
      then have u: "u = ?u" using assms(3) by (auto simp: c)
      have "filter export_call (?pre @ pre') = []" using quiet unfolding list_all_iff filter_empty_conv .
      then have "filter export_call calls = [Export_Mirror ex' ?rep]" unfolding c filter_append[of _ "?pre @ pre'"] by simp
      moreover have "Export_Mirror ex rep \<in> set (filter export_call calls)" using assms(2) by simp
      ultimately have same: "ex = ex'" "rep = ?rep" by simp_all
      have "?h2 @ pre' = h @ ?pre @ pre'" by simp
      then have "result_of ?p ?h2 = (Location ex, kc_export k (h @ ?pre @ pre') (Export_Mirror ex rep))"
        using exported(3) same by simp
      then show ?thesis using that[of cm snap ?h1 "?pre @ pre'" "result_of ?p ?h2"] c quiet u same by simp
    qed
  qed
qed

text \<open>C22: the status of a rebuilt mirror and the report it publishes never disagree: one report is published, the stored
  numbers of components, edges and components at risk and the summary by namespace are those of the
  report, its location is where the report went, and the state is written exactly when the export succeeded,
  with the failure in the sync error otherwise.\<close>

theorem mirror_status_matches_report:
  fixes k f op up n h
  defines "calls \<equiv> calls_of (ClusterMirror_Reconcile k f op up n) h"
  assumes "Update_Mirror_Status u \<in> set calls" "Export_Mirror ex rep \<in> set calls"
  shows "filter export_call calls = [Export_Mirror ex rep] \<and> last calls = Update_Mirror_Status u \<and>
    (let s = clm_status u in
     cmst_components s = ms_components (mr_summary rep) \<and> cmst_edges s = ms_edges (mr_summary rep) \<and>
     cmst_at_risk s = ms_at_risk (mr_summary rep) \<and>
     mr_risk rep = Some \<lparr>rb_by_namespace = rb_by_namespace (the (mr_risk rep))\<rparr> \<and>
     cmst_by_namespace s = map namespace_status (rb_by_namespace (the (mr_risk rep))) \<and>
     cmst_report_location s = Location ex \<and>
     (\<exists>pre post. calls = pre @ Export_Mirror ex rep # post \<and>
       (case kc_export k (h @ pre) (Export_Mirror ex rep) of
          None \<Rightarrow> cmst_report_state s = ''written'' \<and> cmst_sync_error s = []
        | Some e \<Rightarrow> cmst_report_state s = ''failed'' \<and> cmst_report_error s = e \<and> cmst_sync_error s \<noteq> [])))"
  using assms(3)[unfolded calls_def] assms(2)[unfolded calls_def]
proof (rule mirror_writes)
  fix cm snap pre p h'
  assume r: "rep = rebuild_report k f up cm snap h'"
    and c: "calls_of (ClusterMirror_Reconcile k f op up n) h = pre @ [Export_Mirror ex rep, Update_Mirror_Status u]"
    and quiet: "list_all (\<lambda>c. \<not> export_call c) pre"
    and p: "p = (Location ex, kc_export k (h @ pre) (Export_Mirror ex rep))"
    and u: "u = published_status (rebuilt_status cm rep (snd (mirror_graph snap)) (kc_now k h')) p"
  have risk: "mr_risk rep = Some \<lparr>rb_by_namespace = snd (mirror_graph snap)\<rparr>"
    by (simp add: r rebuild_report_def BuildMirrorReport_def)
  show ?thesis
    unfolding Let_def calls_def c using quiet
    by (intro conjI exI[of _ pre] exI[of _ "[Update_Mirror_Status u]"])
      (simp_all add: u p risk published_status_def rebuilt_status_def with_cmst_def reportStateWritten_def reportStateFailed_def
        list_all_iff filter_empty_conv split: option.split)
qed

definition quiet_mirror :: cluster_mirror where
  "quiet_mirror = \<lparr>clm_name = ''prod'', clm_generation = 1, clm_annotations = [],
     clm_spec = \<lparr>cms_scope = \<lparr>sco_mode = ''all'', sco_exclude_namespaces = []\<rparr>,
       cms_refresh = \<lparr>rfc_mode = ''interval'', rfc_interval = 0\<rparr>, cms_source = no_source\<rparr>,
     clm_status = \<lparr>cmst_components = 0, cmst_edges = 0, cmst_at_risk = 0, cmst_last_sync = None, cmst_by_namespace = [],
       cmst_sync_error = [], cmst_report_location = [], cmst_report_state = [], cmst_report_error = [],
       cmst_observed_generation = 0\<rparr>\<rparr>"

definition mirror_kube :: kube where
  "mirror_kube = quiet_kube\<lparr>kc_get_mirror := \<lambda>h n. Inr quiet_mirror\<rparr>"

lemma local_publish:
  "\<not> isRemote (cms_source (clm_spec cm)) \<Longrightarrow> \<exists>ex. calls_of (publishReport k op cm rep) h = [Export_Mirror ex rep]"
  by (simp add: publishReport_def export_def calls_of_bind)

theorem mirror_status_matches_report_witness:
  "\<exists>u ex rep. (let calls = calls_of (ClusterMirror_Reconcile mirror_kube (\<lambda>_. []) sample_operator False ''prod'') [] in
     last calls = Update_Mirror_Status u \<and> filter export_call calls = [Export_Mirror ex rep] \<and>
     cmst_components (clm_status u) = ms_components (mr_summary rep) \<and> cmst_report_location (clm_status u) = Location ex)"
proof -
  let ?m = "ClusterMirror_Reconcile mirror_kube (\<lambda>_. []) sample_operator False ''prod''"
  have got: "kc_get_mirror mirror_kube [] ''prod'' = Inr quiet_mirror" by (simp add: mirror_kube_def)
  have "Collect (kc_cluster mirror_kube ([] @ [Get_Mirror ''prod''])) (scope_of (cms_scope (clm_spec quiet_mirror))) = Inr quiet_snapshot"
    by (simp add: mirror_kube_def quiet_kube_def quiet_collect)
  note run = mirror_run(3)[OF got this, THEN conjunct1, of "\<lambda>_. []" sample_operator False]
  have "\<not> isRemote (cms_source (clm_spec quiet_mirror))"
    by (simp add: quiet_mirror_def no_source_def isRemote_def source_type_defs)
  note local = local_publish[OF this]
  let ?h = "[Get_Mirror ''prod'', Collect_Cluster (scope_of (cms_scope (clm_spec quiet_mirror)))]"
  let ?sum = "upgradeSummary mirror_kube (\<lambda>_. []) False" and ?rep = "rebuild_report mirror_kube (\<lambda>_. []) False quiet_mirror quiet_snapshot ?h"
  obtain ex where ex: "calls_of (publishReport mirror_kube sample_operator quiet_mirror ?rep)
      (?h @ Now # calls_of ?sum (?h @ [Now])) = [Export_Mirror ex ?rep]" using local by blast
  have "\<exists>u. Update_Mirror_Status u \<in> set (calls_of ?m []) \<and> Export_Mirror ex ?rep \<in> set (calls_of ?m [])"
    using run ex by (auto simp: rebuild_run(1))
  then obtain ex rep u where "Update_Mirror_Status u \<in> set (calls_of ?m [])" "Export_Mirror ex rep \<in> set (calls_of ?m [])"
    by blast
  from mirror_status_matches_report[OF this] show ?thesis unfolding Let_def by blast
qed

end
