(* ===== verification/Startup.thy ===== *)
theory Startup
  imports Io_Monad Report_Dest
begin

text \<open>
  Starting the operator: the installation of its own custom resource definitions,
  \<open>internal/crd/crd.go\<close>, and the two commands, \<open>cmd/main.go\<close> and \<open>cmd/remediation/main.go\<close>. What the
  program asks of the API server, the file system and the controller runtime is a call that may fail;
  the answers are the parameter \<open>boot\<close>. The manifests are files that the build embeds: what listing,
  reading and decoding them gives is the parameter \<open>crd_files\<close>.
\<close>

section \<open>Calls\<close>

record crd_object =
  crd_name :: string
  crd_gvk :: "string \<times> string \<times> string"
  crd_managed_fields :: "string list"
  crd_spec :: string

record crd_condition =
  cnd_type :: string
  cnd_status :: string

text \<open>\<open>tls_protos\<close> are the protocols that each TLS option sets, \<open>mo_authenticated\<close> is the filter on the metrics.\<close>

record server_certs =
  cert_dir :: string
  cert_name :: string
  cert_key :: string

record metrics_options =
  mo_bind_address :: string
  mo_secure_serving :: bool
  mo_tls_protos :: "string list list"
  mo_authenticated :: bool
  mo_certs :: server_certs

record webhook_options =
  wo_tls_protos :: "string list list"
  wo_certs :: server_certs

record manager_options =
  mgo_metrics :: metrics_options
  mgo_webhook :: "webhook_options option"
  mgo_probe_address :: string
  mgo_leader_election :: bool
  mgo_leader_id :: string

datatype boot_call =
  Get_Config
| New_Client
| Apply_CRD crd_object string bool
| Get_CRD string
| New_Manager manager_options
| New_Discovery_Client
| Make_Dir string
| Serve_Reports string string string
| Register_Analyses string string
| Register_Mirrors string string bool
| Register_Plans
| Add_Check string
| Start_Manager

text \<open>
  \<open>bt_try\<close> is the error of a call, if any, \<open>bt_crd\<close> the conditions of a definition, and \<open>bt_ticks\<close> how many
  more times the polling loop of \<open>k8s.io/apimachinery\<close> evaluates its condition before the timeout.
\<close>

record boot =
  bt_try :: "boot_call list \<Rightarrow> boot_call \<Rightarrow> string option"
  bt_crd :: "boot_call list \<Rightarrow> string \<Rightarrow> string + crd_condition list"
  bt_ticks :: "boot_call list \<Rightarrow> nat"

type_synonym 'a booting = "(boot_call, 'a) calling"

definition try_call :: "boot \<Rightarrow> boot_call \<Rightarrow> string option booting" where
  "try_call b c = ask (\<lambda>h. bt_try b h c) c"

definition get_crd :: "boot \<Rightarrow> string \<Rightarrow> (string + crd_condition list) booting" where
  "get_crd b n = ask (\<lambda>h. bt_crd b h n) (Get_CRD n)"

definition ticks :: "boot \<Rightarrow> nat booting" where
  "ticks b = State (\<lambda>h. (bt_ticks b h, h))"

section \<open>Installing the definitions\<close>

record crd_files =
  cf_scheme :: "string option"
  cf_glob :: "string + string list"
  cf_read :: "string \<Rightarrow> string + string"
  cf_decode :: "string \<Rightarrow> string + crd_object"

definition fieldManager :: string where "fieldManager = ''mirops-operator''"

definition crd_group_version_kind :: "string \<times> string \<times> string" where
  "crd_group_version_kind = (''apiextensions.k8s.io'', ''v1'', ''CustomResourceDefinition'')"

definition established :: "crd_condition list \<Rightarrow> bool" where
  "established conds = list_ex (\<lambda>c. cnd_type c = ''Established'' \<and> cnd_status c = ''True'') conds"

text \<open>One evaluation of the polled condition; an error of \<open>Get\<close> counts as not yet visible.\<close>

fun all_established :: "boot \<Rightarrow> string list \<Rightarrow> bool booting" where
  "all_established b [] = State_Monad.return True"
| "all_established b (n # ns) = do {
     r \<leftarrow> get_crd b n;
     case r of
       Inl _ \<Rightarrow> State_Monad.return False
     | Inr conds \<Rightarrow> if \<not> established conds then State_Monad.return False else all_established b ns
   }"

text \<open>\<open>wait.PollUntilContextTimeout\<close>, immediate: the condition, then once more per tick until it holds.\<close>

fun poll_until :: "bool booting \<Rightarrow> nat \<Rightarrow> bool booting" where
  "poll_until cond 0 = cond"
| "poll_until cond (Suc n) = do {
     ok \<leftarrow> cond;
     if ok then State_Monad.return True else poll_until cond n
   }"

definition pollInterval :: int where "pollInterval = 200 * 10 ^ 6"
definition pollTimeout :: int where "pollTimeout = 30 * 10 ^ 9"

definition waitEstablished :: "boot \<Rightarrow> string list \<Rightarrow> string option booting" where
  "waitEstablished b names = do {
     n \<leftarrow> ticks b;
     ok \<leftarrow> poll_until (all_established b names) n;
     State_Monad.return (if ok then None else Some ''context deadline exceeded'')
   }"

definition prepared :: "crd_object \<Rightarrow> crd_object" where
  "prepared c = c\<lparr>crd_gvk := crd_group_version_kind, crd_managed_fields := []\<rparr>"

fun apply_crds :: "boot \<Rightarrow> crd_files \<Rightarrow> string list \<Rightarrow> string list \<Rightarrow> (string + string list) booting" where
  "apply_crds b cf [] names = State_Monad.return (Inr names)"
| "apply_crds b cf (f # fs) names =
     (case cf_read cf f of
        Inl e \<Rightarrow> State_Monad.return (Inl (''read '' @ f @ '': '' @ e))
      | Inr data \<Rightarrow> (case cf_decode cf data of
          Inl e \<Rightarrow> State_Monad.return (Inl (''decode '' @ f @ '': '' @ e))
        | Inr crd \<Rightarrow> do {
            w \<leftarrow> try_call b (Apply_CRD (prepared crd) fieldManager True);
            case w of
              Some e \<Rightarrow> State_Monad.return (Inl (''apply CRD '' @ crd_name crd @ '': '' @ e))
            | None \<Rightarrow> apply_crds b cf fs (names @ [crd_name crd])
          }))"

definition Install :: "boot \<Rightarrow> crd_files \<Rightarrow> string option booting" where
  "Install b cf = (case cf_scheme cf of
      Some e \<Rightarrow> State_Monad.return (Some (''add apiextensions to scheme: '' @ e))
    | None \<Rightarrow> do {
        c \<leftarrow> try_call b New_Client;
        case c of
          Some e \<Rightarrow> State_Monad.return (Some (''build client: '' @ e))
        | None \<Rightarrow> (case cf_glob cf of
            Inl e \<Rightarrow> State_Monad.return (Some e)
          | Inr files \<Rightarrow>
              if files = [] then State_Monad.return
                (Some (''no embedded CRDs found '' @ em_dash @ '' run `make manifests` before building''))
              else do {
                a \<leftarrow> apply_crds b cf files [];
                case a of
                  Inl e \<Rightarrow> State_Monad.return (Some e)
                | Inr names \<Rightarrow> do {
                    w \<leftarrow> waitEstablished b names;
                    State_Monad.return (case w of None \<Rightarrow> None
                      | Some e \<Rightarrow> Some (''waiting for CRDs to be established: '' @ e))
                  }
              })
      })"

section \<open>The operator command\<close>

record main_flags =
  fl_metrics_address :: string
  fl_probe_address :: string
  fl_leader_elect :: bool
  fl_metrics_secure :: bool
  fl_webhook_certs :: server_certs
  fl_metrics_certs :: server_certs
  fl_enable_http2 :: bool
  fl_reports_address :: string
  fl_reports_dir :: string

definition default_certs :: server_certs where
  "default_certs = \<lparr>cert_dir = [], cert_name = ''tls.crt'', cert_key = ''tls.key''\<rparr>"

definition default_flags :: main_flags where
  "default_flags = \<lparr>fl_metrics_address = ''0'', fl_probe_address = '':8081'', fl_leader_elect = False,
     fl_metrics_secure = True, fl_webhook_certs = default_certs, fl_metrics_certs = default_certs,
     fl_enable_http2 = False, fl_reports_address = '':8084'', fl_reports_dir = ''/var/mirops/reports''\<rparr>"

definition no_certs :: server_certs where
  "no_certs = \<lparr>cert_dir = [], cert_name = [], cert_key = []\<rparr>"

definition certs_of :: "server_certs \<Rightarrow> server_certs" where
  "certs_of c = (if length (cert_dir c) > 0 then c else no_certs)"

definition tls_options :: "bool \<Rightarrow> string list list" where
  "tls_options enableHTTP2 = (if \<not> enableHTTP2 then [[''http/1.1'']] else [])"

definition webhook_server_options :: "main_flags \<Rightarrow> webhook_options" where
  "webhook_server_options fl =
     \<lparr>wo_tls_protos = tls_options (fl_enable_http2 fl), wo_certs = certs_of (fl_webhook_certs fl)\<rparr>"

definition metrics_server_options :: "main_flags \<Rightarrow> metrics_options" where
  "metrics_server_options fl =
     \<lparr>mo_bind_address = fl_metrics_address fl, mo_secure_serving = fl_metrics_secure fl,
      mo_tls_protos = tls_options (fl_enable_http2 fl), mo_authenticated = fl_metrics_secure fl,
      mo_certs = certs_of (fl_metrics_certs fl)\<rparr>"

definition operator_manager :: "main_flags \<Rightarrow> manager_options" where
  "operator_manager fl =
     \<lparr>mgo_metrics = metrics_server_options fl, mgo_webhook = Some (webhook_server_options fl),
      mgo_probe_address = fl_probe_address fl, mgo_leader_election = fl_leader_elect fl,
      mgo_leader_id = ''54114436.mirops.io''\<rparr>"

datatype exit = Exit_1 | Returned

text \<open>Calls in a row, the first failure ending the process.\<close>

fun must_all :: "boot \<Rightarrow> boot_call list \<Rightarrow> exit booting \<Rightarrow> exit booting" where
  "must_all b [] next_step = next_step"
| "must_all b (c # cs) next_step = do {
     e \<leftarrow> try_call b c;
     case e of Some _ \<Rightarrow> State_Monad.return Exit_1 | None \<Rightarrow> must_all b cs next_step
   }"

definition upgrade_enabled :: "(string \<Rightarrow> string) \<Rightarrow> bool" where
  "upgrade_enabled getenv = (getenv ''MIROPS_UPGRADE_ENABLED'' = ''true'')"

definition register_controllers :: "(string \<Rightarrow> string) \<Rightarrow> main_flags \<Rightarrow> boot_call list" where
  "register_controllers getenv fl =
     (if upgrade_enabled getenv then [Register_Analyses (fl_reports_dir fl) (getenv ''POD_NAMESPACE'')] else [])
     @ [Register_Mirrors (fl_reports_dir fl) (getenv ''POD_NAMESPACE'') (upgrade_enabled getenv)]"

text \<open>The reports server runs beside the manager: its failure is only logged.\<close>

definition operator_main :: "boot \<Rightarrow> crd_files \<Rightarrow> (string \<Rightarrow> string) \<Rightarrow> main_flags \<Rightarrow> exit booting" where
  "operator_main b cf getenv fl = must_all b [Get_Config] (do {
     i \<leftarrow> Install b cf;
     case i of
       Some _ \<Rightarrow> State_Monad.return Exit_1
     | None \<Rightarrow> must_all b [New_Manager (operator_manager fl), New_Discovery_Client, Make_Dir (fl_reports_dir fl)] (do {
         _ \<leftarrow> try_call b (Serve_Reports (fl_reports_address fl) (fl_reports_dir fl) (getenv ''POD_NAMESPACE''));
         must_all b (register_controllers getenv fl @ [Add_Check ''healthz'', Add_Check ''readyz'', Start_Manager])
           (State_Monad.return Returned)
       })
   })"

section \<open>The remediation command\<close>

record remediation_flags =
  rf_metrics_address :: string
  rf_probe_address :: string
  rf_leader_elect :: bool
  rf_enable_http2 :: bool

definition default_remediation_flags :: remediation_flags where
  "default_remediation_flags = \<lparr>rf_metrics_address = ''0'', rf_probe_address = '':8082'', rf_leader_elect = False,
     rf_enable_http2 = False\<rparr>"

definition remediation_manager :: "remediation_flags \<Rightarrow> manager_options" where
  "remediation_manager fl =
     \<lparr>mgo_metrics = \<lparr>mo_bind_address = rf_metrics_address fl, mo_secure_serving = False,
        mo_tls_protos = tls_options (rf_enable_http2 fl), mo_authenticated = False, mo_certs = no_certs\<rparr>,
      mgo_webhook = None, mgo_probe_address = rf_probe_address fl, mgo_leader_election = rf_leader_elect fl,
      mgo_leader_id = ''remediation.mirops.io''\<rparr>"

definition remediation_main :: "boot \<Rightarrow> remediation_flags \<Rightarrow> exit booting" where
  "remediation_main b fl = must_all b [Get_Config, New_Manager (remediation_manager fl), Register_Plans,
     Add_Check ''healthz'', Add_Check ''readyz'', Start_Manager] (State_Monad.return Returned)"

section \<open>The front of the reports server\<close>

record web_request =
  wr_method :: string
  wr_path :: string
  wr_kind :: string

record web_response =
  ws_headers :: strmap
  ws_answer :: http_response

definition cors_headers :: strmap where
  "cors_headers = [(''Access-Control-Allow-Origin'', ''*''), (''Access-Control-Allow-Methods'', ''GET, OPTIONS''),
     (''Access-Control-Allow-Headers'', ''Content-Type'')]"

definition corsMiddleware :: "(web_request \<Rightarrow> http_response io) \<Rightarrow> web_request \<Rightarrow> web_response io" where
  "corsMiddleware handler r =
     (if wr_method r = ''OPTIONS'' then State_Monad.return \<lparr>ws_headers = cors_headers, ws_answer = \<lparr>rs_code = 204, rs_body = Text []\<rparr>\<rparr>
      else do {
        a \<leftarrow> handler r;
        State_Monad.return \<lparr>ws_headers = cors_headers, ws_answer = a\<rparr>
      })"

text \<open>\<open>http.StripPrefix\<close>.\<close>

definition strip_prefix :: "string \<Rightarrow> (web_request \<Rightarrow> http_response io) \<Rightarrow> web_request \<Rightarrow> http_response io" where
  "strip_prefix p handler r =
     (if has_prefix (wr_path r) p then handler (r\<lparr>wr_path := trim_prefix (wr_path r) p\<rparr>)
      else State_Monad.return (http_error ''404 page not found'' 404))"

definition reports_handler :: "kube \<Rightarrow> ('c, 'g) sdk \<Rightarrow> string \<Rightarrow> string \<Rightarrow> string option \<Rightarrow> 'c world \<Rightarrow> web_request
    \<Rightarrow> web_response io" where
  "reports_handler k sdk reportsDir operatorNamespace io w = corsMiddleware (strip_prefix ''/reports/''
     (\<lambda>r. ServeHTTP k sdk reportsDir operatorNamespace io w \<lparr>rq_path = wr_path r, rq_kind = wr_kind r\<rparr>))"

end
