(* ===== verification/Startup_Props.thy ===== *)
theory Startup_Props
  imports Startup
begin

text \<open>
  What starting the operator guarantees: nothing that watches the custom resources runs before their
  definitions are established, the start comes to an end, and it succeeds when the API server establishes
  the definitions in time.
\<close>

section \<open>Runs\<close>

text \<open>
  The calls whose failure must end the start, and a run in which each of them has succeeded at its place. A read
  of a definition is polled, the reports server runs beside the manager, and the last call is the manager's own.
\<close>

fun must_succeed :: "boot_call \<Rightarrow> bool" where
  "must_succeed (Get_CRD n) = False"
| "must_succeed (Serve_Reports a d ns) = False"
| "must_succeed Start_Manager = False"
| "must_succeed c = True"

fun went_through :: "boot \<Rightarrow> boot_call list \<Rightarrow> boot_call list \<Rightarrow> bool" where
  "went_through b h [] = True"
| "went_through b h (c # cs) = ((must_succeed c \<longrightarrow> bt_try b h c = None) \<and> went_through b (h @ [c]) cs)"

lemma went_through_append [simp]: "went_through b h (xs @ ys) = (went_through b h xs \<and> went_through b (h @ xs) ys)"
  by (induction xs arbitrary: h) auto

lemma went_through_reads: "set cs \<subseteq> range Get_CRD \<Longrightarrow> went_through b h cs"
  by (induction cs arbitrary: h) auto

lemma extends_ticks [simp, intro]: "extends (ticks b)"
  by (simp add: extends_def ticks_def)

lemma ticks_run [simp]: "calls_of (ticks b) h = []" "result_of (ticks b) h = bt_ticks b h"
  by (simp_all add: calls_of_def ticks_def)

lemma extends_all_established [simp, intro]: "extends (all_established b ns)"
  by (induction ns) (auto simp: get_crd_def intro!: extends_bind extends_cases)

lemma extends_poll [simp, intro]: "extends c \<Longrightarrow> extends (poll_until c n)"
  by (induction n) (auto intro!: extends_bind extends_cases)

lemma extends_wait [simp, intro]: "extends (waitEstablished b ns)"
  unfolding waitEstablished_def by (intro extends_bind extends_return) auto

lemma extends_apply [simp, intro]: "extends (apply_crds b cf fs ns)"
  by (induction fs arbitrary: ns) (auto simp: try_call_def intro!: extends_bind extends_cases)

lemma extends_install [simp, intro]: "extends (Install b cf)"
  unfolding Install_def try_call_def by (intro extends_bind extends_return extends_cases) auto

lemma extends_must_all [simp, intro]: "extends m \<Longrightarrow> extends (must_all b cs m)"
  by (induction cs) (auto simp: try_call_def intro!: extends_bind extends_cases)

declare all_established.simps(2) [simp del] poll_until.simps(2) [simp del]

text \<open>A definition that is established when it is read.\<close>

definition ready :: "boot \<Rightarrow> boot_call list \<Rightarrow> string \<Rightarrow> bool" where
  "ready b h n \<longleftrightarrow> (case bt_crd b h n of Inl _ \<Rightarrow> False | Inr conds \<Rightarrow> established conds)"

lemma all_established_step:
  "calls_of (all_established b (n # ns)) h = Get_CRD n # (if ready b h n then calls_of (all_established b ns) (h @ [Get_CRD n]) else [])"
  "result_of (all_established b (n # ns)) h = (ready b h n \<and> result_of (all_established b ns) (h @ [Get_CRD n]))"
  by (auto simp: all_established.simps(2) get_crd_def ready_def calls_of_bind extends_cases split: sum.split)

lemma all_established_true:
  assumes "result_of (all_established b ns) h"
  shows "calls_of (all_established b ns) h = map Get_CRD ns \<and>
    (\<forall>i<length ns. ready b (h @ map Get_CRD (take i ns)) (ns ! i))"
  using assms
proof (induction ns arbitrary: h)
  case (Cons n ns)
  then have "ready b h n" "result_of (all_established b ns) (h @ [Get_CRD n])" by (simp_all add: all_established_step(2))
  moreover from this Cons.IH[of "h @ [Get_CRD n]"] have "calls_of (all_established b ns) (h @ [Get_CRD n]) = map Get_CRD ns"
    and rest: "i < length ns \<Longrightarrow> ready b (h @ Get_CRD n # map Get_CRD (take i ns)) (ns ! i)" for i
    by auto
  moreover have "ready b (h @ map Get_CRD (take i (n # ns))) ((n # ns) ! i)" if "i < length (n # ns)" for i
    using that rest calculation(1) by (cases i) auto
  ultimately show ?case by (simp add: all_established_step(1))
qed simp

lemma all_established_calls:
  "set (calls_of (all_established b ns) h) \<subseteq> Get_CRD ` set ns" "length (calls_of (all_established b ns) h) \<le> length ns"
proof -
  show "set (calls_of (all_established b ns) h) \<subseteq> Get_CRD ` set ns"
    by (induction ns arbitrary: h) (auto simp: all_established_step(1))
  show "length (calls_of (all_established b ns) h) \<le> length ns"
    by (induction ns arbitrary: h) (auto simp: all_established_step(1))
qed

lemma poll_step:
  assumes "extends c"
  shows "calls_of (poll_until c (Suc n)) h =
      calls_of c h @ (if result_of c h then [] else calls_of (poll_until c n) (h @ calls_of c h))"
    and "result_of (poll_until c (Suc n)) h = (result_of c h \<or> result_of (poll_until c n) (h @ calls_of c h))"
  using assms by (auto simp: poll_until.simps(2) calls_of_bind extends_cases simp del: run_state_bind)

text \<open>A successful poll ends with a round that holds; the rounds before it only read.\<close>

lemma poll_true:
  assumes "result_of (poll_until (all_established b ns) n) h"
  shows "\<exists>pre. calls_of (poll_until (all_established b ns) n) h = pre @ map Get_CRD ns \<and> set pre \<subseteq> Get_CRD ` set ns \<and>
    (\<forall>i<length ns. ready b (h @ pre @ map Get_CRD (take i ns)) (ns ! i))"
  using assms
proof (induction n arbitrary: h)
  case 0
  then show ?case using all_established_true[of b ns h] by (intro exI[of _ "[]"]) simp
next
  case (Suc n)
  let ?c = "calls_of (all_established b ns) h"
  show ?case
  proof (cases "result_of (all_established b ns) h")
    case True
    then show ?thesis using all_established_true[OF True] by (intro exI[of _ "[]"]) (simp add: poll_step)
  next
    case False
    with Suc.prems have "result_of (poll_until (all_established b ns) n) (h @ ?c)" by (simp add: poll_step)
    from Suc.IH[OF this] obtain pre where "calls_of (poll_until (all_established b ns) n) (h @ ?c) = pre @ map Get_CRD ns"
      "set pre \<subseteq> Get_CRD ` set ns" "\<forall>i<length ns. ready b ((h @ ?c) @ pre @ map Get_CRD (take i ns)) (ns ! i)" by blast
    then show ?thesis using False all_established_calls(1)[of b ns h]
      by (intro exI[of _ "?c @ pre"]) (simp add: poll_step)
  qed
qed

lemma poll_calls: "length (calls_of (poll_until (all_established b ns) n) h) \<le> (n + 1) * length ns"
proof (induction n arbitrary: h)
  case 0
  then show ?case using all_established_calls(2)[of b ns h] by simp
next
  case (Suc n)
  then show ?case
    by (auto simp: poll_step intro!: add_mono[OF all_established_calls(2)] le_trans[OF all_established_calls(2)])
qed

lemma wait_run:
  "calls_of (waitEstablished b ns) h = calls_of (poll_until (all_established b ns) (bt_ticks b h)) h"
  "(result_of (waitEstablished b ns) h = None) = result_of (poll_until (all_established b ns) (bt_ticks b h)) h"
  by (simp_all add: waitEstablished_def calls_of_bind del: run_state_bind)

section \<open>The installation\<close>

text \<open>The objects that are applied for a list of files, if all of them read and decode.\<close>

definition manifest :: "crd_files \<Rightarrow> string \<Rightarrow> crd_object \<Rightarrow> bool" where
  "manifest cf f c \<longleftrightarrow> (\<exists>data c'. cf_read cf f = Inr data \<and> cf_decode cf data = Inr c' \<and> c = prepared c')"

abbreviation apply_call :: "crd_object \<Rightarrow> boot_call" where
  "apply_call c \<equiv> Apply_CRD c fieldManager True"

lemma prepared_name [simp]: "crd_name (prepared c) = crd_name c"
  by (simp add: prepared_def)

lemma apply_crds_step:
  "calls_of (apply_crds b cf (f # fs) ns) h = (case cf_read cf f of Inl e \<Rightarrow> [] | Inr data \<Rightarrow> (case cf_decode cf data of Inl e \<Rightarrow> []
     | Inr c \<Rightarrow> apply_call (prepared c) # (if bt_try b h (apply_call (prepared c)) = None
         then calls_of (apply_crds b cf fs (ns @ [crd_name c])) (h @ [apply_call (prepared c)]) else [])))"
  "result_of (apply_crds b cf (f # fs) ns) h = (case cf_read cf f of Inl e \<Rightarrow> Inl (''read '' @ f @ '': '' @ e)
     | Inr data \<Rightarrow> (case cf_decode cf data of Inl e \<Rightarrow> Inl (''decode '' @ f @ '': '' @ e)
     | Inr c \<Rightarrow> (case bt_try b h (apply_call (prepared c)) of Some e \<Rightarrow> Inl (''apply CRD '' @ crd_name c @ '': '' @ e)
         | None \<Rightarrow> result_of (apply_crds b cf fs (ns @ [crd_name c])) (h @ [apply_call (prepared c)]))))"
  by (auto simp: try_call_def calls_of_bind extends_cases split: sum.split option.split)

declare apply_crds.simps(2) [simp del]

lemma apply_crds_ok:
  assumes "result_of (apply_crds b cf fs ns) h = Inr names"
  shows "\<exists>crds. list_all2 (manifest cf) fs crds \<and> names = ns @ map crd_name crds \<and>
    calls_of (apply_crds b cf fs ns) h = map apply_call crds \<and> went_through b h (map apply_call crds)"
  using assms
proof (induction fs arbitrary: ns h)
  case (Cons f fs)
  then obtain data c where c: "cf_read cf f = Inr data" "cf_decode cf data = Inr c" "bt_try b h (apply_call (prepared c)) = None"
    "result_of (apply_crds b cf fs (ns @ [crd_name c])) (h @ [apply_call (prepared c)]) = Inr names"
    by (auto simp: apply_crds_step(2) split: sum.splits option.splits)
  from Cons.IH[OF c(4)] obtain crds where "list_all2 (manifest cf) fs crds" "names = ns @ crd_name c # map crd_name crds"
    "calls_of (apply_crds b cf fs (ns @ [crd_name c])) (h @ [apply_call (prepared c)]) = map apply_call crds"
    "went_through b (h @ [apply_call (prepared c)]) (map apply_call crds)" by auto
  with c show ?case
    by (intro exI[of _ "prepared c # crds"]) (simp add: apply_crds_step(1), simp add: manifest_def)
qed simp

lemma apply_crds_calls: "length (calls_of (apply_crds b cf fs ns) h) \<le> length fs"
proof (induction fs arbitrary: ns h)
  case (Cons f fs)
  then show ?case by (simp add: apply_crds_step(1) split: sum.split)
qed simp

lemma apply_crds_names:
  "result_of (apply_crds b cf fs ns) h = Inr names \<Longrightarrow> length names = length ns + length fs"
  by (drule apply_crds_ok) (auto dest: list_all2_lengthD)

text \<open>The installation, once the scheme and the list of files are there.\<close>

lemma install_run:
  fixes b cf h
  defines "h1 \<equiv> h @ [New_Client]"
  assumes "cf_scheme cf = None" "bt_try b h New_Client = None" "cf_glob cf = Inr files" "files \<noteq> []"
  defines "a \<equiv> apply_crds b cf files []"
  defines "h2 \<equiv> h1 @ calls_of a h1"
  shows "calls_of (Install b cf) h = New_Client # calls_of a h1 @
      (case result_of a h1 of Inl e \<Rightarrow> [] | Inr names \<Rightarrow> calls_of (waitEstablished b names) h2)"
    and "(result_of (Install b cf) h = None) =
      (case result_of a h1 of Inl e \<Rightarrow> False | Inr names \<Rightarrow> result_of (waitEstablished b names) h2 = None)"
  using assms(2-5) unfolding Install_def try_call_def h1_def h2_def a_def
  by (auto simp: calls_of_bind extends_cases split: sum.split option.split simp del: run_state_bind)

lemma install_quick:
  assumes "\<not> (cf_scheme cf = None \<and> bt_try b h New_Client = None \<and> (\<exists>files. cf_glob cf = Inr files \<and> files \<noteq> []))"
  shows "result_of (Install b cf) h \<noteq> None \<and> length (calls_of (Install b cf) h) \<le> 1"
  using assms unfolding Install_def try_call_def
  by (auto simp: calls_of_bind extends_cases split: sum.split option.split simp del: run_state_bind)

section \<open>Starting\<close>

lemma install_ok:
  assumes "result_of (Install b cf) h = None"
  shows "\<exists>files crds pre. cf_glob cf = Inr files \<and> files \<noteq> [] \<and> list_all2 (manifest cf) files crds \<and>
    set pre \<subseteq> Get_CRD ` crd_name ` set crds \<and>
    calls_of (Install b cf) h = New_Client # map apply_call crds @ pre @ map Get_CRD (map crd_name crds) \<and>
    went_through b h (calls_of (Install b cf) h) \<and>
    (\<forall>i<length crds. ready b (h @ New_Client # map apply_call crds @ pre @ map Get_CRD (take i (map crd_name crds)))
       (crd_name (crds ! i)))"
proof -
  obtain files where env: "cf_scheme cf = None" "bt_try b h New_Client = None" "cf_glob cf = Inr files" "files \<noteq> []"
    using install_quick[of cf b h] assms by auto
  let ?a = "apply_crds b cf files []" and ?h1 = "h @ [New_Client]"
  obtain names where a: "result_of ?a ?h1 = Inr names"
    using install_run(2)[OF env] assms by (cases "result_of ?a ?h1") auto
  then obtain crds where crds: "list_all2 (manifest cf) files crds" "names = map crd_name crds"
    "calls_of ?a ?h1 = map apply_call crds" "went_through b ?h1 (map apply_call crds)" using apply_crds_ok by fastforce
  let ?h2 = "?h1 @ map apply_call crds"
  have "result_of (waitEstablished b names) ?h2 = None" using install_run(2)[OF env] assms by (simp add: a crds(3))
  then have "result_of (poll_until (all_established b names) (bt_ticks b ?h2)) ?h2" unfolding wait_run(2) .
  from poll_true[OF this] obtain pre where pre:
    "calls_of (waitEstablished b names) ?h2 = pre @ map Get_CRD names" "set pre \<subseteq> Get_CRD ` set names"
    "\<forall>i<length names. ready b (?h2 @ pre @ map Get_CRD (take i names)) (names ! i)" unfolding wait_run(1) by blast
  have calls: "calls_of (Install b cf) h = New_Client # map apply_call crds @ pre @ map Get_CRD names"
    using install_run(1)[OF env] by (simp add: a crds(3) pre(1)[simplified])
  have "went_through b h' pre" "went_through b h' (map Get_CRD names)" for h' using pre(2) by (auto intro!: went_through_reads)
  then have "went_through b h (calls_of (Install b cf) h)" unfolding calls using env(2) crds(4) by simp
  with calls env(3,4) crds(1) pre(2,3) show ?thesis by (intro exI[of _ files] exI[of _ crds] exI[of _ pre]) (simp add: crds(2))
qed

text \<open>A failing call ends the process; otherwise all are made.\<close>

lemma must_all_run:
  assumes "extends m"
  obtains (failed) j where "calls_of (must_all b cs m) h = take j cs" "result_of (must_all b cs m) h = Exit_1"
      "went_through b h (butlast (take j cs))"
  | (through) "calls_of (must_all b cs m) h = cs @ calls_of m (h @ cs)"
      "result_of (must_all b cs m) h = result_of m (h @ cs)" "went_through b h cs"
  using assms
proof (induction cs arbitrary: h thesis)
  case Nil
  then show ?case by simp
next
  case (Cons c cs)
  have step: "calls_of (must_all b (c # cs) m) h = c # (if bt_try b h c = None then calls_of (must_all b cs m) (h @ [c]) else [])"
    "result_of (must_all b (c # cs) m) h = (if bt_try b h c = None then result_of (must_all b cs m) (h @ [c]) else Exit_1)"
    using Cons.prems(3) by (auto simp: try_call_def calls_of_bind extends_cases split: option.split)
  show ?case
  proof (cases "bt_try b h c")
    case (Some e)
    then show ?thesis using Cons.prems(1)[of 1] step by simp
  next
    case None
    show ?thesis
    proof (rule Cons.IH[of "h @ [c]"])
      fix j assume "calls_of (must_all b cs m) (h @ [c]) = take j cs" "result_of (must_all b cs m) (h @ [c]) = Exit_1"
        "went_through b (h @ [c]) (butlast (take j cs))"
      then show ?thesis using Cons.prems(1)[of "Suc j"] step None by simp
    next
      assume "calls_of (must_all b cs m) (h @ [c]) = cs @ calls_of m ((h @ [c]) @ cs)"
        "result_of (must_all b cs m) (h @ [c]) = result_of m ((h @ [c]) @ cs)"
        "went_through b (h @ [c]) cs"
      then show ?thesis using Cons.prems(2) step None by simp
    qed (rule Cons.prems(3))
  qed
qed

lemma install_not_start: "Start_Manager \<notin> set (calls_of (Install b cf) h)"
proof -
  have "only (\<lambda>c. c \<noteq> Start_Manager) (all_established b ns)" for ns
    unfolding only_def list_all_iff using all_established_calls(1)[of b ns] by auto
  then have "only (\<lambda>c. c \<noteq> Start_Manager) (poll_until (all_established b ns) n)" for ns n
    by (induction n) (auto simp: poll_until.simps(2) intro!: only_bind only_cases)
  then have "only (\<lambda>c. c \<noteq> Start_Manager) (waitEstablished b ns)" for ns
    unfolding only_def list_all_iff wait_run(1) by simp
  moreover have "only (\<lambda>c. c \<noteq> Start_Manager) (apply_crds b cf fs ns)" for fs ns
    by (induction fs arbitrary: ns) (auto simp: apply_crds.simps(2) try_call_def intro!: only_bind only_cases)
  ultimately have "only (\<lambda>c. c \<noteq> Start_Manager) (Install b cf)"
    unfolding Install_def try_call_def by (intro only_bind only_cases only_ask only_return) auto
  from onlyD[OF this] show ?thesis by (auto simp: list_all_iff)
qed

lemma take_all_of_last: "x \<in> set (take j (xs @ [x])) \<Longrightarrow> x \<notin> set xs \<Longrightarrow> take j (xs @ [x]) = xs @ [x]"
  by (cases "j \<le> length xs") (auto dest: in_set_takeD)

text \<open>C31: the manager, whose controllers watch the custom resources, is only started after every embedded definition
  has been applied, successfully, and then read as established, after the reports directory was made and the server
  started, and with the upgrade controller registered exactly when it is enabled, which is what the mirror reports. No
  call before it whose failure matters has failed: only the polled reads and the reports server may.\<close>

theorem startup_order:
  fixes b cf getenv fl h
  defines "calls \<equiv> calls_of (operator_main b cf getenv fl) h"
  assumes "Start_Manager \<in> set calls"
  shows "\<exists>files crds polls. cf_glob cf = Inr files \<and> files \<noteq> [] \<and> list_all2 (manifest cf) files crds \<and>
    set polls \<subseteq> Get_CRD ` crd_name ` set crds \<and>
    (let names = map crd_name crds; applied = [Get_Config, New_Client] @ map apply_call crds @ polls in
     (\<forall>i<length names. ready b (h @ applied @ map Get_CRD (take i names)) (names ! i)) \<and>
     calls = applied @ map Get_CRD names @
       [New_Manager (operator_manager fl), New_Discovery_Client, Make_Dir (fl_reports_dir fl),
        Serve_Reports (fl_reports_address fl) (fl_reports_dir fl) (getenv ''POD_NAMESPACE'')] @
       (if getenv ''MIROPS_UPGRADE_ENABLED'' = ''true''
        then [Register_Analyses (fl_reports_dir fl) (getenv ''POD_NAMESPACE'')] else []) @
       [Register_Mirrors (fl_reports_dir fl) (getenv ''POD_NAMESPACE'') (getenv ''MIROPS_UPGRADE_ENABLED'' = ''true''),
        Add_Check ''healthz'', Add_Check ''readyz'', Start_Manager] \<and>
     went_through b h calls)"
proof -
  define last_part where "last_part = must_all b (register_controllers getenv fl @ [Add_Check ''healthz'', Add_Check ''readyz'', Start_Manager])
           (State_Monad.return Returned)"
  define serve where "serve = Serve_Reports (fl_reports_address fl) (fl_reports_dir fl) (getenv ''POD_NAMESPACE'')"
  define mid where "mid = [New_Manager (operator_manager fl), New_Discovery_Client, Make_Dir (fl_reports_dir fl)]"
  define go where "go i = (case i of Some _ \<Rightarrow> State_Monad.return Exit_1 | None \<Rightarrow> must_all b mid (try_call b serve \<bind> (\<lambda>_. last_part)))"
    for i :: "string option"
  have main: "operator_main b cf getenv fl = must_all b [Get_Config] (Install b cf \<bind> go)"
    unfolding operator_main_def go_def[abs_def] last_part_def serve_def mid_def ..
  have ex: "extends last_part" "extends (try_call b serve \<bind> (\<lambda>_. last_part))" "extends (go i)" for i
    unfolding last_part_def go_def try_call_def by (intro extends_must_all extends_bind extends_cases extends_return extends_ask)+
  have first: "extends (Install b cf \<bind> go)" by (intro extends_bind extends_install ex)
  note inst = calls_of_bind[OF extends_install[of b cf] ex(3)]
  let ?h1 = "h @ [Get_Config]"
  let ?i = "calls_of (Install b cf) ?h1"
  have "went_through b h [Get_Config] \<and> calls_of (must_all b [Get_Config] (Install b cf \<bind> go)) h =
      Get_Config # calls_of (Install b cf \<bind> go) ?h1"
    using first
  proof (cases rule: must_all_run[where b = b and cs = "[Get_Config]" and h = h])
    case (failed j)
    with assms(2) show ?thesis unfolding calls_def main by (auto dest: in_set_takeD)
  qed simp
  then have config: "went_through b h [Get_Config]" and calls_config: "calls_of (must_all b [Get_Config] (Install b cf \<bind> go)) h =
      Get_Config # calls_of (Install b cf \<bind> go) ?h1" by simp_all
  have "calls_of (Install b cf \<bind> go) ?h1 = ?i @ calls_of (go (result_of (Install b cf) ?h1)) (?h1 @ ?i)" by (rule inst(1))
  then have calls: "calls = Get_Config # ?i @ calls_of (go (result_of (Install b cf) ?h1)) (?h1 @ ?i)"
    unfolding calls_def main calls_config by simp
  have ok: "result_of (Install b cf) ?h1 = None"
    using assms(2) install_not_start[of b cf ?h1] unfolding calls by (cases "result_of (Install b cf) ?h1") (auto simp: go_def)
  let ?h2 = "?h1 @ ?i"
  have "calls_of (go None) ?h2 = mid @ calls_of (try_call b serve \<bind> (\<lambda>_. last_part)) (?h2 @ mid) \<and> went_through b ?h2 mid"
    using ex(2)
  proof (cases rule: must_all_run[where b = b and cs = mid and h = ?h2])
    case (failed j)
    with assms(2) install_not_start[of b cf ?h1] show ?thesis
      unfolding calls ok by (auto simp: go_def mid_def dest: in_set_takeD simp del: must_all.simps)
  qed (simp add: go_def)
  then have m: "calls_of (go None) ?h2 = mid @ calls_of (try_call b serve \<bind> (\<lambda>_. last_part)) (?h2 @ mid)"
    and m_ok: "went_through b ?h2 mid" by blast+
  have s: "calls_of (try_call b serve \<bind> (\<lambda>_. last_part)) (?h2 @ mid) = serve # calls_of last_part (?h2 @ mid @ [serve])"
    unfolding try_call_def by (subst calls_of_bind(1)[OF extends_ask ex(1)]) simp
  let ?r = "register_controllers getenv fl @ [Add_Check ''healthz'', Add_Check ''readyz'']"
  have in_last: "Start_Manager \<in> set (calls_of last_part (?h2 @ mid @ [serve]))"
    using assms(2) install_not_start[of b cf ?h1] unfolding calls ok m s by (auto simp: mid_def serve_def)
  have quiet: "Start_Manager \<notin> set ?r" by (simp add: register_controllers_def)
  have "calls_of last_part (?h2 @ mid @ [serve]) = ?r @ [Start_Manager] \<and> went_through b (?h2 @ mid @ [serve]) ?r"
    using extends_return[of Returned]
  proof (cases rule: must_all_run[where b = b and cs = "?r @ [Start_Manager]" and h = "?h2 @ mid @ [serve]"])
    case (failed j)
    then have all: "take j (?r @ [Start_Manager]) = ?r @ [Start_Manager]"
      using in_last take_all_of_last[OF _ quiet] by (simp add: last_part_def)
    then show ?thesis using failed(1,3) unfolding all butlast_snoc last_part_def by simp
  qed (simp add: last_part_def)
  then have l: "calls_of last_part (?h2 @ mid @ [serve]) = ?r @ [Start_Manager]"
    and l_ok: "went_through b (?h2 @ mid @ [serve]) ?r" by blast+
  obtain files crds pre where inst: "cf_glob cf = Inr files" "files \<noteq> []" "list_all2 (manifest cf) files crds"
    "set pre \<subseteq> Get_CRD ` crd_name ` set crds" "?i = New_Client # map apply_call crds @ pre @ map Get_CRD (map crd_name crds)"
    "\<forall>i<length crds. ready b (?h1 @ New_Client # map apply_call crds @ pre @ map Get_CRD (take i (map crd_name crds))) (crd_name (crds ! i))"
    "went_through b ?h1 ?i"
    using install_ok[OF ok] by blast
  have all: "calls = [Get_Config] @ ?i @ mid @ [serve] @ ?r @ [Start_Manager]" unfolding calls ok m s l by simp
  have "went_through b h calls"
    unfolding all went_through_append using config inst(7) m_ok l_ok by (simp add: serve_def)
  moreover have "calls = Get_Config # New_Client # map apply_call crds @ pre @ map Get_CRD (map crd_name crds) @ mid @ serve # ?r @ [Start_Manager]"
    unfolding all unfolding inst(5) by simp
  ultimately show ?thesis using inst(1-4,6) unfolding Let_def
    by (intro exI[of _ files] exI[of _ crds] exI[of _ pre])
      (simp add: mid_def serve_def register_controllers_def upgrade_enabled_def)
qed

section \<open>The start comes to an end\<close>

text \<open>C33: the installation always comes to an end: the polling library evaluates the condition at most once at first
  and once per interval until the timeout, so at most 152 calls are made for each embedded definition and
  one to build the client, whatever the API server answers.\<close>

theorem install_bounded:
  assumes "\<And>h. int (bt_ticks b h) \<le> pollTimeout div pollInterval"
  shows "length (calls_of (Install b cf) h) \<le> 1 + 152 * length (case cf_glob cf of Inl _ \<Rightarrow> [] | Inr files \<Rightarrow> files)"
proof (cases "cf_scheme cf = None \<and> bt_try b h New_Client = None \<and> (\<exists>files. cf_glob cf = Inr files \<and> files \<noteq> [])")
  case False
  then show ?thesis using install_quick[OF False] by simp
next
  case True
  then obtain files where env: "cf_scheme cf = None" "bt_try b h New_Client = None" "cf_glob cf = Inr files" "files \<noteq> []" by auto
  let ?a = "apply_crds b cf files []" and ?h1 = "h @ [New_Client]"
  have a: "length (calls_of ?a ?h1) \<le> length files" by (rule apply_crds_calls)
  have "length (calls_of (waitEstablished b names) h') \<le> 151 * length names" for names h'
  proof -
    have "bt_ticks b h' \<le> 150" using assms[of h'] by (simp add: pollTimeout_def pollInterval_def)
    then have "(bt_ticks b h' + 1) * length names \<le> 151 * length names" by (intro mult_right_mono) simp_all
    then show ?thesis unfolding wait_run(1) using poll_calls le_trans by blast
  qed
  moreover have "length names = length files" if "result_of ?a ?h1 = Inr names" for names
    using apply_crds_names[OF that] by simp
  ultimately have "length (case result_of ?a ?h1 of Inl e \<Rightarrow> [] | Inr names \<Rightarrow> calls_of (waitEstablished b names) h')
      \<le> 151 * length files" for h'
    by (cases "result_of ?a ?h1") (simp, metis sum.simps(6))
  from add_mono[OF a this[of "?h1 @ calls_of ?a ?h1"]] show ?thesis
    unfolding install_run(1)[OF env] env(3) by simp
qed

fun reads_crd :: "boot_call \<Rightarrow> bool" where
  "reads_crd (Get_CRD n) = True"
| "reads_crd c = False"

abbreviation reads_made :: "boot_call list \<Rightarrow> nat" where
  "reads_made h \<equiv> length (filter reads_crd h)"

lemma poll_eventually:
  assumes "\<And>h n. T \<le> reads_made h \<Longrightarrow> ready b h n" and "ns \<noteq> []" and "T \<le> reads_made h + n"
  shows "result_of (poll_until (all_established b ns) n) h"
proof -
  have all: "result_of (all_established b ns) h" if "T \<le> reads_made h" for h ns
    using that by (induction ns arbitrary: h) (auto simp: all_established_step(2) assms(1))
  show ?thesis
    using assms(3)
  proof (induction n arbitrary: h)
    case 0
    then show ?case by (simp add: all)
  next
    case (Suc n)
    let ?c = "calls_of (all_established b ns) h"
    have "?c \<noteq> []" using assms(2) by (cases ns) (simp_all add: all_established_step(1))
    moreover have "filter reads_crd ?c = ?c" using all_established_calls(1)[of b ns h] by (auto simp: filter_id_conv)
    ultimately have "T \<le> reads_made (h @ ?c) + n" using Suc.prems by (cases ?c) auto
    from Suc.IH[OF this] show ?case by (simp add: poll_step)
  qed
qed

lemma must_all_ok:
  assumes "extends m" "\<And>h c. bt_try b h c = None"
  shows "calls_of (must_all b cs m) h = cs @ calls_of m (h @ cs)" "result_of (must_all b cs m) h = result_of m (h @ cs)"
  by (induction cs arbitrary: h) (simp_all add: try_call_def calls_of_bind extends_cases assms del: run_state_bind)

lemma apply_crds_all:
  assumes "\<And>h c. bt_try b h c = None" "list_all2 (manifest cf) fs crds"
  shows "result_of (apply_crds b cf fs ns) h = Inr (ns @ map crd_name crds)"
  using assms(2)
  by (induction fs crds arbitrary: ns h rule: list_all2_induct) (auto simp: apply_crds_step(2) assms(1) manifest_def)

lemma operator_runs:
  assumes "cf_scheme cf = None" "cf_glob cf = Inr files" "files \<noteq> []" "list_all2 (manifest cf) files crds"
    and ok: "\<And>h c. bt_try b h c = None"
    and "\<And>h n. T \<le> reads_made h \<Longrightarrow> ready b h n" "\<And>h. T \<le> bt_ticks b h"
  shows "result_of (operator_main b cf getenv fl) h = Returned \<and> last (calls_of (operator_main b cf getenv fl) h) = Start_Manager"
proof -
  have names: "map crd_name crds \<noteq> []" using assms(3,4) by (auto dest: list_all2_lengthD)
  let ?a = "apply_crds b cf files []"
  have "result_of (waitEstablished b (map crd_name crds)) h' = None" for h'
    unfolding wait_run(2) by (rule poll_eventually[OF assms(6) names trans_le_add2[OF assms(7)]])
  then have inst: "result_of (Install b cf) h' = None" for h'
    using install_run(2)[OF assms(1) ok assms(2,3), of h'] apply_crds_all[OF ok assms(4)] by simp
  define tail_part where "tail_part = must_all b (register_controllers getenv fl @ [Add_Check ''healthz'', Add_Check ''readyz'', Start_Manager])
           (State_Monad.return Returned)"
  have tail: "extends tail_part" "result_of tail_part h' = Returned" "last (calls_of tail_part h') = Start_Manager"
    "calls_of tail_part h' \<noteq> []" for h'
    unfolding tail_part_def using must_all_ok[OF extends_return ok] by (auto simp del: must_all.simps)
  define go where "go = must_all b [New_Manager (operator_manager fl), New_Discovery_Client, Make_Dir (fl_reports_dir fl)]
    (try_call b (Serve_Reports (fl_reports_address fl) (fl_reports_dir fl) (getenv ''POD_NAMESPACE'')) \<bind> (\<lambda>_. tail_part))"
  have ex: "extends (try_call b c \<bind> (\<lambda>_. tail_part))" for c unfolding try_call_def by (intro extends_bind extends_ask tail)
  have go: "extends go" "result_of go h' = Returned" "last (calls_of go h') = Start_Manager" "calls_of go h' \<noteq> []" for h'
    unfolding go_def using must_all_ok[OF ex ok] ex tail
    by (auto simp: try_call_def calls_of_bind simp del: must_all.simps run_state_bind)
  have main: "operator_main b cf getenv fl = must_all b [Get_Config]
      (Install b cf \<bind> (\<lambda>i. case i of Some _ \<Rightarrow> State_Monad.return Exit_1 | None \<Rightarrow> go))"
    unfolding operator_main_def go_def tail_part_def ..
  have "extends (Install b cf \<bind> (\<lambda>i. case i of Some _ \<Rightarrow> State_Monad.return Exit_1 | None \<Rightarrow> go))"
    by (intro extends_bind extends_install extends_cases extends_return go)
  note run = must_all_ok[OF this ok]
  show ?thesis unfolding main run
    by (simp add: calls_of_bind extends_cases go inst del: run_state_bind)
qed

text \<open>C32: the operator does start when nothing fails: if the manifests decode and the API server has established
  them after some number of reads that the polling leaves room for, the manager is started.\<close>

theorem operator_starts:
  assumes "cf_scheme cf = None" "cf_glob cf = Inr files" "files \<noteq> []" "list_all2 (manifest cf) files crds"
    and ok: "\<And>h c. bt_try b h c = None"
    and "\<And>h n. T \<le> reads_made h \<Longrightarrow> ready b h n" "\<And>h. T \<le> bt_ticks b h"
  shows "result_of (operator_main b cf getenv fl) h = Returned \<and> last (calls_of (operator_main b cf getenv fl) h) = Start_Manager"
  using operator_runs[OF assms] .

section \<open>A start\<close>

text \<open>One definition, visible after two reads.\<close>

definition sample_boot :: boot where
  "sample_boot = \<lparr>bt_try = \<lambda>h c. None,
     bt_crd = \<lambda>h n. if 2 \<le> reads_made h then Inr [\<lparr>cnd_type = ''Established'', cnd_status = ''True''\<rparr>] else Inl ''not found'',
     bt_ticks = \<lambda>h. 150\<rparr>"

definition sample_crds :: crd_files where
  "sample_crds = \<lparr>cf_scheme = None, cf_glob = Inr [''remediationplans.yaml''], cf_read = \<lambda>f. Inr f,
     cf_decode = \<lambda>d. Inr \<lparr>crd_name = ''remediationplans.mirops.io'', crd_gvk = ([], [], []), crd_managed_fields = [''kubectl''],
       crd_spec = []\<rparr>\<rparr>"

lemma sample_start:
  "cf_scheme sample_crds = None" "cf_glob sample_crds = Inr [''remediationplans.yaml'']"
  "list_all2 (manifest sample_crds) [''remediationplans.yaml'']
     [prepared (projr (cf_decode sample_crds ''remediationplans.yaml''))]"
  "bt_try sample_boot h c = None" "2 \<le> reads_made h \<Longrightarrow> ready sample_boot h n" "2 \<le> bt_ticks sample_boot h"
  by (simp_all add: sample_crds_def sample_boot_def manifest_def ready_def established_def)

theorem operator_starts_witness:
  "result_of (operator_main sample_boot sample_crds (\<lambda>_. []) default_flags) [] = Returned \<and>
   last (calls_of (operator_main sample_boot sample_crds (\<lambda>_. []) default_flags) []) = Start_Manager"
  by (rule operator_starts[OF sample_start(1,2) _ sample_start(3-6)]) simp

theorem startup_order_witness:
  "went_through sample_boot [] (calls_of (operator_main sample_boot sample_crds (\<lambda>_. []) default_flags) []) \<and>
   Register_Mirrors ''/var/mirops/reports'' [] False \<in> set (calls_of (operator_main sample_boot sample_crds (\<lambda>_. []) default_flags) []) \<and>
   Register_Analyses ''/var/mirops/reports'' [] \<notin> set (calls_of (operator_main sample_boot sample_crds (\<lambda>_. []) default_flags) [])"
proof -
  let ?calls = "calls_of (operator_main sample_boot sample_crds (\<lambda>_. []) default_flags) []"
  have "last ?calls = Start_Manager"
    by (rule operator_runs[OF sample_start(1,2) _ sample_start(3-6), THEN conjunct2]) simp
  moreover have "?calls \<noteq> []" by (simp add: operator_main_def try_call_def calls_of_bind extends_cases split: option.split)
  ultimately have "Start_Manager \<in> set ?calls" using last_in_set by metis
  from startup_order[OF this] show ?thesis
    by (auto simp: Let_def default_flags_def)
qed

theorem install_bounded_witness:
  "length (calls_of (Install (sample_boot\<lparr>bt_crd := \<lambda>h n. Inl ''not found''\<rparr>) sample_crds) []) \<le> 153"
  using install_bounded[of "sample_boot\<lparr>bt_crd := \<lambda>h n. Inl ''not found''\<rparr>" sample_crds "[]"]
  by (simp add: sample_boot_def sample_crds_def pollTimeout_def pollInterval_def)

end
