(* ===== verification/Report_Delivery.thy ===== *)
theory Report_Delivery
  imports Mirror_Props Startup_Props
begin

text \<open>
  From a controller to a client: the report that a reconcile exports, the destination it is written to, and what a
  GET through the front of the reports server answers.
\<close>

section \<open>The destination of an export\<close>

text \<open>Every export goes to \<open>d\<close>.\<close>

fun goes_to :: "exporter \<Rightarrow> call \<Rightarrow> bool" where
  "goes_to d (Export_Analysis ex rep) = (ex = d)"
| "goes_to d (Export_Mirror ex rep) = (ex = d)"
| "goes_to d c = True"

lemma goes_to_kinds: "reads_api c \<Longrightarrow> goes_to d c" "plan_call c \<Longrightarrow> goes_to d c" "status_write c \<Longrightarrow> goes_to d c" "observes c \<Longrightarrow> goes_to d c"
  by (cases c; simp)+

text \<open>The rule for a stage whose result matters to the next.\<close>

lemma only_bind_result:
  assumes "only P m" "\<And>h. only P (f (result_of m h))" "\<And>x. extends (f x)"
  shows "only P (m \<bind> f)"
  using assms unfolding only_def by (simp add: calls_of_bind extends_bind)

lemma exporter_result:
  assumes "\<And>h. src_credentials_secret src \<noteq> [] \<Longrightarrow> kc_get_secret k h ns (src_credentials_secret src) = Inr secret"
  shows "result_of (buildExporter k ns n src) h = Inr (exporter_for (if src_credentials_secret src = [] then [] else secret) n src)"
  using assms by (simp add: buildExporter_def get_secret_def)

lemma write_goes_to:
  assumes "\<And>h. src_credentials_secret src \<noteq> [] \<Longrightarrow> kc_get_secret k h (op_namespace op) (src_credentials_secret src) = Inr secret"
    and ua: "uas_source (ua_spec ua) = src" "ua_name ua = n"
  shows "only (goes_to (destination (op_reports_dir op) secret n src)) (write_report k op ua rep)"
proof (cases "isRemote src")
  case True
  let ?b = "buildExporter k (op_namespace op) n src"
  have "only reads_api ?b" by (rule only_exporter)
  then have "only (goes_to (destination (op_reports_dir op) secret n src)) ?b" by (rule only_mono) (rule goes_to_kinds)
  then show ?thesis
    using True unfolding write_report_def ua isRemote_def if_P[OF True[unfolded isRemote_def]] export_def
    by (intro only_bind_result extends_cases extends_bind extends_ask extends_return)
      (auto simp: exporter_result[OF assms(1)] destination_def isRemote_def intro!: only_bind only_ask only_return)
next
  case False
  then show ?thesis
    unfolding write_report_def ua if_not_P[OF False[unfolded isRemote_def]] export_def Let_def
    by (intro only_bind only_ask only_return) (simp add: destination_def local_file)
qed

lemma analyse_goes_to:
  assumes "\<And>h. src_credentials_secret src \<noteq> [] \<Longrightarrow> kc_get_secret k h (op_namespace op) (src_credentials_secret src) = Inr secret"
    and ua: "uas_source (ua_spec ua) = src" "ua_name ua = n"
  shows "only (goes_to (destination (op_reports_dir op) secret n src)) (analyse k libs op ua snap cache)"
proof -
  let ?d = "destination (op_reports_dir op) secret n src"
  have kinds: "\<And>c. reads_api c \<or> plan_call c \<Longrightarrow> goes_to ?d c" using goes_to_kinds by blast
  have persist: "only (goes_to ?d) (persist_report k op (fst (result_of (apply_ai k l ns (with_ust ua f) rep cache) h)) rep')"
    for l ns f rep h rep'
  proof -
    have "same_object (with_ust ua f) (fst (result_of (apply_ai k l ns (with_ust ua f) rep cache) h))"
      using apply_ai_result by blast
    from same_object_fields[OF this] ua have "uas_source (ua_spec (fst (result_of (apply_ai k l ns (with_ust ua f) rep cache) h))) = src"
      "ua_name (fst (result_of (apply_ai k l ns (with_ust ua f) rep cache) h)) = n" by (simp_all add: with_ust_def)
    from write_goes_to[OF assms(1) this] show ?thesis unfolding persist_report_def by (intro only_bind only_return)
  qed
  have tail: "extends (persist_report k op u rep \<bind> (\<lambda>ua2. kwrite k (Update_Analysis_Status (g ua2)) \<bind> (\<lambda>w. State_Monad.return (r w))))"
    for u rep g r
    unfolding kwrite_def by (intro extends_bind stage_extends extends_ask extends_return)
  have body: "only (goes_to ?d) (apply_ai k (an_ai libs) (op_namespace op) (with_ust ua f) rep cache \<bind>
      (\<lambda>r. persist_report k op (fst r) (ApplyGraphDecision (fst (snd r))) \<bind>
        (\<lambda>ua2. kwrite k (Update_Analysis_Status (final_status ua2 snap (ApplyGraphDecision (fst (snd r))) t)) \<bind>
          (\<lambda>w. State_Monad.return (q w r)))))" for f rep t and q :: "api_error option \<Rightarrow> _ \<Rightarrow> outcome \<times> ai_cache"
    by (rule only_bind_result[OF only_ai[THEN only_mono, OF kinds] _ tail])
      (auto simp: kwrite_def intro!: only_bind[OF persist] only_bind only_ask only_return)
  have load: "only (goes_to ?d) (loadCompatMatrix k libs (op_namespace op))"
    using only_matrix by (rule only_mono) (rule goes_to_kinds)
  show ?thesis
    unfolding analyse_def now_def Let_def by (intro only_bind[OF load] only_bind[OF only_ask] body) simp
qed

lemma reconcile_goes_to:
  assumes "\<And>h. src_credentials_secret src \<noteq> [] \<Longrightarrow> kc_get_secret k h (op_namespace op) (src_credentials_secret src) = Inr secret"
    and "kc_get_analysis k h n = Inr ua" "uas_source (ua_spec ua) = src" "ua_name ua = n"
    and "c \<in> set (calls_of (UpgradeAnalysis_Reconcile k libs op n cache) h)"
  shows "goes_to (destination (op_reports_dir op) secret n src) c"
proof -
  let ?d = "destination (op_reports_dir op) secret n src"
  have "only (goes_to ?d) (after_wait k libs op ua cache)"
    unfolding after_wait_def collect_cluster_def Let_def
    by (intro only_bind only_ask only_cases only_return analyse_goes_to[OF assms(1,3,4)] only_reject[THEN only_mono])
      (auto intro: goes_to_kinds)
  note after = calls_only[OF this]
  have "only (goes_to ?d) (resync_wait k ua)" using only_wait by (rule only_mono) (rule goes_to_kinds)
  note wait = calls_only[OF this]
  show ?thesis
  proof (cases "result_of (resync_wait k ua) (h @ [Get_Analysis n])")
    case None
    then show ?thesis using reconcile_run(3)[OF assms(2) None, of libs op cache] assms(5) after wait by auto
  next
    case (Some out)
    then show ?thesis using reconcile_run(2)[OF assms(2) Some, of libs op cache] assms(5) wait by auto
  qed
qed

lemma mirror_goes_to:
  assumes "\<And>h. src_credentials_secret src \<noteq> [] \<Longrightarrow> kc_get_secret k h (op_namespace op) (src_credentials_secret src) = Inr secret"
    and cm: "kc_get_mirror k h n = Inr cm" "cms_source (clm_spec cm) = src" "clm_name cm = n"
    and "c \<in> set (calls_of (ClusterMirror_Reconcile k f op up n) h)"
  shows "goes_to (destination (op_reports_dir op) secret n src) c"
proof -
  let ?d = "destination (op_reports_dir op) secret n src"
  have build: "only (goes_to ?d) (buildExporter k (op_namespace op) n src)" using exporter_observes by (rule only_mono) (rule goes_to_kinds)
  have "only (goes_to ?d) (publishReport k op cm rep)" for rep
  proof (cases "isRemote src")
    case True
    then show ?thesis
      using build unfolding publishReport_def cm if_P[OF True] export_def
      by (intro only_bind_result extends_cases extends_bind extends_ask extends_return)
        (auto simp: exporter_result[OF assms(1)] destination_def intro!: only_bind only_ask only_return)
  next
    case False
    then show ?thesis
      unfolding publishReport_def cm if_not_P[OF False] export_def
      by (intro only_bind_result extends_cases extends_bind extends_ask extends_return)
        (auto simp: destination_def local_file intro!: only_bind only_ask only_return)
  qed
  then have "only (goes_to ?d) (rebuild k f op up cm snap)" for snap
    unfolding rebuild_def now_def kwrite_def Let_def
    by (intro only_bind only_ask only_return only_summary[THEN only_mono]) (auto intro: goes_to_kinds)
  note rebuild = calls_only[OF this]
  show ?thesis
  proof (cases "Collect (kc_cluster k (h @ [Get_Mirror n])) (scope_of (cms_scope (clm_spec cm)))")
    case (Inl e)
    then show ?thesis using mirror_run(2)[OF cm(1) Inl, of f op up] assms(5) by auto
  next
    case (Inr snap)
    then show ?thesis using mirror_run(3)[OF cm(1) Inr, of f op up] assms(5) rebuild by auto
  qed
qed

section \<open>Through the front of the reports server\<close>

text \<open>A report that a reconcile of the resource exports; \<open>doc\<close> is an upgrade report or a mirror report.\<close>

definition exported :: "kube \<Rightarrow> 'v analysis_libs \<Rightarrow> (int \<Rightarrow> string) \<Rightarrow> operator \<Rightarrow> bool \<Rightarrow> ai_cache \<Rightarrow> string \<Rightarrow> string \<Rightarrow> history
    \<Rightarrow> exporter \<Rightarrow> report + mirror_report \<Rightarrow> bool" where
  "exported k libs f op up cache kind n h ex doc = (case doc of
      Inl rep \<Rightarrow> \<not> equal_fold kind ''ClusterMirror'' \<and>
        Export_Analysis ex rep \<in> set (calls_of (UpgradeAnalysis_Reconcile k libs op n cache) h)
    | Inr rep \<Rightarrow> equal_fold kind ''ClusterMirror'' \<and>
        Export_Mirror ex rep \<in> set (calls_of (ClusterMirror_Reconcile k f op up n) h))"

text \<open>The API server answers a read by name with that resource, whose destination stays the same.\<close>

definition keeps_source :: "kube \<Rightarrow> string \<Rightarrow> string \<Rightarrow> source_config \<Rightarrow> bool" where
  "keeps_source k kind n src \<longleftrightarrow> (\<forall>h. if equal_fold kind ''ClusterMirror''
     then \<exists>cm. kc_get_mirror k h n = Inr cm \<and> clm_name cm = n \<and> cms_source (clm_spec cm) = src
     else \<exists>ua. kc_get_analysis k h n = Inr ua \<and> ua_name ua = n \<and> uas_source (ua_spec ua) = src)"

lemma keeps_resource: "keeps_source k kind n src \<Longrightarrow> resource_source k h kind n = Inr src"
  unfolding keeps_source_def resource_source_def by (drule spec[of _ h]) (auto split: if_splits)

lemma exported_destination:
  assumes "keeps_source k kind n src"
    and "\<And>h. src_credentials_secret src \<noteq> [] \<Longrightarrow> kc_get_secret k h (op_namespace op) (src_credentials_secret src) = Inr secret"
    and "exported k libs f op up cache kind n h ex doc"
  shows "ex = destination (op_reports_dir op) secret n src"
proof (cases doc)
  case (Inl rep)
  then have c: "\<not> equal_fold kind ''ClusterMirror''" "Export_Analysis ex rep \<in> set (calls_of (UpgradeAnalysis_Reconcile k libs op n cache) h)"
    using assms(3) by (simp_all add: exported_def)
  obtain ua where "kc_get_analysis k h n = Inr ua" "ua_name ua = n" "uas_source (ua_spec ua) = src"
    using assms(1)[unfolded keeps_source_def, THEN spec, of h] c(1) by auto
  from reconcile_goes_to[OF assms(2) this(1,3,2) c(2)] show ?thesis by simp
next
  case (Inr rep)
  then have c: "equal_fold kind ''ClusterMirror''" "Export_Mirror ex rep \<in> set (calls_of (ClusterMirror_Reconcile k f op up n) h)"
    using assms(3) by (simp_all add: exported_def)
  obtain cm where "kc_get_mirror k h n = Inr cm" "clm_name cm = n" "cms_source (clm_spec cm) = src"
    using assms(1)[unfolded keeps_source_def, THEN spec, of h] c(1) by auto
  from mirror_goes_to[OF assms(2) this(1,3,2) c(2)] show ?thesis by simp
qed

lemma local_not_remote: "\<not> isRemote src \<Longrightarrow> \<exists>p. destination dir secret n src = File_Exporter p"
  by (simp add: destination_def)

text \<open>C30: the report that a reconcile of an analysis or of a mirror exports, once the export has stored it, is what a GET of
  \<open>/reports/<name>.mirops\<close> answers for that resource, whatever its destination: 200 and the bytes of that very
  report. For a remote destination whose storage then fails to be read the answer is 502 with the place and the error,
  never another report and never that it is not available yet. The controllers and the server are given the same
  directory and namespace, the resource keeps its destination and its credentials, and its name does not end in .json
  (the server takes that ending off).\<close>

theorem report_served:
  fixes k op kind n h'
  assumes "exported k libs f op up cache kind n h ex doc"
    and "reads_its_writes sdk" and "Export sdk ex (json doc) w = (None, w')"
    and "keeps_source k kind n src"
    and "\<And>h. src_credentials_secret src \<noteq> [] \<Longrightarrow> kc_get_secret k h (op_namespace op) (src_credentials_secret src) = Inr secret"
    and "CHR ''/'' \<notin> set n" "\<not> has_suffix n ''.json''"
  defines "resp \<equiv> result_of (reports_handler k sdk (op_reports_dir op) (op_namespace op) None w'
      \<lparr>wr_method = ''GET'', wr_path = ''/reports/'' @ n @ ''.mirops'', wr_kind = kind\<rparr>) h'"
  shows "ws_headers resp = cors_headers \<and>
    (\<exists>bytes. json doc = Inr bytes \<and>
      (ws_answer resp = \<lparr>rs_code = 200, rs_body = Json_Bytes bytes\<rparr> \<or>
       isRemote src \<and> (\<exists>e. Read sdk ex None w' = Inl (Read_Failed e) \<and>
         ws_answer resp = \<lparr>rs_code = 502, rs_body = Json_Error (Location ex) e\<rparr>)))"
proof -
  obtain bytes where bytes: "json doc = Inr bytes" "Write sdk ex bytes w = (None, w')"
    using assms(3) by (auto simp: Export_def split: sum.splits)
  let ?d = "destination (op_reports_dir op) secret n src"
  have ex: "ex = ?d" by (rule exported_destination[OF assms(4,5,1)])
  have "isRemote src" if "\<forall>p. ?d \<noteq> File_Exporter p"
    using that local_not_remote by blast
  then have "Read sdk ?d None w' = Inr bytes \<or> isRemote src \<and> (\<exists>e. Read sdk ?d None w' = Inl (Read_Failed e))"
    using written_back[OF assms(2) bytes(2)[unfolded ex]] by blast
  from served_back[OF this assms(6,7) keeps_resource[OF assms(4)] assms(5), of h']
  show ?thesis
    using bytes(1) unfolding resp_def ex
    by (simp add: reports_handler_def corsMiddleware_def strip_prefix_def has_prefix_def trim_prefix_def split_def
        del: Read.simps Location.simps)
qed

text \<open>The report of the quiet cluster, on the disk of the operator.\<close>

theorem report_served_witness:
  "\<exists>rep w'. Export_Analysis (File_Exporter ''/reports/prod.mirops'') rep \<in> set (calls_of quiet_reconcile []) \<and>
     ws_answer (result_of (reports_handler quiet_kube memory ''/reports'' ''mirops'' None w'
       \<lparr>wr_method = ''GET'', wr_path = ''/reports/prod.mirops'', wr_kind = []\<rparr>) []) =
       \<lparr>rs_code = 200, rs_body = Json_Bytes ''{}''\<rparr>"
proof -
  obtain u ex rep where "Update_Analysis_Status u \<in> set (calls_of quiet_reconcile [])"
    and rep: "Export_Analysis ex rep \<in> set (calls_of quiet_reconcile [])" by (rule quiet_run)
  let ?src = "uas_source (ua_spec quiet_analysis)"
  have src: "?src = no_source" by (simp add: quiet_analysis_def sample_analysis_def)
  have kind: "\<not> equal_fold [] ''ClusterMirror''" by (simp add: equal_fold_def)
  then have keeps: "keeps_source quiet_kube [] ''prod'' no_source"
    by (simp add: keeps_source_def quiet_kube_def quiet_analysis_def sample_analysis_def)
  have issued: "exported quiet_kube quiet_libs f sample_operator up Map.empty [] ''prod'' [] ex (Inl rep)" for f up
    using rep kind by (simp add: exported_def)
  have secret: "src_credentials_secret no_source \<noteq> [] \<Longrightarrow>
      kc_get_secret quiet_kube h (op_namespace sample_operator) (src_credentials_secret no_source) = Inr []" for h
    by (simp add: no_source_def)
  have plain: "CHR ''/'' \<notin> set ''prod''" "\<not> has_suffix ''prod'' ''.json''" by (simp_all add: has_suffix_def has_prefix_def)
  have local: "\<not> isRemote no_source" by (simp add: isRemote_def no_source_def source_type_defs)
  have "destination ''/reports'' [] ''prod'' no_source = File_Exporter ''/reports/prod.mirops''" by code_simp
  then have ex: "ex = File_Exporter ''/reports/prod.mirops''"
    using exported_destination[OF keeps secret issued] by (simp add: sample_operator_def)
  have "fst (Write memory ex ''{}'' (\<lparr>dk_files = Map.empty, dk_faults = []\<rparr>, Map.empty)) = None"
    unfolding ex by code_simp
  then obtain w' where "Export memory ex (Inr ''{}'') (\<lparr>dk_files = Map.empty, dk_faults = []\<rparr>, Map.empty) = (None, w')"
    by (metis Export_def prod.collapse sum.simps(6))
  from report_served[where json = "\<lambda>_. Inr ''{}''", OF issued memory_reads_its_writes this keeps secret plain] local
  have "ws_answer (result_of (reports_handler quiet_kube memory ''/reports'' ''mirops'' None w'
       \<lparr>wr_method = ''GET'', wr_path = ''/reports/prod.mirops'', wr_kind = []\<rparr>) []) = \<lparr>rs_code = 200, rs_body = Json_Bytes ''{}''\<rparr>"
    by (simp add: sample_operator_def)
  then show ?thesis using rep unfolding ex by blast
qed

end
