(* ===== verification/Schema.thy ===== *)
theory Schema
  imports Api
begin

text \<open>
  The values that the API server admits: the validation markers on the types of \<open>api/v1\<close>, from which the custom
  resource definitions are generated. A field that is left out, because it is marked \<open>omitempty\<close> and holds its
  zero value or with the optional struct around it (\<open>scope\<close>, \<open>source\<close>), is not checked and reads as its zero
  value. The fields of a plan's action are always sent, so they are checked even when they are empty.
\<close>

definition RefreshModeInterval :: string where "RefreshModeInterval = ''interval''"
definition ScopeModeAll :: string where "ScopeModeAll = ''all''"
definition ScopeModeApplication :: string where "ScopeModeApplication = ''application''"

definition one_of :: "string list \<Rightarrow> string \<Rightarrow> bool" where
  "one_of values s = (s \<in> set values)"

definition none_or :: "string list \<Rightarrow> string \<Rightarrow> bool" where
  "none_or values s = (s = [] \<or> s \<in> set values)"

section \<open>Enumerations\<close>

definition valid_action_type :: "string \<Rightarrow> bool" where
  "valid_action_type = one_of [ActionTypeRestartPod, ActionTypeScaleDeployment, ActionTypeCordonNode, ActionTypeDeletePod]"

definition valid_risk_level :: "string \<Rightarrow> bool" where
  "valid_risk_level = one_of [RiskLevelLow, RiskLevelMedium, RiskLevelHigh]"

definition valid_phase :: "string \<Rightarrow> bool" where
  "valid_phase = none_or [RemediationPhasePendingApproval, RemediationPhaseRunning, RemediationPhaseCompleted,
     RemediationPhaseFailed]"

definition valid_report_state :: "string \<Rightarrow> bool" where
  "valid_report_state = none_or [''written'', ''failed'']"

definition valid_max_tokens :: "int \<Rightarrow> bool" where
  "valid_max_tokens n = (n = 0 \<or> 1 \<le> n \<and> n \<le> 32768)"

section \<open>Objects\<close>

definition valid_action :: "remediation_action \<Rightarrow> bool" where
  "valid_action a = (valid_action_type (ra_type a) \<and> valid_risk_level (ra_risk a))"

definition valid_plan :: "remediation_plan \<Rightarrow> bool" where
  "valid_plan p = (list_all valid_action (ps_actions (pl_spec p)) \<and> valid_phase (pst_phase (pl_status p)))"

definition valid_scope :: "scope_config \<Rightarrow> bool" where
  "valid_scope s = none_or [ScopeModeAll, ScopeModeApplication] (sco_mode s)"

definition valid_source :: "source_config \<Rightarrow> bool" where
  "valid_source s = none_or [SourceTypeFile, SourceTypeS3, SourceTypeBlob, SourceTypePVC] (src_type s)"

definition valid_remediation :: "remediation_config \<Rightarrow> bool" where
  "valid_remediation r = none_or [RiskLevelLow, RiskLevelMedium, RiskLevelHigh] (rc_max_risk_level r)"

definition valid_ai :: "ai_config \<Rightarrow> bool" where
  "valid_ai ai = (none_or [AIProviderAnthropic, AIProviderOpenAI] (aic_provider ai) \<and> valid_max_tokens (aic_max_tokens ai)
     \<and> valid_remediation (aic_remediation ai))"

definition valid_analysis_spec :: "upgrade_analysis_spec \<Rightarrow> bool" where
  "valid_analysis_spec s = (none_or [''production'', ''non-production''] (uas_scoring_profile s) \<and> valid_scope (uas_scope s)
     \<and> valid_source (uas_source s) \<and> valid_ai (uas_ai s))"

definition valid_analysis :: "upgrade_analysis \<Rightarrow> bool" where
  "valid_analysis ua = (valid_analysis_spec (ua_spec ua) \<and> valid_report_state (ust_report_state (ua_status ua)))"

definition valid_mirror_spec :: "cluster_mirror_spec \<Rightarrow> bool" where
  "valid_mirror_spec s = (valid_scope (cms_scope s) \<and> none_or [RefreshModeInterval] (rfc_mode (cms_refresh s))
     \<and> valid_source (cms_source s))"

definition valid_mirror :: "cluster_mirror \<Rightarrow> bool" where
  "valid_mirror cm = (valid_mirror_spec (clm_spec cm) \<and> valid_report_state (cmst_report_state (clm_status cm)))"

end
