(* ===== verification/Schema_Props.thy ===== *)
theory Schema_Props
  imports Schema Upgrade_Samples
begin

text \<open>
  Whether what the controllers write is what the API server admits: every status they store is typed
  and in range, for a valid object stays valid, and a proposed plan is admitted exactly when the model named
  only known kinds of action and risk.
\<close>

lemmas schema_values = one_of_def none_or_def action_type_defs risk_level_defs phase_defs
lemmas schema_defs = valid_action_type_def valid_risk_level_def valid_phase_def valid_action_def valid_plan_def schema_values

section \<open>Analyses\<close>

text \<open>The status of an analysis: the decision is one of the documented ones and the scores are percentages.\<close>

definition sound_status :: "upgrade_analysis_status \<Rightarrow> bool" where
  "sound_status s = (ust_decision s \<in> {[], ''SAFE'', ''WARNING'', ''CRITICAL'', ''ERROR''} \<and>
     ust_total_score s \<in> {0..100} \<and> ust_ai_score s \<in> {0..100})"

lemma decide_level: "fst (decide n c p) \<in> {''SAFE'', ''WARNING'', ''CRITICAL''}"
  by (simp add: decide_def level_defs)

lemma Calculate_level: "dc_level (r_decision (Calculate snap tv pn)) \<in> {''SAFE'', ''WARNING'', ''CRITICAL''}"
  using decide_level by (simp add: Calculate_decision del: insert_iff)

text \<open>A report whose verdict and scores are in range.\<close>

definition sound_report :: "report \<Rightarrow> bool" where
  "sound_report r = (dc_level (r_decision r) \<in> {''SAFE'', ''WARNING'', ''CRITICAL''} \<and>
     sc_total (r_scores r) \<in> {0..100} \<and> as_score (sc_ai (r_scores r)) \<in> {0..100})"

lemma Calculate_sound: "sound_report (Calculate snap tv pn)"
  using Calculate_level Calculate_total[of snap tv pn] by (simp add: sound_report_def del: insert_iff)

lemma ApplyAIScore_sound:
  assumes "bs_score (sc_base (r_scores r)) \<in> {0..100}" "0 \<le> s" "s \<le> 100"
  shows "sound_report (ApplyAIScore r s w m pn)"
proof -
  have "dc_level (r_decision (ApplyAIScore r s w m pn)) \<in> {''SAFE'', ''WARNING'', ''CRITICAL''}"
    using decide_level by (auto simp: ApplyAIScore_def Let_def split_def simp del: insert_iff)
  moreover have "as_score (sc_ai (r_scores (ApplyAIScore r s w m pn))) = s" by (simp add: ApplyAIScore_def Let_def split_def)
  ultimately show ?thesis using blend_total[of r _ s w m pn] assms by (simp add: sound_report_def)
qed

lemma ApplyGraphDecision_sound: "sound_report r \<Longrightarrow> sound_report (ApplyGraphDecision r)"
  by (auto simp: sound_report_def ApplyGraphDecision_def Let_def level_defs)

lemma assess_sound: "sound_report (fst (assess libs ua snap m t))"
  "bs_score (sc_base (r_scores (fst (assess libs ua snap m t)))) \<in> {0..100}"
  using Calculate_sound Calculate_total unfolding sound_report_def assess_scores by simp_all

text \<open>Scoring keeps the cache's invariant and the report in range.\<close>

lemma apply_ai_sound:
  fixes k libs ns ua rep cache h
  defines "r \<equiv> result_of (apply_ai k libs ns ua rep cache) h"
  assumes inv: "cache_inv k libs h cache" and rep: "sound_report rep" "bs_score (sc_base (r_scores rep)) \<in> {0..100}"
  shows "sound_report (fst (snd r)) \<and> cache_inv k libs (h @ calls_of (apply_ai k libs ns ua rep cache) h) (snd (snd r))"
proof (cases "aic_enabled (uas_ai (ua_spec ua))")
  case False
  then show ?thesis using inv rep by (simp add: r_def apply_ai_def Let_def)
next
  case True
  define m where "m = scoreWithAI k libs ns ua rep cache"
  define go where "go x = (case fst x of
          Inl e \<Rightarrow> State_Monad.return
            (with_ust ua (\<lambda>s. s\<lparr>ust_ai_error := classifyAIError libs (aic_provider (uas_ai (ua_spec ua))) e\<rparr>), rep, snd x)
        | Inr ans \<Rightarrow>
            let ua' = with_ust ua (\<lambda>s. s\<lparr>ust_ai_error := [], ust_ai_model := model_name (uas_ai (ua_spec ua))\<rparr>);
                rep' = ApplyAIScore rep (fst ans) (fst (snd ans)) (model_name (uas_ai (ua_spec ua))) (uas_scoring_profile (ua_spec ua))
            in if rc_enabled (aic_remediation (uas_ai (ua_spec ua))) \<and> snd (snd ans) \<noteq> [] then do {
                 _ \<leftarrow> createRemediationPlan k ua' (snd (snd ans));
                 State_Monad.return (ua', rep', snd x)
               } else State_Monad.return (ua', rep', snd x))"
    for x :: "(ai_error + int \<times> string \<times> ai_action_entry list) \<times> ai_cache"
  have eq: "apply_ai k libs ns ua rep cache = m \<bind> go"
    using True by (simp add: apply_ai_def Let_def m_def go_def[abs_def])
  have ex: "extends (go x)" for x unfolding go_def Let_def by (intro extends_cases extends_bind extends_return stage_extends)
  obtain a cache' where a: "result_of m h = (a, cache')" by fastforce
  have run: "run_state m h = ((a, cache'), h @ calls_of m h)"
    using extends_run[OF extends_score, of k libs ns ua rep cache h] a unfolding m_def by metis
  note sound = score_sound[OF inv run[unfolded m_def]]
  note calls = calls_of_bind[OF extends_score[of k libs ns ua rep cache, folded m_def] ex, where h = h]
  have "cache_inv k libs (h @ calls_of m h) cache'" using sound m_def by simp
  from cache_inv_append[OF this] have "cache_inv k libs (h @ calls_of m h @ t) cache'" for t by simp
  moreover have "snd (snd (result_of (go (a, cache')) h')) = cache'" for h'
    by (auto simp: go_def Let_def calls_of_bind split: sum.split simp del: run_state_bind)
  moreover have "sound_report (fst (snd (result_of (go (a, cache')) h')))" for h'
    using sound rep(1) ApplyAIScore_sound[OF rep(2)]
    by (cases a) (auto simp: go_def Let_def calls_of_bind split: if_splits simp del: run_state_bind)
  ultimately show ?thesis
    unfolding r_def eq calls a by simp
qed

lemma stages_sound:
  assumes "analysis_stages k libs op ua snap cache h = (cs, ar)" and "cache_inv k (an_ai libs) h cache"
  shows "sound_report (ar_final ar)" "cache_inv k (an_ai libs) (h @ cs) (snd (snd (ar_ai ar)))"
proof -
  define load where "load = calls_of (loadCompatMatrix k libs (op_namespace op)) h"
  define ua1 where "ua1 = with_ust ua (\<lambda>s. s\<lparr>ust_addons_checked := int (length (r_addons (ar_report ar))),
    ust_incompatible_addons := ar_incompatible ar\<rparr>)"
  define score where "score = apply_ai k (an_ai libs) (op_namespace op) ua1 (ar_report ar) cache"
  let ?h2 = "h @ load @ [Now]"
  have st: "ar_ai ar = result_of score ?h2" "ar_final ar = ApplyGraphDecision (fst (snd (ar_ai ar)))"
    "\<exists>t. cs = load @ [Now] @ calls_of score ?h2 @ t"
    "ar_report ar = fst (assess libs ua snap (ar_matrix ar) (ar_time ar))"
    using assms(1) unfolding analysis_stages_def load_def score_def ua1_def by (auto simp: Let_def split_def)
  have "sound_report (ar_report ar)" "bs_score (sc_base (r_scores (ar_report ar))) \<in> {0..100}"
    unfolding st(4) by (rule assess_sound)+
  from apply_ai_sound[OF cache_inv_append[OF assms(2), of "load @ [Now]"] this, of "op_namespace op" ua1]
  have "sound_report (fst (snd (ar_ai ar)))" and inv: "cache_inv k (an_ai libs) (?h2 @ calls_of score ?h2) (snd (snd (ar_ai ar)))"
    by (simp_all add: st(1) score_def)
  then show "sound_report (ar_final ar)" unfolding st(2) by (intro ApplyGraphDecision_sound)
  obtain t where "cs = load @ [Now] @ calls_of score ?h2 @ t" using st(3) by blast
  then have "h @ cs = (?h2 @ calls_of score ?h2) @ t" by simp
  then show "cache_inv k (an_ai libs) (h @ cs) (snd (snd (ar_ai ar)))" using cache_inv_append[OF inv] by metis
qed

lemma record_report_state: "valid_report_state (ust_report_state (ua_status (record_report ua r)))"
  by (simp add: record_report_def with_ust_def valid_report_state_def none_or_def reportStateWritten_def reportStateFailed_def
      split: prod.split)

lemma final_status_scores:
  "sound_status (ua_status (final_status ua snap rep t)) = sound_report rep" if "dc_level (r_decision rep) \<noteq> []" "dc_level (r_decision rep) \<noteq> ''ERROR''"
  using that by (auto simp: sound_status_def sound_report_def final_status_def with_ust_def)

lemma final_status_sound: "sound_report rep \<Longrightarrow> sound_status (ua_status (final_status ua snap rep t))"
  using final_status_scores[of rep] by (auto simp: sound_report_def)

lemma final_status_state: "ust_report_state (ua_status (final_status ua snap rep t)) = ust_report_state (ua_status ua)"
  by (simp add: final_status_def with_ust_def)

lemma reconcile_cache:
  assumes "cache_inv k (an_ai libs) h cache"
  shows "cache_inv k (an_ai libs) (h @ calls_of (UpgradeAnalysis_Reconcile k libs op n cache) h)
    (snd (result_of (UpgradeAnalysis_Reconcile k libs op n cache) h))"
proof (cases "kc_get_analysis k h n")
  case (Inl e)
  then show ?thesis using reconcile_run(1)[OF Inl, of libs op cache] cache_inv_append[OF assms] by simp
next
  case (Inr ua)
  let ?h1 = "h @ [Get_Analysis n]"
  show ?thesis
  proof (cases "result_of (resync_wait k ua) ?h1")
    case (Some out)
    then show ?thesis using reconcile_run(2)[OF Inr Some, of libs op cache] cache_inv_append[OF assms] by simp
  next
    case None
    let ?h2 = "?h1 @ calls_of (resync_wait k ua) ?h1" and ?sc = "scope_of (uas_scope (ua_spec ua))"
    let ?snap = "with_previous ua (projr (Collect (kc_cluster k ?h2) ?sc))" and ?h3 = "?h2 @ [Collect_Cluster ?sc]"
    obtain cs ar where st: "analysis_stages k libs op ua ?snap cache ?h3 = (cs, ar)" by fastforce
    have "cache_inv k (an_ai libs) ?h3 cache" using cache_inv_append[OF assms] by simp
    from stages_sound(2)[OF st this] have "cache_inv k (an_ai libs) ((?h3 @ cs) @ [Update_Analysis_Status (ar_status ar)]) (snd (snd (ar_ai ar)))"
      by (rule cache_inv_append)
    then show ?thesis
      using reconcile_run(3)[OF Inr None, of libs op cache] cache_inv_append[OF assms] analyse_run[OF st]
      by (cases "Collect (kc_cluster k ?h2) ?sc") (auto simp: after_wait_run)
  qed
qed

text \<open>C11: every status that an analysis stores is typed: for an object the API server has admitted, with a known
  decision and percentages for scores, the object that is written is admitted again, its decision is one of the
  four documented ones, and its scores are percentages, whatever the model answers; and the cache of model
  answers keeps its invariant. So both hold after any number of reconciles.\<close>

theorem analysis_status_typed:
  fixes k libs op n cache h
  defines "calls \<equiv> calls_of (UpgradeAnalysis_Reconcile k libs op n cache) h"
  assumes "kc_get_analysis k h n = Inr ua" "valid_analysis ua" "sound_status (ua_status ua)" "cache_inv k (an_ai libs) h cache"
  shows "(\<forall>u. Update_Analysis_Status u \<in> set calls \<longrightarrow> valid_analysis u \<and> sound_status (ua_status u) \<and> ust_decision (ua_status u) \<noteq> []) \<and>
    cache_inv k (an_ai libs) (h @ calls) (snd (result_of (UpgradeAnalysis_Reconcile k libs op n cache) h))"
proof -
  have "valid_analysis u \<and> sound_status (ua_status u) \<and> ust_decision (ua_status u) \<noteq> []" if "Update_Analysis_Status u \<in> set calls" for u
    using that[unfolded calls_def]
  proof (cases rule: reconcile_writes)
    case (refused ua' pre collected t)
    then show ?thesis using assms(2-4) by (auto simp: refusal_def with_ust_def valid_analysis_def sound_status_def)
  next
    case (analysed ua' w collected pre cs ar)
    have sound: "sound_report (ar_final ar)" using stages_sound(1)[OF analysed(4) cache_inv_append[OF assms(5)]] .
    obtain r wr where st: "u = final_status (record_report r wr) (with_previous ua' collected) (ar_final ar) (ar_time ar)"
      using stages_written[OF analysed(4)] analysed(6) by metis
    have "same_object ua' u" using stages_same_object[OF analysed(4)] analysed(6) by simp
    then have "ua_spec u = ua_spec ua'" "ua' = ua" using same_object_fields analysed(1) assms(2) by auto
    moreover have "valid_report_state (ust_report_state (ua_status u))" unfolding st final_status_state by (rule record_report_state)
    ultimately show ?thesis
      using assms(3) final_status_sound[OF sound] sound unfolding st
      by (auto simp: valid_analysis_def sound_report_def final_status_frame)
  qed
  then show ?thesis using reconcile_cache[OF assms(5)] by (simp add: calls_def)
qed

theorem analysis_status_typed_witness:
  "\<exists>u. Update_Analysis_Status u \<in> set (calls_of quiet_reconcile []) \<and> valid_analysis u \<and> ust_decision (ua_status u) = ''SAFE'' \<and>
     ust_total_score (ua_status u) \<in> {0..100}"
proof -
  obtain u ex rep where u: "Update_Analysis_Status u \<in> set (calls_of quiet_reconcile [])" "ust_decision (ua_status u) = ''SAFE''"
    by (rule quiet_run)
  have "kc_get_analysis quiet_kube [] ''prod'' = Inr quiet_analysis" by (simp add: quiet_kube_def)
  moreover have "valid_analysis quiet_analysis"
    by (simp add: valid_analysis_def valid_analysis_spec_def valid_scope_def valid_source_def valid_ai_def valid_max_tokens_def
        valid_remediation_def valid_report_state_def one_of_def none_or_def quiet_analysis_def sample_analysis_def no_source_def
        ScopeModeApplication_def ScopeModeAll_def source_type_defs risk_level_defs AIProviderAnthropic_def AIProviderOpenAI_def)
  moreover have "sound_status (ua_status quiet_analysis)" by (simp add: sound_status_def quiet_analysis_def sample_analysis_def)
  moreover have "cache_inv quiet_kube (an_ai quiet_libs) [] Map.empty" by (rule cache_inv_empty)
  ultimately have "valid_analysis u \<and> sound_status (ua_status u)"
    using analysis_status_typed[of quiet_kube "[]" "''prod''" quiet_analysis quiet_libs Map.empty sample_operator] u(1) by blast
  with u show ?thesis by (auto simp: sound_status_def)
qed

section \<open>Plans\<close>

text \<open>A plan as the API server admits it, with results that hold the documented statuses.\<close>

definition sound_plan :: "remediation_plan \<Rightarrow> bool" where
  "sound_plan p = (valid_plan p \<and>
     list_all (\<lambda>r. act_status r \<in> {''success'', ''failed'', ''skipped''}) (pst_results (pl_status p)))"

lemma pass_statuses: "pass k ns h as css rs \<Longrightarrow> list_all (\<lambda>r. act_status r \<in> {''success'', ''failed'', ''skipped''}) rs"
  by (induction k ns h as css rs rule: pass.induct) (auto simp: accounts_def split: if_splits)

lemma started_sound: "sound_plan p \<Longrightarrow> sound_plan (started p t)"
  by (simp add: sound_plan_def valid_plan_def started_def with_status_def valid_phase_def none_or_def)

lemma finished_sound:
  assumes "sound_plan p" "list_all (\<lambda>r. act_status r \<in> {''success'', ''failed'', ''skipped''}) (fst rs)"
  shows "sound_plan (finished p rs t)"
  using assms
  by (simp add: sound_plan_def valid_plan_def finished_def with_status_def valid_phase_def none_or_def)

lemma stamped_fields:
  "pl_generation (started p t) = pl_generation p" "pl_spec (started p t) = pl_spec p"
  "pl_generation (finished p rs t) = pl_generation p" "pl_spec (finished p rs t) = pl_spec p"
  "pst_phase (pl_status (started p t)) = ''running''"
  "pst_phase (pl_status (finished p rs t)) = (if snd rs then ''completed'' else ''failed'')"
  by (simp_all add: started_def finished_def with_status_def phase_defs)

text \<open>C25: executing a plan only writes its status, and the written plan is typed: the API server admits it, its phase
  is running, completed or failed, its results hold the documented statuses and its spec is the one that was
  read; and the write does not wake the controller, so executing a plan does not queue it again.\<close>

theorem plan_status_typed:
  assumes "kc_get_plan k h ns n = Inr p" "sound_plan p"
    and "c \<in> set (calls_of (RemediationPlan_Reconcile k ns n) h)" "plan_write c"
  shows "\<exists>p'. c = Update_Plan_Status p' \<and> sound_plan p' \<and> pst_phase (pl_status p') \<in> {''running'', ''completed'', ''failed''} \<and>
    pl_spec p' = pl_spec p \<and> \<not> plan_event p p'"
proof -
  define p' where "p' = started p (kc_now k (h @ [Get_Plan ns n]))"
  define m where "m = run_actions k (pl_namespace p) (ps_actions (pl_spec p)) [] True"
  define h2 where "h2 = (h @ [Get_Plan ns n]) @ [Now, Update_Plan_Status p']"
  define f where "f = finished p' (result_of m h2) (kc_now k (h2 @ calls_of m h2))"
  have "calls_of (RemediationPlan_Reconcile k ns n) h = Get_Plan ns n #
      (if \<not> ps_approved (pl_spec p) \<or> terminal_or_running (pst_phase (pl_status p)) then []
       else Now # Update_Plan_Status p' #
         (if kc_write k (h @ [Get_Plan ns n, Now]) (Update_Plan_Status p') \<noteq> None then []
          else calls_of m h2 @ [Now, Update_Plan_Status f]))"
    unfolding reconcile_calls assms(1) by (simp add: p'_def m_def h2_def f_def)
  moreover have "\<not> plan_write c'" if "c' \<in> set (calls_of m h2)" for c'
    using run_actions_calls that unfolding m_def list_all_iff by blast
  ultimately have "c = Update_Plan_Status p' \<or> c = Update_Plan_Status f"
    using assms(3,4) by (auto split: if_splits)
  moreover have p': "sound_plan p'" unfolding p'_def by (rule started_sound[OF assms(2)])
  moreover have "list_all (\<lambda>r. act_status r \<in> {''success'', ''failed'', ''skipped''}) (fst (result_of m h2))"
    using run_actions_pass[of k "pl_namespace p" "ps_actions (pl_spec p)" "[]" True h2] pass_statuses
    by (auto simp: m_def)
  then have f: "sound_plan f" unfolding f_def by (rule finished_sound[OF p'])
  ultimately show ?thesis
    using p' f by (auto simp: f_def p'_def stamped_fields plan_event_def split: if_splits)
qed

theorem plan_status_typed_witness:
  "\<exists>p'. Update_Plan_Status p' \<in> set (calls_of (RemediationPlan_Reconcile (friendly sample_plan) [] ''prod-remediation'') []) \<and>
     sound_plan p' \<and> \<not> plan_event sample_plan p'"
proof -
  let ?calls = "calls_of (RemediationPlan_Reconcile (friendly sample_plan) [] ''prod-remediation'') []"
  have "Update_Plan_Status (started sample_plan 1) \<in> set ?calls"
    unfolding reconcile_calls by (simp add: friendly_answers sample_actions, simp add: friendly_def silent_def)
  moreover have "sound_plan sample_plan"
    by (simp add: sound_plan_def schema_defs sample_plan_def sample_action_def empty_plan_status_def)
  ultimately show ?thesis
    using plan_status_typed[OF friendly_answers(1), of sample_plan "Update_Plan_Status (started sample_plan 1)" "[]" "''prod-remediation''" "[]"]
    by auto
qed

section \<open>Proposals\<close>

text \<open>C26: a proposal is admitted by the API server exactly when every action of the model's answer that is within the
  risk limit names one of the known kinds of action and one of the known risk levels: a single unknown value
  makes the server refuse the whole plan.\<close>

theorem proposal_admitted:
  assumes "c \<in> set (calls_of (createRemediationPlan k ua actions) h)" "c = Create_Plan p \<or> c = Update_Plan p"
  shows "valid_plan p = list_all (\<lambda>a. valid_action_type (aa_type a) \<and> valid_risk_level (aa_risk a))
     (filter (\<lambda>a. riskWithin (aa_risk a) (risk_limit ua)) actions)"
proof -
  let ?chosen = "plan_actions (risk_limit ua) actions"
  note calls = createRemediationPlan_calls[of k ua actions h, folded remediation_of_def, unfolded Let_def, folded risk_limit_def]
  have p: "ps_actions (pl_spec p) = ?chosen" "valid_phase (pst_phase (pl_status p))"
    using assms unfolding calls
    by (auto simp: new_plan_def with_status_def valid_phase_def none_or_def phase_defs empty_plan_status_def split: if_splits sum.splits)
  have numbered: "set actions = snd ` set (enumerate 0 actions)" by (metis list.set_map map_snd_enumerate)
  have "list_all valid_action ?chosen = (\<forall>(i, a) \<in> set (filter (\<lambda>(i, a). riskWithin (aa_risk a) (risk_limit ua)) (enumerate 0 actions)).
      valid_action_type (aa_type a) \<and> valid_risk_level (aa_risk a))"
    by (auto simp: plan_actions_eq list_all_iff valid_action_def plan_action_def)
  also have "\<dots> = list_all (\<lambda>a. valid_action_type (aa_type a) \<and> valid_risk_level (aa_risk a))
      (filter (\<lambda>a. riskWithin (aa_risk a) (risk_limit ua)) actions)"
    unfolding list_all_iff using numbered by fastforce
  finally show ?thesis using p by (simp add: valid_plan_def)
qed

definition misnamed :: ai_action_entry where
  "misnamed = (proposal ''low'')\<lparr>aa_type := ''restart_pod''\<rparr>"

text \<open>One misnamed action next to a good one: the plan that is sent is refused.\<close>

theorem proposal_admitted_witness:
  "\<exists>p. Update_Plan p \<in> set (calls_of (createRemediationPlan (friendly sample_plan) sample_analysis [misnamed, proposal ''low'']) []) \<and>
     length (ps_actions (pl_spec p)) = 2 \<and> \<not> valid_plan p"
proof -
  let ?as = "[misnamed, proposal ''low'']"
  let ?p = "sample_plan\<lparr>pl_spec := \<lparr>ps_analysis_ref = ''prod'', ps_approved = False,
    ps_actions = [plan_action 0 misnamed, plan_action 1 (proposal ''low'')]\<rparr>, pl_status := empty_plan_status\<rparr>"
  have c: "Update_Plan ?p \<in> set (calls_of (createRemediationPlan (friendly sample_plan) sample_analysis ?as) [])"
    by (simp add: createRemediationPlan_calls plan_actions_eq riskWithin_def risk_order_def risk_level_defs proposal_def misnamed_def
      sample_analysis_def friendly_answers new_plan_def sample_plan_def replaceable_def phase_defs empty_plan_status_def Let_def)
  have "\<not> valid_action_type (aa_type misnamed)" "riskWithin (aa_risk misnamed) (risk_limit sample_analysis)"
    by (simp_all add: misnamed_def proposal_def valid_action_type_def one_of_def action_type_defs sample_limit riskWithin_def
        risk_order_def risk_level_defs)
  with proposal_admitted[OF c, of ?p] have "\<not> valid_plan ?p" by simp
  with c show ?thesis by (intro exI[of _ ?p]) simp
qed

text \<open>
  The answer the prompt asks for has no parameters, and an action without them scales its deployment to one
  replica.
\<close>

lemma scaling_default:
  "performs ns a (Update_Deployment d) \<Longrightarrow> ra_params a = [] \<Longrightarrow> dep_replicas d = Some 1"
  by (simp add: replicas_param_def)

end
