(* ===== verification/System.thy ===== *)
theory System
  imports Mirror_Props
begin

text \<open>
  The controllers together: one analysis, its remediation plan, any mirror and the users who edit, approve or delete
  the plan, as a labelled step relation over the stored plan, the actions taken and the operator's memory of the model's
  answers. A step is any beginning of one reconcile, so a crash may fall between any two calls. The API server's
  part is that a read of the plan answers the stored one and that a read by name answers an object of that name;
  that reconciles are steps is its check of the resource version, which refuses a write after a stale read. All
  other answers are free.
\<close>

section \<open>What the model has said\<close>

lemma stages_scored:
  assumes "analysis_stages k libs op ua snap cache h = (cs, ar)"
  obtains f ns rep pre post where "ar_ai ar = result_of (apply_ai k (an_ai libs) ns (with_ust ua f) rep cache) (h @ pre)"
    "cs = pre @ calls_of (apply_ai k (an_ai libs) ns (with_ust ua f) rep cache) (h @ pre) @ post"
proof -
  let ?load = "calls_of (loadCompatMatrix k libs (op_namespace op)) h"
  let ?f = "\<lambda>s. s\<lparr>ust_addons_checked := int (length (r_addons (ar_report ar))), ust_incompatible_addons := ar_incompatible ar\<rparr>"
  let ?ai = "apply_ai k (an_ai libs) (op_namespace op) (with_ust ua ?f) (ar_report ar) cache"
  have "ar_ai ar = result_of ?ai (h @ ?load @ [Now])" "\<exists>t. cs = (?load @ [Now]) @ calls_of ?ai (h @ ?load @ [Now]) @ t"
    using assms unfolding analysis_stages_def by (auto simp: Let_def split_def)
  then show thesis using that[of "op_namespace op" ?f "ar_report ar" "?load @ [Now]"] by fastforce
qed

text \<open>The actions of an answer that a model gave among the calls \<open>cs\<close> made after \<open>h\<close>.\<close>

definition answers :: "kube \<Rightarrow> ai_libs \<Rightarrow> history \<Rightarrow> call list \<Rightarrow> ai_action_entry list \<Rightarrow> bool" where
  "answers k l h cs actions \<longleftrightarrow> (\<exists>pre c post text more resp. cs = pre @ c # post \<and> asks_model c \<and>
     kc_model k (h @ pre) c = Inr (text # more) \<and> parseAIResponse l text = Inr resp \<and> actions = air_actions resp)"

lemma answers_before: "answers k l (h @ s) cs actions \<Longrightarrow> answers k l h (s @ cs) actions"
  unfolding answers_def by (metis append.assoc)

lemma answers_after: "answers k l h cs actions \<Longrightarrow> answers k l h (cs @ t) actions"
  unfolding answers_def by (metis append.assoc append_Cons)

lemma asks_request [simp]: "asks_model (request_call ai key prompt)"
  by (simp add: request_call_def)

text \<open>Where the actions of a scoring, and those it remembers, come from.\<close>

lemma score_sources:
  fixes k l ns ua rep cache h
  defines "m \<equiv> scoreWithAI k l ns ua rep cache"
  assumes run: "result_of m h = (r, cache')"
  shows "(\<forall>s w as. r = Inr (s, w, as) \<longrightarrow> (\<exists>e. cache (ua_name ua) = Some e \<and> ce_actions e = as) \<or> answers k l h (calls_of m h) as) \<and>
    (\<forall>n. cache' n = cache n \<or> n = ua_name ua \<and> (\<exists>e. cache' n = Some e \<and> answers k l h (calls_of m h) (ce_actions e)))"
proof -
  let ?ai = "uas_ai (ua_spec ua)" and ?prompt = "prompt_for l ua rep" and ?hash = "hash_for l ua rep"
  define key where "key = result_of (readAIAPIKey k ns ?ai) h"
  define t where "t = calls_of (readAIAPIKey k ns ?ai) h"
  note calls = scoreWithAI_run(1)[of k l ns ua rep cache h, folded m_def key_def t_def]
  note res = scoreWithAI_run(2)[of k l ns ua rep cache h, folded m_def key_def t_def]
  show ?thesis
  proof (cases "isl key \<or> aiCacheGet cache (ua_name ua) ?hash \<noteq> None")
    case True
    then show ?thesis using run res
      by (auto simp: entry_answer_def isl_def dest!: cache_hit split: sum.splits option.splits)
  next
    case False
    then obtain apiKey where key: "key = Inr apiKey" and none: "aiCacheGet cache (ua_name ua) ?hash = None" by (cases key) auto
    let ?call = "call_provider k ?ai apiKey ?prompt" and ?req = "request_call ?ai apiKey ?prompt"
    have r: "(r, cache') = (case result_of ?call (h @ t) of Inl e \<Rightarrow> (Inl e, cache)
        | Inr reply \<Rightarrow> (case parseAIResponse l reply of Inl e \<Rightarrow> (Inl e, cache)
          | Inr resp \<Rightarrow> (Inr (air_score resp, air_reasoning resp, air_actions resp),
              aiCachePut (ua_name ua) \<lparr>ce_hash = ?hash, ce_score = air_score resp,
                ce_reasoning = air_reasoning resp, ce_actions = air_actions resp\<rparr> cache)))"
      using run res none key by simp
    show ?thesis
    proof (cases "\<exists>reply resp. result_of ?call (h @ t) = Inr reply \<and> parseAIResponse l reply = Inr resp")
      case False
      then show ?thesis using r by (auto split: sum.splits)
    next
      case True
      then obtain reply resp where ok: "result_of ?call (h @ t) = Inr reply" "parseAIResponse l reply = Inr resp" by blast
      then obtain others where "kc_model k (h @ t) ?req = Inr (reply # others)" using provider_run(2) by blast
      then have "answers k l h (t @ [?req]) (air_actions resp)"
        unfolding answers_def using ok(2)
        by (intro exI[of _ t] exI[of _ ?req] exI[of _ "[]"] exI[of _ reply] exI[of _ others] exI[of _ resp]) simp
      moreover have "calls_of m h = t @ [?req]" using none key by (simp add: calls)
      ultimately show ?thesis using r ok by (auto simp: aiCachePut_def)
    qed
  qed
qed

section \<open>Computations that propose at most one plan\<close>

text \<open>Calls that neither touch the plan nor act on the cluster.\<close>

definition apart :: "call \<Rightarrow> bool" where
  "apart c \<longleftrightarrow> \<not> plan_call c \<and> \<not> plan_write c \<and> \<not> acts c"

lemma apart_kinds: "reads_api c \<Longrightarrow> apart c" "export_call c \<Longrightarrow> apart c" "status_write c \<Longrightarrow> apart c"
  "observes c \<Longrightarrow> apart c" "apart Now" "apart (Collect_Cluster sc)" "apart (Get_Analysis n)"
  "apart (Update_Mirror_Status m)" "apart (Update_Analysis_Status u)"
  by (cases c; simp add: apart_def)+

text \<open>\<open>K\<close> holds of the actions that are known before: the others come from an answer among the calls.\<close>

definition one_proposal :: "kube \<Rightarrow> ai_libs \<Rightarrow> (upgrade_analysis \<Rightarrow> bool) \<Rightarrow> (ai_action_entry list \<Rightarrow> bool) \<Rightarrow> 'a io \<Rightarrow> bool" where
  "one_proposal k l P K m \<longleftrightarrow> extends m \<and> (\<forall>h. list_all apart (calls_of m h) \<or>
     (\<exists>pre ua actions post. P ua \<and> (K actions \<or> answers k l h pre actions) \<and> list_all apart pre \<and> list_all apart post \<and>
        calls_of m h = pre @ calls_of (createRemediationPlan k ua actions) (h @ pre) @ post))"

lemma one_proposal_extends: "one_proposal k l P K m \<Longrightarrow> extends m"
  by (simp add: one_proposal_def)

lemma one_proposal_only: "only apart m \<Longrightarrow> one_proposal k l P K m"
  by (simp add: one_proposal_def only_def)

lemma one_proposal_create: "P ua \<Longrightarrow> K actions \<Longrightarrow> one_proposal k l P K (createRemediationPlan k ua actions)"
  unfolding one_proposal_def
  by (intro conjI allI stage_extends, rule disjI2, rule exI[of _ "[]"], rule exI[of _ ua], rule exI[of _ actions], rule exI[of _ "[]"]) simp

text \<open>Computations before and after the proposal.\<close>

lemma one_proposal_after:
  assumes "one_proposal k l P K m" "\<And>x. only apart (f x)"
  shows "one_proposal k l P K (m \<bind> f)"
  unfolding one_proposal_def
proof (intro conjI allI)
  show "extends (m \<bind> f)" using extends_bind[OF one_proposal_extends[OF assms(1)] only_extends[OF assms(2)]] .
  fix h
  have calls: "calls_of (m \<bind> f) h = calls_of m h @ calls_of (f (result_of m h)) (h @ calls_of m h)"
    using calls_of_bind(1)[OF one_proposal_extends[OF assms(1)] only_extends[OF assms(2)]] .
  have f: "list_all apart (calls_of (f x) h')" for x h' using assms(2) by (rule onlyD)
  consider "list_all apart (calls_of m h)" | pre ua actions post where "P ua" "K actions \<or> answers k l h pre actions"
      "list_all apart pre" "list_all apart post"
      "calls_of m h = pre @ calls_of (createRemediationPlan k ua actions) (h @ pre) @ post"
    using assms(1)[unfolded one_proposal_def, THEN conjunct2, THEN spec, of h] by blast
  then show "list_all apart (calls_of (m \<bind> f) h) \<or> (\<exists>pre ua actions post. P ua \<and> (K actions \<or> answers k l h pre actions) \<and>
      list_all apart pre \<and> list_all apart post \<and>
      calls_of (m \<bind> f) h = pre @ calls_of (createRemediationPlan k ua actions) (h @ pre) @ post)"
  proof cases
    case 1
    then show ?thesis using f by (simp add: calls)
  next
    case (2 pre ua actions post)
    then show ?thesis using f
      by (intro disjI2 exI[of _ pre] exI[of _ ua] exI[of _ actions]
          exI[of _ "post @ calls_of (f (result_of m h)) (h @ calls_of m h)"]) (simp add: calls)
  qed
qed

lemma one_proposal_before:
  assumes "only apart m" "\<And>h. one_proposal k l P (\<lambda>as. K as \<or> answers k l h (calls_of m h) as) (f (result_of m h))" "\<And>x. extends (f x)"
  shows "one_proposal k l P K (m \<bind> f)"
  unfolding one_proposal_def
proof (intro conjI allI)
  show "extends (m \<bind> f)" using extends_bind[OF only_extends[OF assms(1)] assms(3)] .
  fix h
  have calls: "calls_of (m \<bind> f) h = calls_of m h @ calls_of (f (result_of m h)) (h @ calls_of m h)"
    using calls_of_bind(1)[OF only_extends[OF assms(1)] assms(3)] .
  have m: "list_all apart (calls_of m h)" using assms(1) by (rule onlyD)
  consider "list_all apart (calls_of (f (result_of m h)) (h @ calls_of m h))"
    | pre ua actions post where "P ua" "(K actions \<or> answers k l h (calls_of m h) actions) \<or> answers k l (h @ calls_of m h) pre actions"
      "list_all apart pre" "list_all apart post"
      "calls_of (f (result_of m h)) (h @ calls_of m h) =
         pre @ calls_of (createRemediationPlan k ua actions) ((h @ calls_of m h) @ pre) @ post"
    using assms(2)[of h, unfolded one_proposal_def, THEN conjunct2, THEN spec, of "h @ calls_of m h"] by blast
  then show "list_all apart (calls_of (m \<bind> f) h) \<or> (\<exists>pre ua actions post. P ua \<and> (K actions \<or> answers k l h pre actions) \<and>
      list_all apart pre \<and> list_all apart post \<and>
      calls_of (m \<bind> f) h = pre @ calls_of (createRemediationPlan k ua actions) (h @ pre) @ post)"
  proof cases
    case 1
    then show ?thesis using m by (simp add: calls)
  next
    case (2 pre ua actions post)
    then have "K actions \<or> answers k l h (calls_of m h @ pre) actions" using answers_before answers_after by blast
    then show ?thesis using m 2(1,3-5)
      by (intro disjI2 exI[of _ "calls_of m h @ pre"] exI[of _ ua] exI[of _ actions] exI[of _ post]) (simp add: calls)
  qed
qed

lemma one_proposal_more:
  assumes "one_proposal k l P K m" "\<And>as. K as \<Longrightarrow> K' as"
  shows "one_proposal k l P K' m"
  using assms unfolding one_proposal_def by blast

text \<open>The rule for a stage whose result may be anything.\<close>

lemma one_proposal_bind:
  assumes "only apart m" "\<And>x. one_proposal k l P K (f x)"
  shows "one_proposal k l P K (m \<bind> f)"
  by (rule one_proposal_before[OF assms(1) one_proposal_more[OF assms(2)]]) (use one_proposal_extends[OF assms(2)] in blast)+

lemma one_proposal_if:
  "(b \<Longrightarrow> one_proposal k l P K m) \<Longrightarrow> (\<not> b \<Longrightarrow> one_proposal k l P K m') \<Longrightarrow> one_proposal k l P K (if b then m else m')"
  by simp

lemma one_proposal_sum:
  "(\<And>x. s = Inl x \<Longrightarrow> one_proposal k l P K (f x)) \<Longrightarrow> (\<And>y. s = Inr y \<Longrightarrow> one_proposal k l P K (g y)) \<Longrightarrow>
     one_proposal k l P K (case s of Inl x \<Rightarrow> f x | Inr y \<Rightarrow> g y)"
  by (cases s) simp_all

lemma one_proposal_option:
  "one_proposal k l P K m \<Longrightarrow> (\<And>x. one_proposal k l P K (f x)) \<Longrightarrow> one_proposal k l P K (case r of None \<Rightarrow> m | Some x \<Rightarrow> f x)"
  by (cases r) simp_all

lemma one_proposal_mono: "one_proposal k l P K m \<Longrightarrow> (\<And>ua. P ua \<Longrightarrow> Q ua) \<Longrightarrow> one_proposal k l Q K m"
  unfolding one_proposal_def by blast

text \<open>An analysis that lets the model propose actions.\<close>

definition may_propose :: "upgrade_analysis \<Rightarrow> bool" where
  "may_propose ua \<longleftrightarrow> aic_enabled (uas_ai (ua_spec ua)) \<and> rc_enabled (remediation_of ua)"

text \<open>What the operator remembers the model to have said for an analysis.\<close>

definition remembered :: "ai_cache \<Rightarrow> string \<Rightarrow> ai_action_entry list \<Rightarrow> bool" where
  "remembered cache n actions \<longleftrightarrow> (\<exists>e. cache n = Some e \<and> ce_actions e = actions)"

lemma apply_ai_proposes:
  "one_proposal k l (\<lambda>ua'. same_object ua ua' \<and> may_propose ua) (remembered cache (ua_name ua)) (apply_ai k l ns ua rep cache)"
proof (cases "aic_enabled (uas_ai (ua_spec ua))")
  case False
  then show ?thesis by (simp add: apply_ai_def one_proposal_only only_return)
next
  case True
  let ?P = "\<lambda>ua'. same_object ua ua' \<and> may_propose ua" and ?m = "scoreWithAI k l ns ua rep cache"
  have score: "only apart ?m" by (rule only_score[THEN only_mono]) (rule apart_kinds)
  have known: "remembered cache (ua_name ua) (snd (snd ans)) \<or> answers k l h (calls_of ?m h) (snd (snd ans))"
    if "fst (result_of ?m h) = Inr ans" for h ans
  proof -
    have "result_of ?m h = (Inr (fst ans, fst (snd ans), snd (snd ans)), snd (result_of ?m h))" using that by (simp add: prod_eq_iff)
    from score_sources[OF this] show ?thesis unfolding remembered_def by blast
  qed
  show ?thesis
    unfolding apply_ai_def Let_def if_not_P[OF not_not[THEN iffD2, OF True]]
    by (intro one_proposal_before[OF score] one_proposal_sum one_proposal_if one_proposal_only[OF only_return]
        one_proposal_after one_proposal_create only_return extends_cases extends_bind extends_return stage_extends)
      (auto simp: may_propose_def remediation_of_def True dest: known)
qed

lemma analyse_proposes:
  "one_proposal k (an_ai libs) (\<lambda>ua'. same_object ua ua' \<and> may_propose ua) (remembered cache (ua_name ua)) (analyse k libs op ua snap cache)"
proof -
  have "one_proposal k l (\<lambda>ua'. same_object ua ua' \<and> may_propose ua) (remembered cache (ua_name ua))
      (apply_ai k l ns (with_ust ua f) rep cache)" for l ns f rep
    using one_proposal_mono[OF apply_ai_proposes[of k l "with_ust ua f" cache ns rep]]
    by (auto simp: may_propose_def remediation_of_def with_ust_def same_object_def)
  then show ?thesis
    unfolding analyse_def now_def kwrite_def Let_def
    by (intro one_proposal_bind only_matrix[THEN only_mono] only_ask one_proposal_after only_bind only_return
        only_persist[THEN only_mono]) (auto simp: apart_kinds)
qed

lemma reconcile_proposes:
  "one_proposal k (an_ai libs) (\<lambda>ua'. \<exists>h ua. kc_get_analysis k h n = Inr ua \<and> same_object ua ua' \<and> may_propose ua)
     (\<lambda>as. \<exists>h ua. kc_get_analysis k h n = Inr ua \<and> remembered cache (ua_name ua) as) (UpgradeAnalysis_Reconcile k libs op n cache)"
proof -
  let ?P = "\<lambda>ua'. \<exists>h ua. kc_get_analysis k h n = Inr ua \<and> same_object ua ua' \<and> may_propose ua"
  let ?K = "\<lambda>as. \<exists>h ua. kc_get_analysis k h n = Inr ua \<and> remembered cache (ua_name ua) as"
  have "one_proposal k (an_ai libs) ?P ?K (analyse k libs op ua snap cache)" if "kc_get_analysis k h n = Inr ua" for h ua snap
    by (rule one_proposal_more[OF one_proposal_mono[OF analyse_proposes]]) (use that in blast)+
  then have wait: "one_proposal k (an_ai libs) ?P ?K (after_wait k libs op ua cache)" if "kc_get_analysis k h n = Inr ua" for h ua
    unfolding after_wait_def collect_cluster_def Let_def using that
    by (intro one_proposal_bind only_ask one_proposal_sum one_proposal_only[OF only_return] one_proposal_if
        one_proposal_only[OF only_bind] only_reject[THEN only_mono] only_return) (auto simp: apart_kinds)
  have "one_proposal k (an_ai libs) ?P ?K (resync_wait k ua \<bind> (\<lambda>wait. case wait of
      Some out \<Rightarrow> State_Monad.return (out, cache) | None \<Rightarrow> after_wait k libs op ua cache))"
    if "kc_get_analysis k h n = Inr ua" for h ua
    by (intro one_proposal_bind only_wait[THEN only_mono] one_proposal_option wait[OF that] one_proposal_only[OF only_return])
      (auto simp: apart_kinds)
  then show ?thesis
    unfolding UpgradeAnalysis_Reconcile_def get_analysis_def after_wait_def[symmetric]
    by (intro one_proposal_before[OF only_ask] apart_kinds extends_cases extends_bind extends_return stage_extends after_wait_extends)
      (auto split: sum.split intro: one_proposal_only[OF only_return] one_proposal_more)
qed

text \<open>What the operator remembers after a reconcile it knew before, or was told among its calls.\<close>

lemma apply_ai_remembers:
  assumes "remembered (snd (snd (result_of (apply_ai k l ns ua rep cache) h))) n actions"
  shows "remembered cache n actions \<or> answers k l h (calls_of (apply_ai k l ns ua rep cache) h) actions"
proof (cases "aic_enabled (uas_ai (ua_spec ua))")
  case False
  then show ?thesis using assms by (simp add: apply_ai_def)
next
  case True
  let ?s = "scoreWithAI k l ns ua rep cache"
  have "snd (snd (result_of (apply_ai k l ns ua rep cache) h)) = snd (result_of ?s h)"
    using True unfolding apply_ai_def Let_def
    by (auto simp: calls_of_bind extends_cases extends_bind simp del: run_state_bind split: sum.split)
  then obtain e where e: "snd (result_of ?s h) n = Some e" "ce_actions e = actions"
    using assms by (auto simp: remembered_def)
  have "\<exists>t. calls_of (apply_ai k l ns ua rep cache) h = calls_of ?s h @ t"
    using True unfolding apply_ai_def Let_def
    by (auto simp: calls_of_bind extends_cases extends_bind simp del: run_state_bind)
  moreover have "snd (result_of ?s h) n = cache n \<or> answers k l h (calls_of ?s h) actions"
    using score_sources[of k l ns ua rep cache h, OF prod.collapse[symmetric], THEN conjunct2, THEN spec, of n] e by auto
  ultimately show ?thesis using e answers_after unfolding remembered_def by metis
qed

lemma reconcile_remembers:
  assumes "\<And>h ua. kc_get_analysis k h n = Inr ua \<Longrightarrow> ua_name ua = n"
    and "remembered (snd (result_of (UpgradeAnalysis_Reconcile k libs op n cache) h)) n actions"
  shows "remembered cache n actions \<or> answers k (an_ai libs) h (calls_of (UpgradeAnalysis_Reconcile k libs op n cache) h) actions"
proof -
  let ?m = "UpgradeAnalysis_Reconcile k libs op n cache"
  show ?thesis
  proof (cases "snd (result_of ?m h) = cache")
    case False
    obtain ua where got: "kc_get_analysis k h n = Inr ua"
      using False reconcile_run(1)[of k h n _ libs op cache] by (cases "kc_get_analysis k h n") auto
    let ?h1 = "h @ [Get_Analysis n]"
    have wait: "result_of (resync_wait k ua) ?h1 = None"
      using False reconcile_run(2)[OF got, of _ libs op cache] by (cases "result_of (resync_wait k ua) ?h1") auto
    note run = reconcile_run(3)[OF got wait, of libs op cache]
    let ?h2 = "?h1 @ calls_of (resync_wait k ua) ?h1" and ?sc = "scope_of (uas_scope (ua_spec ua))"
    have fin: "snd (result_of (after_wait k libs op ua cache) ?h2) \<noteq> cache" using run False by simp
    obtain snap where snap: "Collect (kc_cluster k ?h2) ?sc = Inr snap"
      using fin by (cases "Collect (kc_cluster k ?h2) ?sc") (auto simp: after_wait_run)
    obtain cs ar where st: "analysis_stages k libs op ua (with_previous ua snap) cache (?h2 @ [Collect_Cluster ?sc]) = (cs, ar)"
      by fastforce
    have higher: "versionIsHigher (uas_target_version (ua_spec ua)) (s_cluster_version (with_previous ua snap))"
      using fin snap by (auto simp: after_wait_run)
    have calls: "calls_of ?m h = (Get_Analysis n # calls_of (resync_wait k ua) ?h1 @ [Collect_Cluster ?sc]) @ cs @ [Update_Analysis_Status (ar_status ar)]"
      using run snap higher analyse_run(1)[OF st] by (simp add: after_wait_run(1))
    have "snd (result_of ?m h) = snd (snd (ar_ai ar))" using run snap higher analyse_run(2)[OF st] by (simp add: after_wait_run(2))
    moreover obtain f ns rep pre post where "ar_ai ar = result_of (apply_ai k (an_ai libs) ns (with_ust ua f) rep cache) (?h2 @ [Collect_Cluster ?sc] @ pre)"
      "cs = pre @ calls_of (apply_ai k (an_ai libs) ns (with_ust ua f) rep cache) (?h2 @ [Collect_Cluster ?sc] @ pre) @ post"
      by (rule stages_scored[OF st]) simp
    ultimately have ai: "remembered (snd (snd (result_of (apply_ai k (an_ai libs) ns (with_ust ua f) rep cache) (?h2 @ [Collect_Cluster ?sc] @ pre)))) n actions"
      and cs: "cs = pre @ calls_of (apply_ai k (an_ai libs) ns (with_ust ua f) rep cache) (?h2 @ [Collect_Cluster ?sc] @ pre) @ post"
      using assms(2) by simp_all
    let ?before = "Get_Analysis n # calls_of (resync_wait k ua) ?h1 @ [Collect_Cluster ?sc] @ pre"
      and ?ai = "calls_of (apply_ai k (an_ai libs) ns (with_ust ua f) rep cache) (?h2 @ [Collect_Cluster ?sc] @ pre)"
    have "answers k (an_ai libs) h (?before @ ?ai) actions" if "answers k (an_ai libs) (?h2 @ [Collect_Cluster ?sc] @ pre) ?ai actions"
      by (rule answers_before) (use that in simp)
    then have "answers k (an_ai libs) h ((?before @ ?ai) @ post @ [Update_Analysis_Status (ar_status ar)]) actions"
      if "answers k (an_ai libs) (?h2 @ [Collect_Cluster ?sc] @ pre) ?ai actions" using answers_after that by blast
    moreover have "calls_of ?m h = (?before @ ?ai) @ post @ [Update_Analysis_Status (ar_status ar)]" by (simp add: calls cs)
    ultimately show ?thesis using apply_ai_remembers[OF ai] by (auto simp only:)
  qed (use assms(2) in simp)
qed

section \<open>The steps of the system\<close>

text \<open>Every read of the plan in \<open>cs\<close> answers the plan stored at that time.\<close>

fun plan_reads :: "kube \<Rightarrow> history \<Rightarrow> call \<Rightarrow> remediation_plan option \<Rightarrow> bool" where
  "plan_reads k h (Get_Plan ns n) o' = reads k h ns n o'"
| "plan_reads k h c o' = True"

fun follows :: "kube \<Rightarrow> history \<Rightarrow> remediation_plan option \<Rightarrow> call list \<Rightarrow> bool" where
  "follows k h o' [] = True"
| "follows k h o' (c # cs) = (plan_reads k h c o' \<and>
     follows k (h @ [c]) (if kc_write k h c = None then store c o' else o') cs)"

definition after :: "kube \<Rightarrow> history \<Rightarrow> call list \<Rightarrow> plan_world \<Rightarrow> plan_world" where
  "after k h cs w = \<lparr>pw_plan = stored k h cs (pw_plan w), pw_acts = pw_acts w @ filter acts cs\<rparr>"

text \<open>Runs of a labelled step relation, with the labels of their steps.\<close>

inductive trace :: "('a \<Rightarrow> 's \<Rightarrow> 's \<Rightarrow> bool) \<Rightarrow> 'a list \<Rightarrow> 's \<Rightarrow> 's \<Rightarrow> bool" for step where
  trace_none: "trace step [] s s"
| trace_step: "trace step as s t \<Longrightarrow> step a t u \<Longrightarrow> trace step (as @ [a]) s u"

datatype actor = Plan_Controller | Analysis_Controller | Mirror_Controller | Elsewhere | Edit | Deletion

text \<open>The stored plan and the acts so far, and the answers of the model that the running operator remembers.\<close>

record system_world =
  sw_life :: plan_world
  sw_memory :: ai_cache

text \<open>
  \<open>n\<close> is the name of the analysis, \<open>edits\<close> the specs that users write, \<open>analyses\<close> the values that the
  stored analysis may have over time and \<open>said\<close> the lists of actions that the model answers with for it. Everything
  else that the operator does, reconciles of other analyses or its restart, may change or forget what it remembers
  of the others, and forget what it remembers of this one.
\<close>

inductive system_step :: "'v analysis_libs \<Rightarrow> string \<Rightarrow> (remediation_plan_spec \<Rightarrow> bool) \<Rightarrow> (upgrade_analysis \<Rightarrow> bool)
    \<Rightarrow> (ai_action_entry list \<Rightarrow> bool) \<Rightarrow> actor \<Rightarrow> system_world \<Rightarrow> system_world \<Rightarrow> bool"
  for libs n edits analyses said where
  plan_reconciled: "prefix t (calls_of (RemediationPlan_Reconcile k [] (n @ ''-remediation'')) h) \<Longrightarrow>
    follows k h (pw_plan (sw_life w)) t \<Longrightarrow> answers_by_name k \<Longrightarrow>
    system_step libs n edits analyses said Plan_Controller w (w\<lparr>sw_life := after k h t (sw_life w)\<rparr>)"
| analysis_reconciled: "prefix t (calls_of (UpgradeAnalysis_Reconcile k libs op n (sw_memory w)) h) \<Longrightarrow>
    follows k h (pw_plan (sw_life w)) t \<Longrightarrow>
    (\<forall>h ua. kc_get_analysis k h n = Inr ua \<longrightarrow> ua_name ua = n \<and> analyses ua) \<Longrightarrow>
    (\<forall>actions. answers k (an_ai libs) h t actions \<longrightarrow> said actions) \<Longrightarrow>
    cache' = (if t = calls_of (UpgradeAnalysis_Reconcile k libs op n (sw_memory w)) h
      then snd (result_of (UpgradeAnalysis_Reconcile k libs op n (sw_memory w)) h) else Map.empty) \<Longrightarrow>
    system_step libs n edits analyses said Analysis_Controller w \<lparr>sw_life = after k h t (sw_life w), sw_memory = cache'\<rparr>"
| mirror_reconciled: "prefix t (calls_of (ClusterMirror_Reconcile k f op up m) h) \<Longrightarrow>
    follows k h (pw_plan (sw_life w)) t \<Longrightarrow>
    system_step libs n edits analyses said Mirror_Controller w (w\<lparr>sw_life := after k h t (sw_life w)\<rparr>)"
| elsewhere: "cache' n = None \<or> cache' n = sw_memory w n \<Longrightarrow>
    system_step libs n edits analyses said Elsewhere w (w\<lparr>sw_memory := cache'\<rparr>)"
| spec_edited: "pw_plan (sw_life w) = Some p \<Longrightarrow> edits s \<Longrightarrow>
    system_step libs n edits analyses said Edit w (w\<lparr>sw_life := (sw_life w)\<lparr>pw_plan := Some (p\<lparr>pl_spec := s\<rparr>)\<rparr>\<rparr>)"
| plan_deleted: "pw_plan (sw_life w) = Some p \<Longrightarrow>
    system_step libs n edits analyses said Deletion w (w\<lparr>sw_life := (sw_life w)\<lparr>pw_plan := None\<rparr>\<rparr>)"

lemma quiet_after: "list_all (\<lambda>c. \<not> plan_write c \<and> \<not> acts c) cs \<Longrightarrow> after k h cs w = w"
proof -
  assume a: "list_all (\<lambda>c. \<not> plan_write c \<and> \<not> acts c) cs"
  have "filter acts cs = []" using a by (auto simp: list_all_iff filter_empty_conv)
  moreover have "stored k h cs o' = o'" for o' using a by (intro stored_quiet) (auto simp: list_all_iff)
  ultimately show "after k h cs w = w" by (simp add: after_def)
qed

lemma apart_after: "list_all apart cs \<Longrightarrow> after k h cs w = w"
  by (rule quiet_after) (auto simp: list_all_iff apart_def)

lemma after_append: "after k h (s @ t) w = after k (h @ s) t (after k h s w)"
  by (simp add: after_def stored_append)

lemma follows_append: "follows k h o' (s @ t) \<longleftrightarrow> follows k h o' s \<and> follows k (h @ s) (stored k h s o') t"
  by (induction s arbitrary: h o') auto

lemma apart_prefix: "list_all apart cs \<Longrightarrow> prefix t cs \<Longrightarrow> list_all apart t"
  by (auto simp: prefix_def)

lemma mirror_apart: "list_all apart (calls_of (ClusterMirror_Reconcile k f op up m) h)"
proof -
  have own: "own_write cm c \<Longrightarrow> apart c" for cm c by (auto simp: own_write_def apart_kinds)
  show ?thesis
  proof (cases "kc_get_mirror k h m")
    case (Inl e)
    then show ?thesis using mirror_run(1)[OF Inl] by (simp add: apart_def)
  next
    case (Inr cm)
    show ?thesis
    proof (cases "Collect (kc_cluster k (h @ [Get_Mirror m])) (scope_of (cms_scope (clm_spec cm)))")
      case (Inl e)
      then show ?thesis using mirror_run(2)[OF Inr Inl] by (simp add: apart_def)
    next
      case snap: (Inr snap)
      have "only apart (rebuild k f op up cm snap)" using only_rebuild by (rule only_mono) (auto intro: apart_kinds own)
      then show ?thesis using mirror_run(3)[OF Inr snap, of f op up] onlyD by (simp add: apart_def[of "Get_Mirror _"] apart_kinds) blast
    qed
  qed
qed

text \<open>What the analysis controller does to the world: nothing, or the beginning of one proposal.\<close>

lemma analysis_effect:
  assumes "prefix t (calls_of (UpgradeAnalysis_Reconcile k libs op n cache) h)" "follows k h (pw_plan w) t"
  obtains (quiet) "after k h t w = w"
  | (proposal) h' ua actions t' h'' ua' where "kc_get_analysis k h'' n = Inr ua'" "same_object ua' ua" "may_propose ua'"
      "reads k h' [] (ua_name ua @ ''-remediation'') (pw_plan w)"
      "(\<exists>h ua. kc_get_analysis k h n = Inr ua \<and> remembered cache (ua_name ua) actions) \<or> answers k (an_ai libs) h t actions"
      "prefix t' (calls_of (createRemediationPlan k ua actions) h')" "after k h t w = after k h' t' w"
proof -
  let ?calls = "calls_of (UpgradeAnalysis_Reconcile k libs op n cache) h"
  consider "list_all apart ?calls"
    | pre ua actions post where "\<exists>h ua'. kc_get_analysis k h n = Inr ua' \<and> same_object ua' ua \<and> may_propose ua'"
      "(\<exists>h ua. kc_get_analysis k h n = Inr ua \<and> remembered cache (ua_name ua) actions) \<or> answers k (an_ai libs) h pre actions"
      "list_all apart pre" "list_all apart post" "?calls = pre @ calls_of (createRemediationPlan k ua actions) (h @ pre) @ post"
    using reconcile_proposes[of k libs n cache op, unfolded one_proposal_def, THEN conjunct2, THEN spec, of h] by blast
  then show thesis
  proof cases
    case 1
    then show thesis using quiet apart_after[OF apart_prefix[OF 1 assms(1)]] by simp
  next
    case (2 pre ua actions post)
    let ?cr = "calls_of (createRemediationPlan k ua actions) (h @ pre)"
    from assms(1) consider "prefix t pre" | t1 where "t = pre @ t1" "t1 \<noteq> []" "prefix t1 (?cr @ post)"
      unfolding 2(5) prefix_append[of t pre] by (metis append_Nil2 prefix_order.order_refl)
    then show thesis
    proof cases
      case 1
      then show thesis using quiet apart_after[OF apart_prefix[OF 2(3) 1]] by simp
    next
      case t: (2 t1)
      have pre: "after k h pre w = w" using apart_after[OF 2(3)] .
      then have w: "after k h t w = after k (h @ pre) t1 w" by (simp add: t(1) after_append)
      have "stored k h pre (pw_plan w) = pw_plan w" using pre by (metis after_def plan_world.select_convs(1))
      then have fol: "follows k (h @ pre) (pw_plan w) t1" using assms(2) by (simp add: t(1) follows_append)
      show thesis
      proof (cases "?cr = []")
        case True
        then show thesis using quiet w apart_after apart_prefix[OF 2(4)] t(3) by simp
      next
        case False
        then obtain rest where "?cr = Get_Plan [] (ua_name ua @ ''-remediation'') # rest"
          unfolding createRemediationPlan_calls Let_def by (auto split: if_splits)
        then have reads: "reads k (h @ pre) [] (ua_name ua @ ''-remediation'') (pw_plan w)"
          using t(2,3) fol by (cases t1) auto
        obtain t2 t3 where t2: "t1 = t2 @ t3" "prefix t2 ?cr" "list_all apart t3"
        proof (cases "prefix t1 ?cr")
          case True
          then show thesis using that[of t1 "[]"] by simp
        next
          case False
          then obtain t3 where "t1 = ?cr @ t3" "prefix t3 post" using t(3) by (auto simp: prefix_append)
          then show thesis using that[of ?cr t3] apart_prefix[OF 2(4)] by simp
        qed
        have "after k h t w = after k (h @ pre) t2 w" using w apart_after[OF t2(3)] by (simp add: t2(1) after_append)
        moreover have "(\<exists>h ua. kc_get_analysis k h n = Inr ua \<and> remembered cache (ua_name ua) actions) \<or> answers k (an_ai libs) h t actions"
          using 2(2) answers_after unfolding t(1) by blast
        ultimately show thesis using proposal 2(1) reads t2(2) by blast
      qed
    qed
  qed
qed

lemma plan_run_reads:
  assumes "prefix t (calls_of (RemediationPlan_Reconcile k ns n) h)" "follows k h o' t" "t \<noteq> []"
  shows "reads k h ns n o'"
  using assms unfolding reconcile_calls by (cases t) auto

section \<open>What each actor may do to a plan\<close>

text \<open>
  The model's actions that a limit lets through, as the actions of a plan: none of another kind, target, parameters or
  risk, none left out or set to be skipped. A limit that is no known level says nothing of the risks.
\<close>

definition drawn_from :: "string \<Rightarrow> ai_action_entry list \<Rightarrow> remediation_action list \<Rightarrow> bool" where
  "drawn_from limit actions xs \<longleftrightarrow> (\<exists>chosen. subseq chosen actions \<and>
     (limit \<in> set risk_levels \<longrightarrow> chosen = filter (\<lambda>a. allowed_risk limit (aa_risk a)) actions) \<and>
     list_all2 (\<lambda>a x. ra_type x = aa_type a \<and> ra_namespace x = aa_namespace a \<and> ra_name x = aa_name a \<and>
       ra_params x = aa_params a \<and> ra_risk x = aa_risk a \<and> \<not> ra_skip x) chosen xs)"

definition proposes :: "string \<Rightarrow> (upgrade_analysis \<Rightarrow> bool) \<Rightarrow> (ai_action_entry list \<Rightarrow> bool) \<Rightarrow> upgrade_analysis
    \<Rightarrow> remediation_plan_spec \<Rightarrow> bool" where
  "proposes n analyses said ua spec \<longleftrightarrow> analyses ua \<and> ua_name ua = n \<and> may_propose ua \<and> ps_analysis_ref spec = n \<and>
     (\<exists>actions. said actions \<and> drawn_from (risk_limit ua) actions (ps_actions spec))"

text \<open>A run of the plan was begun: it is running or finished.\<close>

definition begun :: "remediation_plan \<Rightarrow> bool" where
  "begun p \<longleftrightarrow> pst_phase (pl_status p) \<in> {''running'', ''completed'', ''failed''}"

text \<open>
  The plan controller runs an approved plan that was not begun, over its actions; the analysis controller creates a plan,
  approved only if the analysis auto-approves, or replaces the spec of one that is neither running nor pending
  by one that is not approved; the mirror controller and the rest of the operator leave it alone; users edit or
  delete it.
\<close>

inductive life_step :: "string \<Rightarrow> (remediation_plan_spec \<Rightarrow> bool) \<Rightarrow> (upgrade_analysis \<Rightarrow> bool)
    \<Rightarrow> (ai_action_entry list \<Rightarrow> bool) \<Rightarrow> actor \<Rightarrow> plan_world \<Rightarrow> plan_world \<Rightarrow> bool"
  for n edits analyses said where
  rest: "a \<notin> {Edit, Deletion} \<Longrightarrow> life_step n edits analyses said a w w"
| run: "pw_plan w = Some p \<Longrightarrow> \<not> begun p \<Longrightarrow> one_pass (pl_spec p) (pl_namespace p) cs \<Longrightarrow> begun (p\<lparr>pl_status := st\<rparr>) \<Longrightarrow>
    life_step n edits analyses said Plan_Controller w \<lparr>pw_plan = Some (p\<lparr>pl_status := st\<rparr>), pw_acts = pw_acts w @ cs\<rparr>"
| create: "pw_plan w = None \<Longrightarrow> proposes n analyses said ua (pl_spec p) \<Longrightarrow>
    ps_approved (pl_spec p) = rc_auto_approve (remediation_of ua) \<Longrightarrow>
    pl_name p = n @ ''-remediation'' \<Longrightarrow> pl_namespace p = [] \<Longrightarrow> pl_status p = empty_plan_status \<Longrightarrow>
    life_step n edits analyses said Analysis_Controller w (w\<lparr>pw_plan := Some p\<rparr>)"
| replace: "pw_plan w = Some p \<Longrightarrow> pst_phase (pl_status p) \<notin> {''running'', ''pending-approval''} \<Longrightarrow>
    proposes n analyses said ua s \<Longrightarrow> \<not> ps_approved s \<Longrightarrow>
    life_step n edits analyses said Analysis_Controller w (w\<lparr>pw_plan := Some (p\<lparr>pl_spec := s\<rparr>)\<rparr>)"
| edit: "pw_plan w = Some p \<Longrightarrow> edits s \<Longrightarrow>
    life_step n edits analyses said Edit w (w\<lparr>pw_plan := Some (p\<lparr>pl_spec := s\<rparr>)\<rparr>)"
| delete: "pw_plan w = Some p \<Longrightarrow> life_step n edits analyses said Deletion w (w\<lparr>pw_plan := None\<rparr>)"

lemma begun_phase: "begun p = terminal_or_running (pst_phase (pl_status p))"
  by (simp add: begun_def terminal_or_running_def phase_defs) blast

lemma plan_actions_drawn: "drawn_from limit actions (plan_actions limit actions)"
proof -
  let ?render = "\<lambda>a x. ra_type x = aa_type a \<and> ra_namespace x = aa_namespace a \<and> ra_name x = aa_name a \<and>
       ra_params x = aa_params a \<and> ra_risk x = aa_risk a \<and> \<not> ra_skip x"
  let ?chosen = "filter (\<lambda>a. riskWithin (aa_risk a) limit) actions"
  have "list_all2 ?render (filter (\<lambda>a. riskWithin (aa_risk a) limit) as)
      (map (\<lambda>(i, a). plan_action i a) (filter (\<lambda>(i, a). riskWithin (aa_risk a) limit) (enumerate j as)))" for as j
    by (induction as arbitrary: j) (auto simp: plan_action_def)
  then have "list_all2 ?render ?chosen (plan_actions limit actions)" by (simp add: plan_actions_eq)
  moreover have "?chosen = filter (\<lambda>a. allowed_risk limit (aa_risk a)) actions" if "limit \<in> set risk_levels"
    using riskWithin_allowed[OF that] by simp
  ultimately show ?thesis unfolding drawn_from_def using subseq_filter_left by blast
qed

lemma new_plan_same: "same_object ua ua' \<Longrightarrow> new_plan ua' as = new_plan ua as \<and> risk_limit ua' = risk_limit ua \<and> remediation_of ua' = remediation_of ua"
  using same_object_fields by (fastforce simp: new_plan_def risk_limit_def remediation_of_def)

text \<open>The outcome of a proposal that may be cut short.\<close>

lemma proposal_outcome:
  assumes "prefix t (calls_of (createRemediationPlan k ua actions) h)"
    and "reads k h [] (ua_name ua @ ''-remediation'') (pw_plan w)"
  defines "chosen \<equiv> plan_actions (risk_limit ua) actions"
  obtains "after k h t w = w"
  | p where "pw_plan w = None" "after k h t w = w\<lparr>pw_plan := Some p\<rparr>" "pl_spec p = pl_spec (new_plan ua chosen)"
      "pl_name p = ua_name ua @ ''-remediation''" "pl_namespace p = []" "pl_status p = empty_plan_status"
  | p where "pw_plan w = Some p" "pst_phase (pl_status p) \<notin> {''running'', ''pending-approval''}"
      "after k h t w = w\<lparr>pw_plan := Some (p\<lparr>pl_spec := (pl_spec (new_plan ua chosen))\<lparr>ps_approved := False\<rparr>\<rparr>)\<rparr>"
proof -
  let ?name = "ua_name ua @ ''-remediation''"
  note calls = createRemediationPlan_calls[of k ua actions h, folded remediation_of_def, unfolded Let_def, folded risk_limit_def,
      folded chosen_def]
  have w: "w\<lparr>pw_plan := pw_plan w\<rparr> = w" by simp
  show thesis
  proof (cases "pw_plan w")
    case None
    then have isl: "isl (kc_get_plan k h [] ?name)" using assms(2) by (simp add: reads_def)
    then obtain e where e: "kc_get_plan k h [] ?name = Inl e" by (auto simp: isl_def)
    let ?p = "with_status (new_plan ua chosen) (\<lambda>s. s\<lparr>pst_phase := ''pending-approval''\<rparr>)"
    consider "list_all (\<lambda>c. \<not> plan_write c \<and> \<not> acts c) t" | "t = [Get_Plan [] ?name, Create_Plan ?p]"
      using assms(1) unfolding calls e by (auto simp: prefix_Cons_cases split: if_splits)
    then show thesis
    proof cases
      case 1
      then show thesis using that(1) quiet_after by blast
    next
      case 2
      show thesis
      proof (cases "kc_write k (h @ [Get_Plan [] ?name]) (Create_Plan ?p) = None")
        case True
        then have "after k h t w = w\<lparr>pw_plan := Some (?p\<lparr>pl_status := empty_plan_status\<rparr>)\<rparr>"
          using None by (simp add: after_def 2)
        then show thesis using that(2)[of "?p\<lparr>pl_status := empty_plan_status\<rparr>"] None by (simp add: with_status_def new_plan_def)
      next
        case False
        then show thesis using that(1) None by (simp add: after_def 2)
      qed
    qed
  next
    case (Some p)
    then have got: "kc_get_plan k h [] ?name = Inr p" using assms(2) by (simp add: reads_def)
    let ?q = "p\<lparr>pl_spec := (pl_spec (new_plan ua chosen))\<lparr>ps_approved := False\<rparr>, pl_status := empty_plan_status\<rparr>"
    consider "list_all (\<lambda>c. \<not> plan_write c \<and> \<not> acts c) t" | "t = [Get_Plan [] ?name, Update_Plan ?q]" "replaceable (pst_phase (pl_status p))"
      using assms(1) unfolding calls got by (auto simp: prefix_Cons_cases split: if_splits)
    then show thesis
    proof cases
      case 1
      then show thesis using that(1) quiet_after by blast
    next
      case 2
      have "pst_phase (pl_status p) \<notin> {''running'', ''pending-approval''}"
        using 2(2) by (auto simp: replaceable_def phase_defs)
      then show thesis using that(3)[OF Some] that(1) Some
        by (cases "kc_write k (h @ [Get_Plan [] ?name]) (Update_Plan ?q) = None") (simp_all add: after_def 2(1))
    qed
  qed
qed

lemma stored_spec:
  assumes "\<And>c. c \<in> set t \<Longrightarrow> plan_write c \<Longrightarrow> \<exists>p'. c = Update_Plan_Status p'" "stored k h t o' = Some p"
  shows "\<exists>q. o' = Some q \<and> p = q\<lparr>pl_status := pl_status p\<rparr>"
  using assms
proof (induction t arbitrary: h o')
  case (Cons c t)
  then obtain q where q: "(if kc_write k h c = None then store c o' else o') = Some q" "p = q\<lparr>pl_status := pl_status p\<rparr>" by fastforce
  consider p' where "c = Update_Plan_Status p'" | "\<not> plan_write c" using Cons.prems(1)[of c] by auto
  then show ?case
  proof cases
    case 1
    then show ?thesis using q by (cases o') (auto split: if_splits intro!: remediation_plan.equality)
  next
    case 2
    then have "store c o' = o'" by (cases c; cases o') auto
    then show ?thesis using q by (auto split: if_splits)
  qed
qed simp

lemma reconcile_plan_writes:
  assumes "c \<in> set (calls_of (RemediationPlan_Reconcile k ns n) h)" "plan_write c"
  shows "\<exists>p'. c = Update_Plan_Status p'"
proof -
  have "\<not> plan_write c'" if "c' \<in> set (calls_of (run_actions k m as rs ok) h')" for c' m as rs ok h'
    using run_actions_calls that unfolding list_all_iff by blast
  then show ?thesis using assms unfolding reconcile_calls by (auto split: if_splits)
qed

text \<open>What the operator remembers of the analysis \<open>n\<close>, the model has said.\<close>

definition told_truly :: "string \<Rightarrow> (ai_action_entry list \<Rightarrow> bool) \<Rightarrow> system_world \<Rightarrow> bool" where
  "told_truly n said w \<longleftrightarrow> (\<forall>actions. remembered (sw_memory w) n actions \<longrightarrow> said actions)"

lemma system_life:
  assumes "system_step libs n edits analyses said a w w'" "told_truly n said w"
  shows "life_step n edits analyses said a (sw_life w) (sw_life w') \<and> told_truly n said w'"
  using assms(1)
proof cases
  case (plan_reconciled t k h)
  have told: "told_truly n said w'" using assms(2) by (simp add: told_truly_def plan_reconciled(2))
  let ?w = "sw_life w"
  show ?thesis
  proof (cases "t = []")
    case True
    then show ?thesis using told by (simp add: plan_reconciled(1,2) apart_after life_step.rest)
  next
    case False
    have writes: "\<exists>p'. c = Update_Plan_Status p'" if "c \<in> set t" "plan_write c" for c
      by (rule reconcile_plan_writes[OF subsetD[OF set_mono_prefix[OF plan_reconciled(3)] that(1)] that(2)])
    note step = reconcile_step[OF plan_run_reads[OF plan_reconciled(3,4) False] plan_reconciled(3)]
    then consider "filter acts t = []" "stored k h t (pw_plan ?w) = pw_plan ?w"
      | p q where "pw_plan ?w = Some p" "\<not> begun p" "stored k h t (pw_plan ?w) = Some q" "begun q"
        "one_pass (pl_spec p) (pl_namespace p) (filter acts t)"
      using plan_reconciled(5) unfolding begun_phase by blast
    then show ?thesis
    proof cases
      case 1
      then have "after k h t ?w = ?w" by (simp add: after_def)
      then show ?thesis using told by (simp add: plan_reconciled(1,2) life_step.rest)
    next
      case (2 p q)
      from stored_spec[OF writes 2(3)] 2(1) obtain st where q: "q = p\<lparr>pl_status := st\<rparr>" by auto
      have "after k h t ?w = \<lparr>pw_plan = Some (p\<lparr>pl_status := st\<rparr>), pw_acts = pw_acts ?w @ filter acts t\<rparr>"
        using 2(3) by (simp add: after_def q)
      then show ?thesis using told life_step.run[OF 2(1,2,5)] 2(4) by (simp add: plan_reconciled(1,2) q)
    qed
  qed
next
  case (analysis_reconciled t k op h cache')
  let ?m = "UpgradeAnalysis_Reconcile k libs op n (sw_memory w)" and ?w = "sw_life w"
  have "told_truly n said w'"
    unfolding told_truly_def
  proof (intro allI impI)
    fix actions
    assume "remembered (sw_memory w') n actions"
    then have t: "t = calls_of ?m h" "remembered (snd (result_of ?m h)) n actions"
      by (auto simp: analysis_reconciled(2,7) remembered_def split: if_splits)
    have "remembered (sw_memory w) n actions \<or> answers k (an_ai libs) h t actions"
      unfolding t(1) by (rule reconcile_remembers[OF _ t(2)]) (use analysis_reconciled(5) in blast)
    then show "said actions" using assms(2) analysis_reconciled(6) unfolding told_truly_def by blast
  qed
  moreover have "life_step n edits analyses said Analysis_Controller ?w (after k h t ?w)"
    using analysis_reconciled(3,4)
  proof (cases rule: analysis_effect)
    case (proposal h' ua actions t' h'' ua')
    have ua': "ua_name ua' = n" "analyses ua'" using analysis_reconciled(5) proposal(1) by blast+
    have said: "said actions" using proposal(5) analysis_reconciled(5,6) assms(2) unfolding told_truly_def by metis
    note same = new_plan_same[OF proposal(2)]
    have name: "ua_name ua = n" using same_object_fields[OF proposal(2)] ua'(1) by simp
    let ?chosen = "plan_actions (risk_limit ua) actions"
    have spec: "proposes n analyses said ua' s" if "ps_analysis_ref s = n" "ps_actions s = ?chosen" for s
      using ua' proposal(3) said that plan_actions_drawn[of "risk_limit ua" actions] same unfolding proposes_def by auto
    from proposal(6,4) have "life_step n edits analyses said Analysis_Controller ?w (after k h' t' ?w)"
    proof (cases rule: proposal_outcome)
      case 1
      then show ?thesis by (simp add: life_step.rest)
    next
      case (2 p)
      then show ?thesis using life_step.create[OF 2(1) spec] same name by (simp add: new_plan_def remediation_of_def)
    next
      case (3 p)
      then show ?thesis using life_step.replace[OF 3(1,2) spec] name by (simp add: new_plan_def)
    qed
    then show ?thesis by (simp add: proposal(7))
  qed (simp add: life_step.rest)
  ultimately show ?thesis by (simp add: analysis_reconciled(1,2))
next
  case (mirror_reconciled t k f op up m h)
  then show ?thesis using assms(2) apart_after[OF apart_prefix[OF mirror_apart mirror_reconciled(3)]]
    by (simp add: told_truly_def life_step.rest)
next
  case (elsewhere cache')
  then show ?thesis using assms(2) by (auto simp: told_truly_def remembered_def life_step.rest)
next
  case (spec_edited p s)
  then show ?thesis using assms(2) by (simp add: told_truly_def life_step.edit)
next
  case (plan_deleted p)
  then show ?thesis using assms(2) by (simp add: told_truly_def life_step.delete)
qed

lemma system_lives:
  assumes "trace (system_step libs n edits analyses said) as w w'" "told_truly n said w"
  shows "trace (life_step n edits analyses said) as (sw_life w) (sw_life w') \<and> told_truly n said w'"
  using assms
proof (induction rule: trace.induct)
  case (trace_step as s t a u)
  then show ?case using system_life trace.trace_step by metis
qed (simp add: trace.trace_none)

text \<open>C7: whatever the controllers, the rest of the operator, the users and crashes do, in any order, the plan of an analysis
  only goes through the life stated above, step by step and each step by its actor: the plan controller runs a
  plan without touching its spec, the analysis controller does no more than create an unstarted plan of the model's
  actions, approved only by an auto-approving analysis, or replace the spec of one that is not running by an unapproved
  one, and the mirror controller and everything else do nothing to it.\<close>

theorem system_refines_plans:
  assumes "trace (system_step libs n edits analyses said) as w w'"
    and "\<And>actions. remembered (sw_memory w) n actions \<Longrightarrow> said actions"
  shows "trace (life_step n edits analyses said) as (sw_life w) (sw_life w')"
  using system_lives[OF assms(1)] assms(2) by (simp add: told_truly_def)

section \<open>Who lets a plan act\<close>

text \<open>A spec that users wrote, or that an analysis which auto-approves made of the model's actions.\<close>

definition granted :: "string \<Rightarrow> (remediation_plan_spec \<Rightarrow> bool) \<Rightarrow> (upgrade_analysis \<Rightarrow> bool)
    \<Rightarrow> (ai_action_entry list \<Rightarrow> bool) \<Rightarrow> remediation_plan_spec \<Rightarrow> bool" where
  "granted n edits analyses said spec \<longleftrightarrow> edits spec \<or>
     (\<exists>ua. proposes n analyses said ua spec \<and> rc_auto_approve (remediation_of ua))"

text \<open>A plan makes one pass at most, and what is approved is granted.\<close>

definition passes_granted :: "(remediation_plan_spec \<Rightarrow> bool) \<Rightarrow> nat \<Rightarrow> plan_world \<Rightarrow> bool" where
  "passes_granted G d w \<longleftrightarrow>
     (\<forall>p. pw_plan w = Some p \<longrightarrow> pl_namespace p = [] \<and> (ps_approved (pl_spec p) \<longrightarrow> G (pl_spec p))) \<and>
     (\<exists>passes. pw_acts w = concat passes \<and> length passes \<le> d + (case pw_plan w of None \<Rightarrow> 0 | Some p \<Rightarrow> if begun p then 1 else 0) \<and>
        (\<forall>cs\<in>set passes. \<exists>spec. one_pass spec [] cs \<and> G spec))"

lemma begun_same [simp]: "begun (p\<lparr>pl_spec := s\<rparr>) = begun p"
  by (simp add: begun_def)

lemma life_passes:
  assumes "life_step n edits analyses said a v u" "passes_granted (granted n edits analyses said) d v"
  shows "passes_granted (granted n edits analyses said) (d + (if a = Deletion then 1 else 0)) u"
  using assms(1)
proof cases
  case rest
  then show ?thesis using assms(2) by simp
next
  case (run p cs st)
  let ?G = "granted n edits analyses said"
  have p: "pl_namespace p = []" "?G (pl_spec p)"
    using assms(2) run(3,5) by (auto simp: passes_granted_def one_pass_def)
  obtain passes where passes: "pw_acts v = concat passes" "length passes \<le> d"
    "\<forall>cs\<in>set passes. \<exists>spec. one_pass spec [] cs \<and> ?G spec"
    using assms(2) run(3,4) by (auto simp: passes_granted_def)
  have "\<forall>cs'\<in>set (passes @ [cs]). \<exists>spec. one_pass spec [] cs' \<and> ?G spec" using passes(3) p run(5) by auto
  then show ?thesis unfolding passes_granted_def run(1,2)
    using passes(1,2) p run(6) by (intro conjI exI[of _ "passes @ [cs]"]) auto
next
  case (create ua p)
  then show ?thesis using assms(2) by (auto simp: passes_granted_def granted_def begun_def empty_plan_status_def)
next
  case (replace p ua s)
  then show ?thesis using assms(2) by (auto simp: passes_granted_def)
next
  case (edit p s)
  then show ?thesis using assms(2) by (auto simp: passes_granted_def granted_def)
next
  case (delete p)
  then show ?thesis using assms(2) by (fastforce simp: passes_granted_def split: if_splits)
qed

lemma lives_passes:
  assumes "trace (life_step n edits analyses said) as v u" "passes_granted (granted n edits analyses said) 0 v"
  shows "passes_granted (granted n edits analyses said) (count_list as Deletion) u"
  using assms
proof (induction rule: trace.induct)
  case (trace_step as s t a u)
  have "passes_granted (granted n edits analyses said) (count_list as Deletion) t" by (rule trace_step.IH[OF trace_step.prems])
  from life_passes[OF trace_step.hyps(2) this] show ?case by (cases "a = Deletion") simp_all
qed simp

text \<open>C6: over any run of the whole system from a plan nobody has approved, or none, everything done to the cluster
  is a sequence of passes, each possibly cut short, over the actions of one approved spec; that spec was written by a
  user or made by an analysis that auto-approves, of exactly the actions the model answered for it that the risk limit
  lets through. There is one pass at most, and one more for each time the plan was deleted.\<close>

theorem actions_granted:
  assumes "trace (system_step libs n edits analyses said) as w w'"
    and "\<And>actions. remembered (sw_memory w) n actions \<Longrightarrow> said actions"
    and "\<And>p. pw_plan (sw_life w) = Some p \<Longrightarrow> \<not> ps_approved (pl_spec p) \<and> pl_namespace p = []" "pw_acts (sw_life w) = []"
  shows "\<exists>passes. pw_acts (sw_life w') = concat passes \<and> length passes \<le> 1 + count_list as Deletion \<and>
    (\<forall>cs\<in>set passes. \<exists>spec. one_pass spec [] cs \<and> granted n edits analyses said spec)"
proof -
  have "trace (life_step n edits analyses said) as (sw_life w) (sw_life w')"
    using system_lives[OF assms(1)] assms(2) by (simp add: told_truly_def)
  moreover have "passes_granted (granted n edits analyses said) 0 (sw_life w)"
    unfolding passes_granted_def using assms(3,4) by (intro conjI exI[of _ "[]"]) auto
  ultimately have "passes_granted (granted n edits analyses said) (count_list as Deletion) (sw_life w')" by (rule lives_passes)
  then show ?thesis unfolding passes_granted_def by (fastforce split: option.splits if_splits)
qed

section \<open>The phase of a proposal\<close>

text \<open>The phases a stored plan has.\<close>

definition fresh_or_run :: "plan_world \<Rightarrow> bool" where
  "fresh_or_run w \<longleftrightarrow> (\<forall>p. pw_plan w = Some p \<longrightarrow> pst_phase (pl_status p) = [] \<or> begun p)"

lemma life_phases: "trace (life_step n edits analyses said) as v u \<Longrightarrow> fresh_or_run v \<Longrightarrow> fresh_or_run u"
proof (induction rule: trace.induct)
  case (trace_step as s t a u)
  from trace_step.hyps(2) trace_step.IH[OF trace_step.prems] show ?case
    by cases (auto simp: fresh_or_run_def empty_plan_status_def)
qed

text \<open>C27: in no run of the system, from no plan or from one just created, is a plan ever stored as pending approval, although it is created with that phase:
  creating drops the status. So the next proposal replaces the actions of any plan that is not running, also
  of one that a user has approved and that has not started yet, and withdraws the approval.\<close>

theorem pending_never_stored:
  assumes "trace (system_step libs n (\<lambda>_. True) (\<lambda>_. True) (\<lambda>_. True)) as v w"
    and "\<And>p. pw_plan (sw_life v) = Some p \<Longrightarrow> pl_status p = empty_plan_status" and "pw_plan (sw_life w) = Some p"
    and "pst_phase (pl_status p) \<noteq> ''running''" "kc_get_plan k h [] (ua_name ua @ ''-remediation'') = Inr p"
    and "plan_actions (risk_limit ua) actions \<noteq> []"
  shows "pst_phase (pl_status p) \<noteq> ''pending-approval'' \<and>
    (\<exists>q. calls_of (createRemediationPlan k ua actions) h = [Get_Plan [] (ua_name ua @ ''-remediation''), Update_Plan q] \<and>
       \<not> ps_approved (pl_spec q) \<and> ps_actions (pl_spec q) = plan_actions (risk_limit ua) actions)"
proof -
  have "trace (life_step n (\<lambda>_. True) (\<lambda>_. True) (\<lambda>_. True)) as (sw_life v) (sw_life w)"
    using system_lives[OF assms(1)] by (simp add: told_truly_def)
  moreover have "fresh_or_run (sw_life v)" using assms(2) by (auto simp: fresh_or_run_def empty_plan_status_def)
  ultimately have "fresh_or_run (sw_life w)" by (rule life_phases)
  then have phase: "pst_phase (pl_status p) \<in> {[], ''completed'', ''failed''}"
    using assms(3,4) by (auto simp: fresh_or_run_def begun_def)
  then have "replaceable (pst_phase (pl_status p))" by (auto simp: replaceable_def phase_defs)
  then show ?thesis
    unfolding createRemediationPlan_calls[of k ua actions h, folded remediation_of_def, unfolded Let_def, folded risk_limit_def]
    using assms(5,6) phase by (auto simp: new_plan_def)
qed

section \<open>A run\<close>

text \<open>The model's proposal is stored, a user approves it, and the plan controller runs it.\<close>

definition draft_plan :: remediation_plan where
  "draft_plan = sample_plan\<lparr>pl_spec := (pl_spec sample_plan)\<lparr>ps_approved := False\<rparr>\<rparr>"

lemma unread_follows: "list_all (\<lambda>c. \<forall>ns m. c \<noteq> Get_Plan ns m) cs \<Longrightarrow> follows k h o' cs"
proof (induction cs arbitrary: h o')
  case (Cons c cs)
  moreover have "plan_reads k h c o'" if "\<forall>ns m. c \<noteq> Get_Plan ns m" using that by (cases c) auto
  ultimately show ?case by simp
qed simp

abbreviation approve_sample :: "remediation_plan_spec \<Rightarrow> bool" where
  "approve_sample s \<equiv> s = pl_spec sample_plan"

abbreviation sample_system :: "actor \<Rightarrow> system_world \<Rightarrow> system_world \<Rightarrow> bool" where
  "sample_system \<equiv> system_step quiet_libs ''prod'' approve_sample (\<lambda>_. False) (\<lambda>_. False)"

definition drafted :: system_world where
  "drafted = \<lparr>sw_life = \<lparr>pw_plan = Some draft_plan, pw_acts = []\<rparr>, sw_memory = Map.empty\<rparr>"

lemma friendly_names: "answers_by_name (friendly p)"
  by (simp add: answers_by_name_def friendly_def silent_def)

lemma sample_steps:
  obtains u where "trace sample_system [Edit, Plan_Controller] drafted u"
    "pw_acts (sw_life u) = [Delete_Pod ''shop'' ''api-0'' None]"
proof -
  let ?life = "\<lparr>pw_plan = Some sample_plan, pw_acts = []\<rparr>" and ?k = "friendly sample_plan"
  let ?v = "\<lparr>sw_life = ?life, sw_memory = Map.empty\<rparr>"
  let ?calls = "calls_of (RemediationPlan_Reconcile ?k [] ''prod-remediation'') []"
  let ?u = "\<lparr>sw_life = after ?k [] ?calls ?life, sw_memory = Map.empty\<rparr>"
  have one: "sample_system Edit drafted ?v"
    using system_step.spec_edited[of drafted draft_plan approve_sample "pl_spec sample_plan"] by (simp add: drafted_def draft_plan_def)
  have "list_all (\<lambda>c. \<forall>ns m. c \<noteq> Get_Plan ns m) (tl ?calls)" "hd ?calls = Get_Plan [] ''prod-remediation''" "?calls \<noteq> []"
    unfolding reconcile_calls
    by (simp_all add: friendly_answers sample_actions calls_of_bind executeAction_split dispatch_def action_type_defs
        friendly_ops sample_action_def target_ns_def)
  then have "follows ?k [] (Some sample_plan) ?calls"
    by (cases ?calls) (simp_all add: unread_follows reads_def friendly_answers)
  then have two: "sample_system Plan_Controller ?v ?u"
    using system_step.plan_reconciled[of ?calls ?k "''prod''" "[]" ?v] friendly_names by simp
  have "pw_acts (sw_life ?u) = [Delete_Pod ''shop'' ''api-0'' None]" by (simp add: after_def sample_run)
  moreover have "trace sample_system ([] @ [Edit]) drafted ?v" using trace_none one by (rule trace_step)
  then have "trace sample_system (([] @ [Edit]) @ [Plan_Controller]) drafted ?u" using two by (rule trace_step)
  ultimately show thesis using that[of ?u] by simp
qed

theorem actions_granted_witness:
  "\<exists>u passes. trace sample_system [Edit, Plan_Controller] drafted u \<and> length passes = 1 \<and>
     concat passes = [Delete_Pod ''shop'' ''api-0'' None] \<and>
     (\<forall>cs\<in>set passes. \<exists>spec. one_pass spec [] cs \<and> granted ''prod'' approve_sample (\<lambda>_. False) (\<lambda>_. False) spec)"
proof -
  obtain u where u: "trace sample_system [Edit, Plan_Controller] drafted u"
    "pw_acts (sw_life u) = [Delete_Pod ''shop'' ''api-0'' None]"
    by (rule sample_steps)
  have "\<exists>passes. pw_acts (sw_life u) = concat passes \<and> length passes \<le> 1 + count_list [Edit, Plan_Controller] Deletion \<and>
      (\<forall>cs\<in>set passes. \<exists>spec. one_pass spec [] cs \<and> granted ''prod'' approve_sample (\<lambda>_. False) (\<lambda>_. False) spec)"
    by (rule actions_granted[OF u(1)]) (simp_all add: drafted_def remembered_def draft_plan_def sample_plan_def)
  then obtain passes where p: "concat passes = [Delete_Pod ''shop'' ''api-0'' None]" "length passes \<le> 1"
    "\<forall>cs\<in>set passes. \<exists>spec. one_pass spec [] cs \<and> granted ''prod'' approve_sample (\<lambda>_. False) (\<lambda>_. False) spec"
    using u(2) by auto
  then have "length passes = 1" by (cases passes) auto
  then show ?thesis using u(1) p by blast
qed

theorem system_refines_plans_witness:
  "\<exists>u. trace (life_step ''prod'' approve_sample (\<lambda>_. False) (\<lambda>_. False)) [Edit, Plan_Controller]
       \<lparr>pw_plan = Some draft_plan, pw_acts = []\<rparr> u \<and> pw_acts u = [Delete_Pod ''shop'' ''api-0'' None]"
proof -
  obtain u where u: "trace sample_system [Edit, Plan_Controller] drafted u"
    "pw_acts (sw_life u) = [Delete_Pod ''shop'' ''api-0'' None]"
    by (rule sample_steps)
  have "trace (life_step ''prod'' approve_sample (\<lambda>_. False) (\<lambda>_. False)) [Edit, Plan_Controller] (sw_life drafted) (sw_life u)"
    by (rule system_refines_plans[OF u(1)]) (simp add: drafted_def remembered_def)
  then show ?thesis using u(2) by (auto simp: drafted_def)
qed

text \<open>An approved plan that has not started yet loses its approval to the next proposal.\<close>

theorem pending_never_stored_witness:
  "ps_approved (pl_spec sample_plan) \<and>
   (\<exists>q. calls_of (createRemediationPlan (friendly sample_plan) sample_analysis [proposal ''low'']) [] =
      [Get_Plan [] ''prod-remediation'', Update_Plan q] \<and> \<not> ps_approved (pl_spec q))"
proof -
  let ?w = "\<lparr>sw_life = \<lparr>pw_plan = Some sample_plan, pw_acts = []\<rparr>, sw_memory = Map.empty\<rparr>"
  have "plan_actions (risk_limit sample_analysis) [proposal ''low''] \<noteq> []"
    by (simp add: plan_actions_eq riskWithin_def risk_order_def risk_level_defs sample_limit proposal_def)
  moreover have "pl_status sample_plan = empty_plan_status" by (simp add: sample_plan_def)
  ultimately show ?thesis
    using pending_never_stored[OF trace_none[of _ ?w], of sample_plan "friendly sample_plan" "[]" sample_analysis "[proposal ''low'']"]
    by (auto simp: friendly_answers sample_actions empty_plan_status_def sample_analysis_def)
qed

end
