(* ===== verification/Deep_Copy.thy ===== *)
theory Deep_Copy
  imports Api "HOL-Library.State_Monad" "HOL-Library.AList"
begin

text \<open>
  The deep copies of the custom resources, \<open>api/v1/zz_generated.deepcopy.go\<close>, over an explicit memory. Every object
  that the API client's cache hands out is such a copy, and the controllers write into it. The rest of the
  development treats objects as values; what justifies it is that a copy shares no memory with its original.

  The memory is a list of cells, an address a position in it. A pointer, a map and a slice are an address, or
  nil; a slice is its whole backing array. Structs are values, and so a pointer to a struct that is copied as a
  whole is the struct, or nil. Object and list metadata, conditions and \<open>metav1.Time\<close> belong to the API
  machinery, which is not in the repository: their representation \<open>'x\<close> and their copies are parameters.
\<close>

type_synonym addr = nat

section \<open>The structs in memory\<close>

record mem_action =
  ma_id :: string
  ma_type :: string
  ma_namespace :: string
  ma_name :: string
  ma_reason :: string
  ma_risk :: string
  ma_params :: "addr option"
  ma_skip :: bool

record mem_result =
  mr_id :: string
  mr_status :: string
  mr_error :: string
  mr_executed_at :: "addr option"

record mem_plan_spec =
  mps_analysis_ref :: string
  mps_approved :: bool
  mps_actions :: "addr option"

record mem_plan_status =
  mpt_phase :: string
  mpt_results :: "addr option"
  mpt_executed_at :: "addr option"
  mpt_completed_at :: "addr option"

text \<open>\<open>metav1.TypeMeta\<close>, which every object embeds, is two strings.\<close>

record 'x mem_plan =
  mp_type_meta :: "string \<times> string"
  mp_object_meta :: 'x
  mp_spec :: mem_plan_spec
  mp_status :: mem_plan_status

record 'x mem_plan_list =
  mpl_type_meta :: "string \<times> string"
  mpl_list_meta :: 'x
  mpl_items :: "addr option"

record mem_scope =
  msc_mode :: string
  msc_exclude_namespaces :: "addr option"

record mem_analysis_spec =
  mas_target_version :: string
  mas_scoring_profile :: string
  mas_scope :: mem_scope
  mas_source :: source_config
  mas_ai :: ai_config
  mas_resync :: resync_config

record mem_analysis_status =
  mat_conditions :: "addr option"
  mat_decision :: string
  mat_total_score :: int
  mat_reason :: string
  mat_last_analysis_time :: "addr option"
  mat_last_refresh :: string
  mat_observed_generation :: int
  mat_report_path :: string
  mat_report_state :: string
  mat_report_error :: string
  mat_report_location :: string
  mat_ai_score :: int
  mat_ai_reasoning :: string
  mat_ai_model :: string
  mat_ai_error :: string
  mat_addons_checked :: int
  mat_incompatible_addons :: int
  mat_last_total_pods :: int
  mat_last_total_restarts :: int

record 'x mem_analysis =
  man_type_meta :: "string \<times> string"
  man_object_meta :: 'x
  man_spec :: mem_analysis_spec
  man_status :: mem_analysis_status

record 'x mem_analysis_list =
  mal_type_meta :: "string \<times> string"
  mal_list_meta :: 'x
  mal_items :: "addr option"

record mem_mirror_spec =
  mms_scope :: mem_scope
  mms_refresh :: refresh_config
  mms_source :: source_config

record mem_mirror_status =
  mmt_conditions :: "addr option"
  mmt_components :: int
  mmt_edges :: int
  mmt_at_risk :: int
  mmt_last_sync :: "addr option"
  mmt_by_namespace :: "addr option"
  mmt_sync_error :: string
  mmt_report_location :: string
  mmt_report_state :: string
  mmt_report_error :: string
  mmt_observed_generation :: int

record 'x mem_mirror =
  mm_type_meta :: "string \<times> string"
  mm_object_meta :: 'x
  mm_spec :: mem_mirror_spec
  mm_status :: mem_mirror_status

record 'x mem_mirror_list =
  mml_type_meta :: "string \<times> string"
  mml_list_meta :: 'x
  mml_items :: "addr option"

datatype 'x cell =
  Time_Cell int
| Map_Cell strmap
| Strings_Cell "string list"
| Actions_Cell "mem_action list"
| Results_Cell "mem_result list"
| Namespaces_Cell "namespace_mirror_status list"
| Conditions_Cell "'x list"
| Plans_Cell "'x mem_plan list"
| Analyses_Cell "'x mem_analysis list"
| Mirrors_Cell "'x mem_mirror list"
| Library_Cell 'x

type_synonym 'x memory = "'x cell list"

fun map_in :: "'x cell \<Rightarrow> strmap" where "map_in (Map_Cell m) = m" | "map_in c = []"
fun strings_in :: "'x cell \<Rightarrow> string list" where "strings_in (Strings_Cell xs) = xs" | "strings_in c = []"
fun actions_in :: "'x cell \<Rightarrow> mem_action list" where "actions_in (Actions_Cell xs) = xs" | "actions_in c = []"
fun results_in :: "'x cell \<Rightarrow> mem_result list" where "results_in (Results_Cell xs) = xs" | "results_in c = []"
fun namespaces_in :: "'x cell \<Rightarrow> namespace_mirror_status list" where "namespaces_in (Namespaces_Cell xs) = xs" | "namespaces_in c = []"
fun conditions_in :: "'x cell \<Rightarrow> 'x list" where "conditions_in (Conditions_Cell xs) = xs" | "conditions_in c = []"
fun plans_in :: "'x cell \<Rightarrow> 'x mem_plan list" where "plans_in (Plans_Cell xs) = xs" | "plans_in c = []"
fun analyses_in :: "'x cell \<Rightarrow> 'x mem_analysis list" where "analyses_in (Analyses_Cell xs) = xs" | "analyses_in c = []"
fun mirrors_in :: "'x cell \<Rightarrow> 'x mem_mirror list" where "mirrors_in (Mirrors_Cell xs) = xs" | "mirrors_in c = []"

section \<open>Memory operations\<close>

definition load :: "addr \<Rightarrow> ('x memory, 'x cell) state" where
  "load a = State (\<lambda>h. (h ! a, h))"

definition alloc :: "'x cell \<Rightarrow> ('x memory, addr) state" where
  "alloc c = State (\<lambda>h. (length h, h @ [c]))"

definition write_cell :: "addr \<Rightarrow> 'x cell \<Rightarrow> ('x memory, unit) state" where
  "write_cell a c = State (\<lambda>h. ((), h[a := c]))"

text \<open>The copies of the API machinery: of metadata, of a condition, and of a time behind a pointer.\<close>

record 'x machinery =
  am_object_meta :: "'x \<Rightarrow> ('x memory, 'x) state"
  am_list_meta :: "'x \<Rightarrow> ('x memory, 'x) state"
  am_condition :: "'x \<Rightarrow> ('x memory, 'x) state"
  am_time :: "addr \<Rightarrow> ('x memory, addr) state"

section \<open>Copying what a field refers to\<close>

definition copy_time :: "'x machinery \<Rightarrow> addr option \<Rightarrow> ('x memory, addr option) state" where
  "copy_time lib p = (case p of
      None \<Rightarrow> State_Monad.return None
    | Some a \<Rightarrow> do { b \<leftarrow> am_time lib a; State_Monad.return (Some b) })"

text \<open>The loop over a map meets every key once, with its value; \<open>AList.update\<close> is the assignment to a key.\<close>

fun copy_entries :: "addr \<Rightarrow> strmap \<Rightarrow> ('x memory, unit) state" where
  "copy_entries b [] = State_Monad.return ()"
| "copy_entries b (e # es) = do {
     c \<leftarrow> load b;
     write_cell b (Map_Cell (AList.update (fst e) (snd e) (map_in c)));
     copy_entries b es
   }"

definition copy_map :: "addr option \<Rightarrow> ('x memory, addr option) state" where
  "copy_map p = (case p of
      None \<Rightarrow> State_Monad.return None
    | Some a \<Rightarrow> do {
        b \<leftarrow> alloc (Map_Cell []);
        c \<leftarrow> load a;
        copy_entries b (AList.clearjunk (map_in c));
        State_Monad.return (Some b)
      })"

text \<open>A slice whose elements hold no reference: \<open>make\<close> and \<open>copy\<close>.\<close>

definition copy_flat :: "('x cell \<Rightarrow> 'a list) \<Rightarrow> ('a list \<Rightarrow> 'x cell) \<Rightarrow> addr option \<Rightarrow> ('x memory, addr option) state" where
  "copy_flat get put p = (case p of
      None \<Rightarrow> State_Monad.return None
    | Some a \<Rightarrow> do {
        c \<leftarrow> load a;
        b \<leftarrow> alloc (put (get c));
        State_Monad.return (Some b)
      })"

text \<open>
  A slice whose elements are copied one by one into the new array. The elements that are not written yet
  are left out of the array instead of being zero values; nothing reads them.
\<close>

fun copy_elements :: "('x cell \<Rightarrow> 'a list) \<Rightarrow> ('a list \<Rightarrow> 'x cell) \<Rightarrow> ('a \<Rightarrow> ('x memory, 'a) state) \<Rightarrow> addr \<Rightarrow> 'a list
    \<Rightarrow> ('x memory, unit) state" where
  "copy_elements get put copy b [] = State_Monad.return ()"
| "copy_elements get put copy b (x # xs) = do {
     y \<leftarrow> copy x;
     c \<leftarrow> load b;
     write_cell b (put (get c @ [y]));
     copy_elements get put copy b xs
   }"

definition copy_slice :: "('x cell \<Rightarrow> 'a list) \<Rightarrow> ('a list \<Rightarrow> 'x cell) \<Rightarrow> ('a \<Rightarrow> ('x memory, 'a) state) \<Rightarrow> addr option
    \<Rightarrow> ('x memory, addr option) state" where
  "copy_slice get put copy p = (case p of
      None \<Rightarrow> State_Monad.return None
    | Some a \<Rightarrow> do {
        c \<leftarrow> load a;
        b \<leftarrow> alloc (put []);
        copy_elements get put copy b (get c);
        State_Monad.return (Some b)
      })"

section \<open>\<open>DeepCopyInto\<close>\<close>

text \<open>What the code writes into \<open>out\<close> is the result.\<close>

definition RemediationConfig_DeepCopyInto :: "remediation_config \<Rightarrow> ('x memory, remediation_config) state" where
  "RemediationConfig_DeepCopyInto x = State_Monad.return x"

definition AIConfig_DeepCopyInto :: "ai_config \<Rightarrow> ('x memory, ai_config) state" where
  "AIConfig_DeepCopyInto x = State_Monad.return (x\<lparr>aic_remediation := aic_remediation x\<rparr>)"

definition ResyncConfig_DeepCopyInto :: "resync_config \<Rightarrow> ('x memory, resync_config) state" where
  "ResyncConfig_DeepCopyInto x = State_Monad.return (x\<lparr>rsc_interval := rsc_interval x\<rparr>)"

definition RefreshConfig_DeepCopyInto :: "refresh_config \<Rightarrow> ('x memory, refresh_config) state" where
  "RefreshConfig_DeepCopyInto x = State_Monad.return (x\<lparr>rfc_interval := rfc_interval x\<rparr>)"

definition SourceConfig_DeepCopyInto :: "source_config \<Rightarrow> ('x memory, source_config) state" where
  "SourceConfig_DeepCopyInto x = State_Monad.return x"

definition NamespaceMirrorStatus_DeepCopyInto :: "namespace_mirror_status \<Rightarrow> ('x memory, namespace_mirror_status) state" where
  "NamespaceMirrorStatus_DeepCopyInto x = State_Monad.return x"

definition RemediationAction_DeepCopyInto :: "mem_action \<Rightarrow> ('x memory, mem_action) state" where
  "RemediationAction_DeepCopyInto x = do {
     p \<leftarrow> copy_map (ma_params x);
     State_Monad.return (x\<lparr>ma_params := p\<rparr>)
   }"

definition ActionResult_DeepCopyInto :: "'x machinery \<Rightarrow> mem_result \<Rightarrow> ('x memory, mem_result) state" where
  "ActionResult_DeepCopyInto lib x = do {
     t \<leftarrow> copy_time lib (mr_executed_at x);
     State_Monad.return (x\<lparr>mr_executed_at := t\<rparr>)
   }"

definition RemediationPlanSpec_DeepCopyInto :: "mem_plan_spec \<Rightarrow> ('x memory, mem_plan_spec) state" where
  "RemediationPlanSpec_DeepCopyInto x = do {
     a \<leftarrow> copy_slice actions_in Actions_Cell RemediationAction_DeepCopyInto (mps_actions x);
     State_Monad.return (x\<lparr>mps_actions := a\<rparr>)
   }"

definition RemediationPlanStatus_DeepCopyInto :: "'x machinery \<Rightarrow> mem_plan_status \<Rightarrow> ('x memory, mem_plan_status) state" where
  "RemediationPlanStatus_DeepCopyInto lib x = do {
     r \<leftarrow> copy_slice results_in Results_Cell (ActionResult_DeepCopyInto lib) (mpt_results x);
     e \<leftarrow> copy_time lib (mpt_executed_at x);
     c \<leftarrow> copy_time lib (mpt_completed_at x);
     State_Monad.return (x\<lparr>mpt_results := r, mpt_executed_at := e, mpt_completed_at := c\<rparr>)
   }"

definition RemediationPlan_DeepCopyInto :: "'x machinery \<Rightarrow> 'x mem_plan \<Rightarrow> ('x memory, 'x mem_plan) state" where
  "RemediationPlan_DeepCopyInto lib x = do {
     m \<leftarrow> am_object_meta lib (mp_object_meta x);
     s \<leftarrow> RemediationPlanSpec_DeepCopyInto (mp_spec x);
     t \<leftarrow> RemediationPlanStatus_DeepCopyInto lib (mp_status x);
     State_Monad.return (x\<lparr>mp_type_meta := mp_type_meta x, mp_object_meta := m, mp_spec := s, mp_status := t\<rparr>)
   }"

definition RemediationPlanList_DeepCopyInto :: "'x machinery \<Rightarrow> 'x mem_plan_list \<Rightarrow> ('x memory, 'x mem_plan_list) state" where
  "RemediationPlanList_DeepCopyInto lib x = do {
     m \<leftarrow> am_list_meta lib (mpl_list_meta x);
     i \<leftarrow> copy_slice plans_in Plans_Cell (RemediationPlan_DeepCopyInto lib) (mpl_items x);
     State_Monad.return (x\<lparr>mpl_type_meta := mpl_type_meta x, mpl_list_meta := m, mpl_items := i\<rparr>)
   }"

definition ScopeConfig_DeepCopyInto :: "mem_scope \<Rightarrow> ('x memory, mem_scope) state" where
  "ScopeConfig_DeepCopyInto x = do {
     e \<leftarrow> copy_flat strings_in Strings_Cell (msc_exclude_namespaces x);
     State_Monad.return (x\<lparr>msc_exclude_namespaces := e\<rparr>)
   }"

definition UpgradeAnalysisSpec_DeepCopyInto :: "mem_analysis_spec \<Rightarrow> ('x memory, mem_analysis_spec) state" where
  "UpgradeAnalysisSpec_DeepCopyInto x = do {
     s \<leftarrow> ScopeConfig_DeepCopyInto (mas_scope x);
     State_Monad.return (x\<lparr>mas_scope := s, mas_source := mas_source x, mas_ai := mas_ai x, mas_resync := mas_resync x\<rparr>)
   }"

definition UpgradeAnalysisStatus_DeepCopyInto :: "'x machinery \<Rightarrow> mem_analysis_status \<Rightarrow> ('x memory, mem_analysis_status) state" where
  "UpgradeAnalysisStatus_DeepCopyInto lib x = do {
     c \<leftarrow> copy_slice conditions_in Conditions_Cell (am_condition lib) (mat_conditions x);
     t \<leftarrow> copy_time lib (mat_last_analysis_time x);
     State_Monad.return (x\<lparr>mat_conditions := c, mat_last_analysis_time := t\<rparr>)
   }"

definition UpgradeAnalysis_DeepCopyInto :: "'x machinery \<Rightarrow> 'x mem_analysis \<Rightarrow> ('x memory, 'x mem_analysis) state" where
  "UpgradeAnalysis_DeepCopyInto lib x = do {
     m \<leftarrow> am_object_meta lib (man_object_meta x);
     s \<leftarrow> UpgradeAnalysisSpec_DeepCopyInto (man_spec x);
     t \<leftarrow> UpgradeAnalysisStatus_DeepCopyInto lib (man_status x);
     State_Monad.return (x\<lparr>man_type_meta := man_type_meta x, man_object_meta := m, man_spec := s, man_status := t\<rparr>)
   }"

definition UpgradeAnalysisList_DeepCopyInto :: "'x machinery \<Rightarrow> 'x mem_analysis_list \<Rightarrow> ('x memory, 'x mem_analysis_list) state" where
  "UpgradeAnalysisList_DeepCopyInto lib x = do {
     m \<leftarrow> am_list_meta lib (mal_list_meta x);
     i \<leftarrow> copy_slice analyses_in Analyses_Cell (UpgradeAnalysis_DeepCopyInto lib) (mal_items x);
     State_Monad.return (x\<lparr>mal_type_meta := mal_type_meta x, mal_list_meta := m, mal_items := i\<rparr>)
   }"

definition ClusterMirrorSpec_DeepCopyInto :: "mem_mirror_spec \<Rightarrow> ('x memory, mem_mirror_spec) state" where
  "ClusterMirrorSpec_DeepCopyInto x = do {
     s \<leftarrow> ScopeConfig_DeepCopyInto (mms_scope x);
     State_Monad.return (x\<lparr>mms_scope := s, mms_refresh := mms_refresh x, mms_source := mms_source x\<rparr>)
   }"

definition ClusterMirrorStatus_DeepCopyInto :: "'x machinery \<Rightarrow> mem_mirror_status \<Rightarrow> ('x memory, mem_mirror_status) state" where
  "ClusterMirrorStatus_DeepCopyInto lib x = do {
     c \<leftarrow> copy_slice conditions_in Conditions_Cell (am_condition lib) (mmt_conditions x);
     t \<leftarrow> copy_time lib (mmt_last_sync x);
     n \<leftarrow> copy_flat namespaces_in Namespaces_Cell (mmt_by_namespace x);
     State_Monad.return (x\<lparr>mmt_conditions := c, mmt_last_sync := t, mmt_by_namespace := n\<rparr>)
   }"

definition ClusterMirror_DeepCopyInto :: "'x machinery \<Rightarrow> 'x mem_mirror \<Rightarrow> ('x memory, 'x mem_mirror) state" where
  "ClusterMirror_DeepCopyInto lib x = do {
     m \<leftarrow> am_object_meta lib (mm_object_meta x);
     s \<leftarrow> ClusterMirrorSpec_DeepCopyInto (mm_spec x);
     t \<leftarrow> ClusterMirrorStatus_DeepCopyInto lib (mm_status x);
     State_Monad.return (x\<lparr>mm_type_meta := mm_type_meta x, mm_object_meta := m, mm_spec := s, mm_status := t\<rparr>)
   }"

definition ClusterMirrorList_DeepCopyInto :: "'x machinery \<Rightarrow> 'x mem_mirror_list \<Rightarrow> ('x memory, 'x mem_mirror_list) state" where
  "ClusterMirrorList_DeepCopyInto lib x = do {
     m \<leftarrow> am_list_meta lib (mml_list_meta x);
     i \<leftarrow> copy_slice mirrors_in Mirrors_Cell (ClusterMirror_DeepCopyInto lib) (mml_items x);
     State_Monad.return (x\<lparr>mml_type_meta := mml_type_meta x, mml_list_meta := m, mml_items := i\<rparr>)
   }"

section \<open>\<open>DeepCopy\<close>\<close>

text \<open>A nil receiver gives nil; otherwise a new struct is filled.\<close>

definition new_copy :: "('a \<Rightarrow> ('x memory, 'a) state) \<Rightarrow> 'a option \<Rightarrow> ('x memory, 'a option) state" where
  "new_copy copy p = (case p of
      None \<Rightarrow> State_Monad.return None
    | Some x \<Rightarrow> do { y \<leftarrow> copy x; State_Monad.return (Some y) })"

definition RemediationConfig_DeepCopy :: "remediation_config option \<Rightarrow> ('x memory, remediation_config option) state" where
  "RemediationConfig_DeepCopy = new_copy RemediationConfig_DeepCopyInto"

definition AIConfig_DeepCopy :: "ai_config option \<Rightarrow> ('x memory, ai_config option) state" where
  "AIConfig_DeepCopy = new_copy AIConfig_DeepCopyInto"

definition ResyncConfig_DeepCopy :: "resync_config option \<Rightarrow> ('x memory, resync_config option) state" where
  "ResyncConfig_DeepCopy = new_copy ResyncConfig_DeepCopyInto"

definition RefreshConfig_DeepCopy :: "refresh_config option \<Rightarrow> ('x memory, refresh_config option) state" where
  "RefreshConfig_DeepCopy = new_copy RefreshConfig_DeepCopyInto"

definition SourceConfig_DeepCopy :: "source_config option \<Rightarrow> ('x memory, source_config option) state" where
  "SourceConfig_DeepCopy = new_copy SourceConfig_DeepCopyInto"

definition NamespaceMirrorStatus_DeepCopy :: "namespace_mirror_status option \<Rightarrow> ('x memory, namespace_mirror_status option) state" where
  "NamespaceMirrorStatus_DeepCopy = new_copy NamespaceMirrorStatus_DeepCopyInto"

definition RemediationAction_DeepCopy :: "mem_action option \<Rightarrow> ('x memory, mem_action option) state" where
  "RemediationAction_DeepCopy = new_copy RemediationAction_DeepCopyInto"

definition ActionResult_DeepCopy :: "'x machinery \<Rightarrow> mem_result option \<Rightarrow> ('x memory, mem_result option) state" where
  "ActionResult_DeepCopy lib = new_copy (ActionResult_DeepCopyInto lib)"

definition RemediationPlanSpec_DeepCopy :: "mem_plan_spec option \<Rightarrow> ('x memory, mem_plan_spec option) state" where
  "RemediationPlanSpec_DeepCopy = new_copy RemediationPlanSpec_DeepCopyInto"

definition RemediationPlanStatus_DeepCopy :: "'x machinery \<Rightarrow> mem_plan_status option \<Rightarrow> ('x memory, mem_plan_status option) state" where
  "RemediationPlanStatus_DeepCopy lib = new_copy (RemediationPlanStatus_DeepCopyInto lib)"

definition RemediationPlan_DeepCopy :: "'x machinery \<Rightarrow> 'x mem_plan option \<Rightarrow> ('x memory, 'x mem_plan option) state" where
  "RemediationPlan_DeepCopy lib = new_copy (RemediationPlan_DeepCopyInto lib)"

definition RemediationPlanList_DeepCopy :: "'x machinery \<Rightarrow> 'x mem_plan_list option \<Rightarrow> ('x memory, 'x mem_plan_list option) state" where
  "RemediationPlanList_DeepCopy lib = new_copy (RemediationPlanList_DeepCopyInto lib)"

definition ScopeConfig_DeepCopy :: "mem_scope option \<Rightarrow> ('x memory, mem_scope option) state" where
  "ScopeConfig_DeepCopy = new_copy ScopeConfig_DeepCopyInto"

definition UpgradeAnalysisSpec_DeepCopy :: "mem_analysis_spec option \<Rightarrow> ('x memory, mem_analysis_spec option) state" where
  "UpgradeAnalysisSpec_DeepCopy = new_copy UpgradeAnalysisSpec_DeepCopyInto"

definition UpgradeAnalysisStatus_DeepCopy :: "'x machinery \<Rightarrow> mem_analysis_status option \<Rightarrow> ('x memory, mem_analysis_status option) state" where
  "UpgradeAnalysisStatus_DeepCopy lib = new_copy (UpgradeAnalysisStatus_DeepCopyInto lib)"

definition UpgradeAnalysis_DeepCopy :: "'x machinery \<Rightarrow> 'x mem_analysis option \<Rightarrow> ('x memory, 'x mem_analysis option) state" where
  "UpgradeAnalysis_DeepCopy lib = new_copy (UpgradeAnalysis_DeepCopyInto lib)"

definition UpgradeAnalysisList_DeepCopy :: "'x machinery \<Rightarrow> 'x mem_analysis_list option \<Rightarrow> ('x memory, 'x mem_analysis_list option) state" where
  "UpgradeAnalysisList_DeepCopy lib = new_copy (UpgradeAnalysisList_DeepCopyInto lib)"

definition ClusterMirrorSpec_DeepCopy :: "mem_mirror_spec option \<Rightarrow> ('x memory, mem_mirror_spec option) state" where
  "ClusterMirrorSpec_DeepCopy = new_copy ClusterMirrorSpec_DeepCopyInto"

definition ClusterMirrorStatus_DeepCopy :: "'x machinery \<Rightarrow> mem_mirror_status option \<Rightarrow> ('x memory, mem_mirror_status option) state" where
  "ClusterMirrorStatus_DeepCopy lib = new_copy (ClusterMirrorStatus_DeepCopyInto lib)"

definition ClusterMirror_DeepCopy :: "'x machinery \<Rightarrow> 'x mem_mirror option \<Rightarrow> ('x memory, 'x mem_mirror option) state" where
  "ClusterMirror_DeepCopy lib = new_copy (ClusterMirror_DeepCopyInto lib)"

definition ClusterMirrorList_DeepCopy :: "'x machinery \<Rightarrow> 'x mem_mirror_list option \<Rightarrow> ('x memory, 'x mem_mirror_list option) state" where
  "ClusterMirrorList_DeepCopy lib = new_copy (ClusterMirrorList_DeepCopyInto lib)"

section \<open>\<open>DeepCopyObject\<close>\<close>

text \<open>A value of the interface \<open>runtime.Object\<close>; nil is \<open>None\<close>.\<close>

datatype 'x object =
  Plan_Object "'x mem_plan"
| Plan_List_Object "'x mem_plan_list"
| Analysis_Object "'x mem_analysis"
| Analysis_List_Object "'x mem_analysis_list"
| Mirror_Object "'x mem_mirror"
| Mirror_List_Object "'x mem_mirror_list"

definition RemediationPlan_DeepCopyObject :: "'x machinery \<Rightarrow> 'x mem_plan option \<Rightarrow> ('x memory, 'x object option) state" where
  "RemediationPlan_DeepCopyObject lib p = do {
     c \<leftarrow> RemediationPlan_DeepCopy lib p;
     State_Monad.return (case c of Some y \<Rightarrow> Some (Plan_Object y) | None \<Rightarrow> None)
   }"

definition RemediationPlanList_DeepCopyObject :: "'x machinery \<Rightarrow> 'x mem_plan_list option \<Rightarrow> ('x memory, 'x object option) state" where
  "RemediationPlanList_DeepCopyObject lib p = do {
     c \<leftarrow> RemediationPlanList_DeepCopy lib p;
     State_Monad.return (case c of Some y \<Rightarrow> Some (Plan_List_Object y) | None \<Rightarrow> None)
   }"

definition UpgradeAnalysis_DeepCopyObject :: "'x machinery \<Rightarrow> 'x mem_analysis option \<Rightarrow> ('x memory, 'x object option) state" where
  "UpgradeAnalysis_DeepCopyObject lib p = do {
     c \<leftarrow> UpgradeAnalysis_DeepCopy lib p;
     State_Monad.return (case c of Some y \<Rightarrow> Some (Analysis_Object y) | None \<Rightarrow> None)
   }"

definition UpgradeAnalysisList_DeepCopyObject :: "'x machinery \<Rightarrow> 'x mem_analysis_list option \<Rightarrow> ('x memory, 'x object option) state" where
  "UpgradeAnalysisList_DeepCopyObject lib p = do {
     c \<leftarrow> UpgradeAnalysisList_DeepCopy lib p;
     State_Monad.return (case c of Some y \<Rightarrow> Some (Analysis_List_Object y) | None \<Rightarrow> None)
   }"

definition ClusterMirror_DeepCopyObject :: "'x machinery \<Rightarrow> 'x mem_mirror option \<Rightarrow> ('x memory, 'x object option) state" where
  "ClusterMirror_DeepCopyObject lib p = do {
     c \<leftarrow> ClusterMirror_DeepCopy lib p;
     State_Monad.return (case c of Some y \<Rightarrow> Some (Mirror_Object y) | None \<Rightarrow> None)
   }"

definition ClusterMirrorList_DeepCopyObject :: "'x machinery \<Rightarrow> 'x mem_mirror_list option \<Rightarrow> ('x memory, 'x object option) state" where
  "ClusterMirrorList_DeepCopyObject lib p = do {
     c \<leftarrow> ClusterMirrorList_DeepCopy lib p;
     State_Monad.return (case c of Some y \<Rightarrow> Some (Mirror_List_Object y) | None \<Rightarrow> None)
   }"

end
