(* ===== verification/Deep_Copy_Props.thy ===== *)
theory Deep_Copy_Props
  imports Deep_Copy "HOL-Library.Sublist"
begin

text \<open>
  That a deep copy is one: it reads the same as its original, and neither can be changed through the other. The
  contract is a locale; one rule per construct of the generated code gives it for every type.
\<close>

section \<open>The contract\<close>

text \<open>
  \<open>reading\<close> is what a value means in a memory, and \<open>refs\<close> are the cells it depends on. A copy only adds cells, and
  the new value depends on added cells alone.
\<close>

locale deep_copy =
  fixes copy :: "'a \<Rightarrow> ('x memory, 'a) state"
    and reading :: "'x memory \<Rightarrow> 'a \<Rightarrow> 'v"
    and refs :: "'x memory \<Rightarrow> 'a \<Rightarrow> addr set"
  assumes frame: "(\<And>i. i \<in> refs h x \<Longrightarrow> i < length g \<and> g ! i = h ! i) \<Longrightarrow> reading g x = reading h x \<and> refs g x = refs h x"
    and copies: "refs h x \<subseteq> {..<length h} \<Longrightarrow> run_state (copy x) h = (y, g) \<Longrightarrow>
      prefix h g \<and> reading g y = reading h x \<and> refs g y \<subseteq> {length h..<length g}"

text \<open>
  What the clients of a copy rely on: \<open>y\<close> in the memory \<open>g\<close> is a copy of \<open>x\<close> in \<open>h\<close>; writes into added cells never
  change \<open>x\<close>, and writes into the old cells never change \<open>y\<close>.
\<close>

definition isolated :: "('x memory \<Rightarrow> 'a \<Rightarrow> 'v) \<Rightarrow> 'x memory \<Rightarrow> 'a \<Rightarrow> 'x memory \<Rightarrow> 'a \<Rightarrow> bool" where
  "isolated reading h x g y \<longleftrightarrow> reading g y = reading h x \<and> prefix h g \<and>
     (\<forall>h'. prefix h h' \<longrightarrow> reading h' x = reading h x) \<and>
     (\<forall>h'. length g \<le> length h' \<longrightarrow> (\<forall>i \<in> {length h..<length g}. h' ! i = g ! i) \<longrightarrow> reading h' y = reading g y)"

lemma prefix_nth_eq: "prefix h g \<Longrightarrow> i < length h \<Longrightarrow> i < length g \<and> g ! i = h ! i"
  by (auto simp: prefix_def nth_append)

context deep_copy
begin

lemma grown: "refs h x \<subseteq> {..<length h} \<Longrightarrow> prefix h g \<Longrightarrow> reading g x = reading h x \<and> refs g x = refs h x"
  by (rule frame) (use prefix_nth_eq in blast)

lemma copy_isolated:
  assumes "refs h x \<subseteq> {..<length h}" "run_state (copy x) h = (y, g)"
  shows "isolated reading h x g y"
  unfolding isolated_def
proof (intro conjI allI impI)
  note c = copies[OF assms]
  show "reading g y = reading h x" "prefix h g" using c by simp_all
  show "reading h' x = reading h x" if "prefix h h'" for h' using grown[OF assms(1) that] by simp
  show "reading h' y = reading g y" if "length g \<le> length h'" "\<forall>i \<in> {length h..<length g}. h' ! i = g ! i" for h'
    using c that by (intro frame[THEN conjunct1]) auto
qed

end

section \<open>Rules\<close>

lemma deep_copy_flat: "deep_copy State_Monad.return (\<lambda>h x. x) (\<lambda>h x. {})"
  by unfold_locales simp_all

text \<open>The copy of two parts, one after the other.\<close>

definition copy_pair :: "('a \<Rightarrow> ('x memory, 'a) state) \<Rightarrow> ('b \<Rightarrow> ('x memory, 'b) state) \<Rightarrow> 'a \<times> 'b \<Rightarrow> ('x memory, 'a \<times> 'b) state" where
  "copy_pair c d p = do { a \<leftarrow> c (fst p); b \<leftarrow> d (snd p); State_Monad.return (a, b) }"

lemma deep_copy_pair:
  assumes "deep_copy c rc fc" "deep_copy d rd fd"
  shows "deep_copy (copy_pair c d) (\<lambda>h p. (rc h (fst p), rd h (snd p))) (\<lambda>h p. fc h (fst p) \<union> fd h (snd p))"
proof (rule deep_copy.intro)
  fix h x g
  assume "\<And>i. i \<in> fc h (fst x) \<union> fd h (snd x) \<Longrightarrow> i < length g \<and> g ! i = h ! i"
  then show "(rc g (fst x), rd g (snd x)) = (rc h (fst x), rd h (snd x)) \<and> fc g (fst x) \<union> fd g (snd x) = fc h (fst x) \<union> fd h (snd x)"
    using deep_copy.frame[OF assms(1), of h "fst x" g] deep_copy.frame[OF assms(2), of h "snd x" g] by simp
next
  fix h x y g
  assume wf: "fc h (fst x) \<union> fd h (snd x) \<subseteq> {..<length h}" and run: "run_state (copy_pair c d x) h = (y, g)"
  obtain a g1 where c: "run_state (c (fst x)) h = (a, g1)" by fastforce
  then obtain b where d: "run_state (d (snd x)) g1 = (b, g)" and y: "y = (a, b)"
    using run by (auto simp: copy_pair_def split: prod.splits)
  have fst: "prefix h g1" "rc g1 a = rc h (fst x)" "fc g1 a \<subseteq> {length h..<length g1}"
    using deep_copy.copies[OF assms(1) _ c] wf by auto
  have old: "rd g1 (snd x) = rd h (snd x)" "fd g1 (snd x) = fd h (snd x)"
    using deep_copy.grown[OF assms(2) _ fst(1), of "snd x"] wf by auto
  have len: "length h \<le> length g1" using fst(1) by (rule prefix_length_le)
  have "fd h (snd x) \<subseteq> {..<length g1}" using wf len by fastforce
  then have snd: "prefix g1 g" "rd g b = rd g1 (snd x)" "fd g b \<subseteq> {length g1..<length g}"
    using deep_copy.copies[OF assms(2) _ d] unfolding old(2) by simp_all
  have "fc g1 a \<subseteq> {..<length g1}" using fst(3) by fastforce
  then have "rc g a = rc g1 a" "fc g a = fc g1 a"
    using deep_copy.grown[OF assms(1) _ snd(1), of a] by simp_all
  then show "prefix h g \<and> (rc g (fst y), rd g (snd y)) = (rc h (fst x), rd h (snd x)) \<and> fc g (fst y) \<union> fd g (snd y) \<subseteq> {length h..<length g}"
    using fst snd old len prefix_length_le[OF snd(1)] prefix_order.order_trans[OF fst(1) snd(1)] by (auto simp: y)
qed

text \<open>A struct whose parts \<open>get\<close> are copied and put back into it.\<close>

lemma deep_copy_struct:
  assumes "deep_copy c rc fc" "\<And>x y. get (put x y) = y" "\<And>x y. flat (put x y) = flat x"
    and "\<And>x. copy x = do { y \<leftarrow> c (get x); State_Monad.return (put x y) }"
    and "\<And>h x. reading h x = (flat x, rc h (get x))" "\<And>h x. refs h x = fc h (get x)"
  shows "deep_copy copy reading refs"
proof (rule deep_copy.intro)
  fix h x g
  assume "\<And>i. i \<in> refs h x \<Longrightarrow> i < length g \<and> g ! i = h ! i"
  then show "reading g x = reading h x \<and> refs g x = refs h x"
    using deep_copy.frame[OF assms(1), of h "get x" g] by (simp add: assms(5,6))
next
  fix h x y g
  assume wf: "refs h x \<subseteq> {..<length h}" and run: "run_state (copy x) h = (y, g)"
  then obtain z where z: "run_state (c (get x)) h = (z, g)" "y = put x z"
    by (auto simp: assms(4) split: prod.splits)
  from deep_copy.copies[OF assms(1) _ z(1)] wf
  show "prefix h g \<and> reading g y = reading h x \<and> refs g y \<subseteq> {length h..<length g}"
    by (simp add: assms(2,3,5,6) z(2))
qed

text \<open>A pointer, and what \<open>DeepCopy\<close> makes of a receiver that may be nil.\<close>

lemma deep_copy_option:
  assumes "deep_copy c rc fc"
  shows "deep_copy (new_copy c) (\<lambda>h. map_option (rc h)) (\<lambda>h p. \<Union>(fc h ` set_option p))"
proof (rule deep_copy.intro)
  fix h p g
  assume "\<And>i. i \<in> \<Union>(fc h ` set_option p) \<Longrightarrow> i < length g \<and> g ! i = h ! i"
  then show "map_option (rc g) p = map_option (rc h) p \<and> \<Union>(fc g ` set_option p) = \<Union>(fc h ` set_option p)"
    using deep_copy.frame[OF assms, of h "the p" g] by (cases p) simp_all
next
  fix h p q g
  assume "\<Union>(fc h ` set_option p) \<subseteq> {..<length h}" "run_state (new_copy c p) h = (q, g)"
  then show "prefix h g \<and> map_option (rc g) q = map_option (rc h) p \<and> \<Union>(fc g ` set_option q) \<subseteq> {length h..<length g}"
    using deep_copy.copies[OF assms, of h "the p"] by (cases p) (auto simp: new_copy_def split: prod.splits)
qed

section \<open>Maps and slices\<close>

lemma runs [simp]: "run_state (load a) h = (h ! a, h)" "run_state (alloc c) h = (length h, h @ [c])"
  "run_state (write_cell a c) h = ((), h[a := c])"
  by (simp_all add: load_def alloc_def write_cell_def)

definition map_at :: "'x memory \<Rightarrow> addr option \<Rightarrow> (string \<rightharpoonup> string) option" where
  "map_at h p = map_option (\<lambda>a. map_of (map_in (h ! a))) p"

lemma copy_entries_run:
  assumes "distinct (map fst es)"
  shows "\<exists>m. snd (run_state (copy_entries (length h) es) (h @ [Map_Cell m0])) = h @ [Map_Cell m] \<and> map_of m = map_of m0 ++ map_of es"
  using assms
proof (induction es arbitrary: m0)
  case (Cons e es)
  obtain m where "snd (run_state (copy_entries (length h) es) (h @ [Map_Cell (AList.update (fst e) (snd e) m0)])) = h @ [Map_Cell m]"
    "map_of m = map_of (AList.update (fst e) (snd e) m0) ++ map_of es"
    using Cons by fastforce
  moreover have "fst e \<notin> dom (map_of es)" using Cons.prems by (auto simp: dom_map_of_conv_image_fst)
  ultimately show ?case
    using map_add_upd_left[of "fst e" "map_of es" "map_of m0" "snd e"] map_add_upd[of "map_of m0" "map_of es" "fst e" "snd e"]
    by (intro exI[of _ m]) (cases e, simp add: update_conv' fun_upd_def)
qed simp

lemma deep_copy_map: "deep_copy copy_map map_at (\<lambda>h p. set_option p)"
proof (rule deep_copy.intro)
  fix h :: "'x memory" and p g
  assume "\<And>i. i \<in> set_option p \<Longrightarrow> i < length g \<and> g ! i = h ! i"
  then show "map_at g p = map_at h p \<and> set_option p = set_option p" by (cases p) (simp_all add: map_at_def)
next
  fix h :: "'x memory" and p q g
  assume wf: "set_option p \<subseteq> {..<length h}" and run: "run_state (copy_map p) h = (q, g)"
  show "prefix h g \<and> map_at g q = map_at h p \<and> set_option q \<subseteq> {length h..<length g}"
  proof (cases p)
    case (Some a)
    let ?es = "AList.clearjunk (map_in (h ! a))"
    obtain m where m: "snd (run_state (copy_entries (length h) ?es) (h @ [Map_Cell []])) = h @ [Map_Cell m]"
      "map_of m = map_of [] ++ map_of ?es"
      using copy_entries_run[OF distinct_clearjunk] by blast
    have "(h @ [Map_Cell []]) ! a = h ! a" using wf Some by (simp add: nth_append)
    then have "q = Some (length h)" "g = h @ [Map_Cell m]"
      using run m(1) Some by (auto simp: copy_map_def split: prod.splits)
    then show ?thesis using m(2) Some by (simp add: map_at_def map_of_clearjunk)
  qed (use run in \<open>simp add: copy_map_def map_at_def\<close>)
qed

definition slice_at :: "('x cell \<Rightarrow> 'a list) \<Rightarrow> ('x memory \<Rightarrow> 'a \<Rightarrow> 'v) \<Rightarrow> 'x memory \<Rightarrow> addr option \<Rightarrow> 'v list option" where
  "slice_at get rd h p = map_option (\<lambda>a. map (rd h) (get (h ! a))) p"

definition slice_refs :: "('x cell \<Rightarrow> 'a list) \<Rightarrow> ('x memory \<Rightarrow> 'a \<Rightarrow> addr set) \<Rightarrow> 'x memory \<Rightarrow> addr option \<Rightarrow> addr set" where
  "slice_refs get fc h p = (\<Union>a \<in> set_option p. insert a (\<Union>x \<in> set (get (h ! a)). fc h x))"

lemma slice_frame:
  assumes "deep_copy c rd fc" "\<And>i. i \<in> slice_refs get fc h p \<Longrightarrow> i < length g \<and> g ! i = h ! i"
  shows "slice_at get rd g p = slice_at get rd h p \<and> slice_refs get fc g p = slice_refs get fc h p"
proof (cases p)
  case (Some a)
  then have "g ! a = h ! a" using assms(2)[of a] by (simp add: slice_refs_def)
  moreover have "rd g x = rd h x \<and> fc g x = fc h x" if "x \<in> set (get (h ! a))" for x
    using that Some by (intro deep_copy.frame[OF assms(1)] assms(2)) (auto simp: slice_refs_def)
  ultimately show ?thesis using Some by (simp add: slice_at_def slice_refs_def)
qed (simp add: slice_at_def slice_refs_def)

lemma deep_copy_array:
  assumes "\<And>xs. get (put xs) = xs"
  shows "deep_copy (copy_flat get put) (slice_at get (\<lambda>h x. x)) (slice_refs get (\<lambda>h x. {}))"
proof (rule deep_copy.intro)
  fix h p g
  assume "\<And>i. i \<in> slice_refs get (\<lambda>h x. {}) h p \<Longrightarrow> i < length g \<and> g ! i = h ! i"
  then show "slice_at get (\<lambda>h x. x) g p = slice_at get (\<lambda>h x. x) h p \<and> slice_refs get (\<lambda>h x. {}) g p = slice_refs get (\<lambda>h x. {}) h p"
    by (rule slice_frame[OF deep_copy_flat])
next
  fix h p q g
  assume "slice_refs get (\<lambda>h x. {}) h p \<subseteq> {..<length h}" "run_state (copy_flat get put p) h = (q, g)"
  then show "prefix h g \<and> slice_at get (\<lambda>h x. x) g q = slice_at get (\<lambda>h x. x) h p \<and> slice_refs get (\<lambda>h x. {}) g q \<subseteq> {length h..<length g}"
    by (cases p) (auto simp: copy_flat_def slice_at_def slice_refs_def assms)
qed

text \<open>The loop over the elements, in a memory \<open>h\<close> that has the new array \<open>b\<close>: the array grows by a copy of each, and
  no other cell changes.\<close>

definition element_copies :: "('x memory \<Rightarrow> 'a \<Rightarrow> 'v) \<Rightarrow> ('x memory \<Rightarrow> 'a \<Rightarrow> addr set) \<Rightarrow> 'x memory \<Rightarrow> 'a list \<Rightarrow> 'x memory \<Rightarrow> 'a list \<Rightarrow> bool" where
  "element_copies rd fc h xs g ys \<longleftrightarrow> list_all2 (\<lambda>x y. rd g y = rd h x \<and> fc g y \<subseteq> {length h..<length g}) xs ys"

definition kept_but :: "addr \<Rightarrow> 'x memory \<Rightarrow> 'x memory \<Rightarrow> bool" where
  "kept_but b h g \<longleftrightarrow> length h \<le> length g \<and> (\<forall>i < length h. i \<noteq> b \<longrightarrow> g ! i = h ! i)"

lemma kept_reading:
  assumes "deep_copy c rd fc" "kept_but b h g" "fc h x \<subseteq> {..<length h} - {b}"
  shows "rd g x = rd h x \<and> fc g x = fc h x"
  by (rule deep_copy.frame[OF assms(1)]) (use assms(2,3) in \<open>auto simp: kept_but_def subset_iff\<close>)

lemma copy_elements_run:
  assumes "deep_copy c rd fc" "\<And>xs. get (put xs) = xs" "b < length h" "\<And>x. x \<in> set xs \<Longrightarrow> fc h x \<subseteq> {..<length h} - {b}"
    and "snd (run_state (copy_elements get put c b xs) h) = g"
  shows "kept_but b h g \<and> (\<exists>ys. get (g ! b) = get (h ! b) @ ys \<and> element_copies rd fc h xs g ys)"
  using assms(3-5)
proof (induction xs arbitrary: h)
  case Nil
  then show ?case by (simp add: kept_but_def element_copies_def)
next
  case (Cons x xs)
  obtain y h1 where y: "run_state (c x) h = (y, h1)" by fastforce
  have wf: "fc h x \<subseteq> {..<length h}" using Cons.prems(2)[of x] by auto
  have h1: "prefix h h1" "rd h1 y = rd h x" "fc h1 y \<subseteq> {length h..<length h1}"
    using deep_copy.copies[OF assms(1) wf y] by simp_all
  define h2 where "h2 = h1[b := put (get (h1 ! b) @ [y])]"
  have len: "length h \<le> length h1" "length h2 = length h1" using prefix_length_le[OF h1(1)] by (simp_all add: h2_def)
  have k12: "kept_but b h1 h2" by (simp add: kept_but_def h2_def)
  have k2: "kept_but b h h2"
    using len prefix_nth_eq[OF h1(1)] by (auto simp: kept_but_def h2_def)
  have b: "b < length h2" "get (h2 ! b) = get (h ! b) @ [y]"
    using Cons.prems(1) len prefix_nth_eq[OF h1(1) Cons.prems(1)] by (auto simp: h2_def assms(2))
  have olds: "rd h2 x' = rd h x' \<and> fc h2 x' = fc h x'" if "x' \<in> set xs" for x'
    using kept_reading[OF assms(1) k2] Cons.prems(2) that by simp
  have "fc h2 x' \<subseteq> {..<length h2} - {b}" if "x' \<in> set xs" for x'
    using olds[OF that] Cons.prems(2)[of x'] that len by fastforce
  moreover have "snd (run_state (copy_elements get put c b xs) h2) = g"
    using Cons.prems(3) by (simp add: y h2_def)
  ultimately obtain ys where IH: "kept_but b h2 g" "get (g ! b) = get (h2 ! b) @ ys" "element_copies rd fc h2 xs g ys"
    using Cons.IH[OF b(1)] by blast
  have y1: "fc h1 y \<subseteq> {..<length h1} - {b}" using h1(3) Cons.prems(1) by auto
  note y2 = kept_reading[OF assms(1) k12 y1]
  have "fc h2 y \<subseteq> {..<length h2} - {b}" using y1 y2 len by simp
  note y3 = kept_reading[OF assms(1) IH(1) this]
  have "kept_but b h g" using k2 IH(1) by (auto simp: kept_but_def)
  moreover have "element_copies rd fc h (x # xs) g (y # ys)"
  proof -
    have "length h2 \<le> length g" using IH(1) by (simp add: kept_but_def)
    then have "rd g y = rd h x \<and> fc g y \<subseteq> {length h..<length g}"
      using y2 y3 h1(2,3) len by fastforce
    moreover have "element_copies rd fc h xs g ys"
      using IH(3) olds len unfolding element_copies_def list_all2_conv_all_nth
      by (auto simp: subset_iff intro: le_trans[OF len(1)])
    ultimately show ?thesis by (simp add: element_copies_def)
  qed
  ultimately show ?case using IH(2) b(2) by (intro conjI exI[of _ "y # ys"]) simp_all
qed

lemma deep_copy_slice:
  assumes "deep_copy c rd fc" "\<And>xs. get (put xs) = xs"
  shows "deep_copy (copy_slice get put c) (slice_at get rd) (slice_refs get fc)"
proof (rule deep_copy.intro)
  show "slice_at get rd g p = slice_at get rd h p \<and> slice_refs get fc g p = slice_refs get fc h p"
    if "\<And>i. i \<in> slice_refs get fc h p \<Longrightarrow> i < length g \<and> g ! i = h ! i" for h p g
    using that by (rule slice_frame[OF assms(1)])
next
  fix h p q g
  assume wf: "slice_refs get fc h p \<subseteq> {..<length h}" and run: "run_state (copy_slice get put c p) h = (q, g)"
  show "prefix h g \<and> slice_at get rd g q = slice_at get rd h p \<and> slice_refs get fc g q \<subseteq> {length h..<length g}"
  proof (cases p)
    case None
    then show ?thesis using run by (simp add: copy_slice_def slice_at_def slice_refs_def)
  next
    case (Some a)
    let ?xs = "get (h ! a)" and ?h1 = "h @ [put []]"
    have g: "q = Some (length h)" "snd (run_state (copy_elements get put c (length h) ?xs) ?h1) = g"
      using run Some by (auto simp: copy_slice_def split: prod.splits)
    have wf': "fc h x \<subseteq> {..<length h}" if "x \<in> set ?xs" for x using wf that Some by (auto simp: slice_refs_def)
    have grown: "rd ?h1 x = rd h x \<and> fc ?h1 x = fc h x" if "x \<in> set ?xs" for x
      by (rule deep_copy.grown[OF assms(1) wf'[OF that]]) simp
    have "fc ?h1 x \<subseteq> {..<length ?h1} - {length h}" if "x \<in> set ?xs" for x
      using grown[OF that] wf'[OF that] by auto
    from copy_elements_run[OF assms _ this g(2)] obtain ys where ys: "kept_but (length h) ?h1 g" "get (g ! length h) = ys"
      "element_copies rd fc ?h1 ?xs g ys"
      by (auto simp: assms(2))
    have "prefix h g"
    proof -
      have "take (length h) g = h"
        using ys(1) by (intro nth_equalityI) (auto simp: kept_but_def nth_append)
      then show ?thesis by (metis take_is_prefix)
    qed
    moreover have "map (rd g) ys = map (rd h) ?xs" "\<forall>y \<in> set ys. fc g y \<subseteq> {length h..<length g}"
      using ys(3) grown unfolding element_copies_def list_all2_conv_all_nth
      by (auto intro!: nth_equalityI simp: in_set_conv_nth subset_iff) (metis Suc_leD atLeastLessThan_iff)+
    moreover have "length h < length g" using ys(1) by (simp add: kept_but_def)
    ultimately show ?thesis using Some g(1) ys(2) by (auto simp: slice_at_def slice_refs_def)
  qed
qed

section \<open>The types\<close>

definition time_at :: "'x memory \<Rightarrow> addr option \<Rightarrow> 'x cell option" where
  "time_at h p = map_option (\<lambda>a. h ! a) p"

text \<open>
  The copies of the API machinery, as documented: \<open>rd\<close> is what a value of its types means and \<open>fc\<close> the cells it
  depends on; \<open>metav1.Time\<close> has one cell.
\<close>

definition machinery_ok :: "'x machinery \<Rightarrow> ('x memory \<Rightarrow> 'x \<Rightarrow> 'v) \<Rightarrow> ('x memory \<Rightarrow> 'x \<Rightarrow> addr set) \<Rightarrow> bool" where
  "machinery_ok lib rd fc \<longleftrightarrow> deep_copy (am_object_meta lib) rd fc \<and> deep_copy (am_list_meta lib) rd fc \<and>
     deep_copy (am_condition lib) rd fc \<and> deep_copy (am_time lib) (\<lambda>h a. h ! a) (\<lambda>h a. {a})"

lemma deep_copy_time:
  fixes lib :: "'x machinery"
  assumes "machinery_ok lib rd fc"
  shows "deep_copy (copy_time lib) time_at (\<lambda>h p. set_option p)"
proof -
  have "deep_copy (new_copy (am_time lib)) (\<lambda>h. map_option (\<lambda>a. h ! a)) (\<lambda>h p. \<Union>((\<lambda>a. {a}) ` set_option p))"
    using assms by (intro deep_copy_option) (simp add: machinery_ok_def)
  moreover have "new_copy (am_time lib) = copy_time lib" by (simp add: fun_eq_iff new_copy_def copy_time_def)
  moreover have "(time_at :: 'x memory \<Rightarrow> _) = (\<lambda>h. map_option (\<lambda>a. h ! a))" by (simp add: fun_eq_iff time_at_def)
  ultimately show ?thesis by simp
qed

lemma machinery_parts:
  assumes "machinery_ok lib rd fc"
  shows "deep_copy (am_object_meta lib) rd fc" "deep_copy (am_list_meta lib) rd fc" "deep_copy (am_condition lib) rd fc"
  using assms by (simp_all add: machinery_ok_def)

text \<open>
  A struct means its own fields, with its references taken out, and what these refer to; its cells are those of its
  references.
\<close>

definition read_action where
  "read_action h x = (x\<lparr>ma_params := None\<rparr>, map_at h (ma_params x))"

definition refs_action where
  "refs_action h x = set_option (ma_params x)"

interpretation action_copy: deep_copy RemediationAction_DeepCopyInto read_action refs_action
  by (rule deep_copy_struct[OF deep_copy_map,
      where get = "ma_params"
        and put = "\<lambda>x a. x\<lparr>ma_params := a\<rparr>"
        and flat = "\<lambda>x. x\<lparr>ma_params := None\<rparr>"])
    (simp_all add: RemediationAction_DeepCopyInto_def read_action_def refs_action_def copy_pair_def Un_assoc split: prod.splits)

definition read_result where
  "read_result h x = (x\<lparr>mr_executed_at := None\<rparr>, time_at h (mr_executed_at x))"

definition refs_result where
  "refs_result h x = set_option (mr_executed_at x)"

lemma result_copy:
  assumes "machinery_ok lib rd fc"
  shows "deep_copy (ActionResult_DeepCopyInto lib) read_result refs_result"
proof -
  note machinery = machinery_parts[OF assms]
  show ?thesis
    by (rule deep_copy_struct[OF deep_copy_time[OF assms],
        where get = "mr_executed_at"
          and put = "\<lambda>x a. x\<lparr>mr_executed_at := a\<rparr>"
          and flat = "\<lambda>x. x\<lparr>mr_executed_at := None\<rparr>"])
      (simp_all add: ActionResult_DeepCopyInto_def read_result_def refs_result_def copy_pair_def Un_assoc split: prod.splits)
qed

definition read_plan_spec where
  "read_plan_spec h x = (x\<lparr>mps_actions := None\<rparr>, slice_at actions_in read_action h (mps_actions x))"

definition refs_plan_spec where
  "refs_plan_spec h x = slice_refs actions_in refs_action h (mps_actions x)"

interpretation plan_spec_copy: deep_copy RemediationPlanSpec_DeepCopyInto read_plan_spec refs_plan_spec
  by (rule deep_copy_struct[OF deep_copy_slice[OF action_copy.deep_copy_axioms, of actions_in Actions_Cell, OF actions_in.simps(1)],
      where get = "mps_actions"
        and put = "\<lambda>x a. x\<lparr>mps_actions := a\<rparr>"
        and flat = "\<lambda>x. x\<lparr>mps_actions := None\<rparr>"])
    (simp_all add: RemediationPlanSpec_DeepCopyInto_def read_plan_spec_def refs_plan_spec_def copy_pair_def Un_assoc split: prod.splits)

definition read_plan_status where
  "read_plan_status h x = (x\<lparr>mpt_results := None, mpt_executed_at := None, mpt_completed_at := None\<rparr>,
     slice_at results_in read_result h (mpt_results x),
     time_at h (mpt_executed_at x),
     time_at h (mpt_completed_at x))"

definition refs_plan_status where
  "refs_plan_status h x = slice_refs results_in refs_result h (mpt_results x)
     \<union> set_option (mpt_executed_at x)
     \<union> set_option (mpt_completed_at x)"

lemma plan_status_copy:
  assumes "machinery_ok lib rd fc"
  shows "deep_copy (RemediationPlanStatus_DeepCopyInto lib) read_plan_status refs_plan_status"
proof -
  note machinery = machinery_parts[OF assms]
  show ?thesis
    by (rule deep_copy_struct[OF
      deep_copy_pair[OF deep_copy_slice[OF result_copy[OF assms], of results_in Results_Cell, OF results_in.simps(1)] 
      deep_copy_pair[OF deep_copy_time[OF assms] deep_copy_time[OF assms]]],
        where get = "\<lambda>x. (mpt_results x, mpt_executed_at x, mpt_completed_at x)"
          and put = "\<lambda>x (a, b, c). x\<lparr>mpt_results := a, mpt_executed_at := b, mpt_completed_at := c\<rparr>"
          and flat = "\<lambda>x. x\<lparr>mpt_results := None, mpt_executed_at := None, mpt_completed_at := None\<rparr>"])
      (simp_all add: RemediationPlanStatus_DeepCopyInto_def read_plan_status_def refs_plan_status_def copy_pair_def Un_assoc split: prod.splits)
qed

definition read_plan where
  "read_plan rd h x = (mp_type_meta x, rd h (mp_object_meta x),
     read_plan_spec h (mp_spec x),
     read_plan_status h (mp_status x))"

definition refs_plan where
  "refs_plan fc h x = fc h (mp_object_meta x) \<union> refs_plan_spec h (mp_spec x) \<union> refs_plan_status h (mp_status x)"

lemma plan_copy:
  assumes "machinery_ok lib rd fc"
  shows "deep_copy (RemediationPlan_DeepCopyInto lib) (read_plan rd) (refs_plan fc)"
proof -
  note machinery = machinery_parts[OF assms]
  show ?thesis
    by (rule deep_copy_struct[OF
      deep_copy_pair[OF machinery(1) 
      deep_copy_pair[OF plan_spec_copy.deep_copy_axioms plan_status_copy[OF assms]]],
        where get = "\<lambda>x. (mp_object_meta x, mp_spec x, mp_status x)"
          and put = "\<lambda>x (a, b, c). x\<lparr>mp_object_meta := a, mp_spec := b, mp_status := c\<rparr>"
          and flat = "\<lambda>x. mp_type_meta x"])
      (simp_all add: RemediationPlan_DeepCopyInto_def read_plan_def refs_plan_def copy_pair_def Un_assoc split: prod.splits)
qed

definition read_plan_list where
  "read_plan_list rd h x = (mpl_type_meta x, rd h (mpl_list_meta x),
     slice_at plans_in (read_plan rd) h (mpl_items x))"

definition refs_plan_list where
  "refs_plan_list fc h x = fc h (mpl_list_meta x) \<union> slice_refs plans_in (refs_plan fc) h (mpl_items x)"

lemma plan_list_copy:
  assumes "machinery_ok lib rd fc"
  shows "deep_copy (RemediationPlanList_DeepCopyInto lib) (read_plan_list rd) (refs_plan_list fc)"
proof -
  note machinery = machinery_parts[OF assms]
  show ?thesis
    by (rule deep_copy_struct[OF
      deep_copy_pair[OF machinery(2) deep_copy_slice[OF plan_copy[OF assms], of plans_in Plans_Cell, OF plans_in.simps(1)]],
        where get = "\<lambda>x. (mpl_list_meta x, mpl_items x)"
          and put = "\<lambda>x (a, b). x\<lparr>mpl_list_meta := a, mpl_items := b\<rparr>"
          and flat = "\<lambda>x. mpl_type_meta x"])
      (simp_all add: RemediationPlanList_DeepCopyInto_def read_plan_list_def refs_plan_list_def copy_pair_def Un_assoc split: prod.splits)
qed

definition read_scope where
  "read_scope h x = (x\<lparr>msc_exclude_namespaces := None\<rparr>,
     slice_at strings_in (\<lambda>h x. x) h (msc_exclude_namespaces x))"

definition refs_scope where
  "refs_scope h x = slice_refs strings_in (\<lambda>h x. {}) h (msc_exclude_namespaces x)"

interpretation scope_copy: deep_copy ScopeConfig_DeepCopyInto read_scope refs_scope
  by (rule deep_copy_struct[OF deep_copy_array[of strings_in Strings_Cell, OF strings_in.simps(1)],
      where get = "msc_exclude_namespaces"
        and put = "\<lambda>x a. x\<lparr>msc_exclude_namespaces := a\<rparr>"
        and flat = "\<lambda>x. x\<lparr>msc_exclude_namespaces := None\<rparr>"])
    (simp_all add: ScopeConfig_DeepCopyInto_def read_scope_def refs_scope_def copy_pair_def Un_assoc split: prod.splits)

definition read_analysis_spec where
  "read_analysis_spec h x = ((mas_target_version x, mas_scoring_profile x, mas_source x, mas_ai x, mas_resync x), read_scope h (mas_scope x))"

definition refs_analysis_spec where
  "refs_analysis_spec h x = refs_scope h (mas_scope x)"

interpretation analysis_spec_copy: deep_copy UpgradeAnalysisSpec_DeepCopyInto read_analysis_spec refs_analysis_spec
  by (rule deep_copy_struct[OF scope_copy.deep_copy_axioms,
      where get = "mas_scope"
        and put = "\<lambda>x a. x\<lparr>mas_scope := a\<rparr>"
        and flat = "\<lambda>x. (mas_target_version x, mas_scoring_profile x, mas_source x, mas_ai x, mas_resync x)"])
    (simp_all add: UpgradeAnalysisSpec_DeepCopyInto_def read_analysis_spec_def refs_analysis_spec_def copy_pair_def Un_assoc split: prod.splits)

definition read_analysis_status where
  "read_analysis_status rd h x = (x\<lparr>mat_conditions := None, mat_last_analysis_time := None\<rparr>,
     slice_at conditions_in rd h (mat_conditions x),
     time_at h (mat_last_analysis_time x))"

definition refs_analysis_status where
  "refs_analysis_status fc h x = slice_refs conditions_in fc h (mat_conditions x) \<union> set_option (mat_last_analysis_time x)"

lemma analysis_status_copy:
  assumes "machinery_ok lib rd fc"
  shows "deep_copy (UpgradeAnalysisStatus_DeepCopyInto lib) (read_analysis_status rd) (refs_analysis_status fc)"
proof -
  note machinery = machinery_parts[OF assms]
  show ?thesis
    by (rule deep_copy_struct[OF
      deep_copy_pair[OF deep_copy_slice[OF machinery(3), of conditions_in Conditions_Cell, OF conditions_in.simps(1)] deep_copy_time[OF assms]],
        where get = "\<lambda>x. (mat_conditions x, mat_last_analysis_time x)"
          and put = "\<lambda>x (a, b). x\<lparr>mat_conditions := a, mat_last_analysis_time := b\<rparr>"
          and flat = "\<lambda>x. x\<lparr>mat_conditions := None, mat_last_analysis_time := None\<rparr>"])
      (simp_all add: UpgradeAnalysisStatus_DeepCopyInto_def read_analysis_status_def refs_analysis_status_def copy_pair_def Un_assoc split: prod.splits)
qed

definition read_analysis where
  "read_analysis rd h x = (man_type_meta x, rd h (man_object_meta x),
     read_analysis_spec h (man_spec x),
     read_analysis_status rd h (man_status x))"

definition refs_analysis where
  "refs_analysis fc h x = fc h (man_object_meta x) \<union> refs_analysis_spec h (man_spec x) \<union> refs_analysis_status fc h (man_status x)"

lemma analysis_copy:
  assumes "machinery_ok lib rd fc"
  shows "deep_copy (UpgradeAnalysis_DeepCopyInto lib) (read_analysis rd) (refs_analysis fc)"
proof -
  note machinery = machinery_parts[OF assms]
  show ?thesis
    by (rule deep_copy_struct[OF
      deep_copy_pair[OF machinery(1) 
      deep_copy_pair[OF analysis_spec_copy.deep_copy_axioms analysis_status_copy[OF assms]]],
        where get = "\<lambda>x. (man_object_meta x, man_spec x, man_status x)"
          and put = "\<lambda>x (a, b, c). x\<lparr>man_object_meta := a, man_spec := b, man_status := c\<rparr>"
          and flat = "\<lambda>x. man_type_meta x"])
      (simp_all add: UpgradeAnalysis_DeepCopyInto_def read_analysis_def refs_analysis_def copy_pair_def Un_assoc split: prod.splits)
qed

definition read_analysis_list where
  "read_analysis_list rd h x = (mal_type_meta x, rd h (mal_list_meta x),
     slice_at analyses_in (read_analysis rd) h (mal_items x))"

definition refs_analysis_list where
  "refs_analysis_list fc h x = fc h (mal_list_meta x) \<union> slice_refs analyses_in (refs_analysis fc) h (mal_items x)"

lemma analysis_list_copy:
  assumes "machinery_ok lib rd fc"
  shows "deep_copy (UpgradeAnalysisList_DeepCopyInto lib) (read_analysis_list rd) (refs_analysis_list fc)"
proof -
  note machinery = machinery_parts[OF assms]
  show ?thesis
    by (rule deep_copy_struct[OF
      deep_copy_pair[OF machinery(2) deep_copy_slice[OF analysis_copy[OF assms], of analyses_in Analyses_Cell, OF analyses_in.simps(1)]],
        where get = "\<lambda>x. (mal_list_meta x, mal_items x)"
          and put = "\<lambda>x (a, b). x\<lparr>mal_list_meta := a, mal_items := b\<rparr>"
          and flat = "\<lambda>x. mal_type_meta x"])
      (simp_all add: UpgradeAnalysisList_DeepCopyInto_def read_analysis_list_def refs_analysis_list_def copy_pair_def Un_assoc split: prod.splits)
qed

definition read_mirror_spec where
  "read_mirror_spec h x = ((mms_refresh x, mms_source x), read_scope h (mms_scope x))"

definition refs_mirror_spec where
  "refs_mirror_spec h x = refs_scope h (mms_scope x)"

interpretation mirror_spec_copy: deep_copy ClusterMirrorSpec_DeepCopyInto read_mirror_spec refs_mirror_spec
  by (rule deep_copy_struct[OF scope_copy.deep_copy_axioms,
      where get = "mms_scope"
        and put = "\<lambda>x a. x\<lparr>mms_scope := a\<rparr>"
        and flat = "\<lambda>x. (mms_refresh x, mms_source x)"])
    (simp_all add: ClusterMirrorSpec_DeepCopyInto_def read_mirror_spec_def refs_mirror_spec_def copy_pair_def Un_assoc split: prod.splits)

definition read_mirror_status where
  "read_mirror_status rd h x = (x\<lparr>mmt_conditions := None, mmt_last_sync := None, mmt_by_namespace := None\<rparr>,
     slice_at conditions_in rd h (mmt_conditions x),
     time_at h (mmt_last_sync x),
     slice_at namespaces_in (\<lambda>h x. x) h (mmt_by_namespace x))"

definition refs_mirror_status where
  "refs_mirror_status fc h x = slice_refs conditions_in fc h (mmt_conditions x)
     \<union> set_option (mmt_last_sync x)
     \<union> slice_refs namespaces_in (\<lambda>h x. {}) h (mmt_by_namespace x)"

lemma mirror_status_copy:
  assumes "machinery_ok lib rd fc"
  shows "deep_copy (ClusterMirrorStatus_DeepCopyInto lib) (read_mirror_status rd) (refs_mirror_status fc)"
proof -
  note machinery = machinery_parts[OF assms]
  show ?thesis
    by (rule deep_copy_struct[OF
      deep_copy_pair[OF deep_copy_slice[OF machinery(3), of conditions_in Conditions_Cell, OF conditions_in.simps(1)] 
      deep_copy_pair[OF deep_copy_time[OF assms] deep_copy_array[of namespaces_in Namespaces_Cell, OF namespaces_in.simps(1)]]],
        where get = "\<lambda>x. (mmt_conditions x, mmt_last_sync x, mmt_by_namespace x)"
          and put = "\<lambda>x (a, b, c). x\<lparr>mmt_conditions := a, mmt_last_sync := b, mmt_by_namespace := c\<rparr>"
          and flat = "\<lambda>x. x\<lparr>mmt_conditions := None, mmt_last_sync := None, mmt_by_namespace := None\<rparr>"])
      (simp_all add: ClusterMirrorStatus_DeepCopyInto_def read_mirror_status_def refs_mirror_status_def copy_pair_def Un_assoc split: prod.splits)
qed

definition read_mirror where
  "read_mirror rd h x = (mm_type_meta x, rd h (mm_object_meta x),
     read_mirror_spec h (mm_spec x),
     read_mirror_status rd h (mm_status x))"

definition refs_mirror where
  "refs_mirror fc h x = fc h (mm_object_meta x) \<union> refs_mirror_spec h (mm_spec x) \<union> refs_mirror_status fc h (mm_status x)"

lemma mirror_copy:
  assumes "machinery_ok lib rd fc"
  shows "deep_copy (ClusterMirror_DeepCopyInto lib) (read_mirror rd) (refs_mirror fc)"
proof -
  note machinery = machinery_parts[OF assms]
  show ?thesis
    by (rule deep_copy_struct[OF
      deep_copy_pair[OF machinery(1) 
      deep_copy_pair[OF mirror_spec_copy.deep_copy_axioms mirror_status_copy[OF assms]]],
        where get = "\<lambda>x. (mm_object_meta x, mm_spec x, mm_status x)"
          and put = "\<lambda>x (a, b, c). x\<lparr>mm_object_meta := a, mm_spec := b, mm_status := c\<rparr>"
          and flat = "\<lambda>x. mm_type_meta x"])
      (simp_all add: ClusterMirror_DeepCopyInto_def read_mirror_def refs_mirror_def copy_pair_def Un_assoc split: prod.splits)
qed

definition read_mirror_list where
  "read_mirror_list rd h x = (mml_type_meta x, rd h (mml_list_meta x),
     slice_at mirrors_in (read_mirror rd) h (mml_items x))"

definition refs_mirror_list where
  "refs_mirror_list fc h x = fc h (mml_list_meta x) \<union> slice_refs mirrors_in (refs_mirror fc) h (mml_items x)"

lemma mirror_list_copy:
  assumes "machinery_ok lib rd fc"
  shows "deep_copy (ClusterMirrorList_DeepCopyInto lib) (read_mirror_list rd) (refs_mirror_list fc)"
proof -
  note machinery = machinery_parts[OF assms]
  show ?thesis
    by (rule deep_copy_struct[OF
      deep_copy_pair[OF machinery(2) deep_copy_slice[OF mirror_copy[OF assms], of mirrors_in Mirrors_Cell, OF mirrors_in.simps(1)]],
        where get = "\<lambda>x. (mml_list_meta x, mml_items x)"
          and put = "\<lambda>x (a, b). x\<lparr>mml_list_meta := a, mml_items := b\<rparr>"
          and flat = "\<lambda>x. mml_type_meta x"])
      (simp_all add: ClusterMirrorList_DeepCopyInto_def read_mirror_list_def refs_mirror_list_def copy_pair_def Un_assoc split: prod.splits)
qed

text \<open>The types without references.\<close>

lemma flat_copies:
  "RemediationConfig_DeepCopyInto = State_Monad.return" "AIConfig_DeepCopyInto = State_Monad.return"
  "ResyncConfig_DeepCopyInto = State_Monad.return" "RefreshConfig_DeepCopyInto = State_Monad.return"
  "SourceConfig_DeepCopyInto = State_Monad.return" "NamespaceMirrorStatus_DeepCopyInto = State_Monad.return"
  by (simp_all add: fun_eq_iff RemediationConfig_DeepCopyInto_def AIConfig_DeepCopyInto_def ResyncConfig_DeepCopyInto_def
      RefreshConfig_DeepCopyInto_def SourceConfig_DeepCopyInto_def NamespaceMirrorStatus_DeepCopyInto_def)

section \<open>Objects\<close>

text \<open>A nil receiver gives the nil interface, and any other a value of its own kind that is a copy.\<close>

lemma copy_object:
  assumes "deep_copy copy reading refs" "refs h x \<subseteq> {..<length h}"
  shows "\<exists>y g. run_state (new_copy copy (Some x) \<bind> (\<lambda>c. State_Monad.return (case c of Some y \<Rightarrow> Some (wrap y) | None \<Rightarrow> None))) h
    = (Some (wrap y), g) \<and> isolated reading h x g y"
proof -
  obtain y g where y: "run_state (copy x) h = (y, g)" by fastforce
  with deep_copy.copy_isolated[OF assms y] show ?thesis by (intro exI[of _ y] exI[of _ g]) (simp add: new_copy_def)
qed

lemmas object_copies = RemediationPlan_DeepCopyObject_def RemediationPlan_DeepCopy_def UpgradeAnalysis_DeepCopyObject_def
  UpgradeAnalysis_DeepCopy_def ClusterMirror_DeepCopyObject_def ClusterMirror_DeepCopy_def
lemmas list_copies = RemediationPlanList_DeepCopyObject_def RemediationPlanList_DeepCopy_def UpgradeAnalysisList_DeepCopyObject_def
  UpgradeAnalysisList_DeepCopy_def ClusterMirrorList_DeepCopyObject_def ClusterMirrorList_DeepCopy_def

lemma lists_isolated:
  assumes "machinery_ok lib rd fc"
  shows "refs_plan_list fc h ps \<subseteq> {..<length h} \<Longrightarrow>
      \<exists>y g. run_state (RemediationPlanList_DeepCopyObject lib (Some ps)) h = (Some (Plan_List_Object y), g) \<and> isolated (read_plan_list rd) h ps g y"
    and "refs_analysis_list fc h as \<subseteq> {..<length h} \<Longrightarrow>
      \<exists>y g. run_state (UpgradeAnalysisList_DeepCopyObject lib (Some as)) h = (Some (Analysis_List_Object y), g) \<and> isolated (read_analysis_list rd) h as g y"
    and "refs_mirror_list fc h ms \<subseteq> {..<length h} \<Longrightarrow>
      \<exists>y g. run_state (ClusterMirrorList_DeepCopyObject lib (Some ms)) h = (Some (Mirror_List_Object y), g) \<and> isolated (read_mirror_list rd) h ms g y"
  unfolding list_copies
  by (rule copy_object[OF plan_list_copy[OF assms]] copy_object[OF analysis_list_copy[OF assms]] copy_object[OF mirror_list_copy[OF assms]];
    assumption)+

text \<open>An API machinery whose metadata is a map of labels, and one stored object of each kind.\<close>

definition label_machinery :: "addr option machinery" where
  "label_machinery = \<lparr>am_object_meta = copy_map, am_list_meta = copy_map, am_condition = copy_map,
     am_time = (\<lambda>a. do { c \<leftarrow> load a; alloc c })\<rparr>"

lemma label_machinery_ok: "machinery_ok label_machinery map_at (\<lambda>h p. set_option p)"
proof -
  have "deep_copy (\<lambda>a. load a \<bind> alloc) (\<lambda>h a. h ! a) (\<lambda>h a. {a})"
    by (rule deep_copy.intro) (auto simp: nth_append)
  then show ?thesis by (simp add: machinery_ok_def label_machinery_def deep_copy_map)
qed

definition stored_cells :: "addr option memory" where
  "stored_cells = [Map_Cell [(''mirops.io/analysis'', ''prod'')], Map_Cell [(''replicas'', ''3'')],
     Actions_Cell [\<lparr>ma_id = ''action-1'', ma_type = ''scale-deployment'', ma_namespace = ''shop'', ma_name = ''api'', ma_reason = [],
       ma_risk = ''low'', ma_params = Some 1, ma_skip = False\<rparr>], Time_Cell 5, Strings_Cell [''kube-system''],
     Namespaces_Cell [\<lparr>nms_namespace = ''shop'', nms_max_risk = 54, nms_at_risk = 1\<rparr>]]"

definition stored_plan :: "addr option mem_plan" where
  "stored_plan = \<lparr>mp_type_meta = (''RemediationPlan'', ''mirops.io/v1''), mp_object_meta = Some 0,
     mp_spec = \<lparr>mps_analysis_ref = ''prod'', mps_approved = True, mps_actions = Some 2\<rparr>,
     mp_status = \<lparr>mpt_phase = ''running'', mpt_results = None, mpt_executed_at = Some 3, mpt_completed_at = None\<rparr>\<rparr>"

definition stored_source :: source_config where
  "stored_source = \<lparr>src_type = ''file'', src_path = [], src_bucket = [], src_region = [], src_key = [],
     src_account_name = [], src_container_name = [], src_blob_name = [], src_credentials_secret = []\<rparr>"

definition stored_analysis :: "addr option mem_analysis" where
  "stored_analysis = \<lparr>man_type_meta = (''UpgradeAnalysis'', ''mirops.io/v1''), man_object_meta = Some 0,
     man_spec = \<lparr>mas_target_version = ''1.31'', mas_scoring_profile = ''production'',
       mas_scope = \<lparr>msc_mode = ''all'', msc_exclude_namespaces = Some 4\<rparr>, mas_source = stored_source,
       mas_ai = \<lparr>aic_enabled = False, aic_provider = [], aic_model = [], aic_max_tokens = 0, aic_credentials_secret = [],
         aic_remediation = \<lparr>rc_enabled = False, rc_max_risk_level = [], rc_auto_approve = False\<rparr>\<rparr>,
       mas_resync = \<lparr>rsc_interval = 0\<rparr>\<rparr>,
     man_status = \<lparr>mat_conditions = None, mat_decision = ''SAFE'', mat_total_score = 100, mat_reason = [],
       mat_last_analysis_time = Some 3, mat_last_refresh = [], mat_observed_generation = 1, mat_report_path = [],
       mat_report_state = ''written'', mat_report_error = [], mat_report_location = [], mat_ai_score = 0,
       mat_ai_reasoning = [], mat_ai_model = [], mat_ai_error = [], mat_addons_checked = 0, mat_incompatible_addons = 0,
       mat_last_total_pods = 0, mat_last_total_restarts = 0\<rparr>\<rparr>"

definition stored_mirror :: "addr option mem_mirror" where
  "stored_mirror = \<lparr>mm_type_meta = (''ClusterMirror'', ''mirops.io/v1''), mm_object_meta = Some 0,
     mm_spec = \<lparr>mms_scope = \<lparr>msc_mode = ''all'', msc_exclude_namespaces = Some 4\<rparr>,
       mms_refresh = \<lparr>rfc_mode = ''interval'', rfc_interval = 0\<rparr>, mms_source = stored_source\<rparr>,
     mm_status = \<lparr>mmt_conditions = None, mmt_components = 1, mmt_edges = 0, mmt_at_risk = 0, mmt_last_sync = Some 3,
       mmt_by_namespace = Some 5, mmt_sync_error = [], mmt_report_location = [], mmt_report_state = [],
       mmt_report_error = [], mmt_observed_generation = 1\<rparr>\<rparr>"

lemma stored_refs:
  "refs_plan (\<lambda>h p. set_option p) stored_cells stored_plan \<subseteq> {..<length stored_cells}"
  "refs_analysis (\<lambda>h p. set_option p) stored_cells stored_analysis \<subseteq> {..<length stored_cells}"
  "refs_mirror (\<lambda>h p. set_option p) stored_cells stored_mirror \<subseteq> {..<length stored_cells}"
  by (simp_all add: refs_plan_def refs_plan_spec_def refs_plan_status_def refs_action_def refs_analysis_def refs_analysis_spec_def
      refs_scope_def refs_analysis_status_def refs_mirror_def refs_mirror_spec_def refs_mirror_status_def slice_refs_def
      stored_plan_def stored_analysis_def stored_mirror_def stored_cells_def)

text \<open>C24: whatever the memory, the copy of a resource that the client's cache hands out reads the same as the original,
  is made without touching a cell that was there before, and shares none with it: no write through the copy
  changes the cached object, and no write to the cached object changes the copy.\<close>

theorem copies_isolated:
  assumes "machinery_ok lib rd fc" "refs_plan fc h p \<subseteq> {..<length h}" "refs_analysis fc h a \<subseteq> {..<length h}"
    "refs_mirror fc h m \<subseteq> {..<length h}"
  shows "(\<exists>y g. run_state (RemediationPlan_DeepCopyObject lib (Some p)) h = (Some (Plan_Object y), g) \<and> isolated (read_plan rd) h p g y) \<and>
    (\<exists>y g. run_state (UpgradeAnalysis_DeepCopyObject lib (Some a)) h = (Some (Analysis_Object y), g) \<and> isolated (read_analysis rd) h a g y) \<and>
    (\<exists>y g. run_state (ClusterMirror_DeepCopyObject lib (Some m)) h = (Some (Mirror_Object y), g) \<and> isolated (read_mirror rd) h m g y)"
  unfolding object_copies
  using copy_object[OF plan_copy[OF assms(1)] assms(2)] copy_object[OF analysis_copy[OF assms(1)] assms(3)]
    copy_object[OF mirror_copy[OF assms(1)] assms(4)]
  by blast

theorem copies_isolated_witness:
  "\<exists>y g. run_state (RemediationPlan_DeepCopyObject label_machinery (Some stored_plan)) stored_cells = (Some (Plan_Object y), g) \<and>
     isolated (read_plan map_at) stored_cells stored_plan g y"
  using copies_isolated[OF label_machinery_ok stored_refs] by (rule conjunct1)

end
