(* ===== verification/Spec2Isabelle.thy ===== *)
theory Spec2Isabelle
  imports Score_Props Collector_Props Restart_Props Remediation_Life Report_Delivery Upgrade_Samples Schema_Props System Deep_Copy_Props
begin

text \<open>
  A verification library for mirops, a Kubernetes operator written in Go. The operator mirrors a cluster
  as a graph of components, propagates risk along the dependencies, scores how ready the cluster is for
  an upgrade, optionally asks a language model for a second opinion and for remedies, publishes the
  result as a report, and executes remediation plans that were approved.

  \<^bold>\<open>The parts and their theories.\<close> A theory follows its Go files top to bottom; a definition has the name
  of the Go function it translates, a record that of the struct.

  \<^item> \<open>Prelude\<close>, \<open>Go_Float\<close>, \<open>Go_Scale\<close>, \<open>Go_Sort\<close>: what the program uses of the language and its standard
    library: byte strings and packages \<open>strings\<close>, \<open>strconv\<close> and \<open>fmt\<close>; \<open>int32\<close> and \<open>int64\<close> wrap-around; float64
    as IEEE binary64 with round to nearest even; package \<open>sort\<close>.
  \<^item> \<open>Snapshot\<close> (\<open>internal/collector/model.go\<close>), \<open>K8s\<close> (the objects of the API server that are read),
    \<open>Restart\<close>, \<open>Inventory\<close>, \<open>Addons\<close>, \<open>Collector\<close> (the other files of \<open>internal/collector\<close>): from the
    answers of the API server to one snapshot. \<open>Restart_Props\<close> and \<open>Collector_Props\<close> show when a pod counts as
    restarting abnormally (at every age, exactly but for one part in \<open>2^50\<close> that float64 may round off), which failures end a collection, that only namespaces in scope are read, and
    that the snapshot has what the graph and the score expect of it.
  \<^item> \<open>Graph_Build\<close>, \<open>Graph_Risk\<close>, \<open>Graph_AtRisk\<close> (\<open>internal/graph\<close>): the graph builder, the risk propagation and
    the at-risk report. \<open>Graph_Wf\<close>, \<open>Risk_Decay\<close> and \<open>Graph_Props\<close> show that the graph is closed, acyclic and
    complete, that its edges are the dependencies of the snapshot (an own statement of them, which says that an empty
    selector value also matches a missing label), and that the memoised search computes
    the greatest decayed risk over all paths.
  \<^item> \<open>Compat\<close> (\<open>internal/compat\<close>): add-on versions against the matrix of compatibility rules.
  \<^item> \<open>Report\<close>, \<open>Score\<close>, \<open>Score_Props\<close> (\<open>internal/analysis\<close>): the report, the four dimensions of the score, the blend
    with a model's score and the verdict; their bounds, exact thresholds, and that the verdict lists every fact
    that blocks, each once and with its own text, and allows the upgrade exactly when there is none.
  \<^item> \<open>Io_Monad\<close>, \<open>Api\<close> (\<open>api/v1\<close>), \<open>Kube_Client\<close>, \<open>Call_Logic\<close>: computations that call the outside world, with a
    program logic for the calls they can issue; the custom resources; the calls of the controllers.
  \<^item> \<open>Exporter\<close>, \<open>Exporter_Props\<close> (\<open>internal/exporter\<close>), \<open>Report_Dest\<close> (\<open>reportdest.go\<close> and \<open>reportserver.go\<close> of
    \<open>internal/controller\<close>): writing a report so that a failure never damages the one before it, and
    serving it back. \<open>Report_Delivery\<close> joins them to the controllers: what a reconcile exports successfully is what a
    client of the reports server then gets.
  \<^item> \<open>AI_Prompt\<close>, \<open>AI_Scorer\<close>, \<open>AI_Props\<close> (\<open>ai_scorer.go\<close>): the prompt, the two model services, the answer and its
    cache; what of a report the model is told (\<open>what_is_told\<close>), and that an answer is reused as long as that is the same.
  \<^item> \<open>Upgrade_Controller\<close>, \<open>Upgrade_Props\<close>, \<open>Upgrade_Samples\<close> (\<open>upgradeanalysis_controller.go\<close>): the reconcile
    step that composes all of the above; that no all-clear is stored without its grounds, that the status
    and the report agree, when it runs and comes back, that every call it makes is in a list of its own
    reads, its own status and report and its own plan, and that the model's answer never changes what is allowed.
  \<^item> \<open>Mirror_Controller\<close>, \<open>Mirror_Props\<close> (\<open>clustermirror_controller.go\<close>): the same for the mirror.
  \<^item> \<open>Remediation\<close>, \<open>Remediation_Props\<close>, \<open>Remediation_Life\<close> (\<open>remediationplan_controller.go\<close>): executing and
    proposing plans. \<open>pass\<close> accounts for the calls and the results of a plan action by action: the own read, the own
    write at the target the action names, and a status that says what the API answered. A step relation
    with crashes, edits and proposals shows that a plan executes at most once.
  \<^item> \<open>Startup\<close>, \<open>Startup_Props\<close> (\<open>internal/crd/crd.go\<close>, \<open>cmd/main.go\<close>, \<open>cmd/remediation/main.go\<close>): the installation of the
    custom resource definitions and the order in which the commands start; that no controller runs before
    every step of the start has succeeded and its resources are served, that the start ends, and what the front of the reports server answers.
  \<^item> \<open>Schema\<close>, \<open>Schema_Props\<close> (the validation markers of \<open>api/v1\<close>): what the API server admits; that every status the
    controllers store is typed and in range, and when a proposed plan is admitted.
  \<^item> \<open>Deep_Copy\<close>, \<open>Deep_Copy_Props\<close> (\<open>zz_generated.deepcopy.go\<close>): the deep copies of the resources over an explicit memory; that a
    copy reads as its original and shares no cell with it, which is why the rest may treat objects as values.
  \<^item> \<open>System\<close>: the three controllers, the rest of the operator, the users who edit and delete, and crashes together, as a
    labelled step relation over the stored plan, the acts and the operator's memory of the model's answers (\<open>system_step\<close>).
    It refines \<open>life_step\<close>, which states for each actor what it may do to a plan, and everything done to the cluster is
    a pass over a spec that a user wrote or that an auto-approving analysis made of the model's own actions.
  \<^item> \<open>Samples\<close>: concrete worlds the properties are applied to.

  \<^bold>\<open>State and effects.\<close> A controller is a computation in the state monad over the list of calls issued so far.
  The API server, the clock, the model services and the exporters answer a call as a function of that
  list (record \<open>kube\<close>), so that any interference of other clients and any failure is covered. One write
  of a status subresource leaves the spec alone and the other way round (\<open>stored\<close> in \<open>Remediation_Life\<close>); this
  is the documented behaviour of the API server that is relied on, and, where targets are pinned over whole runs, that a
  read by name answers the object of that name (\<open>answers_by_name\<close>; within one reconcile the object read is written out). The collector is a function of
  what the lists return during one collection. The disk of the file exporter is a map whose operations
  may fail, a failed write leaving any beginning of the data behind.

  \<^bold>\<open>Interfaces.\<close> \<open>sort_less\<close> and \<open>sort_total\<close> (a comparison function), \<open>slice_sort\<close> (an unstable sort), \<open>edge_pass\<close> (a pass of the
  builder), \<open>base_law\<close> (base risks in range), \<open>collect_law\<close> (what every step of a collection keeps),
  \<open>report_store\<close> (the file exporter) and \<open>deep_copy\<close> (a copy of one type) are locales, interpreted on the model's definitions where these are made.

  \<^bold>\<open>Parameters.\<close> Code that is not in the repository is an argument: the semver package and the YAML
  decoder, the embedded matrix (a file the build provides), the RFC 3339 rendering of a time, SHA-256, the
  JSON decoder, the AWS and Azure clients, the deep copies of metadata, conditions and times, the order \<open>sort.Slice\<close> leaves equal elements in. Hypotheses on
  them are named: \<open>slice_sort\<close> for the latter, \<open>reads_its_writes\<close> for object storage (a successful read after a successful put of the
  same object gets what was put; a failed put may leave anything), \<open>machinery_ok\<close> for the copies. The
  invariant \<open>cache_inv\<close> of the model cache is not one: it holds of the empty cache and every scoring keeps it.

  \<^bold>\<open>Bounds.\<close> The recursions of the builder, the breadth-first walk and the depth-first search carry no fuel:
  they end because the sets of unvisited components shrink. The restart rate is proved for ages from one hour
  up to 2562047 hours, the largest duration an \<open>int64\<close> of nanoseconds holds. Restart counters and sizes
  of resources are \<open>int32\<close> and \<open>int64\<close> and wrap where Go's do. In \<open>Go_Float\<close> zero has no sign, a product and a sum are
  rounded separately (amd64 compilers do not fuse them), and a conversion to an integer out of range is the one
  of amd64. \<open>strings.ToLower\<close>, \<open>strings.EqualFold\<close> and \<open>%q\<close> are those of ASCII text.

  \<^bold>\<open>Not modelled.\<close> \<open>groupversion_info.go\<close>: the registration of the API group. \<open>test/utils\<close>: shell commands of the end-to-end
  tests. Flag parsing, the schemes that \<open>init\<close> registers, logging, and the path
  matching of \<open>http.ServeMux\<close>: library calls. The texts of action errors, which only reach the results of a plan. The
  \<open>conditions\<close> of the statuses, which no code writes. The concurrency of reconciles is that of their interleaved
  calls; the mutex of the model cache makes its two operations atomic, as they are here. The polling of
  the API server at the start is the library's loop: how often it comes round before the timeout is a
  parameter, at most the timeout over the interval.
\<close>

end
